(* ===== verification/Bridge_Prelude.thy ===== *)
theory Bridge_Prelude
  imports Complex_Main "HOL-Library.AList"
begin

text \<open>
  Shared vocabulary of the development.

  \<^item> Python strings are \<open>string\<close>, a list of code points below 256 (Latin-1); the string methods
    the bridge calls (\<open>strip\<close>, \<open>lower\<close>, \<open>replace\<close>, \<open>split\<close>, \<open>startswith\<close>, \<open>in\<close>) are defined here
    exactly on that range.
  \<^item> Python dictionaries are association lists in insertion order: \<open>AList.update\<close> keeps the position
    of an existing key and appends a new one, \<open>AList.delete\<close> is \<open>del\<close>/\<open>pop\<close>, \<open>map_of\<close> is \<open>get\<close>.
  \<^item> Exceptions are values of \<open>py_exc\<close>, and fallible code returns \<open>py_exc + 'a\<close>.
  \<^item> Timestamps and levels (Python floats) are real numbers.
\<close>

named_theorems bridge_defs "definitions unfolded when a component is evaluated"

section \<open>Exceptions\<close>

datatype py_exc =
    ValueError string
  | RuntimeError string
  | OperationInProgress string
  | DBusFailure string
  | TimeoutExpired
  | CancelledError
  | PairingRejected
  | TypeMismatch
  | MediaPlayerError string
  | IndexError
  | KeyError string
  | OverflowError
  | HTTPException nat string

text \<open>
  \<open>str(error)\<close>, as the handlers that classify an exception by its text see it. Of a \<open>KeyError\<close> it is
  the \<open>repr\<close> of the key; the keys that raise are addresses, without quotes.
\<close>

fun exc_text :: "py_exc \<Rightarrow> string" where
  "exc_text (ValueError m) = m"
| "exc_text (RuntimeError m) = m"
| "exc_text (OperationInProgress m) = m"
| "exc_text (DBusFailure m) = m"
| "exc_text TimeoutExpired = []"
| "exc_text CancelledError = []"
| "exc_text (MediaPlayerError m) = m"
| "exc_text (KeyError k) = CHR 0x27 # k @ [CHR 0x27]"
| "exc_text (HTTPException status detail) = detail"
| "exc_text OverflowError = ''cannot convert float infinity to integer''"
| "exc_text IndexError = ''list index out of range''"
| "exc_text TypeMismatch = ''comparing strings with non-ASCII characters is not supported''"
| "exc_text PairingRejected = ''org.bluez.Error.Rejected: pairing is not authorized''"

section \<open>Strings\<close>

definition ord_of :: "char \<Rightarrow> nat" where
  "ord_of c = of_char c"

definition py_space :: "char \<Rightarrow> bool" where
  "py_space c \<longleftrightarrow> (let n = ord_of c in (9 \<le> n \<and> n \<le> 13) \<or> (28 \<le> n \<and> n \<le> 32) \<or> n = 133 \<or> n = 160)"

definition lstrip :: "string \<Rightarrow> string" where
  "lstrip s = dropWhile py_space s"

definition strip :: "string \<Rightarrow> string" where
  "strip s = rev (dropWhile py_space (rev (lstrip s)))"

definition is_upper :: "char \<Rightarrow> bool" where
  "is_upper c \<longleftrightarrow> (let n = ord_of c in (65 \<le> n \<and> n \<le> 90) \<or> (192 \<le> n \<and> n \<le> 222 \<and> n \<noteq> 215))"

definition lower_char :: "char \<Rightarrow> char" where
  "lower_char c = (if is_upper c then char_of (ord_of c + 32) else c)"

definition lower :: "string \<Rightarrow> string" where
  "lower s = map lower_char s"

definition upper_char :: "char \<Rightarrow> char" where
  "upper_char c = (if 97 \<le> ord_of c \<and> ord_of c \<le> 122 then char_of (ord_of c - 32) else c)"

text \<open>\<open>upper\<close> is only ever applied to canonical addresses, which are ASCII.\<close>

definition upper :: "string \<Rightarrow> string" where
  "upper s = map upper_char s"

definition replace_char :: "char \<Rightarrow> char \<Rightarrow> string \<Rightarrow> string" where
  "replace_char a b s = map (\<lambda>c. if c = a then b else c) s"

definition remove_char :: "char \<Rightarrow> string \<Rightarrow> string" where
  "remove_char a s = filter (\<lambda>c. c \<noteq> a) s"

definition starts_with :: "string \<Rightarrow> string \<Rightarrow> bool" where
  "starts_with p s \<longleftrightarrow> take (length p) s = p"

definition ends_with :: "string \<Rightarrow> string \<Rightarrow> bool" where
  "ends_with p s \<longleftrightarrow> starts_with (rev p) (rev s)"

definition remove_prefix :: "string \<Rightarrow> string \<Rightarrow> string" where
  "remove_prefix p s = (if starts_with p s then drop (length p) s else s)"

text \<open>\<open>needle in hay\<close>\<close>

fun py_in :: "string \<Rightarrow> string \<Rightarrow> bool" where
  "py_in n [] = (n = [])"
| "py_in n (c # cs) = (starts_with n (c # cs) \<or> py_in n cs)"

text \<open>\<open>s.split(sep)[-1]\<close> for a one-character separator: what follows its last occurrence.\<close>

definition last_segment :: "char \<Rightarrow> string \<Rightarrow> string" where
  "last_segment sep s = rev (takeWhile (\<lambda>c. c \<noteq> sep) (rev s))"

text \<open>\<open>s.rsplit(sep, 1)[-1]\<close> for a separator of any length.\<close>

fun after_last :: "string \<Rightarrow> string \<Rightarrow> string" where
  "after_last sep [] = []"
| "after_last sep (c # cs) =
     (if py_in sep cs then after_last sep cs
      else if starts_with sep (c # cs) then drop (length sep) (c # cs)
      else c # cs)"

definition is_digit :: "char \<Rightarrow> bool" where
  "is_digit c \<longleftrightarrow> 48 \<le> ord_of c \<and> ord_of c \<le> 57"

definition is_ascii_alpha :: "char \<Rightarrow> bool" where
  "is_ascii_alpha c \<longleftrightarrow> (let n = ord_of c in (65 \<le> n \<and> n \<le> 90) \<or> (97 \<le> n \<and> n \<le> 122))"

definition is_ascii_alnum :: "char \<Rightarrow> bool" where
  "is_ascii_alnum c \<longleftrightarrow> is_digit c \<or> is_ascii_alpha c"

definition has_control :: "string \<Rightarrow> bool" where
  "has_control s \<longleftrightarrow> (\<exists>c \<in> set s. ord_of c < 32)"

lemmas char_class_defs =
  ord_of_def py_space_def is_upper_def lower_char_def upper_char_def is_digit_def
  is_ascii_alpha_def is_ascii_alnum_def Let_def

lemma length_lower [simp]: "length (lower s) = length s"
  by (simp add: lower_def)

lemma length_replace_char [simp]: "length (replace_char a b s) = length s"
  by (simp add: replace_char_def)

lemma starts_with_append [simp]: "starts_with p (p @ s)"
  by (simp add: starts_with_def)

lemma starts_with_iff: "starts_with p s \<longleftrightarrow> (\<exists>t. s = p @ t)"
  by (metis append_eq_conv_conj append_take_drop_id starts_with_def)

lemma remove_prefix_append [simp]: "remove_prefix p (p @ s) = s"
  by (simp add: remove_prefix_def starts_with_def)

lemma py_in_Nil [simp]: "py_in [] s"
  by (cases s) (simp_all add: starts_with_def)

lemma py_in_append: "py_in n s \<Longrightarrow> py_in n (p @ s)"
  by (induction p) auto

lemma py_in_iff: "py_in n s \<longleftrightarrow> (\<exists>p t. s = p @ n @ t)"
proof (induction s)
  case Nil
  then show ?case by auto
next
  case (Cons c cs)
  show ?case
  proof
    assume "py_in n (c # cs)"
    then consider "starts_with n (c # cs)" | "py_in n cs" by auto
    then show "\<exists>p t. c # cs = p @ n @ t"
    proof cases
      case 1
      then obtain t where "c # cs = [] @ n @ t" by (auto simp: starts_with_iff)
      then show ?thesis by blast
    next
      case 2
      then obtain p t where "cs = p @ n @ t" using Cons.IH by blast
      then have "c # cs = (c # p) @ n @ t" by simp
      then show ?thesis by blast
    qed
  next
    assume "\<exists>p t. c # cs = p @ n @ t"
    then obtain p t where eq: "c # cs = p @ n @ t" by blast
    show "py_in n (c # cs)"
    proof (cases p)
      case Nil
      with eq have "starts_with n (c # cs)" by (auto simp: starts_with_iff)
      then show ?thesis by simp
    next
      case (Cons d ds)
      with eq have "cs = ds @ n @ t" by simp
      then have "py_in n cs" using Cons.IH by blast
      then show ?thesis by simp
    qed
  qed
qed

lemma after_last_append:
  assumes "\<not> py_in sep (tl (sep @ t))" and "sep \<noteq> []"
  shows "after_last sep (p @ sep @ t) = t"
proof (induction p)
  case Nil
  obtain c cs where sep: "sep = c # cs" using assms(2) by (cases sep) auto
  with assms(1) have "\<not> py_in sep (cs @ t)" by simp
  then show ?case by (simp add: sep starts_with_def)
next
  case (Cons d p)
  have "py_in sep (p @ sep @ t)" by (auto simp: py_in_iff)
  with Cons show ?case by simp
qed

text \<open>Trimming and lower-casing commute, and doing either twice changes nothing.\<close>

lemma space_lower: "py_space (lower_char c) = py_space c"
proof -
  have "\<forall>n \<in> set [0..<256]. py_space (lower_char (char_of n)) = py_space (char_of n)"
    by (simp add: char_class_defs)
  moreover have "ord_of c < 256" by (simp add: ord_of_def)
  ultimately have "py_space (lower_char (char_of (ord_of c))) = py_space (char_of (ord_of c))" by auto
  then show ?thesis by (simp add: ord_of_def)
qed

lemma lower_char_idem: "lower_char (lower_char c) = lower_char c"
proof -
  have "\<forall>n \<in> set [0..<256]. lower_char (lower_char (char_of n)) = lower_char (char_of n)"
    by (simp add: char_class_defs)
  moreover have "ord_of c < 256" by (simp add: ord_of_def)
  ultimately have "lower_char (lower_char (char_of (ord_of c))) = lower_char (char_of (ord_of c))" by auto
  then show ?thesis by (simp add: ord_of_def)
qed

lemma strip_lower: "strip (lower s) = lower (strip s)"
proof -
  have drop: "dropWhile py_space (map lower_char t) = map lower_char (dropWhile py_space t)" for t
    by (simp add: dropWhile_map o_def space_lower)
  show ?thesis by (simp add: strip_def lstrip_def lower_def drop rev_map)
qed

lemma strip_fixed:
  assumes "s \<noteq> [] \<Longrightarrow> \<not> py_space (hd s) \<and> \<not> py_space (last s)"
  shows "strip s = s"
proof -
  have "dropWhile py_space s = s" "dropWhile py_space (rev s) = rev s"
    using assms by (auto simp: dropWhile_eq_self_iff hd_rev)
  then show ?thesis by (simp add: strip_def lstrip_def)
qed

lemma strip_ends:
  assumes "strip s \<noteq> []"
  shows "\<not> py_space (hd (strip s)) \<and> \<not> py_space (last (strip s))"
proof
  let ?d = "dropWhile py_space s"
  have rev: "strip s = rev (dropWhile py_space (rev ?d))" by (simp add: strip_def lstrip_def)
  have "?d = strip s @ rev (takeWhile py_space (rev ?d))"
    unfolding rev by (metis rev_append rev_rev_ident takeWhile_dropWhile_id)
  then have "?d \<noteq> []" "hd ?d = hd (strip s)" using assms by (metis append_is_Nil_conv, metis hd_append2)
  then show "\<not> py_space (hd (strip s))" using hd_dropWhile [of py_space s] dropWhile_eq_Nil_conv by metis
  show "\<not> py_space (last (strip s))"
    using assms hd_dropWhile [of py_space "rev ?d"] unfolding rev by (simp add: last_rev)
qed

lemma strip_idem [simp]: "strip (strip s) = strip s"
  by (rule strip_fixed) (rule strip_ends)

section \<open>Dictionaries\<close>

type_synonym 'v dict = "(string \<times> 'v) list"

abbreviation dict_get :: "('k \<times> 'v) list \<Rightarrow> 'k \<Rightarrow> 'v option" where
  "dict_get d k \<equiv> map_of d k"

abbreviation dict_set :: "'k \<Rightarrow> 'v \<Rightarrow> ('k \<times> 'v) list \<Rightarrow> ('k \<times> 'v) list" where
  "dict_set k v d \<equiv> AList.update k v d"

abbreviation dict_del :: "'k \<Rightarrow> ('k \<times> 'v) list \<Rightarrow> ('k \<times> 'v) list" where
  "dict_del k d \<equiv> AList.delete k d"

definition wf_dict :: "('k \<times> 'v) list \<Rightarrow> bool" where
  "wf_dict d \<longleftrightarrow> distinct (map fst d)"

lemma wf_dict_Nil [simp, intro]: "wf_dict []"
  by (simp add: wf_dict_def)

lemma wf_dict_set [simp, intro]: "wf_dict d \<Longrightarrow> wf_dict (dict_set k v d)"
  by (simp add: wf_dict_def distinct_update)

lemma wf_dict_del [simp, intro]: "wf_dict d \<Longrightarrow> wf_dict (dict_del k d)"
  by (simp add: wf_dict_def distinct_delete)

lemma dict_get_set [simp]: "dict_get (dict_set k v d) k' = (if k' = k then Some v else dict_get d k')"
  by (simp add: update_conv')

lemma dict_get_del [simp]: "dict_get (dict_del k d) k' = (if k' = k then None else dict_get d k')"
  by (simp add: delete_conv')

lemma dict_get_in: "wf_dict d \<Longrightarrow> (k, v) \<in> set d \<longleftrightarrow> dict_get d k = Some v"
  by (auto simp: wf_dict_def map_of_eq_Some_iff)

lemma dict_set_pairs: "wf_dict d \<Longrightarrow> set (dict_set k v d) = insert (k, v) {p \<in> set d. fst p \<noteq> k}"
  by (induction d) (auto simp: wf_dict_def rev_image_eqI)

text \<open>A value property that holds of every entry (\<open>\<forall>\<close> over \<open>dict.values()\<close>).\<close>

definition dict_all :: "('k \<Rightarrow> 'v \<Rightarrow> bool) \<Rightarrow> ('k \<times> 'v) list \<Rightarrow> bool" where
  "dict_all P d \<longleftrightarrow> (\<forall>k v. dict_get d k = Some v \<longrightarrow> P k v)"

lemma dict_all_Nil [simp, intro]: "dict_all P []"
  by (simp add: dict_all_def)

lemma dict_all_set [intro]: "dict_all P d \<Longrightarrow> P k v \<Longrightarrow> dict_all P (dict_set k v d)"
  by (simp add: dict_all_def)

lemma dict_all_del [intro]: "dict_all P d \<Longrightarrow> dict_all P (dict_del k d)"
  by (simp add: dict_all_def)

lemma dict_allD: "dict_all P d \<Longrightarrow> dict_get d k = Some v \<Longrightarrow> P k v"
  by (simp add: dict_all_def)

section \<open>Shared contracts\<close>

text \<open>
  A component that keeps records under a canonical key: what its clients rely on is that a stored
  record is the one looked up, that other keys are untouched, and that removal forgets exactly one.
\<close>

locale record_store =
  fixes lookup :: "'s \<Rightarrow> 'k \<Rightarrow> 'v option"
    and store :: "'k \<Rightarrow> 'v \<Rightarrow> 's \<Rightarrow> 's"
    and forget :: "'k \<Rightarrow> 's \<Rightarrow> 's"
    and invar :: "'s \<Rightarrow> bool"
  assumes lookup_store: "invar s \<Longrightarrow> lookup (store k v s) k' = (if k' = k then Some v else lookup s k')"
    and lookup_forget: "invar s \<Longrightarrow> lookup (forget k s) k' = (if k' = k then None else lookup s k')"
    and invar_store: "invar s \<Longrightarrow> invar (store k v s)"
    and invar_forget: "invar s \<Longrightarrow> invar (forget k s)"
begin

lemma store_idem: "invar s \<Longrightarrow> lookup (store k v (store k w s)) k' = lookup (store k v s) k'"
  by (simp add: lookup_store invar_store)

lemma forget_store: "invar s \<Longrightarrow> lookup s k = None \<Longrightarrow> lookup (forget k (store k v s)) k' = lookup s k'"
  by (simp add: lookup_store lookup_forget invar_store)

lemma forget_all:
  "invar s \<Longrightarrow> lookup (fold forget ks s) k = (if k \<in> set ks then None else lookup s k)"
  by (induction ks arbitrary: s) (auto simp: lookup_forget invar_forget)

end

text \<open>A canonicalisation: the accepted spellings and the one form they are stored under.\<close>

locale canonical_form =
  fixes canon :: "'a \<Rightarrow> py_exc + 'a"
  assumes canon_stable: "canon x = Inr y \<Longrightarrow> canon y = Inr y"
begin

lemma canon_range: "(\<exists>x. canon x = Inr y) \<longleftrightarrow> canon y = Inr y"
  using canon_stable by blast

end

text \<open>
  A machine whose operations all keep an invariant. Every component that is driven by a sequence of
  events (callbacks, requests, timer ticks) is an instance.
\<close>

locale invariant_machine =
  fixes step :: "'s \<Rightarrow> 'e \<Rightarrow> 's"
    and ok :: "'s \<Rightarrow> bool"
  assumes step_ok: "ok s \<Longrightarrow> ok (step s e)"
begin

lemma run_ok: "ok s \<Longrightarrow> ok (foldl step s es)"
  by (induction es arbitrary: s) (auto intro: step_ok)

end

interpretation dict_store: record_store "map_of" "AList.update" "AList.delete" "wf_dict"
  by unfold_locales auto

end
