(* ===== verification/Bridge_Constants.thy ===== *)
theory Bridge_Constants
  imports Bridge_Prelude
begin

text \<open>
  The literals of \<open>backend/bl_haos/constants.py\<close> and \<open>bluetooth/constants.py\<close> that the modelled
  code reads, under their source names. Scalars are simplification rules, so the numeric bounds of the
  components are visible to the proofs; the tables are in \<open>bridge_defs\<close>.
\<close>

section \<open>Input limits (constants.py)\<close>

definition MAX_DETAIL_LENGTH :: nat where [simp]: "MAX_DETAIL_LENGTH = 256"
definition MAX_MEDIA_TYPE_LENGTH :: nat where [simp]: "MAX_MEDIA_TYPE_LENGTH = 128"
definition MAX_IDENTIFIER_LENGTH :: nat where [simp]: "MAX_IDENTIFIER_LENGTH = 64"
definition MAX_ADDRESS_LENGTH :: nat where [simp]: "MAX_ADDRESS_LENGTH = 17"
definition MAX_ALIAS_LENGTH :: nat where [simp]: "MAX_ALIAS_LENGTH = 128"
definition PIN_DIGITS_MIN :: nat where [simp]: "PIN_DIGITS_MIN = 4"
definition PIN_DIGITS_MAX :: nat where [simp]: "PIN_DIGITS_MAX = 8"
definition MIN_PORTABLE_CODEPOINT :: nat where [simp]: "MIN_PORTABLE_CODEPOINT = 32"
definition BROADCAST_ADDRESS_OCTET :: nat where [simp]: "BROADCAST_ADDRESS_OCTET = 255"
definition MULTICAST_ADDRESS_BIT :: nat where [simp]: "MULTICAST_ADDRESS_BIT = 1"

section \<open>Redaction vocabulary (constants.py)\<close>

definition SECRET_TOKENS :: "string list" where
  [bridge_defs]: "SECRET_TOKENS = [''token'', ''password'', ''secret'', ''authorization'', ''bearer'']"
definition REDACTED_PLACEHOLDER :: string where [simp]: "REDACTED_PLACEHOLDER = ''[redacted]''"
definition URL_REDACTION_PLACEHOLDER :: string where
  [simp]: "URL_REDACTION_PLACEHOLDER = ''[url redacted]''"
definition BEARER_PREFIX :: string where [simp]: "BEARER_PREFIX = ''Bearer ''"

section \<open>Settings defaults and bounds (constants.py)\<close>

definition SUPPORTED_CODECS :: "string list" where
  [bridge_defs]: "SUPPORTED_CODECS =
     [''auto'', ''sbc'', ''sbc_xq'', ''aac'', ''aptx'', ''aptx_hd'', ''ldac'']"
definition DEFAULT_LOG_LEVEL :: string where [simp]: "DEFAULT_LOG_LEVEL = ''info''"
definition DEFAULT_CODEC :: string where [simp]: "DEFAULT_CODEC = ''auto''"
definition DEFAULT_DEMO_SCENARIO :: string where [simp]: "DEFAULT_DEMO_SCENARIO = ''healthy''"
definition VOLUME_MIN_PERCENT :: int where [simp]: "VOLUME_MIN_PERCENT = 0"
definition VOLUME_MAX_PERCENT :: int where [simp]: "VOLUME_MAX_PERCENT = 100"
definition DEFAULT_VOLUME_PERCENT :: int where [simp]: "DEFAULT_VOLUME_PERCENT = 70"
definition PLAYBACK_BUFFER_DEFAULT_MS :: int where [simp]: "PLAYBACK_BUFFER_DEFAULT_MS = 500"
definition PLAYBACK_BUFFER_MIN_MS :: int where [simp]: "PLAYBACK_BUFFER_MIN_MS = 50"
definition PLAYBACK_BUFFER_MAX_MS :: int where [simp]: "PLAYBACK_BUFFER_MAX_MS = 2000"
definition VOLUME_MIN_RATIO :: real where [simp]: "VOLUME_MIN_RATIO = 0"
definition VOLUME_MAX_RATIO :: real where [simp]: "VOLUME_MAX_RATIO = 1"
definition DEFAULT_VOLUME_RATIO :: real where
  [simp]: "DEFAULT_VOLUME_RATIO = of_int DEFAULT_VOLUME_PERCENT / of_int VOLUME_MAX_PERCENT"
definition VOLUME_READBACK_TOLERANCE :: real where [simp]: "VOLUME_READBACK_TOLERANCE = 1 / 100"

definition ENV_NATIVE_TOKEN :: string where "ENV_NATIVE_TOKEN = ''BLHAOS_NATIVE_TOKEN''"
definition ENV_DEMO_MODE :: string where "ENV_DEMO_MODE = ''BLHAOS_DEMO_MODE''"
definition ENV_DEMO_SCENARIO :: string where "ENV_DEMO_SCENARIO = ''BLHAOS_DEMO_SCENARIO''"
definition ENV_PLAYBACK_BUFFER_MS :: string where
  "ENV_PLAYBACK_BUFFER_MS = ''BLHAOS_PLAYBACK_BUFFER_MS''"

definition DEFAULT_CONFIG_PATH :: string where "DEFAULT_CONFIG_PATH = ''/data/bl_haos_config.json''"
definition FALLBACK_CONFIG_PATH :: string where "FALLBACK_CONFIG_PATH = ''/tmp/bl_haos_config.json''"
definition TRUTHY_FLAGS :: "string list" where
  [bridge_defs]: "TRUTHY_FLAGS = [''1'', ''true'', ''yes'', ''on'']"

section \<open>Pairing and reconnect policy (constants.py)\<close>

definition DEFAULT_PIN :: string where [simp]: "DEFAULT_PIN = ''0000''"
definition PAIRING_WINDOW_SECONDS :: real where [simp]: "PAIRING_WINDOW_SECONDS = 90"
definition RECONNECT_INITIAL_BACKOFF_SECONDS :: real where
  [simp]: "RECONNECT_INITIAL_BACKOFF_SECONDS = 10"
definition RECONNECT_BACKOFF_MULTIPLIER :: real where [simp]: "RECONNECT_BACKOFF_MULTIPLIER = 2"
definition RECONNECT_MIN_BACKOFF_SECONDS :: real where [simp]: "RECONNECT_MIN_BACKOFF_SECONDS = 10"
definition RECONNECT_MAX_BACKOFF_SECONDS :: real where [simp]: "RECONNECT_MAX_BACKOFF_SECONDS = 120"
definition RECONNECT_MAX_FAILURES_BEFORE_BREAKER :: nat where
  [simp]: "RECONNECT_MAX_FAILURES_BEFORE_BREAKER = 8"
definition RECONNECT_CIRCUIT_BREAKER_COOLDOWN_SECONDS :: real where
  [simp]: "RECONNECT_CIRCUIT_BREAKER_COOLDOWN_SECONDS = 300"
definition RECONNECT_BACKOFF_JITTER :: real where [simp]: "RECONNECT_BACKOFF_JITTER = 15 / 100"
definition RECONNECT_DISCONNECT_GRACE_SECONDS :: real where
  [simp]: "RECONNECT_DISCONNECT_GRACE_SECONDS = 5"
definition RECONNECT_POST_CONNECT_SETTLE_SECONDS :: real where
  [simp]: "RECONNECT_POST_CONNECT_SETTLE_SECONDS = 15"
definition RECONNECT_FLAP_WINDOW_SECONDS :: real where [simp]: "RECONNECT_FLAP_WINDOW_SECONDS = 120"
definition RECONNECT_FLAP_LIMIT :: nat where [simp]: "RECONNECT_FLAP_LIMIT = 6"
definition RECONNECT_FLAP_COOLDOWN_SECONDS :: real where
  [simp]: "RECONNECT_FLAP_COOLDOWN_SECONDS = 60"

section \<open>Component names and Bluetooth vocabulary (constants.py)\<close>

definition COMPONENT_BLUETOOTH :: string where [simp]: "COMPONENT_BLUETOOTH = ''bluetooth''"
definition COMPONENT_LIFECYCLE :: string where [simp]: "COMPONENT_LIFECYCLE = ''lifecycle''"
definition SOURCE_BLUEZ :: string where [simp]: "SOURCE_BLUEZ = ''bluez''"
definition SOURCE_LIFECYCLE :: string where [simp]: "SOURCE_LIFECYCLE = ''lifecycle''"
definition ADAPTER_NAME_FALLBACK :: string where [simp]: "ADAPTER_NAME_FALLBACK = ''hci0''"
definition DEVICE_PATH_PREFIX :: string where [simp]: "DEVICE_PATH_PREFIX = ''dev_''"
definition BLUETOOTH_ADAPTER_LABEL :: string where
  [simp]: "BLUETOOTH_ADAPTER_LABEL = ''Bluetooth Adapter''"
definition BLUETOOTH_DEVICE_LABEL :: string where
  [simp]: "BLUETOOTH_DEVICE_LABEL = ''Bluetooth Device''"
definition AUDIO_DEVICE_LABEL :: string where [simp]: "AUDIO_DEVICE_LABEL = ''Audio Device''"
definition SPEAKER_DEVICE_TYPE :: string where [simp]: "SPEAKER_DEVICE_TYPE = ''Speaker''"
definition HEADPHONES_DEVICE_TYPE :: string where
  [simp]: "HEADPHONES_DEVICE_TYPE = ''Headphones''"
definition HEADSET_DEVICE_TYPE :: string where [simp]: "HEADSET_DEVICE_TYPE = ''Headset''"
definition CLASS_OF_DEVICE_MAJOR_MASK :: int where [simp]: "CLASS_OF_DEVICE_MAJOR_MASK = 0x1F00"
definition CLASS_OF_DEVICE_MINOR_MASK :: int where [simp]: "CLASS_OF_DEVICE_MINOR_MASK = 0x1FFC"

definition AUDIO_ICON_HINTS :: "string list" where
  [bridge_defs]: "AUDIO_ICON_HINTS = [''audio'', ''sound'', ''speaker'', ''headphone'', ''headset'']"
definition NON_AUDIO_ICON_HINTS :: "string list" where
  [bridge_defs]: "NON_AUDIO_ICON_HINTS = [''input-keyboard'', ''input-mouse'', ''input-gaming'']"
definition AUDIO_NAME_KEYWORDS :: "string list" where
  [bridge_defs]: "AUDIO_NAME_KEYWORDS =
     [''speaker'', ''sound'', ''audio'', ''headphone'', ''headset'', ''earbuds'', ''airpods'',
      ''receiver'', ''adapter'', ''logitech'', ''soundbar'', ''soundlink'', ''jbl'', ''bose'',
      ''sony'', ''anker'', ''soundcore'', ''echo'', ''nest'', ''marshall'', ''sonos'']"
definition ICON_TO_DEVICE_TYPE :: "(string \<times> string) list" where
  [bridge_defs]: "ICON_TO_DEVICE_TYPE =
     [(''speaker'', SPEAKER_DEVICE_TYPE), (''headphone'', HEADPHONES_DEVICE_TYPE),
      (''headset'', HEADSET_DEVICE_TYPE)]"

section \<open>Audio service classes (bluetooth/constants.py)\<close>

definition AUDIO_SERVICE_SHORT_UUIDS :: "string list" where
  [bridge_defs]: "AUDIO_SERVICE_SHORT_UUIDS =
     [''110a'', ''110b'', ''110c'', ''110d'', ''110e'', ''110f'',
      ''1108'', ''1112'', ''111e'', ''111f'', ''1131'']"

text \<open>
  \<open>AUDIO_SINK_UUIDS\<close> of \<open>bluetooth/constants.py\<close>: the full 128-bit audio service identifiers, the
  short ones and the short ones with the \<open>0x\<close> prefix.
\<close>

definition AUDIO_SINK_UUIDS :: "string list" where
  [bridge_defs]: "AUDIO_SINK_UUIDS =
     map (\<lambda>short. ''0000'' @ short @ ''-0000-1000-8000-00805f9b34fb'')
       [''110b'', ''110a'', ''110d'', ''110c'', ''110e'', ''110f'',
        ''111e'', ''111f'', ''1108'', ''1112'', ''1131'']
     @ AUDIO_SERVICE_SHORT_UUIDS
     @ map (\<lambda>short. ''0x'' @ short) AUDIO_SERVICE_SHORT_UUIDS"

definition MAJOR_DEVICE_CLASS_AUDIO_VIDEO :: int where
  [simp]: "MAJOR_DEVICE_CLASS_AUDIO_VIDEO = 0x0400"
definition MINOR_DEVICE_CLASSES_AUDIO :: "(int \<times> string) list" where
  [bridge_defs]: "MINOR_DEVICE_CLASSES_AUDIO =
     [(0x0404, ''Wearable Headset''), (0x0408, ''Handsfree Device''), (0x0414, ''Loudspeaker''),
      (0x0418, ''Headphones''), (0x041C, ''Portable Audio''), (0x0420, ''Car Audio''),
      (0x0424, ''Set-top Box''), (0x0428, ''HiFi Audio Device'')]"

end
