(* ===== verification/Validation.thy ===== *)
theory Validation
  imports Bridge_Constants
begin

unbundle bit_operations_syntax

text \<open>
  The validators and the redaction of \<open>backend/bl_haos/health.py\<close>: Bluetooth addresses, adapter
  names, identifiers, PINs, media types, codec names, bearer credentials and support-facing details.
  The \<open>isinstance\<close> tests of the source are the types of the arguments here.
\<close>

section \<open>Addresses (normalize_address)\<close>

definition hex_digit :: "char \<Rightarrow> bool" where
  "hex_digit c \<longleftrightarrow> is_digit c \<or> (97 \<le> ord_of c \<and> ord_of c \<le> 102)"

definition hex_value :: "char \<Rightarrow> nat" where
  "hex_value c = (if is_digit c then ord_of c - 48 else ord_of c - 87)"

text \<open>\<open>_MAC_PATTERN\<close>: \<open>n\<close> octets followed by a colon, then a last octet.\<close>

fun mac_octets :: "nat \<Rightarrow> string \<Rightarrow> bool" where
  "mac_octets 0 [a, b] = (hex_digit a \<and> hex_digit b)"
| "mac_octets (Suc n) (a # b # c # s) = (hex_digit a \<and> hex_digit b \<and> c = CHR '':'' \<and> mac_octets n s)"
| "mac_octets _ _ = False"

definition MAC_PATTERN :: "string \<Rightarrow> bool" where
  "MAC_PATTERN s \<longleftrightarrow> mac_octets 5 s"

fun first_octet :: "string \<Rightarrow> nat" where
  "first_octet (a # b # _) = 16 * hex_value a + hex_value b"
| "first_octet _ = 0"

definition address_error :: py_exc where
  "address_error = ValueError ''Invalid Bluetooth address''"

definition normalize_address :: "string \<Rightarrow> py_exc + string" where
  "normalize_address address =
     (let address = strip address
      in if address = [] \<or> length address > MAX_ADDRESS_LENGTH
            \<or> (\<exists>char \<in> set address. ord_of char < MIN_PORTABLE_CODEPOINT)
         then Inl address_error
         else let normalized = replace_char (CHR ''-'') (CHR '':'') (lower address)
              in if \<not> MAC_PATTERN normalized then Inl address_error
                 else let octet = first_octet normalized
                      in if octet = BROADCAST_ADDRESS_OCTET \<or> octet AND MULTICAST_ADDRESS_BIT \<noteq> 0
                         then Inl address_error else Inr normalized)"

lemma MAC_PATTERN_eval: "MAC_PATTERN s \<longleftrightarrow> mac_octets (Suc (Suc (Suc (Suc (Suc 0))))) s"
  by (simp add: MAC_PATTERN_def numeral_eq_Suc)

text \<open>Evaluation of \<open>normalize_address\<close> on a concrete string.\<close>

lemmas address_eval =
  normalize_address_def strip_def lstrip_def lower_def char_class_defs replace_char_def
  MAC_PATTERN_eval hex_digit_def hex_value_def address_error_def char_of_eq_iff

text \<open>The canonical spelling: six lower-case octets, the first neither broadcast nor multicast.\<close>

definition canonical_address :: "string \<Rightarrow> bool" where
  "canonical_address s \<longleftrightarrow> MAC_PATTERN s \<and> even (first_octet s)"

lemma and_one_nat: "(n::nat) AND 1 \<noteq> 0 \<longleftrightarrow> odd n"
  by (simp add: and_one_eq odd_iff_mod_2_eq_one)

lemma hex_digit_lower: "hex_digit c \<Longrightarrow> lower_char c = c"
  by (auto simp: hex_digit_def lower_char_def is_upper_def is_digit_def Let_def)

lemma hex_digit_not_space: "hex_digit c \<Longrightarrow> \<not> py_space c"
  by (auto simp: hex_digit_def py_space_def is_digit_def Let_def)

lemma hex_digit_ge_32: "hex_digit c \<Longrightarrow> \<not> ord_of c < 32"
  by (auto simp: hex_digit_def is_digit_def)

lemma hex_digit_not_dash: "hex_digit c \<Longrightarrow> c \<noteq> CHR ''-''"
  by (auto simp: hex_digit_def is_digit_def ord_of_def)

lemma colon_facts [simp]:
  "lower_char (CHR '':'') = CHR '':''" "\<not> py_space (CHR '':'')" "\<not> ord_of (CHR '':'') < 32"
  by (simp_all add: char_class_defs)

lemma mac_octets_length: "mac_octets n s \<Longrightarrow> length s = 3 * n + 2"
  by (induction n s rule: mac_octets.induct) auto

lemma mac_octets_chars: "mac_octets n s \<Longrightarrow> c \<in> set s \<Longrightarrow> hex_digit c \<or> c = CHR '':''"
  by (induction n s rule: mac_octets.induct) auto

lemma MAC_PATTERN_length: "MAC_PATTERN s \<Longrightarrow> length s = 17"
  by (auto simp: MAC_PATTERN_def dest: mac_octets_length)

lemma MAC_PATTERN_chars: "MAC_PATTERN s \<Longrightarrow> c \<in> set s \<Longrightarrow> hex_digit c \<or> c = CHR '':''"
  unfolding MAC_PATTERN_def by (rule mac_octets_chars)

lemma dropWhile_none: "(\<And>c. c \<in> set s \<Longrightarrow> \<not> P c) \<Longrightarrow> dropWhile P s = s"
  by (cases s) auto

lemma strip_none: "(\<And>c. c \<in> set s \<Longrightarrow> \<not> py_space c) \<Longrightarrow> strip s = s"
  using dropWhile_none [of s py_space] dropWhile_none [of "rev s" py_space]
  by (simp add: strip_def lstrip_def)

lemma MAC_PATTERN_fixed:
  assumes "MAC_PATTERN s"
  shows "strip s = s" "lower s = s" "replace_char (CHR ''-'') (CHR '':'') s = s"
    "\<not> (\<exists>c \<in> set s. ord_of c < 32)"
proof -
  note chars = MAC_PATTERN_chars [OF assms]
  show "strip s = s" using chars by (intro strip_none) (metis hex_digit_not_space colon_facts(2))
  show "lower s = s" unfolding lower_def using chars by (intro map_idI) (metis hex_digit_lower colon_facts(1))
  show "replace_char (CHR ''-'') (CHR '':'') s = s"
    unfolding replace_char_def using chars by (intro map_idI) (auto dest: hex_digit_not_dash)
  show "\<not> (\<exists>c \<in> set s. ord_of c < 32)" using chars by (metis hex_digit_ge_32 colon_facts(3))
qed

lemma normalize_address_canonical: "normalize_address a = Inr m \<Longrightarrow> canonical_address m"
  unfolding normalize_address_def canonical_address_def Let_def
  by (auto simp: and_one_nat split: if_splits)

lemma normalize_canonical: "canonical_address m \<Longrightarrow> normalize_address m = Inr m"
  using MAC_PATTERN_fixed [of m] MAC_PATTERN_length [of m]
  by (auto simp: normalize_address_def canonical_address_def Let_def and_one_nat)

interpretation address: canonical_form normalize_address
  by unfold_locales (blast dest: normalize_address_canonical intro: normalize_canonical)

lemma canonical_length: "canonical_address m \<Longrightarrow> length m = 17"
  by (simp add: canonical_address_def MAC_PATTERN_length)

lemma normalize_errors: "normalize_address a = Inl e \<Longrightarrow> e = address_error"
  by (auto simp: normalize_address_def Let_def split: if_splits)

text \<open>Printing six octets, as a D-Bus address property or an object path spells them.\<close>

definition hex_char :: "nat \<Rightarrow> char" where
  "hex_char n = char_of (if n < 10 then 48 + n else 87 + n)"

definition hex_octet :: "nat \<Rightarrow> string" where
  "hex_octet b = [hex_char (b div 16), hex_char (b mod 16)]"

fun join_octets :: "nat list \<Rightarrow> string" where
  "join_octets [] = []"
| "join_octets [b] = hex_octet b"
| "join_octets (b # bs) = hex_octet b @ CHR '':'' # join_octets bs"

lemma hex_char_facts:
  assumes "n < 16"
  shows "hex_digit (hex_char n)" "hex_value (hex_char n) = n"
proof -
  have "\<forall>k \<in> set [0..<16]. hex_digit (hex_char k) \<and> hex_value (hex_char k) = k"
    by (simp add: hex_char_def hex_digit_def hex_value_def char_class_defs)
  then show "hex_digit (hex_char n)" "hex_value (hex_char n) = n" using assms by auto
qed

lemma hex_octet_value: "b < 256 \<Longrightarrow> hex_octet b = [c, d] \<Longrightarrow> 16 * hex_value c + hex_value d = b"
  by (auto simp: hex_octet_def hex_char_facts)

lemma join_octets_mac:
  "length bs = Suc n \<Longrightarrow> (\<And>b. b \<in> set bs \<Longrightarrow> b < 256) \<Longrightarrow> mac_octets n (join_octets bs)"
proof (induction bs arbitrary: n rule: join_octets.induct)
  case (2 b)
  then show ?case by (simp add: hex_octet_def hex_char_facts)
next
  case (3 b b' bs)
  then obtain m where "n = Suc m" by (cases n) auto
  moreover have "b < 256" using 3(3) [of b] by simp
  then have "b div 16 < 16" "b mod 16 < 16" by simp_all
  ultimately show ?case using 3 by (simp add: hex_octet_def hex_char_facts)
qed simp

lemma first_octet_join: "b < 256 \<Longrightarrow> first_octet (join_octets (b # bs)) = b"
  by (cases bs) (simp_all add: hex_octet_def hex_char_facts)

lemma upper_hex_lower: "hex_digit c \<Longrightarrow> lower_char (upper_char c) = c"
proof -
  assume "hex_digit c"
  then have "ord_of c \<in> set ([48..<58] @ [97..<103])"
    unfolding hex_digit_def is_digit_def set_append set_upt by auto
  moreover have "\<forall>n \<in> set ([48..<58] @ [97..<103]). lower_char (upper_char (char_of n)) = char_of n"
    by (simp add: char_class_defs)
  ultimately have "lower_char (upper_char (char_of (ord_of c))) = char_of (ord_of c)" by blast
  then show ?thesis by (simp add: ord_of_def)
qed

text \<open>
  The object path of a device spells its address in upper case with underscores; reading it back
  (\<open>address_from_device_path\<close>) replaces the underscores and normalises.
\<close>

definition path_address :: "string \<Rightarrow> string" where
  "path_address address = replace_char (CHR '':'') (CHR ''_'') (upper address)"

lemma lower_upper_mac:
  assumes "MAC_PATTERN s"
  shows "lower (upper s) = s"
  unfolding lower_def upper_def map_map o_def
proof (rule map_idI)
  fix c assume "c \<in> set s"
  then have "hex_digit c \<or> c = CHR '':''" by (rule MAC_PATTERN_chars [OF assms])
  then show "lower_char (upper_char c) = c"
    by (auto simp: upper_hex_lower) (simp add: char_class_defs)
qed

lemma upper_mac_chars:
  assumes "hex_digit c \<or> c = CHR '':''"
  shows "upper_char c \<noteq> CHR ''_''" "\<not> py_space (upper_char c)" "\<not> ord_of (upper_char c) < 32"
    "upper_char c = CHR ''-'' \<longleftrightarrow> False"
proof -
  have ord: "ord_of c \<in> {48..58} \<union> {97..102}"
    using assms by (auto simp: hex_digit_def is_digit_def ord_of_def)
  then have "ord_of (upper_char c) \<in> {48..58} \<union> {65..70}"
    by (auto simp: upper_char_def ord_of_def of_char_of)
  then show "upper_char c \<noteq> CHR ''_''" "\<not> py_space (upper_char c)" "\<not> ord_of (upper_char c) < 32"
    "upper_char c = CHR ''-'' \<longleftrightarrow> False"
    by (auto simp: py_space_def ord_of_def Let_def)
qed

lemma normalize_upper:
  assumes "canonical_address s"
  shows "normalize_address (upper s) = Inr s"
proof -
  have mac: "MAC_PATTERN s" and ev: "even (first_octet s)"
    using assms by (auto simp: canonical_address_def)
  have chars: "hex_digit c \<or> c = CHR '':''" if "c \<in> set s" for c
    using MAC_PATTERN_chars [OF mac that] .
  have "strip (upper s) = upper s"
    by (rule strip_none) (auto simp: upper_def dest!: chars upper_mac_chars(2))
  moreover have "\<not> (\<exists>c \<in> set (upper s). ord_of c < 32)"
    using chars upper_mac_chars(3) by (fastforce simp: upper_def)
  moreover have "length (upper s) = 17" by (simp add: upper_def MAC_PATTERN_length [OF mac])
  ultimately show ?thesis
    using mac ev MAC_PATTERN_fixed(3) [OF mac]
    by (auto simp: normalize_address_def Let_def lower_upper_mac and_one_nat)
qed

lemma path_address_back:
  assumes "MAC_PATTERN s"
  shows "replace_char (CHR ''_'') (CHR '':'') (path_address s) = upper s"
proof -
  have "replace_char (CHR ''_'') (CHR '':'') (replace_char (CHR '':'') (CHR ''_'') t) = t"
    if "\<And>c. c \<in> set t \<Longrightarrow> c \<noteq> CHR ''_''" for t
    using that by (auto simp: replace_char_def intro!: map_idI)
  moreover have "c \<noteq> CHR ''_''" if "c \<in> set (upper s)" for c
    using that MAC_PATTERN_chars [OF assms] upper_mac_chars(1) by (auto simp: upper_def)
  ultimately show ?thesis by (simp add: path_address_def)
qed

text \<open>The length and control-character guards are implied by the pattern.\<close>

lemma replace_lower_chars:
  assumes "MAC_PATTERN (replace_char (CHR ''-'') (CHR '':'') (lower t))"
  shows "length t = 17" "\<not> (\<exists>c \<in> set t. ord_of c < 32)"
proof -
  let ?f = "\<lambda>c. if lower_char c = CHR ''-'' then CHR '':'' else lower_char c"
  have eq: "replace_char (CHR ''-'') (CHR '':'') (lower t) = map ?f t"
    by (simp add: replace_char_def lower_def)
  then show "length t = 17" using MAC_PATTERN_length [OF assms] by simp
  have "\<not> ord_of c < 32" if "c \<in> set t" for c
  proof
    assume small: "ord_of c < 32"
    then have "\<not> is_upper c" by (simp add: is_upper_def Let_def)
    then have "lower_char c = c" by (simp add: lower_char_def)
    moreover have "hex_digit (?f c) \<or> ?f c = CHR '':''"
      using MAC_PATTERN_chars [OF assms] that by (simp add: eq)
    ultimately show False using small
      by (auto simp: hex_digit_def is_digit_def ord_of_def split: if_splits)
  qed
  then show "\<not> (\<exists>c \<in> set t. ord_of c < 32)" by blast
qed

section \<open>Adapter names, identifiers, codecs, PINs, media types\<close>

definition ADAPTER_PATTERN :: "string \<Rightarrow> bool" where
  "ADAPTER_PATTERN s \<longleftrightarrow> starts_with ''hci'' s \<and>
     (let digits = drop 3 s in (length digits = 1 \<or> length digits = 2) \<and> list_all is_digit digits)"

definition validate_adapter_name :: "string \<Rightarrow> py_exc + string" where
  "validate_adapter_name name =
     (if \<not> ADAPTER_PATTERN name then Inl (ValueError ''Invalid Bluetooth adapter'') else Inr name)"

definition identifier_tail :: "char \<Rightarrow> bool" where
  "identifier_tail c \<longleftrightarrow> is_ascii_alnum c \<or> c \<in> {CHR ''_'', CHR ''.'', CHR ''-''}"

definition IDENTIFIER_PATTERN :: "string \<Rightarrow> bool" where
  "IDENTIFIER_PATTERN s \<longleftrightarrow>
     (case s of [] \<Rightarrow> False
      | c # cs \<Rightarrow> is_ascii_alnum c \<and> length cs \<le> 63 \<and> list_all identifier_tail cs)"

definition validate_identifier :: "string \<Rightarrow> string \<Rightarrow> py_exc + string" where
  "validate_identifier value label =
     (if \<not> IDENTIFIER_PATTERN value then Inl (ValueError (label @ '' is invalid'')) else Inr value)"

definition safe_codec :: "string option \<Rightarrow> string option" where
  "safe_codec value =
     (case value of None \<Rightarrow> None
      | Some v \<Rightarrow> (let candidate = lower (strip v)
                  in if IDENTIFIER_PATTERN candidate then Some candidate else None))"

definition PIN_PATTERN :: "string \<Rightarrow> bool" where
  "PIN_PATTERN s \<longleftrightarrow> PIN_DIGITS_MIN \<le> length s \<and> length s \<le> PIN_DIGITS_MAX \<and> list_all is_digit s"

definition validate_pin :: "string option \<Rightarrow> py_exc + string option" where
  "validate_pin pin =
     (case pin of
        Some p \<Rightarrow> if \<not> PIN_PATTERN p then Inl (ValueError ''PIN must contain 4 to 8 digits'') else Inr pin
      | None \<Rightarrow> Inr None)"

definition media_type_char :: "char \<Rightarrow> bool" where
  "media_type_char c \<longleftrightarrow> is_ascii_alnum c \<or> c \<in> set ''!#$&^_.+-''"

definition MEDIA_TYPE_PATTERN :: "string \<Rightarrow> bool" where
  "MEDIA_TYPE_PATTERN s \<longleftrightarrow>
     (case s of [] \<Rightarrow> False
      | c # cs \<Rightarrow>
          is_ascii_alnum c \<and>
          (let subtype = dropWhile media_type_char cs
           in subtype = [] \<or>
              (hd subtype = CHR ''/'' \<and> tl subtype \<noteq> [] \<and> list_all media_type_char (tl subtype))))"

definition validate_media_type :: "string option \<Rightarrow> py_exc + string option" where
  "validate_media_type media_type =
     (case media_type of None \<Rightarrow> Inr None
      | Some m \<Rightarrow>
          (let candidate = strip m
           in if candidate = [] \<or> length candidate > MAX_MEDIA_TYPE_LENGTH
                 \<or> \<not> MEDIA_TYPE_PATTERN candidate
              then Inl (ValueError ''Media type must be a media type string'')
              else Inr (Some (lower candidate))))"

lemma IDENTIFIER_PATTERN_length: "IDENTIFIER_PATTERN s \<Longrightarrow> length s \<le> MAX_IDENTIFIER_LENGTH"
  by (auto simp: IDENTIFIER_PATTERN_def split: list.splits)

lemma safe_codec_bounded: "safe_codec v = Some c \<Longrightarrow> IDENTIFIER_PATTERN c"
  by (auto simp: safe_codec_def Let_def split: option.splits if_splits)

section \<open>Bearer credentials (authorized_bearer)\<close>

text \<open>
  \<open>hmac.compare_digest\<close> on two \<open>str\<close> arguments: equality, and a \<open>TypeError\<close> when either of them has
  a character outside ASCII.
\<close>

definition is_ascii :: "string \<Rightarrow> bool" where
  "is_ascii s \<longleftrightarrow> list_all (\<lambda>c. ord_of c < 128) s"

definition compare_digest :: "string \<Rightarrow> string \<Rightarrow> py_exc + bool" where
  "compare_digest a b = (if is_ascii a \<and> is_ascii b then Inr (a = b) else Inl TypeMismatch)"

definition authorized_bearer :: "string option \<Rightarrow> string \<Rightarrow> py_exc + bool" where
  "authorized_bearer authorization expected =
     (let supplied = (case authorization of Some a \<Rightarrow> remove_prefix BEARER_PREFIX a | None \<Rightarrow> [])
      in if expected = [] then Inr False else compare_digest supplied expected)"

text \<open>An address to evaluate the components on.\<close>

definition witness_address :: string where "witness_address = ''aa:bb:cc:11:22:33''"

lemma witness_address_ok: "normalize_address witness_address = Inr witness_address"
  by (simp add: address_eval witness_address_def)

lemma witness_address_canonical: "canonical_address witness_address"
  by (rule normalize_address_canonical [OF witness_address_ok])

section \<open>Properties\<close>

text \<open>
  What the address validation accepts, and what it returns: after trimming, lower-casing and reading
  dashes as colons the text must be six hexadecimal octets of which the first is even (no multicast
  and no broadcast address), and that spelling is the result. The length and control-character guards
  never decide.
\<close>

theorem normalize_address_iff:
  "normalize_address a = Inr m \<longleftrightarrow>
     m = replace_char (CHR ''-'') (CHR '':'') (lower (strip a)) \<and> canonical_address m"
proof
  assume n: "normalize_address a = Inr m"
  then show "m = replace_char (CHR ''-'') (CHR '':'') (lower (strip a)) \<and> canonical_address m"
    using normalize_address_canonical [OF n] by (auto simp: normalize_address_def Let_def split: if_splits)
next
  assume "m = replace_char (CHR ''-'') (CHR '':'') (lower (strip a)) \<and> canonical_address m"
  then have m: "m = replace_char (CHR ''-'') (CHR '':'') (lower (strip a))"
    and mac: "MAC_PATTERN m" and ev: "even (first_octet m)"
    by (auto simp: canonical_address_def)
  have "length (strip a) = 17" "\<not> (\<exists>c \<in> set (strip a). ord_of c < 32)"
    using replace_lower_chars [of "strip a"] mac m by auto
  moreover from this have "strip a \<noteq> []" by auto
  ultimately show "normalize_address a = Inr m"
    using mac ev by (auto simp: normalize_address_def Let_def m [symmetric] and_one_nat)
qed

text \<open>
  Printing six octets and validating the result is the identity, in lower and in upper case, for
  every address whose first octet is even.
\<close>

theorem address_octets_roundtrip:
  assumes "length bs = 6" "\<forall>b \<in> set bs. b < 256" "even (hd bs)"
  shows "normalize_address (join_octets bs) = Inr (join_octets bs) \<and>
         normalize_address (upper (join_octets bs)) = Inr (join_octets bs)"
proof -
  obtain b bs' where bs: "bs = b # bs'" using assms(1) by (cases bs) auto
  have "MAC_PATTERN (join_octets bs)"
    unfolding MAC_PATTERN_def by (rule join_octets_mac) (use assms in auto)
  moreover have "first_octet (join_octets bs) = b"
    using assms(2) unfolding bs by (intro first_octet_join) simp
  ultimately have "canonical_address (join_octets bs)"
    using assms(3) by (simp add: canonical_address_def bs)
  then show ?thesis by (simp add: normalize_canonical normalize_upper)
qed

theorem address_octets_roundtrip_witness:
  "normalize_address (join_octets [0, 17, 34, 171, 205, 255]) = Inr (join_octets [0, 17, 34, 171, 205, 255])"
  using address_octets_roundtrip [where bs = "[0, 17, 34, 171, 205, 255]"] by simp

text \<open>
  A request is authorised only by presenting the configured token: the token is not empty, and the
  header is \<open>Bearer\<close> and the token, or the bare token when the token does not itself start that way.
\<close>

theorem authorized_bearer_iff:
  "authorized_bearer authorization expected = Inr True \<longleftrightarrow>
     expected \<noteq> [] \<and> is_ascii expected \<and>
     (authorization = Some (BEARER_PREFIX @ expected) \<or>
      (authorization = Some expected \<and> \<not> starts_with BEARER_PREFIX expected))"
proof -
  have eq: "remove_prefix p a = e \<longleftrightarrow> a = p @ e \<or> (a = e \<and> \<not> starts_with p e)" for p a e
    by (auto simp: remove_prefix_def starts_with_iff)
  have digest: "compare_digest a e = Inr True \<longleftrightarrow> a = e \<and> is_ascii e" for a e
    by (auto simp: compare_digest_def)
  show ?thesis
    by (cases authorization) (auto simp: authorized_bearer_def digest eq simp del: BEARER_PREFIX_def)
qed

end
