(* ===== verification/Redaction.thy ===== *)
theory Redaction
  imports Validation
begin

text \<open>
  \<open>safe_detail\<close> of \<open>health.py\<close> for a textual detail (\<open>str\<close>, or an exception through its text): line
  breaks become blanks, \<open>secret: value\<close> pairs and URLs are replaced, the result is cut to 256
  characters. The two regular expressions are scanners with the leftmost match of \<open>re.sub\<close>; their
  character classes are disjoint where they meet, so a match is unique and needs no backtracking.
\<close>

section \<open>The secret pattern\<close>

definition value_char :: "char \<Rightarrow> bool" where
  "value_char c \<longleftrightarrow> \<not> py_space c \<and> c \<noteq> CHR '','' \<and> c \<noteq> CHR '';''"

text \<open>What is left after \<open>\s*[:=]\s*[^\s,;]+\<close>, when it matches.\<close>

definition match_value :: "string \<Rightarrow> string option" where
  "match_value s =
     (case dropWhile py_space s of [] \<Rightarrow> None
      | c # cs \<Rightarrow>
          if c = CHR '':'' \<or> c = CHR ''=''
          then (let v = dropWhile py_space cs
                in if v = [] \<or> \<not> value_char (hd v) then None else Some (dropWhile value_char v))
          else None)"

definition match_token :: "string \<Rightarrow> string option" where
  "match_token s =
     find (\<lambda>t. starts_with t (lower s) \<and> match_value (drop (length t) s) \<noteq> None) SECRET_TOKENS"

text \<open>The text of the token and what follows the match.\<close>

definition secret_match :: "string \<Rightarrow> (string \<times> string) option" where
  "secret_match s =
     (case match_token s of None \<Rightarrow> None
      | Some t \<Rightarrow> Some (take (length t) s, the (match_value (drop (length t) s))))"

lemma match_value_shorter: "match_value s = Some r \<Longrightarrow> length r < length s"
proof -
  assume "match_value s = Some r"
  then obtain c cs where d: "dropWhile py_space s = c # cs"
    and r: "r = dropWhile value_char (dropWhile py_space cs)"
    by (auto simp: match_value_def Let_def split: list.splits if_splits)
  have "length r \<le> length cs"
    unfolding r by (metis length_dropWhile_le le_trans)
  moreover have "Suc (length cs) \<le> length s" using length_dropWhile_le [of py_space s] d by simp
  ultimately show ?thesis by simp
qed

lemma match_token_some:
  "match_token s = Some t \<Longrightarrow>
     t \<in> set SECRET_TOKENS \<and> starts_with t (lower s) \<and> match_value (drop (length t) s) \<noteq> None"
  unfolding match_token_def find_Some_iff by (auto simp: in_set_conv_nth)

lemma secret_match_shorter: "secret_match s = Some (t, r) \<Longrightarrow> length r < length s"
proof -
  assume "secret_match s = Some (t, r)"
  then obtain t' where "match_token s = Some t'" and r: "r = the (match_value (drop (length t') s))"
    by (auto simp: secret_match_def split: option.splits)
  then have "match_value (drop (length t') s) = Some r" by (auto dest: match_token_some)
  then show ?thesis using match_value_shorter [of "drop (length t') s" r] by simp
qed

function redact_secrets :: "string \<Rightarrow> string" where
  "redact_secrets [] = []"
| "redact_secrets (c # cs) =
     (case secret_match (c # cs) of
        Some (t, rest) \<Rightarrow> t @ ''='' @ REDACTED_PLACEHOLDER @ redact_secrets rest
      | None \<Rightarrow> c # redact_secrets cs)"
  by pat_completeness auto
termination
  by (relation "measure length") (auto dest: secret_match_shorter)

declare redact_secrets.simps(2) [simp del]

section \<open>The URL pattern\<close>

definition url_match :: "string \<Rightarrow> string option" where
  "url_match s =
     (let after = dropWhile is_ascii_alpha s; rest = drop 3 after
      in if takeWhile is_ascii_alpha s \<noteq> [] \<and> starts_with ''://'' after \<and> rest \<noteq> [] \<and> \<not> py_space (hd rest)
         then Some (dropWhile (\<lambda>c. \<not> py_space c) rest) else None)"

lemma url_match_shorter: "url_match s = Some r \<Longrightarrow> length r < length s"
proof -
  assume "url_match s = Some r"
  then have r: "r = dropWhile (\<lambda>c. \<not> py_space c) (drop 3 (dropWhile is_ascii_alpha s))"
    and ne: "drop 3 (dropWhile is_ascii_alpha s) \<noteq> []"
    by (auto simp: url_match_def Let_def split: if_splits)
  have "length r \<le> length (drop 3 (dropWhile is_ascii_alpha s))" unfolding r by (rule length_dropWhile_le)
  also have "\<dots> < length (dropWhile is_ascii_alpha s)" using ne by simp
  also have "\<dots> \<le> length s" by (rule length_dropWhile_le)
  finally show ?thesis .
qed

function redact_urls :: "string \<Rightarrow> string" where
  "redact_urls [] = []"
| "redact_urls (c # cs) =
     (case url_match (c # cs) of
        Some rest \<Rightarrow> URL_REDACTION_PLACEHOLDER @ redact_urls rest
      | None \<Rightarrow> c # redact_urls cs)"
  by pat_completeness auto
termination
  by (relation "measure length") (auto dest: url_match_shorter)

declare redact_urls.simps(2) [simp del]

section \<open>safe_detail\<close>

definition flatten_lines :: "string \<Rightarrow> string" where
  "flatten_lines s = replace_char (char_of (10::nat)) (CHR '' '') (replace_char (char_of (13::nat)) (CHR '' '') s)"

definition safe_detail :: "string option \<Rightarrow> string option" where
  "safe_detail detail =
     (case detail of None \<Rightarrow> None
      | Some d \<Rightarrow>
          (let text = redact_secrets (flatten_lines d);
               text = (if py_in ''://'' text then redact_urls text else text)
           in Some (take MAX_DETAIL_LENGTH text)))"

lemma safe_detail_length: "safe_detail d = Some t \<Longrightarrow> length t \<le> MAX_DETAIL_LENGTH"
  by (auto simp: safe_detail_def Let_def split: option.splits)

lemma safe_detail_None_iff [simp]: "safe_detail d = None \<longleftrightarrow> d = None"
  by (auto simp: safe_detail_def Let_def split: option.splits)

section \<open>No URL survives\<close>

definition url_free :: "string \<Rightarrow> bool" where
  "url_free s \<longleftrightarrow> (\<forall>k. url_match (drop k s) = None)"

lemma url_match_no_alpha [simp]: "\<not> is_ascii_alpha c \<Longrightarrow> url_match (c # cs) = None"
  by (simp add: url_match_def)

lemma url_match_Nil [simp]: "url_match [] = None"
  by (simp add: url_match_def)

lemma redact_urls_no_alpha [simp]: "\<not> is_ascii_alpha c \<Longrightarrow> redact_urls (c # cs) = c # redact_urls cs"
  by (simp add: redact_urls.simps(2))

lemma url_match_Cons_alpha:
  "is_ascii_alpha c \<Longrightarrow> url_match (c # cs) = None \<Longrightarrow> url_match cs = None"
  by (cases "takeWhile is_ascii_alpha cs = []")
     (auto simp: url_match_def Let_def split: if_splits)

lemma redact_urls_split:
  "url_match s = None \<Longrightarrow>
     takeWhile is_ascii_alpha (redact_urls s) = takeWhile is_ascii_alpha s \<and>
     dropWhile is_ascii_alpha (redact_urls s) = redact_urls (dropWhile is_ascii_alpha s)"
proof (induction s)
  case (Cons c cs)
  show ?case
  proof (cases "is_ascii_alpha c")
    case True
    with Cons url_match_Cons_alpha show ?thesis by (simp add: redact_urls.simps(2))
  qed simp
qed simp

lemma redact_urls_head:
  assumes "redact_urls t \<noteq> []" "\<not> py_space (hd (redact_urls t))"
  shows "t \<noteq> [] \<and> \<not> py_space (hd t)"
proof (cases t)
  case (Cons c cs)
  show ?thesis
  proof (cases "py_space c")
    case True
    then have "\<not> is_ascii_alpha c" by (auto simp: py_space_def is_ascii_alpha_def Let_def)
    then show ?thesis using assms Cons True by simp
  qed (simp add: Cons)
qed (use assms in simp)

lemma no_alpha_chars: "\<not> is_ascii_alpha (CHR '':'')" "\<not> is_ascii_alpha (CHR ''/'')"
  by (simp_all add: char_class_defs)

lemma redact_urls_colon:
  assumes "s = [] \<or> \<not> is_ascii_alpha (hd s)" and "starts_with ''://'' (redact_urls s)"
  shows "starts_with ''://'' s \<and> redact_urls s = ''://'' @ redact_urls (drop 3 s)"
proof -
  obtain a s1 where s: "s = a # s1" and na: "\<not> is_ascii_alpha a"
    using assms by (cases s) (auto simp: starts_with_def)
  with assms(2) have a: "a = CHR '':''" and r1: "starts_with ''//'' (redact_urls s1)"
    by (auto simp: starts_with_def)
  have slash: "x = CHR ''/'' \<and> redact_urls (x # u) = x # redact_urls u"
    if "starts_with (CHR ''/'' # p) (redact_urls (x # u))" for x u p
  proof (cases "url_match (x # u)")
    case None
    then show ?thesis using that by (auto simp: starts_with_def redact_urls.simps(2))
  next
    case (Some r)
    then show ?thesis using that by (auto simp: starts_with_def redact_urls.simps(2))
  qed
  obtain b s2 where s1: "s1 = b # s2" using r1 by (cases s1) (auto simp: starts_with_def)
  with slash [of "''/''" b s2] r1 have b: "b = CHR ''/''" and r2: "starts_with ''/'' (redact_urls s2)"
    by (auto simp: starts_with_def)
  obtain c s3 where s2: "s2 = c # s3" using r2 by (cases s2) (auto simp: starts_with_def)
  with slash [of "[]" c s3] r2 have c: "c = CHR ''/''" by auto
  show ?thesis by (simp add: s s1 s2 a b c starts_with_def no_alpha_chars)
qed

lemma url_match_redacted:
  assumes "url_match s = None"
  shows "url_match (redact_urls s) = None"
proof (rule ccontr)
  let ?r = "dropWhile is_ascii_alpha s"
  assume "url_match (redact_urls s) \<noteq> None"
  then have alpha: "takeWhile is_ascii_alpha s \<noteq> []"
    and colon: "starts_with ''://'' (redact_urls ?r)"
    and rest: "drop 3 (redact_urls ?r) \<noteq> []" "\<not> py_space (hd (drop 3 (redact_urls ?r)))"
    using redact_urls_split [OF assms]
    by (auto simp: url_match_def Let_def split: if_splits)
  have "?r = [] \<or> \<not> is_ascii_alpha (hd ?r)" using hd_dropWhile by blast
  from redact_urls_colon [OF this colon]
  have sw: "starts_with ''://'' ?r" and eq: "redact_urls ?r = ''://'' @ redact_urls (drop 3 ?r)"
    by auto
  have "drop 3 ?r \<noteq> [] \<and> \<not> py_space (hd (drop 3 ?r))"
    by (rule redact_urls_head) (use rest eq in auto)
  then have "url_match s \<noteq> None" using alpha sw by (simp add: url_match_def Let_def)
  with assms show False by simp
qed

lemma url_match_blocked:
  assumes "dropWhile is_ascii_alpha u = c # r" "c \<noteq> CHR '':''"
  shows "url_match (u @ t) = None"
proof -
  have "dropWhile is_ascii_alpha (u @ t) = c # r @ t"
    using assms(1) by (metis append_Cons dropWhile_eq_Nil_conv dropWhile_append1 list.distinct(1))
  then show ?thesis using assms(2) by (simp add: url_match_def starts_with_def)
qed

lemma placeholder_no_match:
  assumes "k < length URL_REDACTION_PLACEHOLDER"
  shows "url_match (drop k URL_REDACTION_PLACEHOLDER @ t) = None"
proof -
  let ?ok = "\<lambda>k. case dropWhile is_ascii_alpha (drop k URL_REDACTION_PLACEHOLDER) of
          [] \<Rightarrow> False | c # r \<Rightarrow> c \<noteq> CHR '':''"
  have "list_all ?ok [0,1,2,3,4,5,6,7,8,9,10,11,12,13]" by (simp add: char_class_defs)
  moreover have "k \<in> set [0,1,2,3,4,5,6,7,8,9,10,11,12,13]" using assms by (simp, presburger)
  ultimately have "?ok k" unfolding list_all_iff by blast
  then show ?thesis
    by (auto split: list.splits intro: url_match_blocked simp del: URL_REDACTION_PLACEHOLDER_def)
qed

lemma url_free_Cons: "url_free (c # s) \<longleftrightarrow> url_match (c # s) = None \<and> url_free s"
proof
  assume L: "url_free (c # s)"
  then have "url_match (drop 0 (c # s)) = None" "\<And>k. url_match (drop (Suc k) (c # s)) = None"
    unfolding url_free_def by blast+
  then show "url_match (c # s) = None \<and> url_free s" by (simp add: url_free_def)
next
  assume "url_match (c # s) = None \<and> url_free s"
  then have "url_match (drop k (c # s)) = None" for k by (cases k) (auto simp: url_free_def)
  then show "url_free (c # s)" by (simp add: url_free_def)
qed

lemma url_free_redact_urls: "url_free (redact_urls s)"
proof (induction s rule: redact_urls.induct)
  case 1
  then show ?case by (simp add: url_free_def)
next
  case (2 c cs)
  show ?case
  proof (cases "url_match (c # cs)")
    case None
    then have "redact_urls (c # cs) = c # redact_urls cs" by (simp add: redact_urls.simps(2))
    moreover have "url_match (redact_urls (c # cs)) = None" using None by (rule url_match_redacted)
    ultimately show ?thesis using 2 None by (simp add: url_free_Cons)
  next
    case (Some rest)
    let ?p = URL_REDACTION_PLACEHOLDER
    have free: "url_free (redact_urls rest)" using 2 Some by simp
    have "url_match (drop k (?p @ redact_urls rest)) = None" for k
    proof (cases "k < length ?p")
      case True
      then have "drop k (?p @ redact_urls rest) = drop k ?p @ redact_urls rest"
        by (simp del: URL_REDACTION_PLACEHOLDER_def)
      with True show ?thesis by (metis placeholder_no_match)
    next
      case False
      then have "drop k (?p @ redact_urls rest) = drop (k - length ?p) (redact_urls rest)"
        by (metis drop_append drop_eq_Nil append_Nil linorder_not_less)
      with free show ?thesis by (simp only: url_free_def)
    qed
    then show ?thesis using Some by (simp add: redact_urls.simps(2) url_free_def)
  qed
qed

lemma url_match_contains: "url_match s \<noteq> None \<Longrightarrow> py_in ''://'' s"
proof -
  assume "url_match s \<noteq> None"
  then have "starts_with ''://'' (dropWhile is_ascii_alpha s)"
    by (auto simp: url_match_def Let_def split: if_splits)
  then obtain t where "dropWhile is_ascii_alpha s = ''://'' @ t" by (auto simp: starts_with_iff)
  then have "s = takeWhile is_ascii_alpha s @ ''://'' @ t" by (metis takeWhile_dropWhile_id)
  then show ?thesis unfolding py_in_iff by blast
qed

lemma url_free_no_separator: "\<not> py_in ''://'' s \<Longrightarrow> url_free s"
  unfolding url_free_def using url_match_contains py_in_append
  by (metis append_take_drop_id)

lemma url_match_prefix: "url_match (take n s) \<noteq> None \<Longrightarrow> url_match s \<noteq> None"
proof -
  assume "url_match (take n s) \<noteq> None"
  then obtain a where a: "takeWhile is_ascii_alpha (take n s) \<noteq> []"
    and sw: "starts_with ''://'' (dropWhile is_ascii_alpha (take n s))"
    and rest: "drop 3 (dropWhile is_ascii_alpha (take n s)) \<noteq> []"
      "\<not> py_space (hd (drop 3 (dropWhile is_ascii_alpha (take n s))))"
    by (auto simp: url_match_def Let_def split: if_splits)
  let ?d = "dropWhile is_ascii_alpha (take n s)"
  obtain u where d: "?d = ''://'' @ u" using sw by (auto simp: starts_with_iff)
  with rest have u: "u \<noteq> []" "\<not> py_space (hd u)" by auto
  have "dropWhile is_ascii_alpha (take n s @ drop n s) = ?d @ drop n s"
    using d by (metis append_Cons append_Nil dropWhile_append dropWhile_eq_Nil_conv list.distinct(1))
  then have "dropWhile is_ascii_alpha s = ''://'' @ u @ drop n s" using d by simp
  moreover have "takeWhile is_ascii_alpha s \<noteq> []"
    using a by (cases s; cases n) (auto split: if_splits)
  ultimately show ?thesis using u by (auto simp: url_match_def starts_with_def)
qed

lemma url_free_take: "url_free s \<Longrightarrow> url_free (take n s)"
  unfolding url_free_def using url_match_prefix by (metis drop_take)

text \<open>Redaction only rearranges characters of the text and of the placeholders.\<close>

lemma secret_match_sub:
  "secret_match s = Some (t, r) \<Longrightarrow> set t \<subseteq> set s \<and> set r \<subseteq> set s"
proof -
  assume "secret_match s = Some (t, r)"
  then obtain t' where tok: "match_token s = Some t'" and t: "t = take (length t') s"
    and r: "r = the (match_value (drop (length t') s))"
    by (auto simp: secret_match_def split: option.splits)
  let ?s = "drop (length t') s"
  have "match_value ?s \<noteq> None" using tok by (auto dest: match_token_some)
  then obtain c cs where d: "dropWhile py_space ?s = c # cs"
    and r': "r = dropWhile value_char (dropWhile py_space cs)"
    using r by (auto simp: match_value_def Let_def split: list.splits if_splits)
  have "set r \<subseteq> set cs" unfolding r' by (meson set_dropWhileD subsetI)
  also have "\<dots> \<subseteq> set ?s" using d by (metis set_dropWhileD set_subset_Cons subset_eq)
  also have "\<dots> \<subseteq> set s" by (rule set_drop_subset)
  finally show ?thesis unfolding t by (auto dest: in_set_takeD)
qed

lemma set_redact_secrets: "set (redact_secrets s) \<subseteq> set s \<union> set (''='' @ REDACTED_PLACEHOLDER)"
proof (induction s rule: redact_secrets.induct)
  case (2 c cs)
  then show ?case
    by (cases "secret_match (c # cs)")
       (fastforce simp: redact_secrets.simps(2) dest: secret_match_sub)+
qed simp

lemma url_match_sub: "url_match s = Some r \<Longrightarrow> set r \<subseteq> set s"
proof -
  assume "url_match s = Some r"
  then have "r = dropWhile (\<lambda>c. \<not> py_space c) (drop 3 (dropWhile is_ascii_alpha s))"
    by (auto simp: url_match_def Let_def split: if_splits)
  then show ?thesis by (auto dest!: set_dropWhileD in_set_dropD)
qed

lemma set_redact_urls: "set (redact_urls s) \<subseteq> set s \<union> set URL_REDACTION_PLACEHOLDER"
proof (induction s rule: redact_urls.induct)
  case (2 c cs)
  then show ?case
    by (cases "url_match (c # cs)")
       (fastforce simp: redact_urls.simps(2) dest: url_match_sub)+
qed simp

lemma safe_detail_no_newline:
  assumes "safe_detail d = Some t" "n = (10::nat) \<or> n = 13"
  shows "char_of n \<notin> set t"
proof -
  obtain x where x: "d = Some x" using assms(1) by (cases d) (auto simp: safe_detail_def)
  have ph: "char_of n \<notin> set (''='' @ REDACTED_PLACEHOLDER) \<union> set URL_REDACTION_PLACEHOLDER"
    using assms(2) by (auto simp: char_of_eq_iff)
  have "char_of n \<notin> set (flatten_lines x)"
  proof -
    have "char_of (10::nat) \<noteq> CHR '' ''" "char_of (13::nat) \<noteq> CHR '' ''" by (simp_all add: char_of_eq_iff)
    then show ?thesis using assms(2) by (fastforce simp: flatten_lines_def replace_char_def)
  qed
  then have "char_of n \<notin> set (redact_secrets (flatten_lines x))"
    using set_redact_secrets [of "flatten_lines x"] ph by blast
  moreover from this have "char_of n \<notin> set (redact_urls (redact_secrets (flatten_lines x)))"
    using set_redact_urls ph by blast
  ultimately show ?thesis
    using assms(1) x by (auto simp: safe_detail_def Let_def split: if_splits dest!: in_set_takeD)
qed

lemma safe_detail_url_free: "safe_detail d = Some t \<Longrightarrow> url_free t"
  using url_free_redact_urls url_free_no_separator url_free_take
  by (simp add: safe_detail_def Let_def split: option.splits if_splits) blast+

section \<open>What is redacted, and what is not\<close>

lemma token_alpha: "t \<in> set SECRET_TOKENS \<Longrightarrow> t \<noteq> [] \<and> list_all (\<lambda>c. is_ascii_alpha c \<and> \<not> is_upper c) t"
  by (auto simp: bridge_defs char_class_defs)

lemma lower_append: "lower (s @ t) = lower s @ lower t"
  by (simp add: lower_def)

lemma tokens_no_prefix:
  "t \<in> set SECRET_TOKENS \<Longrightarrow> t' \<in> set SECRET_TOKENS \<Longrightarrow> starts_with t (t' @ s) \<Longrightarrow> t = t'"
  by (auto simp: bridge_defs starts_with_def)

lemma lower_token: "t \<in> set SECRET_TOKENS \<Longrightarrow> lower t = t"
  by (auto simp: bridge_defs lower_def char_class_defs)

lemma match_value_pair:
  assumes "list_all py_space ws" "list_all py_space ws'" "sep = CHR '':'' \<or> sep = CHR ''=''"
    and "v \<noteq> []" "list_all value_char v" "rest = [] \<or> \<not> value_char (hd rest)"
  shows "match_value (ws @ sep # ws' @ v @ rest) = Some rest"
proof -
  have sep: "\<not> py_space sep" using assms(3) by (auto simp: char_class_defs)
  have drop_ws: "dropWhile py_space (w @ u) = dropWhile py_space u" if "list_all py_space w" for w u
    using that by (induction w) auto
  have "dropWhile value_char (v @ rest) = rest"
    using assms(5,6) by (induction v) (auto simp: dropWhile_eq_self_iff)
  moreover have head: "value_char (hd (v @ rest))" using assms(4,5) by (cases v) auto
  then have "\<not> py_space (hd (v @ rest))" by (simp add: value_char_def)
  then have "dropWhile py_space (v @ rest) = v @ rest" by (simp only: dropWhile_eq_self_iff) simp
  then have "dropWhile py_space (ws' @ v @ rest) = v @ rest" using drop_ws [OF assms(2)] by simp
  moreover have "dropWhile py_space (ws @ sep # ws' @ v @ rest) = sep # ws' @ v @ rest"
    using drop_ws [OF assms(1)] sep by simp
  ultimately show ?thesis using assms(3,4) head
    by (simp add: match_value_def Let_def del: dropWhile_eq_Nil_conv)
qed

lemma redact_pair:
  assumes tok: "lower t \<in> set SECRET_TOKENS"
    and pair: "list_all py_space ws" "list_all py_space ws'" "sep = CHR '':'' \<or> sep = CHR ''=''"
    and v: "v \<noteq> []" "list_all value_char v" "rest = [] \<or> \<not> value_char (hd rest)"
  shows "redact_secrets (t @ ws @ sep # ws' @ v @ rest)
           = t @ ''='' @ REDACTED_PLACEHOLDER @ redact_secrets rest"
proof -
  let ?s = "t @ ws @ sep # ws' @ v @ rest"
  have len: "length (lower t) = length t" by simp
  have mv: "match_value (drop (length (lower t)) ?s) = Some rest"
    using match_value_pair [OF pair v] by simp
  have "match_token ?s \<noteq> None"
    using tok mv unfolding match_token_def find_None_iff
    by (metis lower_append option.distinct(1) starts_with_append)
  then obtain t' where t': "match_token ?s = Some t'" by blast
  then have "t' \<in> set SECRET_TOKENS" "starts_with t' (lower ?s)" by (auto dest: match_token_some)
  then have "t' = lower t" using tokens_no_prefix tok by (metis lower_append)
  with t' mv have "secret_match ?s = Some (t, rest)" by (simp add: secret_match_def)
  moreover obtain c cs where "?s = c # cs" using tok token_alpha by (cases ?s) (auto simp: lower_def)
  ultimately show ?thesis by (simp add: redact_secrets.simps(2))
qed

text \<open>A text without a separator holds no secret pair, so nothing in it is replaced.\<close>

lemma match_value_separator: "match_value s \<noteq> None \<Longrightarrow> CHR '':'' \<in> set s \<or> CHR ''='' \<in> set s"
proof -
  assume "match_value s \<noteq> None"
  then obtain c cs where "dropWhile py_space s = c # cs" "c = CHR '':'' \<or> c = CHR ''=''"
    by (auto simp: match_value_def split: list.splits if_splits)
  then show ?thesis by (metis list.set_intros(1) set_dropWhileD)
qed

lemma redact_no_separator:
  "CHR '':'' \<notin> set s \<Longrightarrow> CHR ''='' \<notin> set s \<Longrightarrow> redact_secrets s = s"
proof (induction s)
  case (Cons c cs)
  have "secret_match (c # cs) = None"
  proof (rule ccontr)
    assume "secret_match (c # cs) \<noteq> None"
    then obtain t where "match_token (c # cs) = Some t" by (auto simp: secret_match_def split: option.splits)
    then have "match_value (drop (length t) (c # cs)) \<noteq> None" by (auto dest: match_token_some)
    then show False using match_value_separator Cons.prems by (metis in_set_dropD)
  qed
  with Cons show ?case by (simp add: redact_secrets.simps(2))
qed simp

section \<open>Properties\<close>

text \<open>
  C36. Whatever text goes in, a support-facing detail is at most 256 characters on one line and holds no
  URL: no position of it starts a scheme followed by a separator and a non-blank.
\<close>

theorem safe_detail_safe:
  "case safe_detail detail of None \<Rightarrow> detail = None
   | Some t \<Rightarrow> length t \<le> MAX_DETAIL_LENGTH \<and> char_of (10::nat) \<notin> set t \<and> char_of (13::nat) \<notin> set t \<and>
       (\<forall>k. url_match (drop k t) = None)"
  using safe_detail_length [of detail] safe_detail_no_newline [of detail] safe_detail_url_free [of detail]
  by (auto simp: url_free_def simp del: MAX_DETAIL_LENGTH_def split: option.splits)

text \<open>
  A credential pair is replaced wherever it starts: the secret word in any case, blanks, a colon or
  an equals sign, blanks and the value become the word and the placeholder, and redaction goes on
  after the value.
\<close>

theorem redacts_secret_pair:
  assumes "lower t \<in> set SECRET_TOKENS" "list_all py_space ws" "list_all py_space ws'"
    "sep = CHR '':'' \<or> sep = CHR ''=''" "v \<noteq> []" "list_all value_char v" "rest = [] \<or> \<not> value_char (hd rest)"
  shows "redact_secrets (t @ ws @ sep # ws' @ v @ rest) = t @ ''='' @ REDACTED_PLACEHOLDER @ redact_secrets rest"
  using assms by (rule redact_pair)

theorem redacts_secret_pair_witness:
  "redact_secrets ''Token: ab'' = ''Token=[redacted]''"
proof -
  have t: "lower ''Token'' \<in> set SECRET_TOKENS"
    by (simp add: bridge_defs lower_def char_class_defs char_of_eq_iff)
  have b: "list_all py_space '' ''" "list_all value_char ''ab''"
    by (simp_all add: value_char_def char_class_defs)
  show ?thesis
    using redacts_secret_pair [OF t, where ws = "[]" and ws' = "'' ''" and sep = "CHR '':''" and v = "''ab''"
        and rest = "[]"] b by simp
qed

text \<open>
  The value the pattern takes for the credential of an \<open>Authorization\<close> header is the scheme: the
  bearer token that follows the word \<open>Bearer\<close> stays in the detail.
\<close>

theorem safe_detail_keeps_bearer_token:
  assumes "CHR '':'' \<notin> set v" "CHR ''='' \<notin> set v" "char_of (10::nat) \<notin> set v" "char_of (13::nat) \<notin> set v"
    "length v \<le> 231"
  shows "safe_detail (Some (''Authorization: Bearer '' @ v)) = Some (''Authorization=[redacted] '' @ v)"
proof -
  let ?d = "''Authorization: Bearer '' @ v"
  have plain: "replace_char n b s = s" if "n \<notin> set s" for n b s
    using that by (auto simp: replace_char_def intro!: map_idI)
  have breaks: "char_of (10::nat) = CHR 0x0A" "char_of (13::nat) = CHR 0x0D"
    by (simp_all add: char_of_eq_iff)
  have "CHR 0x0A \<notin> set ?d" "CHR 0x0D \<notin> set ?d"
    using assms(3,4) unfolding breaks by simp_all
  then have flat: "flatten_lines ?d = ?d"
    unfolding flatten_lines_def breaks using plain by simp
  have tok: "lower ''Authorization'' \<in> set SECRET_TOKENS"
    by (simp add: bridge_defs lower_def char_class_defs char_of_eq_iff)
  have b: "list_all py_space '' ''" "list_all value_char ''Bearer''" "\<not> value_char (CHR '' '')"
    by (simp_all add: value_char_def char_class_defs)
  have rest: "redact_secrets ('' '' @ v) = '' '' @ v"
    by (rule redact_no_separator) (use assms(1,2) in auto)
  have red: "redact_secrets ?d = ''Authorization=[redacted] '' @ v"
    using redact_pair [OF tok, where ws = "[]" and ws' = "'' ''" and sep = "CHR '':''" and v = "''Bearer''"
        and rest = "'' '' @ v"] b rest by simp
  have "\<not> py_in ''://'' (''Authorization=[redacted] '' @ v)"
  proof
    assume "py_in ''://'' (''Authorization=[redacted] '' @ v)"
    moreover have "CHR '':'' \<in> set t" if "py_in ''://'' t" for t using that unfolding py_in_iff by auto
    ultimately have "CHR '':'' \<in> set (''Authorization=[redacted] '' @ v)" by blast
    then show False using assms(1) by simp
  qed
  then show ?thesis
    using assms(5) unfolding safe_detail_def option.case flat Let_def red by simp
qed

theorem safe_detail_keeps_bearer_token_witness:
  "safe_detail (Some ''Authorization: Bearer xyz'') = Some ''Authorization=[redacted] xyz''"
  using safe_detail_keeps_bearer_token [where v = "''xyz''"] by (simp add: char_of_eq_iff)

end
