(* ===== verification/Health.thy ===== *)
theory Health
  imports Redaction
begin

text \<open>
  The health registry of \<open>health.py\<close>: component and speaker observations, their counters and the one
  canonical snapshot. A clock reading is an argument of the operation that takes it. The models'
  declared field constraints (\<open>ge=0\<close>, \<open>max_length\<close>) are branches that return a \<open>ValueError\<close>, as the
  validation error they raise is one. Every operation of the source also returns \<open>snapshot()\<close>; here it
  returns the registry, and the snapshot is \<open>snapshot\<close> of it.
\<close>

section \<open>Vocabulary\<close>

datatype health_state =
  HS_STARTING | HS_HEALTHY | HS_DEGRADED | HS_UNAVAILABLE | HS_STOPPING | HS_STOPPED | HS_UNKNOWN

datatype speaker_state = SP_UNKNOWN | SP_CONNECTED | SP_DISCONNECTED | SP_RECONNECTING | SP_UNAVAILABLE

fun speaker_state_value :: "speaker_state \<Rightarrow> string" where
  "speaker_state_value SP_UNKNOWN = ''unknown''"
| "speaker_state_value SP_CONNECTED = ''connected''"
| "speaker_state_value SP_DISCONNECTED = ''disconnected''"
| "speaker_state_value SP_RECONNECTING = ''reconnecting''"
| "speaker_state_value SP_UNAVAILABLE = ''unavailable''"

datatype failure_class =
    FC_PAIRING_FAILED | FC_NATIVE_INTEGRATION_UNAVAILABLE | FC_DBUS_UNAVAILABLE
  | FC_DBUS_DISCONNECTED | FC_STALE_BLUEZ_OBJECT | FC_PIPEWIRE_UNAVAILABLE | FC_SINK_MISSING
  | FC_SINK_UNAVAILABLE_TRANSPORT_HELD | FC_RECONNECT_EXHAUSTED | FC_STARTUP_FAILED
  | FC_SHUTDOWN_INCOMPLETE

record failure_observation =
  classification :: failure_class
  fo_detail :: "string option"
  fo_observed_at :: real
  fo_attempt :: "int option"

record component_health =
  ch_name :: string
  ch_state :: health_state
  ch_required :: bool
  ch_failure :: "failure_observation option"
  ch_source :: "string option"
  ch_observed_at :: real

record speaker_health =
  sh_address :: string
  sh_state :: speaker_state
  sh_failure :: "failure_observation option"
  sh_transition :: "string option"
  sh_observed_at :: real
  sh_attempt :: int
  sh_connects :: nat
  sh_disconnects :: nat
  sh_suppressed_flaps :: nat
  sh_codec :: "string option"
  sh_link_reason :: "string option"

text \<open>\<open>SpeakerHealth(address=a)\<close>: every other field at its default.\<close>

definition new_speaker_health :: "string \<Rightarrow> real \<Rightarrow> speaker_health" where
  "new_speaker_health a now =
     \<lparr>sh_address = a, sh_state = SP_UNKNOWN, sh_failure = None, sh_transition = None,
      sh_observed_at = now, sh_attempt = 0, sh_connects = 0, sh_disconnects = 0,
      sh_suppressed_flaps = 0, sh_codec = None, sh_link_reason = None\<rparr>"

record registry =
  components :: "component_health dict"
  speakers :: "speaker_health dict"
  lifecycle :: health_state

definition new_registry :: registry where
  "new_registry = \<lparr>components = [], speakers = [], lifecycle = HS_STARTING\<rparr>"

text \<open>\<open>a or b\<close> on optional strings: the empty string is false.\<close>

definition py_or :: "string option \<Rightarrow> string option \<Rightarrow> string option" where
  "py_or a b = (if a = None \<or> a = Some [] then b else a)"

definition validation_error :: py_exc where
  "validation_error = ValueError ''validation error''"

section \<open>Operations\<close>

definition observe_component ::
  "registry \<Rightarrow> string \<Rightarrow> health_state \<Rightarrow> bool \<Rightarrow> failure_class option \<Rightarrow> string option \<Rightarrow>
   string option \<Rightarrow> real \<Rightarrow> real \<Rightarrow> registry"
where
  "observe_component reg name state required failure detail source t1 t2 =
     (let observation = (case failure of None \<Rightarrow> None
             | Some f \<Rightarrow> Some \<lparr>classification = f, fo_detail = safe_detail detail,
                            fo_observed_at = t1, fo_attempt = None\<rparr>)
      in reg\<lparr>components := dict_set name
               \<lparr>ch_name = name, ch_state = state, ch_required = required, ch_failure = observation,
                ch_source = source, ch_observed_at = t2\<rparr> (components reg)\<rparr>)"

definition observe_speaker ::
  "registry \<Rightarrow> string \<Rightarrow> speaker_state \<Rightarrow> failure_class option \<Rightarrow> string option \<Rightarrow> int \<Rightarrow>
   string option \<Rightarrow> real \<Rightarrow> real \<Rightarrow> py_exc + registry"
where
  "observe_speaker reg address state failure detail attempt codec t1 t2 =
     (case normalize_address address of Inl e \<Rightarrow> Inl e
      | Inr address \<Rightarrow>
        let previous = dict_get (speakers reg) address;
            observation = (case failure of None \<Rightarrow> None
              | Some f \<Rightarrow> Some \<lparr>classification = f, fo_detail = safe_detail detail,
                             fo_observed_at = t1, fo_attempt = Some attempt\<rparr>);
            connects = (case previous of Some p \<Rightarrow> sh_connects p | None \<Rightarrow> 0)
              + (if state = SP_CONNECTED \<and> (case previous of None \<Rightarrow> True | Some p \<Rightarrow> sh_state p \<noteq> SP_CONNECTED)
                 then 1 else 0);
            disconnects = (case previous of Some p \<Rightarrow> sh_disconnects p | None \<Rightarrow> 0)
              + (if state = SP_DISCONNECTED
                    \<and> (case previous of None \<Rightarrow> False | Some p \<Rightarrow> sh_state p = SP_CONNECTED)
                 then 1 else 0);
            codec = py_or codec (Option.bind previous sh_codec)
        in if attempt < 0 \<or> (case codec of None \<Rightarrow> False | Some c \<Rightarrow> length c > MAX_IDENTIFIER_LENGTH)
           then Inl validation_error
           else Inr (reg\<lparr>speakers := dict_set address
             \<lparr>sh_address = address,
              sh_state = state,
              sh_failure = (case observation of Some ob \<Rightarrow> Some ob
                 | None \<Rightarrow> if state = SP_CONNECTED then None else Option.bind previous sh_failure),
              sh_transition = Some (case previous of
                   Some p \<Rightarrow> speaker_state_value (sh_state p) @ ''->'' @ speaker_state_value state
                 | None \<Rightarrow> speaker_state_value state),
              sh_observed_at = t2,
              sh_attempt = attempt,
              sh_connects = connects,
              sh_disconnects = disconnects,
              sh_suppressed_flaps = (case previous of Some p \<Rightarrow> sh_suppressed_flaps p | None \<Rightarrow> 0),
              sh_codec = safe_codec codec,
              sh_link_reason = (if failure \<noteq> None then safe_detail detail
                                else Option.bind previous sh_link_reason)\<rparr> (speakers reg)\<rparr>))"

definition record_suppressed_flap ::
  "registry \<Rightarrow> string \<Rightarrow> string option \<Rightarrow> real \<Rightarrow> py_exc + registry"
where
  "record_suppressed_flap reg address reason now =
     (case normalize_address address of Inl e \<Rightarrow> Inl e
      | Inr address \<Rightarrow>
        let base = (case dict_get (speakers reg) address of
                      Some p \<Rightarrow> p\<lparr>sh_observed_at := now\<rparr>
                    | None \<Rightarrow> new_speaker_health address now)
        in Inr (reg\<lparr>speakers := dict_set address
             (base\<lparr>sh_suppressed_flaps := sh_suppressed_flaps base + 1,
                   sh_link_reason := py_or (safe_detail reason) (sh_link_reason base)\<rparr>)
             (speakers reg)\<rparr>))"

definition record_speaker_codec ::
  "registry \<Rightarrow> string \<Rightarrow> string option \<Rightarrow> real \<Rightarrow> py_exc + registry"
where
  "record_speaker_codec reg address codec now =
     (case normalize_address address of Inl e \<Rightarrow> Inl e
      | Inr address \<Rightarrow>
        (case safe_codec codec of None \<Rightarrow> Inr reg
         | Some c \<Rightarrow>
           (case dict_get (speakers reg) address of
              None \<Rightarrow> Inr (reg\<lparr>speakers := dict_set address
                        ((new_speaker_health address now)\<lparr>sh_codec := Some c\<rparr>) (speakers reg)\<rparr>)
            | Some p \<Rightarrow> Inr (reg\<lparr>speakers := dict_set address
                        (p\<lparr>sh_codec := Some c, sh_observed_at := now\<rparr>) (speakers reg)\<rparr>))))"

definition set_lifecycle ::
  "registry \<Rightarrow> health_state \<Rightarrow> failure_class option \<Rightarrow> string option \<Rightarrow> real \<Rightarrow> real \<Rightarrow> registry"
where
  "set_lifecycle reg state failure detail t1 t2 =
     (let reg = reg\<lparr>lifecycle := state\<rparr>
      in if failure \<noteq> None
         then observe_component reg COMPONENT_LIFECYCLE state False failure detail
                (Some SOURCE_LIFECYCLE) t1 t2
         else reg)"

section \<open>The canonical snapshot\<close>

definition required_states :: "registry \<Rightarrow> health_state list" where
  "required_states reg = map ch_state (filter ch_required (map snd (components reg)))"

definition snapshot_status :: "registry \<Rightarrow> health_state" where
  "snapshot_status reg =
     (let states = required_states reg
      in if HS_UNAVAILABLE \<in> set states then HS_UNAVAILABLE
         else if lifecycle reg \<in> {HS_STOPPING, HS_STOPPED} then lifecycle reg
         else if lifecycle reg = HS_STARTING \<and> states = [] then lifecycle reg
         else if HS_DEGRADED \<in> set states \<or> HS_UNKNOWN \<in> set states then HS_DEGRADED
         else if lifecycle reg = HS_STARTING then lifecycle reg
         else HS_HEALTHY)"

record health_snapshot =
  hs_version :: nat
  hs_status :: health_state
  hs_lifecycle :: health_state
  hs_components :: "component_health dict"
  hs_speakers :: "speaker_health dict"
  hs_updated_at :: real

definition snapshot :: "registry \<Rightarrow> real \<Rightarrow> health_snapshot" where
  "snapshot reg now =
     \<lparr>hs_version = 1, hs_status = snapshot_status reg, hs_lifecycle = lifecycle reg,
      hs_components = components reg, hs_speakers = speakers reg, hs_updated_at = now\<rparr>"

text \<open>Some required component was last observed in the given state.\<close>

definition required_in :: "registry \<Rightarrow> health_state \<Rightarrow> bool" where
  "required_in reg s \<longleftrightarrow> (\<exists>(n, c) \<in> set (components reg). ch_required c \<and> ch_state c = s)"

lemma required_states_iff: "s \<in> set (required_states reg) \<longleftrightarrow> required_in reg s"
  by (force simp: required_states_def required_in_def)

section \<open>The registry as a machine\<close>

datatype health_op =
    ObserveComponent string health_state bool "failure_class option" "string option" "string option" real real
  | ObserveSpeaker string speaker_state "failure_class option" "string option" int "string option" real real
  | SuppressedFlap string "string option" real
  | SpeakerCodec string "string option" real
  | SetLifecycle health_state "failure_class option" "string option" real real

text \<open>An operation that raises leaves the registry as it was.\<close>

definition keep_on_error :: "'s \<Rightarrow> py_exc + 's \<Rightarrow> 's" where
  "keep_on_error s r = (case r of Inl _ \<Rightarrow> s | Inr s' \<Rightarrow> s')"

lemma keep_on_error_simps [simp]: "keep_on_error s (Inl e) = s" "keep_on_error s (Inr s') = s'"
  by (simp_all add: keep_on_error_def)

fun health_step :: "registry \<Rightarrow> health_op \<Rightarrow> registry" where
  "health_step reg (ObserveComponent n st req f d src t1 t2) = observe_component reg n st req f d src t1 t2"
| "health_step reg (ObserveSpeaker a st f d att c t1 t2) =
     keep_on_error reg (observe_speaker reg a st f d att c t1 t2)"
| "health_step reg (SuppressedFlap a r t) = keep_on_error reg (record_suppressed_flap reg a r t)"
| "health_step reg (SpeakerCodec a c t) = keep_on_error reg (record_speaker_codec reg a c t)"
| "health_step reg (SetLifecycle st f d t1 t2) = set_lifecycle reg st f d t1 t2"

definition bounded_detail :: "string option \<Rightarrow> bool" where
  "bounded_detail d \<longleftrightarrow> (\<forall>t. d = Some t \<longrightarrow> length t \<le> MAX_DETAIL_LENGTH \<and> url_free t)"

definition failure_ok :: "failure_observation option \<Rightarrow> bool" where
  "failure_ok f \<longleftrightarrow> (\<forall>ob. f = Some ob \<longrightarrow> bounded_detail (fo_detail ob))"

definition speaker_ok :: "string \<Rightarrow> speaker_health \<Rightarrow> bool" where
  "speaker_ok k sh \<longleftrightarrow>
     sh_address sh = k \<and> canonical_address k \<and> 0 \<le> sh_attempt sh \<and>
     sh_disconnects sh + (if sh_state sh = SP_CONNECTED then 1 else 0) \<le> sh_connects sh \<and>
     (\<forall>c. sh_codec sh = Some c \<longrightarrow> IDENTIFIER_PATTERN c) \<and>
     bounded_detail (sh_link_reason sh) \<and> failure_ok (sh_failure sh)"

definition component_ok :: "string \<Rightarrow> component_health \<Rightarrow> bool" where
  "component_ok k ch \<longleftrightarrow> ch_name ch = k \<and> failure_ok (ch_failure ch)"

definition registry_ok :: "registry \<Rightarrow> bool" where
  "registry_ok reg \<longleftrightarrow>
     wf_dict (components reg) \<and> wf_dict (speakers reg) \<and>
     dict_all component_ok (components reg) \<and> dict_all speaker_ok (speakers reg)"

lemma bounded_safe_detail [simp, intro]: "bounded_detail (safe_detail d)"
  using safe_detail_length safe_detail_url_free unfolding bounded_detail_def by blast

lemma bounded_None [simp]: "bounded_detail None" "failure_ok None"
  by (simp_all add: bounded_detail_def failure_ok_def)

lemma bounded_py_or: "bounded_detail a \<Longrightarrow> bounded_detail b \<Longrightarrow> bounded_detail (py_or a b)"
  by (simp add: py_or_def)

lemma failure_ok_Some [simp]: "failure_ok (Some ob) \<longleftrightarrow> bounded_detail (fo_detail ob)"
  by (simp add: failure_ok_def)

lemma observe_component_ok: "registry_ok reg \<Longrightarrow> registry_ok (observe_component reg n st req f d src t1 t2)"
  by (auto simp: registry_ok_def observe_component_def component_ok_def Let_def
           intro!: dict_all_set split: option.splits)

lemma registry_lookup: "registry_ok reg \<Longrightarrow> dict_get (speakers reg) k = Some p \<Longrightarrow> speaker_ok k p"
  by (auto simp: registry_ok_def dest: dict_allD)

lemma registry_store:
  "registry_ok reg \<Longrightarrow> speaker_ok k sh \<Longrightarrow> registry_ok (reg\<lparr>speakers := dict_set k sh (speakers reg)\<rparr>)"
  by (auto simp: registry_ok_def)

lemma new_speaker_ok: "canonical_address k \<Longrightarrow> speaker_ok k (new_speaker_health k now)"
  by (simp add: speaker_ok_def new_speaker_health_def)

lemma speaker_ok_updates:
  assumes "speaker_ok k p"
  shows "speaker_ok k (p\<lparr>sh_observed_at := t\<rparr>)"
    and "IDENTIFIER_PATTERN c \<Longrightarrow> speaker_ok k (p\<lparr>sh_codec := Some c\<rparr>)"
    and "bounded_detail r \<Longrightarrow> speaker_ok k (p\<lparr>sh_suppressed_flaps := n, sh_link_reason := r\<rparr>)"
    and "bounded_detail (sh_link_reason p)"
  using assms by (simp_all add: speaker_ok_def)

lemma observe_speaker_ok:
  assumes ok: "registry_ok reg" and ret: "observe_speaker reg a st f d att c t1 t2 = Inr reg'"
  shows "registry_ok reg'"
proof -
  obtain k where k: "normalize_address a = Inr k"
    using ret by (cases "normalize_address a") (auto simp: observe_speaker_def)
  have can: "canonical_address k" by (rule normalize_address_canonical [OF k])
  have "\<exists>sh. reg' = reg\<lparr>speakers := dict_set k sh (speakers reg)\<rparr> \<and> speaker_ok k sh"
  proof (cases "dict_get (speakers reg) k")
    case None
    then show ?thesis using ret can safe_codec_bounded
      by (cases f) (auto simp: observe_speaker_def k Let_def speaker_ok_def split: if_splits)
  next
    case (Some p)
    with registry_lookup [OF ok] have "speaker_ok k p" by blast
    then show ?thesis using ret can Some safe_codec_bounded
      by (cases f) (auto simp: observe_speaker_def k Let_def speaker_ok_def split: if_splits)
  qed
  then show ?thesis using ok by (auto intro: registry_store)
qed

lemma suppressed_flap_ok:
  assumes ok: "registry_ok reg" and ret: "record_suppressed_flap reg a r t = Inr reg'"
  shows "registry_ok reg'"
proof -
  obtain k where k: "normalize_address a = Inr k"
    using ret by (cases "normalize_address a") (auto simp: record_suppressed_flap_def)
  let ?base = "case dict_get (speakers reg) k of Some p \<Rightarrow> p\<lparr>sh_observed_at := t\<rparr>
               | None \<Rightarrow> new_speaker_health k t"
  have base: "speaker_ok k ?base"
    using registry_lookup [OF ok] new_speaker_ok [OF normalize_address_canonical [OF k], of t]
    by (auto split: option.splits intro: speaker_ok_updates)
  have "reg' = reg\<lparr>speakers := dict_set k (?base\<lparr>sh_suppressed_flaps := sh_suppressed_flaps ?base + 1,
          sh_link_reason := py_or (safe_detail r) (sh_link_reason ?base)\<rparr>) (speakers reg)\<rparr>"
    using ret by (simp add: record_suppressed_flap_def k Let_def)
  then show ?thesis using base ok
    by (simp only:) (intro registry_store speaker_ok_updates(3) bounded_py_or bounded_safe_detail;
                     simp add: speaker_ok_updates(4))
qed

lemma speaker_codec_ok:
  assumes ok: "registry_ok reg" and ret: "record_speaker_codec reg a c t = Inr reg'"
  shows "registry_ok reg'"
proof -
  obtain k where k: "normalize_address a = Inr k"
    using ret by (cases "normalize_address a") (auto simp: record_speaker_codec_def)
  note new = new_speaker_ok [OF normalize_address_canonical [OF k], of t]
  show ?thesis
  proof (cases "safe_codec c")
    case None
    then show ?thesis using ok ret by (simp add: record_speaker_codec_def k)
  next
    case (Some x)
    then have "IDENTIFIER_PATTERN x" by (rule safe_codec_bounded)
    with Some show ?thesis using ok ret new registry_lookup [OF ok, of k]
      by (auto simp: record_speaker_codec_def k split: option.splits
               intro!: registry_store speaker_ok_updates(2) speaker_ok_updates(2) [THEN speaker_ok_updates(1)])
  qed
qed

lemma set_lifecycle_ok: "registry_ok reg \<Longrightarrow> registry_ok (set_lifecycle reg st f d t1 t2)"
proof -
  assume "registry_ok reg"
  then have "registry_ok (reg\<lparr>lifecycle := st\<rparr>)" by (simp add: registry_ok_def)
  then show ?thesis by (auto simp: set_lifecycle_def Let_def intro: observe_component_ok)
qed

lemma health_step_ok: "registry_ok reg \<Longrightarrow> registry_ok (health_step reg op)"
  by (cases op)
     (auto simp: keep_on_error_def observe_component_ok set_lifecycle_ok split: sum.splits
           intro: observe_speaker_ok suppressed_flap_ok speaker_codec_ok)

interpretation health: invariant_machine health_step registry_ok
  by unfold_locales (rule health_step_ok)

lemma new_registry_ok: "registry_ok new_registry"
  by (simp add: registry_ok_def new_registry_def)

section \<open>Link churn is counted on state edges\<close>

text \<open>The consecutive pairs of a sequence of states that starts from \<open>p\<close>.\<close>

definition transitions :: "'a \<Rightarrow> 'a list \<Rightarrow> ('a \<times> 'a) list" where
  "transitions p ss = zip (p # ss) ss"

definition connect_edges :: "(speaker_state \<times> speaker_state) list \<Rightarrow> nat" where
  "connect_edges es = length (filter (\<lambda>(x, y). x \<noteq> SP_CONNECTED \<and> y = SP_CONNECTED) es)"

definition disconnect_edges :: "(speaker_state \<times> speaker_state) list \<Rightarrow> nat" where
  "disconnect_edges es = length (filter (\<lambda>(x, y). x = SP_CONNECTED \<and> y = SP_DISCONNECTED) es)"

text \<open>The states observed for one address: the observations the registry accepts.\<close>

fun observed_state :: "string \<Rightarrow> health_op \<Rightarrow> speaker_state option" where
  "observed_state k (ObserveSpeaker a st f d att c t1 t2) =
     (if normalize_address a = Inr k \<and> 0 \<le> att \<and> (\<forall>x. c = Some x \<longrightarrow> length x \<le> MAX_IDENTIFIER_LENGTH)
      then Some st else None)"
| "observed_state k _ = None"

definition observed_states :: "string \<Rightarrow> health_op list \<Rightarrow> speaker_state list" where
  "observed_states k ops = List.map_filter (observed_state k) ops"

lemma transitions_snoc: "transitions p (ss @ [s]) = transitions p ss @ [(last (p # ss), s)]"
  by (induction ss arbitrary: p) (simp_all add: transitions_def)

lemma transitions_Nil [simp]: "transitions p [] = []" "transitions p [s] = [(p, s)]"
  by (simp_all add: transitions_def)

lemma edges_append [simp]:
  "connect_edges (es @ fs) = connect_edges es + connect_edges fs" "connect_edges [] = 0"
  "connect_edges [(x, y)] = (if x \<noteq> SP_CONNECTED \<and> y = SP_CONNECTED then 1 else 0)"
  "disconnect_edges (es @ fs) = disconnect_edges es + disconnect_edges fs" "disconnect_edges [] = 0"
  "disconnect_edges [(x, y)] = (if x = SP_CONNECTED \<and> y = SP_DISCONNECTED then 1 else 0)"
  by (simp_all add: connect_edges_def disconnect_edges_def)

lemma observed_states_snoc:
  "observed_states k (ops @ [op]) =
     observed_states k ops @ (case observed_state k op of None \<Rightarrow> [] | Some s \<Rightarrow> [s])"
  by (simp add: observed_states_def List.map_filter_def split: option.splits)

definition tracked :: "string \<Rightarrow> speaker_state list \<Rightarrow> registry \<Rightarrow> bool" where
  "tracked k ss reg \<longleftrightarrow>
     (case dict_get (speakers reg) k of
        None \<Rightarrow> ss = []
      | Some sh \<Rightarrow> sh_state sh = last (SP_UNKNOWN # ss) \<and>
          sh_connects sh = connect_edges (transitions SP_UNKNOWN ss) \<and>
          sh_disconnects sh = disconnect_edges (transitions SP_UNKNOWN ss))"

lemma observe_speaker_other:
  "observe_speaker reg a st f d att c t1 t2 = Inr reg' \<Longrightarrow> normalize_address a \<noteq> Inr k \<Longrightarrow>
     dict_get (speakers reg') k = dict_get (speakers reg) k"
  by (auto simp: observe_speaker_def Let_def split: sum.splits if_splits)

lemma observe_speaker_accepts:
  assumes "registry_ok reg" "normalize_address a = Inr k"
  shows "(\<exists>reg'. observe_speaker reg a st f d att c t1 t2 = Inr reg') \<longleftrightarrow>
           0 \<le> att \<and> (\<forall>x. c = Some x \<longrightarrow> length x \<le> MAX_IDENTIFIER_LENGTH)"
proof -
  have "length x \<le> MAX_IDENTIFIER_LENGTH" if "dict_get (speakers reg) k = Some p" "sh_codec p = Some x" for p x
    using registry_lookup [OF assms(1) that(1)] that(2) IDENTIFIER_PATTERN_length
    by (auto simp: speaker_ok_def)
  then show ?thesis
    by (cases "dict_get (speakers reg) k"; cases c)
       (force simp: observe_speaker_def assms(2) Let_def py_or_def split: if_splits option.splits)+
qed

lemma observe_speaker_tracked:
  assumes "registry_ok reg" "tracked k ss reg"
  shows "tracked k (ss @ (case observed_state k (ObserveSpeaker a st f d att c t1 t2) of
                            None \<Rightarrow> [] | Some s \<Rightarrow> [s]))
           (health_step reg (ObserveSpeaker a st f d att c t1 t2))"
proof (cases "normalize_address a = Inr k")
  case False
  then show ?thesis using assms(2) observe_speaker_other [OF _ False]
    by (cases "observe_speaker reg a st f d att c t1 t2") (auto simp: tracked_def)
next
  case True
  show ?thesis
  proof (cases "observe_speaker reg a st f d att c t1 t2")
    case (Inl e)
    then have "\<not> (0 \<le> att \<and> (\<forall>x. c = Some x \<longrightarrow> length x \<le> MAX_IDENTIFIER_LENGTH))"
      using observe_speaker_accepts [OF assms(1) True, of st f d att c t1 t2] by auto
    with Inl show ?thesis using assms(2) by auto
  next
    case (Inr reg')
    then have acc: "observed_state k (ObserveSpeaker a st f d att c t1 t2) = Some st"
      using observe_speaker_accepts [OF assms(1) True, of st f d att c t1 t2] True by simp
    have "tracked k (ss @ [st]) reg'"
      using Inr assms(2) True
      by (cases "dict_get (speakers reg) k")
         (auto simp: observe_speaker_def Let_def tracked_def transitions_snoc
               split: if_splits)
    then show ?thesis using Inr acc by simp
  qed
qed

lemma other_ops_tracked:
  "tracked k ss reg \<Longrightarrow> record_suppressed_flap reg a r t = Inr reg' \<Longrightarrow> tracked k ss reg'"
  "tracked k ss reg \<Longrightarrow> record_speaker_codec reg a c t = Inr reg' \<Longrightarrow> tracked k ss reg'"
  "tracked k ss reg \<Longrightarrow> tracked k ss (observe_component reg n st req f d src t1 t2)"
  "tracked k ss reg \<Longrightarrow> tracked k ss (set_lifecycle reg st f d t1 t2)"
  by (auto simp: tracked_def record_suppressed_flap_def record_speaker_codec_def Let_def
                 observe_component_def set_lifecycle_def new_speaker_health_def
           split: sum.splits option.splits if_splits)

lemma unobserved_tracked:
  assumes "tracked k ss reg" "\<nexists>a st f d att c t1 t2. op = ObserveSpeaker a st f d att c t1 t2"
  shows "observed_state k op = None \<and> tracked k ss (health_step reg op)"
  using assms other_ops_tracked [OF assms(1)]
  by (cases op) (simp_all add: keep_on_error_def split: sum.splits)

lemma tracked_run: "tracked k (observed_states k ops) (foldl health_step new_registry ops)"
proof (induction ops rule: rev_induct)
  case Nil
  then show ?case by (simp add: tracked_def observed_states_def new_registry_def List.map_filter_def)
next
  case (snoc op ops)
  have ok: "registry_ok (foldl health_step new_registry ops)"
    by (rule health.run_ok [OF new_registry_ok])
  show ?case
  proof (cases op)
    case ObserveSpeaker
    then show ?thesis using observe_speaker_tracked [OF ok snoc.IH] by (simp add: observed_states_snoc)
  qed (use unobserved_tracked [OF snoc.IH, of op] in \<open>simp_all add: observed_states_snoc\<close>)
qed

section \<open>Properties\<close>

text \<open>
  C14. From the empty registry, any sequence of operations (with any arguments, also rejected ones)
  leaves a well-formed registry: records are stored under their own canonical address, the details
  and reasons it publishes are at most 256 characters and hold no URL, codecs are bounded
  identifiers, attempts are not negative, and a link never went down more often than it came up.
\<close>

theorem registry_invariant: "registry_ok (foldl health_step new_registry ops)"
  by (rule health.run_ok [OF new_registry_ok])

text \<open>
  Link churn counts edges only. After any sequence of operations, the \<open>connects\<close> of a recorded
  speaker is the number of consecutive observations that go from another state into \<open>connected\<close>, and
  \<open>disconnects\<close> the number that go from \<open>connected\<close> to \<open>disconnected\<close>; repeated observations of a state,
  suppressed flaps and codec reports never move them.
\<close>

theorem link_counters_are_edges:
  "case dict_get (speakers (foldl health_step new_registry ops)) k of
     None \<Rightarrow> observed_states k ops = []
   | Some sh \<Rightarrow>
       sh_state sh = last (SP_UNKNOWN # observed_states k ops) \<and>
       sh_connects sh = connect_edges (transitions SP_UNKNOWN (observed_states k ops)) \<and>
       sh_disconnects sh = disconnect_edges (transitions SP_UNKNOWN (observed_states k ops))"
  using tracked_run [of k ops] by (simp only: tracked_def)

text \<open>
  The status of the snapshot: unavailable exactly when a required component is; otherwise a
  stopping or stopped lifecycle shows through; a starting daemon shows as starting unless a required
  component is degraded or unknown; healthy exactly when no required component is unavailable,
  degraded or unknown and the daemon is neither starting, stopping nor stopped. Components that are
  not required never count.
\<close>

theorem snapshot_status_spec:
  "(hs_status (snapshot reg now) = HS_UNAVAILABLE \<longleftrightarrow> required_in reg HS_UNAVAILABLE) \<and>
   (hs_status (snapshot reg now) = HS_HEALTHY \<longleftrightarrow>
      \<not> required_in reg HS_UNAVAILABLE \<and> \<not> required_in reg HS_DEGRADED \<and> \<not> required_in reg HS_UNKNOWN \<and>
      lifecycle reg \<notin> {HS_STARTING, HS_STOPPING, HS_STOPPED}) \<and>
   (hs_status (snapshot reg now) = HS_DEGRADED \<longleftrightarrow>
      \<not> required_in reg HS_UNAVAILABLE \<and> (required_in reg HS_DEGRADED \<or> required_in reg HS_UNKNOWN) \<and>
      lifecycle reg \<notin> {HS_STOPPING, HS_STOPPED}) \<and>
   hs_status (snapshot reg now) \<noteq> HS_UNKNOWN"
proof -
  have "required_states reg = [] \<Longrightarrow> \<not> required_in reg s" for s
    using required_states_iff [of s reg] by auto
  then show ?thesis
    by (auto simp: snapshot_def snapshot_status_def required_states_iff Let_def)
qed

text \<open>
  A failure stays on a speaker's record until it is seen connected: an accepted observation
  without a failure of its own clears the recorded failure when the state is \<open>connected\<close> and keeps it
  otherwise, and an observation with a failure replaces it.
\<close>

theorem speaker_failure_sticky:
  assumes "observe_speaker reg a st f d att c t1 t2 = Inr reg'" "normalize_address a = Inr k"
  shows "\<exists>sh. dict_get (speakers reg') k = Some sh \<and>
           sh_failure sh =
             (case f of
                Some fc \<Rightarrow> Some \<lparr>classification = fc, fo_detail = safe_detail d, fo_observed_at = t1,
                               fo_attempt = Some att\<rparr>
              | None \<Rightarrow> if st = SP_CONNECTED then None
                        else Option.bind (dict_get (speakers reg) k) sh_failure)"
  using assms by (auto simp: observe_speaker_def Let_def split: if_splits option.splits)

theorem speaker_failure_sticky_witness:
  "let reg = foldl health_step new_registry
        [ObserveSpeaker ''AA:BB:CC:11:22:33'' SP_UNAVAILABLE (Some FC_RECONNECT_EXHAUSTED) None 8 None 1 1]
   in \<exists>reg'. observe_speaker reg ''aa-bb-cc-11-22-33'' SP_CONNECTED None None 0 None 2 2 = Inr reg' \<and>
        map_option sh_failure (dict_get (speakers reg') ''aa:bb:cc:11:22:33'') = Some None"
proof -
  let ?reg = "foldl health_step new_registry
        [ObserveSpeaker ''AA:BB:CC:11:22:33'' SP_UNAVAILABLE (Some FC_RECONNECT_EXHAUSTED) None 8 None 1 1]"
  have n: "normalize_address ''aa-bb-cc-11-22-33'' = Inr ''aa:bb:cc:11:22:33''"
    by (simp add: address_eval)
  have "\<exists>reg'. observe_speaker ?reg ''aa-bb-cc-11-22-33'' SP_CONNECTED None None 0 None 2 2 = Inr reg'"
    unfolding observe_speaker_accepts [OF health.run_ok [OF new_registry_ok] n] by simp
  then obtain reg' where r: "observe_speaker ?reg ''aa-bb-cc-11-22-33'' SP_CONNECTED None None 0 None 2 2 = Inr reg'"
    by blast
  have "map_option sh_failure (dict_get (speakers reg') ''aa:bb:cc:11:22:33'') = Some None"
    using speaker_failure_sticky [OF r n] by (auto simp del: foldl.simps)
  with r show ?thesis unfolding Let_def by blast
qed

end
