(* ===== verification/BT_Device.thy ===== *)
theory BT_Device
  imports Health
begin

unbundle bit_operations_syntax

text \<open>
  \<open>bluetooth/device.py\<close> and the device half of \<open>bluetooth/models.py\<close>: the cached BlueZ properties of a
  device, its classification, and the calls on its proxy. What BlueZ answers to a call is an argument
  of the operation (\<open>bus_call\<close>): the call returns, raises an exception with the given text, or is
  cancelled while it is awaited. Properties are read at the type BlueZ documents for them; a value of
  another type reads as missing.
\<close>

section \<open>Properties (the \<open>_properties\<close> dictionary)\<close>

datatype prop_value = PBool bool | PInt int | PStr string | PStrs "string list"

datatype dbus_prop = Plain prop_value | Variant prop_value

fun unwrap :: "dbus_prop \<Rightarrow> prop_value" where
  "unwrap (Plain v) = v"
| "unwrap (Variant v) = v"

type_synonym dbus_props = "dbus_prop dict"

definition get_prop :: "dbus_props \<Rightarrow> string \<Rightarrow> prop_value option" where
  "get_prop props key = map_option unwrap (dict_get props key)"

fun truthy :: "prop_value \<Rightarrow> bool" where
  "truthy (PBool b) = b"
| "truthy (PInt n) = (n \<noteq> 0)"
| "truthy (PStr s) = (s \<noteq> [])"
| "truthy (PStrs l) = (l \<noteq> [])"

definition bool_prop :: "dbus_props \<Rightarrow> string \<Rightarrow> bool" where
  "bool_prop props key = (case get_prop props key of None \<Rightarrow> False | Some v \<Rightarrow> truthy v)"

definition str_prop :: "dbus_props \<Rightarrow> string \<Rightarrow> string option" where
  "str_prop props key = (case get_prop props key of Some (PStr s) \<Rightarrow> Some s | _ \<Rightarrow> None)"

definition int_prop :: "dbus_props \<Rightarrow> string \<Rightarrow> int option" where
  "int_prop props key = (case get_prop props key of Some (PInt n) \<Rightarrow> Some n | _ \<Rightarrow> None)"

definition strs_prop :: "dbus_props \<Rightarrow> string \<Rightarrow> string list" where
  "strs_prop props key = (case get_prop props key of Some (PStrs l) \<Rightarrow> l | _ \<Rightarrow> [])"

definition set_prop :: "string \<Rightarrow> prop_value \<Rightarrow> dbus_props \<Rightarrow> dbus_props" where
  "set_prop key v props = dict_set key (Plain v) props"

text \<open>The loop of \<open>update_properties\<close>: every changed value is stored unwrapped.\<close>

definition merge_props :: "dbus_props \<Rightarrow> dbus_props \<Rightarrow> dbus_props" where
  "merge_props changed props = fold (\<lambda>(k, v). dict_set k (Plain (unwrap v))) changed props"

lemma get_prop_set [simp]:
  "get_prop (set_prop k v props) k' = (if k' = k then Some v else get_prop props k')"
  by (simp add: get_prop_def set_prop_def)

lemma prop_set_simps [simp]:
  "bool_prop (set_prop k (PBool b) props) k' = (if k' = k then b else bool_prop props k')"
  "k' \<noteq> k \<Longrightarrow> str_prop (set_prop k v props) k' = str_prop props k'"
  "k' \<noteq> k \<Longrightarrow> int_prop (set_prop k v props) k' = int_prop props k'"
  "k' \<noteq> k \<Longrightarrow> strs_prop (set_prop k v props) k' = strs_prop props k'"
  by (simp_all add: bool_prop_def str_prop_def int_prop_def strs_prop_def)

lemma get_prop_merge:
  "wf_dict changed \<Longrightarrow> get_prop (merge_props changed props) k =
     (case get_prop changed k of Some v \<Rightarrow> Some v | None \<Rightarrow> get_prop props k)"
proof (induction changed arbitrary: props)
  case (Cons p changed)
  obtain a v where p: "p = (a, v)" by (cases p)
  have IH: "get_prop (merge_props changed props') k =
      (case get_prop changed k of Some v \<Rightarrow> Some v | None \<Rightarrow> get_prop props' k)" for props'
    using Cons by (simp add: wf_dict_def)
  have "get_prop changed a = None"
    using Cons.prems by (auto simp: p wf_dict_def get_prop_def map_of_eq_None_iff)
  then show ?case
    using IH [of "dict_set a (Plain (unwrap v)) props"]
    by (auto simp: p merge_props_def get_prop_def split: option.splits)
qed (simp add: merge_props_def get_prop_def)

section \<open>Device records\<close>

record device =
  d_bus :: bool
  d_path :: string
  d_props :: dbus_props
  d_last_seen :: real
  d_detached :: bool

definition new_device :: "bool \<Rightarrow> string \<Rightarrow> dbus_props \<Rightarrow> real \<Rightarrow> device" where
  "new_device bus path properties now =
     \<lparr>d_bus = bus, d_path = path, d_props = properties, d_last_seen = now, d_detached = False\<rparr>"

definition d_address :: "device \<Rightarrow> string" where
  "d_address d = (case str_prop (d_props d) ''Address'' of Some s \<Rightarrow> s | None \<Rightarrow> [])"

definition d_name :: "device \<Rightarrow> string option" where
  "d_name d = str_prop (d_props d) ''Name''"

definition d_alias :: "device \<Rightarrow> string" where
  "d_alias d = (case str_prop (d_props d) ''Alias'' of Some s \<Rightarrow> s
     | None \<Rightarrow> (case d_name d of Some n \<Rightarrow> if n \<noteq> [] then n else d_address d | None \<Rightarrow> d_address d))"

definition d_adapter_path :: "device \<Rightarrow> string" where
  "d_adapter_path d = (case str_prop (d_props d) ''Adapter'' of Some s \<Rightarrow> s | None \<Rightarrow> [])"

definition d_adapter_name :: "device \<Rightarrow> string" where
  "d_adapter_name d =
     (if d_adapter_path d \<noteq> [] then last_segment (CHR ''/'') (d_adapter_path d) else ADAPTER_NAME_FALLBACK)"

definition d_paired :: "device \<Rightarrow> bool" where
  "d_paired d = bool_prop (d_props d) ''Paired''"

definition d_trusted :: "device \<Rightarrow> bool" where
  "d_trusted d = bool_prop (d_props d) ''Trusted''"

definition d_connected :: "device \<Rightarrow> bool" where
  "d_connected d \<longleftrightarrow> bool_prop (d_props d) ''Connected'' \<and> \<not> d_detached d"

definition d_blocked :: "device \<Rightarrow> bool" where
  "d_blocked d = bool_prop (d_props d) ''Blocked''"

definition d_rssi :: "device \<Rightarrow> int option" where
  "d_rssi d = int_prop (d_props d) ''RSSI''"

definition d_class_of_device :: "device \<Rightarrow> int option" where
  "d_class_of_device d = int_prop (d_props d) ''Class''"

definition d_uuids :: "device \<Rightarrow> string list" where
  "d_uuids d = map lower (strs_prop (d_props d) ''UUIDs'')"

definition is_audio_sink :: "device \<Rightarrow> bool" where
  "is_audio_sink d =
     (if \<exists>uuid \<in> set (d_uuids d).
           (let u_clean = strip (lower uuid)
            in u_clean \<in> set AUDIO_SINK_UUIDS \<or> (\<exists>part \<in> set AUDIO_SERVICE_SHORT_UUIDS. py_in part u_clean))
      then True
      else if (case d_class_of_device d of None \<Rightarrow> False
         | Some cod \<Rightarrow> cod AND CLASS_OF_DEVICE_MAJOR_MASK = MAJOR_DEVICE_CLASS_AUDIO_VIDEO
             \<or> cod AND CLASS_OF_DEVICE_MINOR_MASK \<in> fst ` set MINOR_DEVICE_CLASSES_AUDIO)
      then True
      else let icon = lower (case str_prop (d_props d) ''Icon'' of Some s \<Rightarrow> s | None \<Rightarrow> []);
               name_or_alias = lower ((case d_name d of Some n \<Rightarrow> n | None \<Rightarrow> []) @ '' '' @ d_alias d)
           in if \<exists>hint \<in> set AUDIO_ICON_HINTS. py_in hint icon then True
              else if \<exists>keyword \<in> set AUDIO_NAME_KEYWORDS. py_in keyword name_or_alias then True
              else (d_connected d \<or> d_paired d) \<and> icon \<notin> set NON_AUDIO_ICON_HINTS)"

definition device_type :: "device \<Rightarrow> string" where
  "device_type d =
     (let icon = (case str_prop (d_props d) ''Icon'' of Some s \<Rightarrow> s | None \<Rightarrow> []);
          by_icon = (case find (\<lambda>(hint, label). py_in hint icon) ICON_TO_DEVICE_TYPE of
              Some (hint, label) \<Rightarrow> label
            | None \<Rightarrow> if is_audio_sink d then SPEAKER_DEVICE_TYPE else BLUETOOTH_DEVICE_LABEL)
      in case d_class_of_device d of
           None \<Rightarrow> by_icon
         | Some cod \<Rightarrow>
             (case map_of MINOR_DEVICE_CLASSES_AUDIO (cod AND CLASS_OF_DEVICE_MINOR_MASK) of
                Some label \<Rightarrow> label
              | None \<Rightarrow> if cod AND CLASS_OF_DEVICE_MAJOR_MASK = MAJOR_DEVICE_CLASS_AUDIO_VIDEO
                        then AUDIO_DEVICE_LABEL else by_icon))"

definition update_device :: "dbus_props \<Rightarrow> real \<Rightarrow> device \<Rightarrow> device" where
  "update_device changed now d = d\<lparr>d_props := merge_props changed (d_props d), d_last_seen := now\<rparr>"

definition mark_detached :: "device \<Rightarrow> device" where
  "mark_detached d = d\<lparr>d_detached := True, d_props := set_prop ''Connected'' (PBool False) (d_props d)\<rparr>"

record device_info =
  di_path :: string
  di_adapter_path :: string
  di_adapter_name :: string
  di_address :: string
  di_name :: "string option"
  di_alias :: string
  di_icon :: "string option"
  di_paired :: bool
  di_trusted :: bool
  di_connected :: bool
  di_detached :: bool
  di_blocked :: bool
  di_legacy_pairing :: bool
  di_rssi :: "int option"
  di_tx_power :: "int option"
  di_class_of_device :: "int option"
  di_uuids :: "string list"
  di_is_audio_sink :: bool
  di_device_type :: string
  di_battery_percentage :: "int option"
  di_last_seen :: real

definition device_to_info :: "device \<Rightarrow> device_info" where
  "device_to_info d =
     \<lparr>di_path = d_path d, di_adapter_path = d_adapter_path d, di_adapter_name = d_adapter_name d,
      di_address = d_address d, di_name = d_name d, di_alias = d_alias d,
      di_icon = str_prop (d_props d) ''Icon'', di_paired = d_paired d, di_trusted = d_trusted d,
      di_connected = d_connected d, di_detached = d_detached d, di_blocked = d_blocked d,
      di_legacy_pairing = bool_prop (d_props d) ''LegacyPairing'', di_rssi = d_rssi d,
      di_tx_power = int_prop (d_props d) ''TxPower'', di_class_of_device = d_class_of_device d,
      di_uuids = d_uuids d, di_is_audio_sink = is_audio_sink d, di_device_type = device_type d,
      di_battery_percentage = int_prop (d_props d) ''Percentage'', di_last_seen = d_last_seen d\<rparr>"

section \<open>Calls on the device proxy\<close>

datatype bus_call = CallOk | CallFails string | CallCancelled

definition squash :: "string \<Rightarrow> string" where
  "squash m = remove_char (CHR '' '') (remove_char (CHR ''-'') (lower m))"

lemmas squash_eval = squash_def lower_def remove_char_def char_class_defs char_of_eq_iff

definition connection_busy :: "string \<Rightarrow> bool" where
  "connection_busy m \<longleftrightarrow> py_in ''inprogress'' (squash m) \<or> py_in ''brconnectionbusy'' (squash m)"

definition connect_busy_error :: "device \<Rightarrow> py_exc" where
  "connect_busy_error d =
     OperationInProgress (''Bluetooth connection already in progress for '' @ d_address d)"

definition set_connected :: "bool \<Rightarrow> device \<Rightarrow> device" where
  "set_connected b d = d\<lparr>d_props := set_prop ''Connected'' (PBool b) (d_props d)\<rparr>"

text \<open>
  \<open>connect\<close>: \<open>intro\<close>, \<open>conn\<close> and \<open>prof\<close> are the outcomes of the introspection, of \<open>Connect\<close> and of the
  \<open>ConnectProfile\<close> that follows an \<open>AlreadyConnected\<close> answer.
\<close>

definition device_connect :: "bus_call \<Rightarrow> bus_call \<Rightarrow> bus_call \<Rightarrow> device \<Rightarrow> (py_exc + unit) \<times> device" where
  "device_connect intro conn prof d =
     (if \<not> d_bus d then (Inr (), set_connected True d)
      else case intro of
        CallFails m \<Rightarrow> (Inl (DBusFailure m), d)
      | CallCancelled \<Rightarrow> (Inl CancelledError, d)
      | CallOk \<Rightarrow>
        (case conn of
           CallOk \<Rightarrow> (Inr (), set_connected True d)
         | CallCancelled \<Rightarrow> (Inl CancelledError, d)
         | CallFails m \<Rightarrow>
             if connection_busy m then (Inl (connect_busy_error d), d)
             else if \<not> py_in ''alreadyconnected'' (squash m) then (Inl (DBusFailure m), d)
             else (case prof of
                 CallOk \<Rightarrow> (Inr (), set_connected True d)
               | CallCancelled \<Rightarrow> (Inl CancelledError, d)
               | CallFails p \<Rightarrow>
                   if connection_busy p then (Inl (connect_busy_error d), d)
                   else if \<not> py_in ''alreadyconnected'' (squash p) then (Inl (DBusFailure p), d)
                   else (Inr (), set_connected True d))))"

definition device_disconnect :: "bus_call \<Rightarrow> device \<Rightarrow> (py_exc + unit) \<times> device" where
  "device_disconnect call d =
     (if \<not> d_bus d then (Inr (), set_connected False d)
      else case call of
        CallCancelled \<Rightarrow> (Inl CancelledError, d)
      | _ \<Rightarrow> (Inr (), set_connected False d))"

definition set_paired :: "device \<Rightarrow> device" where
  "set_paired d = d\<lparr>d_props := set_prop ''Paired'' (PBool True) (d_props d)\<rparr>"

definition device_pair :: "bus_call \<Rightarrow> bus_call \<Rightarrow> device \<Rightarrow> (py_exc + unit) \<times> device" where
  "device_pair intro call d =
     (if \<not> d_bus d then (Inr (), set_paired d)
      else case intro of
        CallFails m \<Rightarrow> (Inl (DBusFailure m), d)
      | CallCancelled \<Rightarrow> (Inl CancelledError, d)
      | CallOk \<Rightarrow>
        (case call of
           CallOk \<Rightarrow> (Inr (), set_paired d)
         | CallCancelled \<Rightarrow> (Inl CancelledError, d)
         | CallFails m \<Rightarrow>
             if py_in ''InProgress'' m \<or> py_in ''In Progress'' m \<or> py_in ''br-connection-busy'' m
             then (Inl (OperationInProgress
                          (''Bluetooth pairing already in progress for '' @ d_address d)), d)
             else if py_in ''AlreadyExists'' m \<or> py_in ''AlreadyConnected'' m \<or> py_in ''AlreadyPaired'' m
             then (Inr (), set_paired d)
             else (Inl (DBusFailure m), d)))"

definition device_set_trusted :: "bus_call \<Rightarrow> bool \<Rightarrow> device \<Rightarrow> (py_exc + unit) \<times> device" where
  "device_set_trusted call trusted d =
     (let d' = d\<lparr>d_props := set_prop ''Trusted'' (PBool trusted) (d_props d)\<rparr>
      in if \<not> d_bus d then (Inr (), d')
         else case call of CallCancelled \<Rightarrow> (Inl CancelledError, d) | _ \<Rightarrow> (Inr (), d'))"

section \<open>Facts about devices\<close>

lemma device_setters [simp]:
  "d_path (set_connected b d) = d_path d" "d_detached (set_connected b d) = d_detached d"
  "d_bus (set_connected b d) = d_bus d"
  "d_address (set_connected b d) = d_address d" "d_trusted (set_connected b d) = d_trusted d"
  "d_paired (set_connected b d) = d_paired d" "d_adapter_path (set_connected b d) = d_adapter_path d"
  "d_connected (set_connected b d) \<longleftrightarrow> b \<and> \<not> d_detached d"
  "d_path (mark_detached d) = d_path d" "d_detached (mark_detached d)" "\<not> d_connected (mark_detached d)"
  "d_address (mark_detached d) = d_address d" "d_trusted (mark_detached d) = d_trusted d"
  "d_paired (mark_detached d) = d_paired d"
  "d_path (update_device ch now d) = d_path d" "d_detached (update_device ch now d) = d_detached d"
  "d_path (new_device bus p pr now) = p" "\<not> d_detached (new_device bus p pr now)"
  by (simp_all add: set_connected_def mark_detached_def update_device_def new_device_def d_address_def
        d_trusted_def d_paired_def d_adapter_path_def d_connected_def)

lemma device_connect_cases:
  "device_connect intro conn prof d = (r, d') \<Longrightarrow>
     (r = Inr () \<and> d' = set_connected True d) \<or> ((\<exists>e. r = Inl e) \<and> d' = d)"
  by (auto simp: device_connect_def split: if_splits bus_call.splits)

lemma device_pair_cases:
  "device_pair intro call d = (r, d') \<Longrightarrow>
     (r = Inr () \<and> d' = set_paired d) \<or> ((\<exists>e. r = Inl e) \<and> d' = d)"
  by (auto simp: device_pair_def split: if_splits bus_call.splits)

lemma minor_class_major:
  assumes "cod AND CLASS_OF_DEVICE_MINOR_MASK \<in> fst ` set MINOR_DEVICE_CLASSES_AUDIO"
  shows "cod AND CLASS_OF_DEVICE_MAJOR_MASK = MAJOR_DEVICE_CLASS_AUDIO_VIDEO"
proof -
  let ?m = "cod AND CLASS_OF_DEVICE_MINOR_MASK"
  have "cod AND CLASS_OF_DEVICE_MAJOR_MASK = ?m AND CLASS_OF_DEVICE_MAJOR_MASK"
    by (simp add: and.assoc)
  moreover have "\<forall>m \<in> fst ` set MINOR_DEVICE_CLASSES_AUDIO.
      m AND CLASS_OF_DEVICE_MAJOR_MASK = MAJOR_DEVICE_CLASS_AUDIO_VIDEO"
    by (simp add: bridge_defs)
  ultimately show ?thesis using assms by (metis (no_types))
qed

lemma if_chain:
  "(if a then True else if b then True else if c then True else if d then True else e) \<longleftrightarrow>
     a \<or> b \<or> c \<or> d \<or> e"
  by simp

lemma audio_table_short:
  "u \<in> set AUDIO_SINK_UUIDS \<Longrightarrow> \<exists>part \<in> set AUDIO_SERVICE_SHORT_UUIDS. py_in part u"
  by (auto simp: bridge_defs starts_with_def)

section \<open>Properties\<close>

text \<open>
  The classification of an audio sink, without its redundant steps: a device is one exactly when a
  service identifier contains one of the short audio identifiers, or its major device class is audio,
  or its icon or name carries an audio hint, or it is connected or paired and its icon is not that of
  an input device. The table of full identifiers and the table of minor classes never decide alone.
\<close>

theorem is_audio_sink_iff:
  "is_audio_sink d \<longleftrightarrow>
     (\<exists>uuid \<in> set (d_uuids d). \<exists>part \<in> set AUDIO_SERVICE_SHORT_UUIDS. py_in part (strip (lower uuid))) \<or>
     (\<exists>cod. d_class_of_device d = Some cod \<and>
        cod AND CLASS_OF_DEVICE_MAJOR_MASK = MAJOR_DEVICE_CLASS_AUDIO_VIDEO) \<or>
     (let icon = lower (case str_prop (d_props d) ''Icon'' of Some s \<Rightarrow> s | None \<Rightarrow> []);
          label = lower ((case d_name d of Some n \<Rightarrow> n | None \<Rightarrow> []) @ '' '' @ d_alias d)
      in (\<exists>hint \<in> set AUDIO_ICON_HINTS. py_in hint icon) \<or>
         (\<exists>keyword \<in> set AUDIO_NAME_KEYWORDS. py_in keyword label) \<or>
         ((d_connected d \<or> d_paired d) \<and> icon \<notin> set NON_AUDIO_ICON_HINTS))"
  (is "_ \<longleftrightarrow> ?uuid \<or> ?class \<or> ?rest")
proof -
  have uuid: "(\<exists>uuid \<in> set (d_uuids d). let u = strip (lower uuid)
      in u \<in> set AUDIO_SINK_UUIDS \<or> (\<exists>part \<in> set AUDIO_SERVICE_SHORT_UUIDS. py_in part u)) \<longleftrightarrow> ?uuid"
    unfolding Let_def using audio_table_short by blast
  have cls: "(case d_class_of_device d of None \<Rightarrow> False
         | Some cod \<Rightarrow> cod AND CLASS_OF_DEVICE_MAJOR_MASK = MAJOR_DEVICE_CLASS_AUDIO_VIDEO
             \<or> cod AND CLASS_OF_DEVICE_MINOR_MASK \<in> fst ` set MINOR_DEVICE_CLASSES_AUDIO) \<longleftrightarrow> ?class"
    using minor_class_major
    by (auto split: option.splits)
  show ?thesis unfolding is_audio_sink_def uuid cls unfolding Let_def by (rule if_chain)
qed

text \<open>
  Connecting is all or nothing on the cached record, and a busy controller is always reported as
  such: when the call succeeds exactly the \<open>Connected\<close> property becomes true, when it raises the record
  is untouched, and a failure of \<open>Connect\<close> that names a connection in progress raises
  \<open>BluetoothOperationInProgress\<close> whatever \<open>ConnectProfile\<close> would answer.
\<close>

theorem device_connect_outcome:
  "(case device_connect intro conn prof d of
      (Inr _, d') \<Rightarrow> d' = set_connected True d
    | (Inl _, d') \<Rightarrow> d' = d) \<and>
   (d_bus d \<and> intro = CallOk \<and> conn = CallFails m \<and> connection_busy m \<longrightarrow>
      device_connect intro conn prof d = (Inl (connect_busy_error d), d))"
  by (auto simp: device_connect_def split: bus_call.splits)

theorem device_connect_outcome_witness:
  "let d = new_device True ''/org/bluez/hci0/dev_AA'' [] 0
   in device_connect CallOk (CallFails ''In Progress'') CallOk d
        = (Inl (connect_busy_error d), d)"
proof -
  have "squash ''In Progress'' = ''inprogress''" by (simp add: squash_eval)
  then have "connection_busy ''In Progress''" by (simp add: connection_busy_def starts_with_def)
  then show ?thesis
    using device_connect_outcome [where intro = CallOk and conn = "CallFails ''In Progress''"
            and prof = CallOk and d = "new_device True ''/org/bluez/hci0/dev_AA'' [] 0"
            and m = "''In Progress''"]
    by (simp add: new_device_def)
qed

end
