(* ===== verification/BT_Adapter.thy ===== *)
theory BT_Adapter
  imports BT_Device
begin

text \<open>
  \<open>bluetooth/adapter.py\<close>: the cached properties of a controller and the calls on its proxy, with the
  outcomes of the D-Bus calls as arguments.
\<close>

record adapter =
  a_bus :: bool
  a_path :: string
  a_props :: dbus_props

definition new_adapter :: "bool \<Rightarrow> string \<Rightarrow> dbus_props \<Rightarrow> adapter" where
  "new_adapter bus path properties = \<lparr>a_bus = bus, a_path = path, a_props = properties\<rparr>"

definition a_interface_name :: "adapter \<Rightarrow> string" where
  "a_interface_name a = last_segment (CHR ''/'') (a_path a)"

definition a_address :: "adapter \<Rightarrow> string" where
  "a_address a = (case str_prop (a_props a) ''Address'' of Some s \<Rightarrow> s | None \<Rightarrow> [])"

definition a_name :: "adapter \<Rightarrow> string" where
  "a_name a = (case str_prop (a_props a) ''Name'' of Some s \<Rightarrow> s
     | None \<Rightarrow> BLUETOOTH_ADAPTER_LABEL @ '' ('' @ a_interface_name a @ '')'')"

definition a_alias :: "adapter \<Rightarrow> string" where
  "a_alias a = (case str_prop (a_props a) ''Alias'' of Some s \<Rightarrow> s | None \<Rightarrow> a_name a)"

definition a_powered :: "adapter \<Rightarrow> bool" where
  "a_powered a = bool_prop (a_props a) ''Powered''"

definition a_discovering :: "adapter \<Rightarrow> bool" where
  "a_discovering a = bool_prop (a_props a) ''Discovering''"

definition a_discoverable :: "adapter \<Rightarrow> bool" where
  "a_discoverable a = bool_prop (a_props a) ''Discoverable''"

definition a_pairable :: "adapter \<Rightarrow> bool" where
  "a_pairable a = bool_prop (a_props a) ''Pairable''"

definition update_adapter :: "dbus_props \<Rightarrow> adapter \<Rightarrow> adapter" where
  "update_adapter changed a = a\<lparr>a_props := merge_props changed (a_props a)\<rparr>"

record adapter_info =
  ai_path :: string
  ai_interface :: string
  ai_address :: string
  ai_name :: string
  ai_alias :: string
  ai_powered :: bool
  ai_discoverable :: bool
  ai_discovering :: bool
  ai_pairable :: bool
  ai_class_of_device :: "int option"
  ai_uuids :: "string list"

definition adapter_to_info :: "adapter \<Rightarrow> adapter_info" where
  "adapter_to_info a =
     \<lparr>ai_path = a_path a, ai_interface = a_interface_name a, ai_address = a_address a,
      ai_name = a_name a, ai_alias = a_alias a, ai_powered = a_powered a,
      ai_discoverable = a_discoverable a, ai_discovering = a_discovering a,
      ai_pairable = a_pairable a, ai_class_of_device = int_prop (a_props a) ''Class'',
      ai_uuids = strs_prop (a_props a) ''UUIDs''\<rparr>"

definition set_adapter_flag :: "string \<Rightarrow> bool \<Rightarrow> adapter \<Rightarrow> adapter" where
  "set_adapter_flag key b a = a\<lparr>a_props := set_prop key (PBool b) (a_props a)\<rparr>"

definition adapter_set_power :: "bus_call \<Rightarrow> bool \<Rightarrow> adapter \<Rightarrow> (py_exc + unit) \<times> adapter" where
  "adapter_set_power call powered a =
     (if \<not> a_bus a then (Inr (), set_adapter_flag ''Powered'' powered a)
      else case call of
        CallFails m \<Rightarrow> (Inl (DBusFailure m), a)
      | CallCancelled \<Rightarrow> (Inl CancelledError, a)
      | CallOk \<Rightarrow> (Inr (), set_adapter_flag ''Powered'' powered a))"

definition adapter_set_pairable :: "bus_call \<Rightarrow> bool \<Rightarrow> adapter \<Rightarrow> (py_exc + unit) \<times> adapter" where
  "adapter_set_pairable call pairable a =
     (if \<not> a_bus a then (Inr (), set_adapter_flag ''Pairable'' pairable a)
      else case call of
        CallFails m \<Rightarrow> (Inl (DBusFailure m), a)
      | CallCancelled \<Rightarrow> (Inl CancelledError, a)
      | CallOk \<Rightarrow> (Inr (), set_adapter_flag ''Pairable'' pairable a))"

definition discovery_in_progress :: "string \<Rightarrow> bool" where
  "discovery_in_progress m \<longleftrightarrow> py_in ''InProgress'' m \<or> py_in ''already in progress'' (lower m)"

text \<open>
  \<open>start_discovery\<close>: a refused discovery filter is ignored, a scan that is already running counts as
  started, any other failure of the introspection or of \<open>StartDiscovery\<close> is raised.
\<close>

definition adapter_start_discovery ::
  "bus_call \<Rightarrow> bus_call \<Rightarrow> bus_call \<Rightarrow> adapter \<Rightarrow> (py_exc + unit) \<times> adapter"
where
  "adapter_start_discovery intro set_filter start a =
     (let started = (Inr (), set_adapter_flag ''Discovering'' True a);
          failed = (\<lambda>m. if discovery_in_progress m then started else (Inl (DBusFailure m), a))
      in if \<not> a_bus a then started
         else case intro of
           CallFails m \<Rightarrow> failed m
         | CallCancelled \<Rightarrow> (Inl CancelledError, a)
         | CallOk \<Rightarrow>
             if set_filter = CallCancelled then (Inl CancelledError, a)
             else (case start of
                 CallOk \<Rightarrow> started
               | CallFails m \<Rightarrow> failed m
               | CallCancelled \<Rightarrow> (Inl CancelledError, a)))"

definition adapter_stop_discovery :: "bus_call \<Rightarrow> adapter \<Rightarrow> (py_exc + unit) \<times> adapter" where
  "adapter_stop_discovery call a =
     (let stopped = (Inr (), set_adapter_flag ''Discovering'' False a)
      in if \<not> a_bus a then stopped
         else case call of CallCancelled \<Rightarrow> (Inl CancelledError, a) | _ \<Rightarrow> stopped)"

lemma adapter_flag_simps [simp]:
  "a_path (set_adapter_flag k b a) = a_path a" "a_bus (set_adapter_flag k b a) = a_bus a"
  "a_interface_name (set_adapter_flag k b a) = a_interface_name a"
  "a_pairable (set_adapter_flag k b a) = (if k = ''Pairable'' then b else a_pairable a)"
  "a_discovering (set_adapter_flag k b a) = (if k = ''Discovering'' then b else a_discovering a)"
  by (simp_all add: set_adapter_flag_def a_interface_name_def a_pairable_def a_discovering_def)

lemma stop_discovery_stops:
  "adapter_stop_discovery call a = (Inr (), a') \<Longrightarrow> \<not> a_discovering a'"
  by (auto simp: adapter_stop_discovery_def Let_def split: if_splits bus_call.splits)

lemma stop_discovery_raises_only_cancel:
  "adapter_stop_discovery call a = (Inl e, a') \<Longrightarrow> e = CancelledError \<and> a' = a"
  by (auto simp: adapter_stop_discovery_def Let_def split: if_splits bus_call.splits)

end
