(* ===== verification/BT_Manager.thy ===== *)
theory BT_Manager
  imports BT_Adapter Health
begin

text \<open>
  \<open>bluetooth/manager.py\<close>, the cache: adapters, devices, listeners, D-Bus signals and lookups. Device
  objects have an identity the code compares (\<open>is not dev\<close>), so the \<open>devices\<close> dictionary maps a path to
  an object number and \<open>m_heap\<close> holds the objects; an object that left the dictionary can still be
  held, and changed, by a coroutine. \<open>m_events\<close> is what the listeners were told, oldest first.
\<close>

section \<open>State\<close>

datatype bt_event =
    AdapterAdded adapter_info
  | AdapterRemoved string
  | AdapterUpdated adapter_info
  | DeviceDiscovered device_info
  | DeviceUpdated device_info
  | DeviceRemoved string
  | DBusDisconnected "string option"

record manager =
  m_bus :: "nat option"
  m_signal_bus :: "nat option"
  m_adapters :: "adapter dict"
  m_devices :: "nat dict"
  m_heap :: "nat \<Rightarrow> device"
  m_next :: nat
  m_locked :: "string list"
  m_initialized :: bool
  m_health :: "registry option"
  m_pairing_address :: "string option"
  m_pairing_pin :: "string option"
  m_pairing_expires_at :: real
  m_events :: "bt_event list"

definition new_manager :: "registry option \<Rightarrow> manager" where
  "new_manager health =
     \<lparr>m_bus = None, m_signal_bus = None, m_adapters = [], m_devices = [],
      m_heap = (\<lambda>_. new_device False [] [] 0), m_next = 0, m_locked = [], m_initialized = False,
      m_health = health, m_pairing_address = None, m_pairing_pin = None, m_pairing_expires_at = 0,
      m_events = []\<rparr>"

definition notify :: "bt_event \<Rightarrow> manager \<Rightarrow> manager" where
  "notify ev m = m\<lparr>m_events := m_events m @ [ev]\<rparr>"

definition has_bus :: "manager \<Rightarrow> bool" where
  "has_bus m \<longleftrightarrow> m_bus m \<noteq> None"

text \<open>\<open>self.devices.get(path)\<close>, read through the object table.\<close>

definition device_at :: "manager \<Rightarrow> string \<Rightarrow> device option" where
  "device_at m path = map_option (m_heap m) (dict_get (m_devices m) path)"

definition update_obj :: "nat \<Rightarrow> (device \<Rightarrow> device) \<Rightarrow> manager \<Rightarrow> manager" where
  "update_obj oid f m = m\<lparr>m_heap := (m_heap m)(oid := f (m_heap m oid))\<rparr>"

text \<open>A new device object, not in the dictionary yet: its number and the state that holds it.\<close>

definition alloc_device :: "device \<Rightarrow> manager \<Rightarrow> manager" where
  "alloc_device d m = m\<lparr>m_heap := (m_heap m)(m_next m := d), m_next := Suc (m_next m)\<rparr>"

section \<open>Health observations\<close>

definition observe_bluetooth ::
  "health_state \<Rightarrow> failure_class option \<Rightarrow> string option \<Rightarrow> real \<Rightarrow> manager \<Rightarrow> manager"
where
  "observe_bluetooth state failure detail now m =
     (case m_health m of None \<Rightarrow> m
      | Some h \<Rightarrow> m\<lparr>m_health := Some (observe_component h COMPONENT_BLUETOOTH state True failure detail
                                     (Some SOURCE_BLUEZ) now now)\<rparr>)"

definition observe_speaker_offline :: "device \<Rightarrow> real \<Rightarrow> manager \<Rightarrow> manager" where
  "observe_speaker_offline d now m =
     (case m_health m of None \<Rightarrow> m
      | Some h \<Rightarrow> m\<lparr>m_health := Some (keep_on_error h
           (observe_speaker h (d_address d) SP_DISCONNECTED None None 0 None now now))\<rparr>)"

section \<open>D-Bus signals\<close>

definition ADAPTER_INTERFACE :: string where "ADAPTER_INTERFACE = ''org.bluez.Adapter1''"
definition DEVICE_INTERFACE :: string where "DEVICE_INTERFACE = ''org.bluez.Device1''"

definition is_known_speaker :: "device \<Rightarrow> bool" where
  "is_known_speaker d \<longleftrightarrow> d_trusted d \<or> d_paired d"

definition drop_detached_duplicates :: "device \<Rightarrow> manager \<Rightarrow> manager" where
  "drop_detached_duplicates d m =
     m\<lparr>m_devices := filter (\<lambda>(other_path, oid).
         \<not> (other_path \<noteq> d_path d \<and> d_detached (m_heap m oid) \<and> d_address (m_heap m oid) = d_address d))
       (m_devices m)\<rparr>"

text \<open>The new object of \<open>path\<close>: duplicates are dropped, then it replaces what the path held.\<close>

definition install_device :: "string \<Rightarrow> dbus_props \<Rightarrow> real \<Rightarrow> manager \<Rightarrow> manager" where
  "install_device path properties now m =
     (let d = new_device (has_bus m) path properties now;
          oid = m_next m;
          m = drop_detached_duplicates d (alloc_device d m)
      in m\<lparr>m_devices := dict_set path oid (m_devices m)\<rparr>)"

definition on_interfaces_added :: "string \<Rightarrow> dbus_props dict \<Rightarrow> real \<Rightarrow> manager \<Rightarrow> manager" where
  "on_interfaces_added path interfaces now m =
     (let m = (case dict_get interfaces ADAPTER_INTERFACE of None \<Rightarrow> m
           | Some properties \<Rightarrow>
               (let a = new_adapter (has_bus m) path properties
                in notify (AdapterAdded (adapter_to_info a))
                     (m\<lparr>m_adapters := dict_set path a (m_adapters m)\<rparr>)))
      in case dict_get interfaces DEVICE_INTERFACE of None \<Rightarrow> m
         | Some properties \<Rightarrow>
             (let d = new_device (has_bus m) path properties now
              in notify (DeviceDiscovered (device_to_info d)) (install_device path properties now m)))"

definition on_interfaces_removed :: "string \<Rightarrow> string list \<Rightarrow> real \<Rightarrow> manager \<Rightarrow> manager" where
  "on_interfaces_removed path interfaces now m =
     (let m = (if ADAPTER_INTERFACE \<in> set interfaces \<and> dict_get (m_adapters m) path \<noteq> None
               then notify (AdapterRemoved path) (m\<lparr>m_adapters := dict_del path (m_adapters m)\<rparr>) else m)
      in case dict_get (m_devices m) path of
           None \<Rightarrow> m
         | Some oid \<Rightarrow>
             if DEVICE_INTERFACE \<notin> set interfaces then m
             else if is_known_speaker (m_heap m oid)
             then (let m = update_obj oid mark_detached m
                   in notify (DeviceUpdated (device_to_info (m_heap m oid)))
                        (observe_speaker_offline (m_heap m oid) now m))
             else notify (DeviceRemoved path) (m\<lparr>m_devices := dict_del path (m_devices m)\<rparr>))"

definition on_properties_changed :: "string \<Rightarrow> string \<Rightarrow> dbus_props \<Rightarrow> real \<Rightarrow> manager \<Rightarrow> manager" where
  "on_properties_changed path iface changed now m =
     (if iface = ADAPTER_INTERFACE \<and> dict_get (m_adapters m) path \<noteq> None
      then (let a = update_adapter changed (the (dict_get (m_adapters m) path))
            in notify (AdapterUpdated (adapter_to_info a))
                 (m\<lparr>m_adapters := dict_set path a (m_adapters m)\<rparr>))
      else if iface = DEVICE_INTERFACE
      then (case dict_get (m_devices m) path of
              Some oid \<Rightarrow>
                (let m = update_obj oid (update_device changed now) m
                 in notify (DeviceUpdated (device_to_info (m_heap m oid))) m)
            | None \<Rightarrow>
                notify (DeviceDiscovered (device_to_info (new_device (has_bus m) path changed now)))
                  (install_device path changed now m))
      else m)"

text \<open>
  \<open>_handle_dbus_message\<close> dispatches a message by member and interface; anything else, and a message
  whose body is too short, is ignored.
\<close>

datatype dbus_message =
    InterfacesAdded string "dbus_props dict"
  | InterfacesRemoved string "string list"
  | PropertiesChanged string string dbus_props
  | OtherMessage

fun handle_dbus_message :: "dbus_message \<Rightarrow> real \<Rightarrow> manager \<Rightarrow> manager" where
  "handle_dbus_message (InterfacesAdded path interfaces) now m = on_interfaces_added path interfaces now m"
| "handle_dbus_message (InterfacesRemoved path interfaces) now m = on_interfaces_removed path interfaces now m"
| "handle_dbus_message (PropertiesChanged path iface changed) now m =
     on_properties_changed path iface changed now m"
| "handle_dbus_message OtherMessage now m = m"

text \<open>\<open>_load_managed_objects\<close>: the loop over what \<open>GetManagedObjects\<close> returned.\<close>

fun load_managed_objects :: "(string \<times> dbus_props dict) list \<Rightarrow> real \<Rightarrow> manager \<Rightarrow> manager" where
  "load_managed_objects [] now m = m"
| "load_managed_objects ((path, interfaces) # objects) now m =
     (let m = (case dict_get interfaces ADAPTER_INTERFACE of None \<Rightarrow> m
           | Some properties \<Rightarrow>
               m\<lparr>m_adapters := dict_set path (new_adapter (has_bus m) path properties) (m_adapters m)\<rparr>);
          m = (case dict_get interfaces DEVICE_INTERFACE of None \<Rightarrow> m
           | Some properties \<Rightarrow>
               (let oid = m_next m; m = alloc_device (new_device (has_bus m) path properties now) m
                in m\<lparr>m_devices := dict_set path oid (m_devices m)\<rparr>))
      in load_managed_objects objects now m)"

definition mark_dbus_disconnected :: "string option \<Rightarrow> real \<Rightarrow> manager \<Rightarrow> manager" where
  "mark_dbus_disconnected detail now m =
     notify (DBusDisconnected detail)
       (observe_bluetooth HS_UNAVAILABLE (Some FC_DBUS_DISCONNECTED)
          (py_or detail (Some ''D-Bus transport disconnected'')) now
          (m\<lparr>m_bus := None, m_initialized := False, m_adapters := [], m_devices := []\<rparr>))"

section \<open>Lookups\<close>

definition get_adapters :: "manager \<Rightarrow> adapter_info list" where
  "get_adapters m = map (adapter_to_info \<circ> snd) (m_adapters m)"

definition get_devices :: "bool \<Rightarrow> manager \<Rightarrow> device_info list" where
  "get_devices audio_only m =
     (let devices = map (\<lambda>(path, oid). device_to_info (m_heap m oid)) (m_devices m)
      in if audio_only then filter di_is_audio_sink devices else devices)"

text \<open>The first cached object whose address normalises to the one asked for.\<close>

definition get_device_by_address :: "manager \<Rightarrow> string \<Rightarrow> py_exc + nat option" where
  "get_device_by_address m address =
     (case normalize_address address of
        Inl e \<Rightarrow> Inl e
      | Inr target \<Rightarrow>
          Inr (find (\<lambda>oid. normalize_address (d_address (m_heap m oid)) = Inr target)
                 (map snd (m_devices m))))"

definition get_adapter_by_name :: "manager \<Rightarrow> string \<Rightarrow> py_exc + adapter option" where
  "get_adapter_by_name m name =
     (case validate_adapter_name name of
        Inl e \<Rightarrow> Inl e
      | Inr name \<Rightarrow>
          Inr (find (\<lambda>a. a_interface_name a = name \<or> ends_with name (a_path a)) (map snd (m_adapters m))))"

section \<open>The cache invariant\<close>

text \<open>
  Every entry of the dictionaries is filed under its own path, every object number is allocated, no two
  paths share an object, and the health registry keeps its own invariant.
\<close>

definition device_filed :: "manager \<Rightarrow> string \<Rightarrow> nat \<Rightarrow> bool" where
  "device_filed m path oid \<longleftrightarrow> oid < m_next m \<and> d_path (m_heap m oid) = path"

definition manager_ok :: "manager \<Rightarrow> bool" where
  "manager_ok m \<longleftrightarrow>
     wf_dict (m_adapters m) \<and> dict_all (\<lambda>path a. a_path a = path) (m_adapters m) \<and>
     wf_dict (m_devices m) \<and> dict_all (device_filed m) (m_devices m) \<and>
     (case m_health m of None \<Rightarrow> True | Some h \<Rightarrow> registry_ok h)"

lemma device_filed_simps [simp]:
  "device_filed (m\<lparr>m_events := x\<rparr>) = device_filed m" "device_filed (m\<lparr>m_adapters := as\<rparr>) = device_filed m"
  "device_filed (m\<lparr>m_devices := ds\<rparr>) = device_filed m" "device_filed (m\<lparr>m_health := h\<rparr>) = device_filed m"
  by (simp_all add: device_filed_def fun_eq_iff)

lemma wf_dict_filter: "wf_dict d \<Longrightarrow> wf_dict (filter P d)"
  by (simp add: wf_dict_def distinct_map_filter)

lemma dict_get_filter:
  "wf_dict d \<Longrightarrow> dict_get (filter P d) k =
     (case dict_get d k of Some v \<Rightarrow> if P (k, v) then Some v else None | None \<Rightarrow> None)"
  by (induction d) (auto simp: wf_dict_def map_of_eq_None_iff split: option.splits)

lemma new_manager_ok:
  "(case health of None \<Rightarrow> True | Some h \<Rightarrow> registry_ok h) \<Longrightarrow> manager_ok (new_manager health)"
  by (simp add: manager_ok_def new_manager_def)

lemma manager_ok_notify [simp]: "manager_ok (notify ev m) \<longleftrightarrow> manager_ok m"
  by (simp add: manager_ok_def notify_def device_filed_def)

lemma manager_ok_adapters:
  "manager_ok m \<Longrightarrow> wf_dict as \<Longrightarrow> dict_all (\<lambda>path a. a_path a = path) as \<Longrightarrow>
     manager_ok (m\<lparr>m_adapters := as\<rparr>)"
  by (simp add: manager_ok_def device_filed_def)

lemma manager_ok_health:
  "manager_ok m \<Longrightarrow> registry_ok h \<Longrightarrow> manager_ok (m\<lparr>m_health := Some h\<rparr>)"
  by (simp add: manager_ok_def)

lemma manager_ok_registry: "manager_ok m \<Longrightarrow> m_health m = Some h \<Longrightarrow> registry_ok h"
  by (simp add: manager_ok_def)

lemma manager_ok_observe_bluetooth: "manager_ok m \<Longrightarrow> manager_ok (observe_bluetooth st f dt now m)"
  by (auto simp: observe_bluetooth_def split: option.splits
      intro: manager_ok_health observe_component_ok manager_ok_registry)

lemma keep_observed_ok:
  "registry_ok h \<Longrightarrow> registry_ok (keep_on_error h (observe_speaker h a st f dt n r t1 t2))"
  using observe_speaker_ok by (auto simp: keep_on_error_def split: sum.splits)

lemma manager_ok_observe_speaker: "manager_ok m \<Longrightarrow> manager_ok (observe_speaker_offline d now m)"
  by (auto simp: observe_speaker_offline_def split: option.splits
      intro: manager_ok_health keep_observed_ok manager_ok_registry)

lemma manager_ok_devices:
  "manager_ok m \<Longrightarrow> wf_dict ds \<Longrightarrow> dict_all (device_filed m) ds \<Longrightarrow> manager_ok (m\<lparr>m_devices := ds\<rparr>)"
  by (simp add: manager_ok_def device_filed_def)

lemma manager_ok_forget: "manager_ok m \<Longrightarrow> manager_ok (m\<lparr>m_devices := dict_del path (m_devices m)\<rparr>)"
  by (rule manager_ok_devices) (auto simp: manager_ok_def)

lemma manager_ok_update_obj:
  "manager_ok m \<Longrightarrow> (\<And>d. d_path (f d) = d_path d) \<Longrightarrow> manager_ok (update_obj oid f m)"
  by (auto simp: manager_ok_def device_filed_def update_obj_def dict_all_def)

lemma alloc_device_filed: "device_filed m path oid \<Longrightarrow> device_filed (alloc_device d m) path oid"
  by (simp add: device_filed_def alloc_device_def)

lemma manager_ok_alloc: "manager_ok m \<Longrightarrow> manager_ok (alloc_device d m)"
  using alloc_device_filed [of m _ _ d]
  by (simp add: manager_ok_def dict_all_def) (simp add: alloc_device_def)

lemma manager_ok_drop: "manager_ok m \<Longrightarrow> manager_ok (drop_detached_duplicates d m)"
  unfolding drop_detached_duplicates_def
  by (rule manager_ok_devices) (auto simp: manager_ok_def dict_all_def wf_dict_filter dict_get_filter
      split: option.splits if_splits)

lemma manager_ok_file:
  assumes "manager_ok m" and "oid < m_next m" and "d_path (m_heap m oid) = path"
  shows "manager_ok (m\<lparr>m_devices := dict_set path oid (m_devices m)\<rparr>)"
  using assms by (intro manager_ok_devices dict_all_set) (auto simp: manager_ok_def device_filed_def)

lemma drop_detached_heap [simp]:
  "m_heap (drop_detached_duplicates d m) = m_heap m" "m_next (drop_detached_duplicates d m) = m_next m"
  by (simp_all add: drop_detached_duplicates_def)

lemma alloc_device_simps [simp]:
  "m_heap (alloc_device d m) = (m_heap m)(m_next m := d)" "m_next (alloc_device d m) = Suc (m_next m)"
  "m_devices (alloc_device d m) = m_devices m"
  by (simp_all add: alloc_device_def)

lemma manager_ok_install: "manager_ok m \<Longrightarrow> manager_ok (install_device path properties now m)"
  unfolding install_device_def Let_def
  by (rule manager_ok_file) (simp_all add: manager_ok_drop manager_ok_alloc)

lemma manager_ok_new_adapter:
  "manager_ok m \<Longrightarrow> a_path a = path \<Longrightarrow> manager_ok (m\<lparr>m_adapters := dict_set path a (m_adapters m)\<rparr>)"
  by (rule manager_ok_adapters) (auto simp: manager_ok_def)

lemma manager_ok_drop_adapter:
  "manager_ok m \<Longrightarrow> manager_ok (m\<lparr>m_adapters := dict_del path (m_adapters m)\<rparr>)"
  by (rule manager_ok_adapters) (auto simp: manager_ok_def)

lemmas manager_ok_steps =
  manager_ok_install manager_ok_new_adapter manager_ok_drop_adapter manager_ok_forget manager_ok_update_obj
  manager_ok_observe_bluetooth manager_ok_observe_speaker

lemma manager_ok_added: "manager_ok m \<Longrightarrow> manager_ok (on_interfaces_added path interfaces now m)"
  unfolding on_interfaces_added_def
  by (simp add: Let_def new_adapter_def manager_ok_steps split: option.splits)

lemma manager_ok_removed: "manager_ok m \<Longrightarrow> manager_ok (on_interfaces_removed path interfaces now m)"
  unfolding on_interfaces_removed_def
  by (simp add: Let_def manager_ok_steps split: option.splits)

lemma filed_adapter: "manager_ok m \<Longrightarrow> dict_get (m_adapters m) path = Some a \<Longrightarrow> a_path a = path"
  by (simp add: manager_ok_def dict_all_def)

lemma filed_device:
  "manager_ok m \<Longrightarrow> dict_get (m_devices m) path = Some oid \<Longrightarrow> oid < m_next m \<and> d_path (m_heap m oid) = path"
  by (simp add: manager_ok_def dict_all_def device_filed_def)

lemma manager_ok_changed: "manager_ok m \<Longrightarrow> manager_ok (on_properties_changed path iface changed now m)"
  unfolding on_properties_changed_def
  by (auto simp: Let_def update_adapter_def filed_adapter intro: manager_ok_steps split: option.splits)

lemma handle_dbus_message_ok: "manager_ok m \<Longrightarrow> manager_ok (handle_dbus_message msg now m)"
  by (cases msg) (simp_all add: manager_ok_added manager_ok_removed manager_ok_changed)

interpretation bluez: invariant_machine "\<lambda>m (msg, now). handle_dbus_message msg now m" manager_ok
  by unfold_locales (auto intro: handle_dbus_message_ok)

lemma new_registered_manager_ok: "manager_ok (new_manager (Some new_registry))"
  by (rule new_manager_ok) (simp add: new_registry_ok)

lemma filed_distinct:
  assumes "manager_ok m" "dict_get (m_devices m) p = Some i" "dict_get (m_devices m) q = Some j" "p \<noteq> q"
  shows "i \<noteq> j"
  using filed_device [OF assms(1,2)] filed_device [OF assms(1,3)] assms(4) by auto

lemma devices_simps [simp]:
  "m_devices (notify ev m) = m_devices m" "m_heap (notify ev m) = m_heap m"
  "m_events (notify ev m) = m_events m @ [ev]"
  "m_devices (observe_speaker_offline d now m) = m_devices m"
  "m_heap (observe_speaker_offline d now m) = m_heap m"
  "m_devices (update_obj oid f m) = m_devices m"
  "m_heap (update_obj oid f m) = (m_heap m)(oid := f (m_heap m oid))"
  by (simp_all add: notify_def update_obj_def observe_speaker_offline_def split: option.splits)

text \<open>Looking a device up by address depends on the entries alone.\<close>

lemma find_some_iff:
  "find P xs = Some x \<Longrightarrow> x \<in> set xs \<and> P x"
  by (induction xs) (auto split: if_splits)

lemma find_none_iff: "find P xs = None \<longleftrightarrow> (\<forall>x \<in> set xs. \<not> P x)"
  by (induction xs) auto

lemma devices_values:
  "wf_dict (m_devices m) \<Longrightarrow> oid \<in> set (map snd (m_devices m)) \<longleftrightarrow> (\<exists>path. dict_get (m_devices m) path = Some oid)"
  by (force simp: dict_get_in [symmetric])

section \<open>Properties\<close>

text \<open>
  From a fresh manager, any sequence of BlueZ signals leaves a well-formed cache: every adapter and
  device is filed under its own object path, no path has two entries, and the health registry keeps
  its invariant.
\<close>

theorem bluez_cache_invariant:
  "manager_ok (foldl (\<lambda>m (msg, now). handle_dbus_message msg now m) (new_manager (Some new_registry)) msgs)"
  by (rule bluez.run_ok [OF new_registered_manager_ok])

text \<open>
  What BlueZ withdrawing a device does to the cache. A speaker (a trusted or paired device) is kept:
  its object stays under its path, is detached and no longer connected, and the listeners get an
  update. Any other device is forgotten and its removal announced. No other entry changes.
\<close>

theorem removed_signal_spec:
  assumes "manager_ok m" "dict_get (m_devices m) path = Some oid"
    "DEVICE_INTERFACE \<in> set interfaces" "ADAPTER_INTERFACE \<notin> set interfaces"
  shows "let d = m_heap m oid; m' = handle_dbus_message (InterfacesRemoved path interfaces) now m
         in device_at m' path = (if is_known_speaker d then Some (mark_detached d) else None) \<and>
            m_events m' = m_events m @
              [if is_known_speaker d then DeviceUpdated (device_to_info (mark_detached d)) else DeviceRemoved path] \<and>
            (\<forall>other. other \<noteq> path \<longrightarrow> device_at m' other = device_at m other)"
proof -
  have "dict_get (m_devices m) other = Some j \<Longrightarrow> other \<noteq> path \<Longrightarrow> j \<noteq> oid" for other j
    using filed_distinct [OF assms(1) _ assms(2)] by blast
  then have frame: "map_option ((m_heap m)(oid := d)) (dict_get (m_devices m) other) =
      map_option (m_heap m) (dict_get (m_devices m) other)" if "other \<noteq> path" for other d
    using that by (cases "dict_get (m_devices m) other") auto
  have events: "m_events (observe_speaker_offline d now x) = m_events x"
    "m_events (update_obj oid f x) = m_events x" for d x f
    by (simp_all add: observe_speaker_offline_def update_obj_def split: option.splits)
  show ?thesis
    using assms frame by (simp add: on_interfaces_removed_def Let_def device_at_def events)
qed

text \<open>One cached speaker: what a signal leaves of a fresh manager.\<close>

definition speaker_signal :: "string \<Rightarrow> dbus_props \<Rightarrow> dbus_message" where
  "speaker_signal path properties = InterfacesAdded path [(DEVICE_INTERFACE, properties)]"

definition one_speaker :: "string \<Rightarrow> dbus_props \<Rightarrow> manager" where
  "one_speaker path properties =
     handle_dbus_message (speaker_signal path properties) 0 (new_manager (Some new_registry))"

lemma one_speaker_ok: "manager_ok (one_speaker path properties)"
  unfolding one_speaker_def by (rule handle_dbus_message_ok [OF new_registered_manager_ok])

lemma one_speaker_simps [simp]:
  "m_devices (one_speaker path properties) = [(path, 0)]"
  "m_heap (one_speaker path properties) 0 = new_device False path properties 0"
  by (simp_all add: one_speaker_def speaker_signal_def on_interfaces_added_def Let_def install_device_def
      new_manager_def notify_def alloc_device_def drop_detached_duplicates_def has_bus_def
      ADAPTER_INTERFACE_def DEVICE_INTERFACE_def)

theorem removed_signal_spec_witness:
  "let m = one_speaker ''/d'' [(''Paired'', Plain (PBool True))];
       m' = handle_dbus_message (InterfacesRemoved ''/d'' [DEVICE_INTERFACE]) 9 m
   in device_at m' ''/d'' = Some (mark_detached (m_heap m 0))"
  using removed_signal_spec [where m = "one_speaker ''/d'' [(''Paired'', Plain (PBool True))]" and path = "''/d''"
      and oid = 0 and interfaces = "[DEVICE_INTERFACE]" and now = 9]
  by (simp add: one_speaker_ok Let_def is_known_speaker_def new_device_def d_paired_def bool_prop_def get_prop_def
      ADAPTER_INTERFACE_def DEVICE_INTERFACE_def)

lemma install_device_at:
  assumes "manager_ok m" "other \<noteq> path"
  shows "device_at (install_device path properties now m) other =
     (case device_at m other of None \<Rightarrow> None
      | Some d \<Rightarrow> if d_detached d \<and> d_address d = d_address (new_device (has_bus m) path properties now)
                  then None else Some d)"
proof -
  have "wf_dict (m_devices m)" using assms(1) by (simp add: manager_ok_def)
  then show ?thesis
    using filed_device [OF assms(1)] assms(2)
    by (fastforce simp: install_device_def Let_def device_at_def drop_detached_duplicates_def dict_get_filter
        split: option.splits)
qed

text \<open>
  A rediscovered device replaces its detached records: after BlueZ announces a device, the cache
  holds a fresh attached object under its path, no detached object with the same address anywhere,
  and every other entry as it was.
\<close>

theorem added_signal_replaces_detached:
  assumes "manager_ok m" "dict_get interfaces DEVICE_INTERFACE = Some properties"
  shows "let m' = handle_dbus_message (InterfacesAdded path interfaces) now m;
             d = new_device (has_bus m) path properties now
         in device_at m' path = Some d \<and>
            (\<forall>other. other \<noteq> path \<longrightarrow> device_at m' other =
               (case device_at m other of None \<Rightarrow> None
                | Some old \<Rightarrow> if d_detached old \<and> d_address old = d_address d then None else Some old))"
proof -
  let ?m = "case dict_get interfaces ADAPTER_INTERFACE of None \<Rightarrow> m
     | Some properties \<Rightarrow> (let a = new_adapter (has_bus m) path properties
         in notify (AdapterAdded (adapter_to_info a)) (m\<lparr>m_adapters := dict_set path a (m_adapters m)\<rparr>))"
  have ok: "manager_ok ?m"
    using assms(1) by (simp add: Let_def new_adapter_def manager_ok_steps split: option.splits)
  have same: "device_at ?m other = device_at m other" "has_bus ?m = has_bus m" for other
    by (simp_all add: Let_def device_at_def has_bus_def notify_def split: option.splits)
  have at: "device_at (install_device path properties now x) path = Some (new_device (has_bus x) path properties now)"
    for x by (simp add: install_device_def Let_def device_at_def)
  have ev: "device_at (notify e x) other = device_at x other" for e x other
    by (simp add: device_at_def)
  show ?thesis
    using install_device_at [OF ok, of _ path properties now] at [of ?m] assms(2)
    unfolding same handle_dbus_message.simps on_interfaces_added_def
    by (simp only: Let_def ev option.case simp_thms) blast
qed

theorem added_signal_replaces_detached_witness:
  "let m = one_speaker ''/d'' [(''Paired'', Plain (PBool True))];
       m' = handle_dbus_message (speaker_signal ''/e'' []) 9 m
   in device_at m' ''/e'' = Some (new_device (has_bus m) ''/e'' [] 9)"
  using added_signal_replaces_detached [where m = "one_speaker ''/d'' [(''Paired'', Plain (PBool True))]"
      and path = "''/e''" and interfaces = "[(DEVICE_INTERFACE, [])]" and properties = "[]" and now = 9]
  by (simp add: one_speaker_ok Let_def speaker_signal_def)

text \<open>
  Looking a device up by address: an address that does not normalise raises, otherwise the answer is
  an object of the cache whose own address normalises to the same octets, and there is no answer only
  when no cached device has the address.
\<close>

theorem get_device_by_address_spec:
  assumes "manager_ok m"
  shows "case get_device_by_address m address of
      Inl e \<Rightarrow> normalize_address address = Inl e
    | Inr (Some oid) \<Rightarrow> device_at m (d_path (m_heap m oid)) = Some (m_heap m oid) \<and>
        (\<exists>target. normalize_address address = Inr target \<and> normalize_address (d_address (m_heap m oid)) = Inr target)
    | Inr None \<Rightarrow> (\<exists>target. normalize_address address = Inr target \<and>
        (\<forall>path d. device_at m path = Some d \<longrightarrow> normalize_address (d_address d) \<noteq> Inr target))"
proof -
  have wf: "wf_dict (m_devices m)" using assms by (simp add: manager_ok_def)
  have filed: "dict_get (m_devices m) (d_path (m_heap m oid)) = Some oid"
    if mem: "oid \<in> set (map snd (m_devices m))" for oid
  proof -
    obtain path where path: "dict_get (m_devices m) path = Some oid"
      using mem unfolding devices_values [OF wf] by blast
    then show ?thesis using filed_device [OF assms path] by simp
  qed
  have cached: "dict_get (m_devices m) path = Some oid \<Longrightarrow> oid \<in> set (map snd (m_devices m))" for path oid
    unfolding devices_values [OF wf] by blast
  show ?thesis
    using filed cached
    by (auto simp: get_device_by_address_def device_at_def find_none_iff simp del: set_map
        split: sum.splits option.splits dest!: find_some_iff)
qed

theorem get_device_by_address_spec_witness:
  "get_device_by_address (one_speaker ''/d'' []) ''aa:bb:cc:11:22:33'' = Inr None"
proof -
  have n: "normalize_address ''aa:bb:cc:11:22:33'' = Inr ''aa:bb:cc:11:22:33''"
    by (simp add: address_eval)
  have e: "d_address (new_device False ''/d'' [] 0) = []"
    by (simp add: new_device_def d_address_def str_prop_def get_prop_def)
  have u: "normalize_address [] = Inl address_error" by (simp add: address_eval)
  have "get_device_by_address (one_speaker ''/d'' []) ''aa:bb:cc:11:22:33'' \<noteq> Inl x" for x
    using get_device_by_address_spec [OF one_speaker_ok [of "''/d''" "[]"], of "''aa:bb:cc:11:22:33''"] n
    by auto
  then show ?thesis
    by (simp add: get_device_by_address_def n e u)
qed

end
