(* ===== verification/Async.thy ===== *)
theory Async
  imports Bridge_Prelude
begin

text \<open>
  Coroutines as actions, for every component of the bridge that awaits. An action runs on the state of its
  component; at every \<open>await\<close> that may suspend it consumes one entry of a timetable, which says what the
  other tasks did to the state meanwhile (\<open>su_others\<close>), the clock at resumption, and, in the extension a
  component adds to the record, how the awaited call ended. Between two suspensions nothing else runs, as
  on the event loop. \<open>CancelledError\<close> is not an \<open>Exception\<close>, so \<open>except Exception\<close> does not catch it.
\<close>

section \<open>Actions\<close>

record 's pause =
  su_others :: "'s \<Rightarrow> 's"
  su_now :: real

type_synonym ('s, 'z) timetable = "nat \<Rightarrow> ('s, 'z) pause_scheme"
type_synonym ('s, 'z, 'a) coroutine = "('s, 'z) timetable \<Rightarrow> nat \<times> 's \<Rightarrow> (py_exc + 'a) \<times> nat \<times> 's"

definition ret :: "'a \<Rightarrow> ('s, 'z, 'a) coroutine" where
  "ret x sc s = (Inr x, s)"

definition throw :: "py_exc \<Rightarrow> ('s, 'z, 'a) coroutine" where
  "throw e sc s = (Inl e, s)"

definition and_then :: "('s, 'z, 'a) coroutine \<Rightarrow> ('a \<Rightarrow> ('s, 'z, 'b) coroutine) \<Rightarrow> ('s, 'z, 'b) coroutine" where
  "and_then f g sc s = (case f sc s of (Inl e, s') \<Rightarrow> (Inl e, s') | (Inr x, s') \<Rightarrow> g x sc s')"

text \<open>\<open>try: f except Exception as e: h(e)\<close>\<close>

definition try_catch :: "('s, 'z, 'a) coroutine \<Rightarrow> (py_exc \<Rightarrow> ('s, 'z, 'a) coroutine) \<Rightarrow> ('s, 'z, 'a) coroutine" where
  "try_catch f h sc s =
     (case f sc s of
        (Inl e, s') \<Rightarrow> if e = CancelledError then (Inl e, s') else h e sc s'
      | (Inr x, s') \<Rightarrow> (Inr x, s'))"

text \<open>\<open>try: f finally: g\<close>: an error of \<open>g\<close> replaces the outcome of \<open>f\<close>.\<close>

definition try_finally :: "('s, 'z, 'a) coroutine \<Rightarrow> ('s, 'z, unit) coroutine \<Rightarrow> ('s, 'z, 'a) coroutine" where
  "try_finally f g sc s =
     (case f sc s of (r, s') \<Rightarrow>
        (case g sc s' of (Inl e, s'') \<Rightarrow> (Inl e, s'') | (Inr _, s'') \<Rightarrow> (r, s'')))"

definition read :: "('s \<Rightarrow> 'a) \<Rightarrow> ('s, 'z, 'a) coroutine" where
  "read f sc s = (Inr (f (snd s)), s)"

definition modify :: "('s \<Rightarrow> 's) \<Rightarrow> ('s, 'z, unit) coroutine" where
  "modify f sc s = (Inr (), (fst s, f (snd s)))"

text \<open>A lookup that may raise.\<close>

definition query :: "('s \<Rightarrow> py_exc + 'a) \<Rightarrow> ('s, 'z, 'a) coroutine" where
  "query f sc s = (f (snd s), s)"

definition from_sum :: "py_exc + 'a \<Rightarrow> ('s, 'z, 'a) coroutine" where
  "from_sum r sc s = (r, s)"

definition suspend :: "(('s, 'z) pause_scheme \<Rightarrow> 's \<Rightarrow> (py_exc + 'a) \<times> 's) \<Rightarrow> ('s, 'z, 'a) coroutine" where
  "suspend f sc s =
     (case f (sc (fst s)) (su_others (sc (fst s)) (snd s)) of (r, m) \<Rightarrow> (r, (Suc (fst s), m)))"

lemmas act_defs = ret_def throw_def and_then_def try_catch_def try_finally_def read_def modify_def
  query_def from_sum_def suspend_def

section \<open>Guarantees\<close>

text \<open>
  \<open>preserves P f\<close>: the action keeps \<open>P\<close> on every outcome, whatever the other tasks do as long as they keep
  it themselves. The rules follow the structure of the coroutines.
\<close>

definition others_keep :: "('s \<Rightarrow> bool) \<Rightarrow> ('s, 'z) timetable \<Rightarrow> bool" where
  "others_keep P sc \<longleftrightarrow> (\<forall>n m. P m \<longrightarrow> P (su_others (sc n) m))"

definition preserves :: "('s \<Rightarrow> bool) \<Rightarrow> ('s, 'z, 'a) coroutine \<Rightarrow> bool" where
  "preserves P f \<longleftrightarrow> (\<forall>sc s. others_keep P sc \<longrightarrow> P (snd s) \<longrightarrow> P (snd (snd (f sc s))))"

named_theorems keeps

lemma preserves_run: "preserves P f \<Longrightarrow> others_keep P sc \<Longrightarrow> P (snd s) \<Longrightarrow> P (snd (snd (f sc s)))"
  unfolding preserves_def by blast

lemma preservesD: "preserves P f \<Longrightarrow> others_keep P sc \<Longrightarrow> P (snd s) \<Longrightarrow> f sc s = (r, s') \<Longrightarrow> P (snd s')"
  unfolding preserves_def by (metis snd_conv)

lemma preserves_basic [keeps]:
  "preserves P (ret x)" "preserves P (throw e)" "preserves P (read g)" "preserves P (query q)"
  "preserves P (from_sum r)"
  by (simp_all add: preserves_def act_defs)

lemma preserves_modify [keeps]: "(\<And>m. P m \<Longrightarrow> P (g m)) \<Longrightarrow> preserves P (modify g)"
  by (simp add: preserves_def act_defs)

lemma preserves_and_then [keeps]:
  assumes f: "preserves P (f :: ('s, 'z, 'a) coroutine)" and g: "\<And>x. preserves P (g x)"
  shows "preserves P (and_then f g)"
  unfolding preserves_def
proof (intro allI impI)
  fix sc :: "('s, 'z) timetable" and s :: "nat \<times> 's" assume sc: "others_keep P sc" and s: "P (snd s)"
  obtain r s' where fs: "f sc s = (r, s')" by (cases "f sc s")
  then have "P (snd s')" using preservesD [OF f sc s] by blast
  then show "P (snd (snd (and_then f g sc s)))"
    using preserves_run [OF g sc] by (cases r) (auto simp: and_then_def fs)
qed

lemma preserves_try_catch [keeps]:
  assumes f: "preserves P (f :: ('s, 'z, 'a) coroutine)" and h: "\<And>e. preserves P (h e)"
  shows "preserves P (try_catch f h)"
  unfolding preserves_def
proof (intro allI impI)
  fix sc :: "('s, 'z) timetable" and s :: "nat \<times> 's" assume sc: "others_keep P sc" and s: "P (snd s)"
  obtain r s' where fs: "f sc s = (r, s')" by (cases "f sc s")
  then have "P (snd s')" using preservesD [OF f sc s] by blast
  then show "P (snd (snd (try_catch f h sc s)))"
    using preserves_run [OF h sc] by (cases r) (auto simp: try_catch_def fs)
qed

lemma preserves_try_finally [keeps]:
  assumes f: "preserves P (f :: ('s, 'z, 'a) coroutine)" and g: "preserves P g"
  shows "preserves P (try_finally f g)"
  unfolding preserves_def
proof (intro allI impI)
  fix sc :: "('s, 'z) timetable" and s :: "nat \<times> 's" assume sc: "others_keep P sc" and s: "P (snd s)"
  obtain r s' where fs: "f sc s = (r, s')" by (cases "f sc s")
  obtain r' s'' where gs: "g sc s' = (r', s'')" by (cases "g sc s'")
  have "P (snd s'')" using preservesD [OF g sc preservesD [OF f sc s fs] gs] .
  then show "P (snd (snd (try_finally f g sc s)))"
    by (cases r') (simp_all add: try_finally_def fs gs)
qed

lemma preserves_suspend [keeps]:
  "(\<And>su m r m'. P m \<Longrightarrow> f su m = (r, m') \<Longrightarrow> P m') \<Longrightarrow> preserves P (suspend f)"
  unfolding preserves_def suspend_def others_keep_def by (fastforce split: prod.splits)

lemma preserves_either:
  assumes "\<And>su m r m'. P m \<Longrightarrow> f su m = (r, m') \<Longrightarrow> P m'"
  shows "preserves P (\<lambda>(sc :: ('s, 'z) timetable) s. if b s then suspend f sc s
           else (case f (sc (fst s)) (snd s) of (r, m) \<Rightarrow> (r, (fst s, m))))"
proof -
  have sus: "preserves P (suspend f :: ('s, 'z, 'a) coroutine)" using assms by (rule preserves_suspend)
  show ?thesis
    unfolding preserves_def
  proof (intro allI impI)
    fix sc :: "('s, 'z) timetable" and s :: "nat \<times> 's" assume sc: "others_keep P sc" and s: "P (snd s)"
    obtain r m where fs: "f (sc (fst s)) (snd s) = (r, m)" by (cases "f (sc (fst s)) (snd s)")
    then have "P m" using assms s by blast
    then show "P (snd (snd (if b s then suspend f sc s
           else (case f (sc (fst s)) (snd s) of (r, m) \<Rightarrow> (r, (fst s, m))))))"
      using preserves_run [OF sus sc s] by (simp add: fs)
  qed
qed

text \<open>A run that returns, taken apart.\<close>

lemma and_then_returned:
  "and_then f g sc s = (Inr y, s') \<longleftrightarrow> (\<exists>x s1. f sc s = (Inr x, s1) \<and> g x sc s1 = (Inr y, s'))"
  by (auto simp: and_then_def split: prod.splits sum.splits)

text \<open>\<open>advances f\<close>: the action never goes back in the timetable.\<close>

definition advances :: "('s, 'z, 'a) coroutine \<Rightarrow> bool" where
  "advances f \<longleftrightarrow> (\<forall>sc s. fst s \<le> fst (snd (f sc s)))"

named_theorems advance_rules

lemma advancesD: "advances f \<Longrightarrow> f sc s = (r, s') \<Longrightarrow> fst s \<le> fst s'"
  unfolding advances_def by (metis snd_conv)

lemma advances_basic [advance_rules]:
  "advances (ret x)" "advances (throw e)" "advances (read g)" "advances (query q)" "advances (from_sum r)"
  "advances (modify h)" "advances (suspend k)"
  by (simp_all add: advances_def act_defs split: prod.split)

lemma advances_and_then [advance_rules]:
  assumes f: "advances (f :: ('s, 'z, 'a) coroutine)" and g: "\<And>x. advances (g x)"
  shows "advances (and_then f g)"
  unfolding advances_def
proof (intro allI)
  fix sc :: "('s, 'z) timetable" and s :: "nat \<times> 's"
  obtain r s1 where run: "f sc s = (r, s1)" by (cases "f sc s")
  show "fst s \<le> fst (snd (and_then f g sc s))"
  proof (cases r)
    case (Inr x)
    obtain r' s2 where next_run: "g x sc s1 = (r', s2)" by (cases "g x sc s1")
    show ?thesis
      using le_trans [OF advancesD [OF f run] advancesD [OF g next_run]] Inr by (simp add: and_then_def run next_run)
  qed (use advancesD [OF f run] run in \<open>simp add: and_then_def\<close>)
qed

lemma advances_try_catch [advance_rules]:
  assumes f: "advances (f :: ('s, 'z, 'a) coroutine)" and h: "\<And>e. advances (h e)"
  shows "advances (try_catch f h)"
  unfolding advances_def
proof (intro allI)
  fix sc :: "('s, 'z) timetable" and s :: "nat \<times> 's"
  obtain r s1 where run: "f sc s = (r, s1)" by (cases "f sc s")
  show "fst s \<le> fst (snd (try_catch f h sc s))"
  proof (cases r)
    case (Inl e)
    obtain r' s2 where handled: "h e sc s1 = (r', s2)" by (cases "h e sc s1")
    show ?thesis
      using le_trans [OF advancesD [OF f run] advancesD [OF h handled]] advancesD [OF f run] Inl
      by (simp add: try_catch_def run handled)
  qed (use advancesD [OF f run] run in \<open>simp add: try_catch_def\<close>)
qed

text \<open>\<open>restores g f\<close>: if the other tasks leave the component \<open>g\<close> of the state alone, it ends as it began.\<close>

definition others_leave :: "('s \<Rightarrow> 'b) \<Rightarrow> ('s, 'z) timetable \<Rightarrow> bool" where
  "others_leave g sc \<longleftrightarrow> (\<forall>n m. g (su_others (sc n) m) = g m)"

definition restores :: "('s \<Rightarrow> 'b) \<Rightarrow> ('s, 'z, 'a) coroutine \<Rightarrow> bool" where
  "restores g f \<longleftrightarrow> (\<forall>sc s. others_leave g sc \<longrightarrow> g (snd (snd (f sc s))) = g (snd s))"

lemma others_leave_keep: "others_leave g sc \<Longrightarrow> others_keep (\<lambda>m. g m = v) sc"
  by (simp add: others_leave_def others_keep_def)

lemma preserves_restores: "(\<And>v. preserves (\<lambda>m. g m = v) f) \<Longrightarrow> restores g f"
  unfolding restores_def using preserves_run others_leave_keep by fast

lemma restores_preserves: "restores g f \<Longrightarrow> others_leave g sc \<Longrightarrow> g (snd (snd (f sc s))) = g (snd s)"
  unfolding restores_def by blast

lemma restores_and_then:
  assumes f: "restores g (f :: ('s, 'z, 'a) coroutine)" and h: "\<And>x. restores g (h x)"
  shows "restores g (and_then f h)"
  unfolding restores_def
proof (intro allI impI)
  fix sc :: "('s, 'z) timetable" and s :: "nat \<times> 's" assume sc: "others_leave g sc"
  obtain r s' where fs: "f sc s = (r, s')" by (cases "f sc s")
  have "g (snd s') = g (snd s)" using restores_preserves [OF f sc, of s] by (simp add: fs)
  then show "g (snd (snd (and_then f h sc s))) = g (snd s)"
    using restores_preserves [OF h sc] by (cases r) (auto simp: and_then_def fs)
qed

lemma restores_branch:
  "restores g f \<Longrightarrow> (\<And>x. restores g (h x)) \<Longrightarrow> restores g (case v of None \<Rightarrow> f | Some x \<Rightarrow> h x)"
  "restores g f' \<Longrightarrow> restores g k \<Longrightarrow> restores g (if b then f' else k)"
  by (cases v) auto

end
