(* ===== verification/BT_Actions.thy ===== *)
theory BT_Actions
  imports BT_Manager Async
begin

text \<open>
  Coroutines of \<open>bluetooth/manager.py\<close>: actions on the manager's state. A suspension also says how the
  awaited D-Bus calls ended (\<open>su_intro\<close>, \<open>su_call\<close>, \<open>su_extra\<close>) and which properties were read. A call
  that ends in \<open>CallCancelled\<close> raises \<open>CancelledError\<close>.
\<close>

record suspension = "manager pause" +
  su_intro :: bus_call
  su_call :: bus_call
  su_extra :: bus_call
  su_props :: dbus_props

type_synonym schedule = "nat \<Rightarrow> suspension"
type_synonym 'a act = "schedule \<Rightarrow> nat \<times> manager \<Rightarrow> (py_exc + 'a) \<times> nat \<times> manager"

definition sleep :: "unit act" where
  "sleep = suspend (\<lambda>su m. (if su_call su = CallCancelled then Inl CancelledError else Inr (), m))"

section \<open>Calls on cached objects\<close>

text \<open>
  A method of a device object: without a bus it runs without suspending. With one, what it does to the
  object happens when its last call returned; \<open>bus\<close> is fixed at creation, and nothing else of the
  object is read before.
\<close>

definition on_device :: "nat \<Rightarrow> (suspension \<Rightarrow> device \<Rightarrow> (py_exc + unit) \<times> device) \<Rightarrow> unit act" where
  "on_device oid f sc s =
     (let apply_to = (\<lambda>su m. case f su (m_heap m oid) of (r, d) \<Rightarrow> (r, update_obj oid (\<lambda>_. d) m))
      in if d_bus (m_heap (snd s) oid) then suspend apply_to sc s
         else (case apply_to (sc (fst s)) (snd s) of (r, m) \<Rightarrow> (r, (fst s, m))))"

definition dev_connect :: "nat \<Rightarrow> unit act" where
  "dev_connect oid = on_device oid (\<lambda>su. device_connect (su_intro su) (su_call su) (su_extra su))"

definition dev_disconnect :: "nat \<Rightarrow> unit act" where
  "dev_disconnect oid = on_device oid (\<lambda>su. device_disconnect (su_call su))"

definition dev_pair :: "nat \<Rightarrow> unit act" where
  "dev_pair oid = on_device oid (\<lambda>su. device_pair (su_intro su) (su_call su))"

definition dev_set_trusted :: "bool \<Rightarrow> nat \<Rightarrow> unit act" where
  "dev_set_trusted b oid = on_device oid (\<lambda>su. device_set_trusted (su_call su) b)"

text \<open>A method of an adapter, addressed by its path; it changes the adapter cached there, if any.\<close>

definition on_adapter :: "string \<Rightarrow> (suspension \<Rightarrow> adapter \<Rightarrow> (py_exc + unit) \<times> adapter) \<Rightarrow> adapter \<Rightarrow> unit act" where
  "on_adapter path f a sc s =
     (let apply_to = (\<lambda>su m. case dict_get (m_adapters m) path of
            Some a' \<Rightarrow> (case f su a' of (r, a'') \<Rightarrow> (r, m\<lparr>m_adapters := dict_set path a'' (m_adapters m)\<rparr>))
          | None \<Rightarrow> (fst (f su a), m))
      in if a_bus a then suspend apply_to sc s
         else (case apply_to (sc (fst s)) (snd s) of (r, m) \<Rightarrow> (r, (fst s, m))))"

text \<open>
  \<open>for adapter in self.adapters.values()\<close> around a suspending body: the iterator raises when the size of
  the dictionary changed since the loop started. \<open>Some\<close> leaves the loop.
\<close>

definition size_error :: py_exc where
  "size_error = RuntimeError ''dictionary changed size during iteration''"

primrec adapter_loop :: "nat \<Rightarrow> nat \<Rightarrow> (string \<Rightarrow> adapter \<Rightarrow> 'a option act) \<Rightarrow> 'a option act" where
  "adapter_loop 0 used body sc s =
     (if length (m_adapters (snd s)) \<noteq> used then throw size_error sc s else ret None sc s)"
| "adapter_loop (Suc k) used body sc s =
     (if length (m_adapters (snd s)) \<noteq> used then throw size_error sc s
      else (case m_adapters (snd s) ! (used - Suc k) of (path, a) \<Rightarrow>
        and_then (body path a) (\<lambda>r. case r of Some x \<Rightarrow> ret (Some x) | None \<Rightarrow> adapter_loop k used body) sc s))"

definition each_adapter :: "(string \<Rightarrow> adapter \<Rightarrow> 'a option act) \<Rightarrow> 'a option act" where
  "each_adapter body sc s =
     adapter_loop (length (m_adapters (snd s))) (length (m_adapters (snd s))) body sc s"

section \<open>Guarantees\<close>

lemma preserves_sleep [keeps]: "preserves P sleep"
  unfolding sleep_def by (rule preserves_suspend) auto

lemma preserves_on_device:
  assumes "\<And>su m r d. P m \<Longrightarrow> f su (m_heap m oid) = (r, d) \<Longrightarrow> P (update_obj oid (\<lambda>_. d) m)"
  shows "preserves P (on_device oid f)"
  unfolding on_device_def Let_def
  by (rule preserves_either) (use assms in \<open>auto split: prod.splits\<close>)

lemma preserves_on_adapter:
  assumes "\<And>su m a' r a''. P m \<Longrightarrow> dict_get (m_adapters m) path = Some a' \<Longrightarrow> f su a' = (r, a'') \<Longrightarrow>
     P (m\<lparr>m_adapters := dict_set path a'' (m_adapters m)\<rparr>)"
  shows "preserves P (on_adapter path f a)"
  unfolding on_adapter_def Let_def
  by (rule preserves_either) (use assms in \<open>auto split: prod.splits option.splits\<close>)

lemma preserves_adapter_loop:
  assumes "\<And>path a. preserves P (body path a)"
  shows "preserves P (adapter_loop k used body)"
proof (induction k)
  case 0
  show ?case by (simp add: preserves_def act_defs)
next
  case (Suc k)
  have "preserves P (and_then (body path a) (\<lambda>r. case r of Some x \<Rightarrow> ret (Some x) | None \<Rightarrow> adapter_loop k used body))"
    for path a
    by (rule preserves_and_then [OF assms]) (auto intro: keeps Suc split: option.splits)
  then show ?case
    by (auto simp: preserves_def throw_def split: prod.splits)
qed

lemma preserves_each_adapter [keeps]:
  "(\<And>path a. preserves P (body path a)) \<Longrightarrow> preserves P (each_adapter body)"
  using preserves_adapter_loop [of P body] unfolding preserves_def each_adapter_def by blast

lemma advances_calls [advance_rules]: "advances sleep" "advances (on_device oid f)" "advances (on_adapter path g a)"
  by (auto simp: advances_def sleep_def on_device_def on_adapter_def suspend_def Let_def split: prod.split)

lemma advances_adapter_loop:
  assumes "\<And>path a. advances (body path a)"
  shows "advances (adapter_loop k used body)"
proof (induction k)
  case 0
  show ?case by (simp add: advances_def act_defs)
next
  case (Suc k)
  have "advances (and_then (body path a) (\<lambda>r. case r of Some x \<Rightarrow> ret (Some x) | None \<Rightarrow> adapter_loop k used body))"
    for path a
    by (rule advances_and_then [OF assms]) (auto intro: advance_rules Suc split: option.splits)
  then show ?case by (auto simp: advances_def throw_def split: prod.splits)
qed

lemma advances_each_adapter [advance_rules]:
  "(\<And>path a. advances (body path a)) \<Longrightarrow> advances (each_adapter body)"
  using advances_adapter_loop [of body] unfolding advances_def each_adapter_def by blast

end
