(* ===== verification/BT_Agent.thy ===== *)
theory BT_Agent
  imports BT_Adapter
begin

text \<open>
  \<open>bluetooth/agent.py\<close>: the BlueZ pairing agent. Its callbacks are arguments of every request, on a
  state \<open>'s\<close> they may change; a refusal is the \<open>Rejected\<close> error. \<open>agent_policy\<close> is the contract the
  agent offers whoever installs the callbacks: it never answers a request its callbacks do not allow.
\<close>

datatype active_request = DisplayPin string | DisplayPasskeyRequest int int

record agent =
  active_requests :: "active_request dict"

definition new_agent :: agent where
  "new_agent = \<lparr>active_requests = []\<rparr>"

text \<open>The callbacks a \<open>BlueZAgent()\<close> without arguments uses: all of them refuse.\<close>

definition default_pin_callback :: "'s \<Rightarrow> string \<Rightarrow> string option \<times> 's" where
  "default_pin_callback s device = (None, s)"

definition default_passkey_callback :: "'s \<Rightarrow> string \<Rightarrow> (py_exc + int option) \<times> 's" where
  "default_passkey_callback s device = (Inr None, s)"

definition default_confirm_callback :: "'s \<Rightarrow> string \<Rightarrow> int \<Rightarrow> bool \<times> 's" where
  "default_confirm_callback s device passkey = (False, s)"

definition default_authorization_callback :: "'s \<Rightarrow> string \<Rightarrow> bool \<times> 's" where
  "default_authorization_callback s device = (False, s)"

definition agent_refuse :: "py_exc + 'a" where
  "agent_refuse = Inl PairingRejected"

definition agent_release :: "agent \<Rightarrow> agent" where
  "agent_release ag = ag"

definition RequestPinCode ::
  "('s \<Rightarrow> string \<Rightarrow> string option \<times> 's) \<Rightarrow> 's \<Rightarrow> string \<Rightarrow> (py_exc + string) \<times> 's"
where
  "RequestPinCode pin_callback s device =
     (case pin_callback s device of
        (None, s') \<Rightarrow> (agent_refuse, s')
      | (Some pin, s') \<Rightarrow> (Inr pin, s'))"

definition DisplayPinCode :: "agent \<Rightarrow> string \<Rightarrow> string \<Rightarrow> agent" where
  "DisplayPinCode ag device pincode =
     ag\<lparr>active_requests := dict_set device (DisplayPin pincode) (active_requests ag)\<rparr>"

definition RequestPasskey ::
  "('s \<Rightarrow> string \<Rightarrow> (py_exc + int option) \<times> 's) \<Rightarrow> 's \<Rightarrow> string \<Rightarrow> (py_exc + int) \<times> 's"
where
  "RequestPasskey passkey_callback s device =
     (case passkey_callback s device of
        (Inl e, s') \<Rightarrow> (Inl e, s')
      | (Inr None, s') \<Rightarrow> (agent_refuse, s')
      | (Inr (Some passkey), s') \<Rightarrow> (Inr passkey, s'))"

definition DisplayPasskey :: "agent \<Rightarrow> string \<Rightarrow> int \<Rightarrow> int \<Rightarrow> agent" where
  "DisplayPasskey ag device passkey entered =
     ag\<lparr>active_requests := dict_set device (DisplayPasskeyRequest passkey entered) (active_requests ag)\<rparr>"

definition RequestConfirmation ::
  "('s \<Rightarrow> string \<Rightarrow> int \<Rightarrow> bool \<times> 's) \<Rightarrow> 's \<Rightarrow> string \<Rightarrow> int \<Rightarrow> (py_exc + unit) \<times> 's"
where
  "RequestConfirmation confirm_callback s device passkey =
     (case confirm_callback s device passkey of
        (ok, s') \<Rightarrow> (if \<not> ok then agent_refuse else Inr (), s'))"

definition RequestAuthorization ::
  "('s \<Rightarrow> string \<Rightarrow> bool \<times> 's) \<Rightarrow> 's \<Rightarrow> string \<Rightarrow> (py_exc + unit) \<times> 's"
where
  "RequestAuthorization authorization_callback s device =
     (case authorization_callback s device of
        (ok, s') \<Rightarrow> (if \<not> ok then agent_refuse else Inr (), s'))"

definition AuthorizeService ::
  "('s \<Rightarrow> string \<Rightarrow> bool \<times> 's) \<Rightarrow> 's \<Rightarrow> string \<Rightarrow> string \<Rightarrow> (py_exc + unit) \<times> 's"
where
  "AuthorizeService authorization_callback s device uuid =
     (case authorization_callback s device of
        (ok, s') \<Rightarrow> (if \<not> ok then agent_refuse else Inr (), s'))"

definition agent_cancel :: "agent \<Rightarrow> agent" where
  "agent_cancel ag = ag\<lparr>active_requests := []\<rparr>"

lemmas agent_defs =
  RequestPinCode_def RequestPasskey_def RequestConfirmation_def RequestAuthorization_def
  AuthorizeService_def agent_refuse_def

section \<open>The contract of the callbacks\<close>

text \<open>
  \<open>window s d\<close>: the operator asked for device \<open>d\<close> to be paired; \<open>allowed s d\<close>: \<open>d\<close> may be answered at
  all. A credential needs the window, a confirmation or authorization needs \<open>allowed\<close>.
\<close>

locale agent_policy =
  fixes pin_callback :: "'s \<Rightarrow> string \<Rightarrow> string option \<times> 's"
    and passkey_callback :: "'s \<Rightarrow> string \<Rightarrow> (py_exc + int option) \<times> 's"
    and confirm_callback :: "'s \<Rightarrow> string \<Rightarrow> int \<Rightarrow> bool \<times> 's"
    and authorization_callback :: "'s \<Rightarrow> string \<Rightarrow> bool \<times> 's"
    and window :: "'s \<Rightarrow> string \<Rightarrow> bool"
    and allowed :: "'s \<Rightarrow> string \<Rightarrow> bool"
  assumes pin_window: "fst (pin_callback s d) \<noteq> None \<Longrightarrow> window s d"
    and passkey_window: "fst (passkey_callback s d) \<noteq> Inr None \<Longrightarrow> window s d"
    and confirm_allowed: "fst (confirm_callback s d k) \<longleftrightarrow> allowed s d"
    and authorization_allowed: "fst (authorization_callback s d) \<longleftrightarrow> allowed s d"
    and window_allowed: "window s d \<Longrightarrow> allowed s d"
begin

lemma refuses_outside_window:
  assumes "\<not> window s d"
  shows "fst (RequestPinCode pin_callback s d) = Inl PairingRejected"
    and "fst (RequestPasskey passkey_callback s d) = Inl PairingRejected"
  using assms pin_window [of s d] passkey_window [of s d]
  by (auto simp: agent_defs split: prod.splits option.splits sum.splits)

lemma answers_iff_allowed:
  "fst (RequestConfirmation confirm_callback s d k) = (if allowed s d then Inr () else Inl PairingRejected)"
  "fst (RequestAuthorization authorization_callback s d) = (if allowed s d then Inr () else Inl PairingRejected)"
  "fst (AuthorizeService authorization_callback s d u) = (if allowed s d then Inr () else Inl PairingRejected)"
  using confirm_allowed [of s d k] authorization_allowed [of s d]
  by (auto simp: agent_defs split: prod.splits)

lemma stranger_refused:
  assumes "\<not> allowed s d"
  shows "fst (RequestPinCode pin_callback s d) = Inl PairingRejected"
    and "fst (RequestPasskey passkey_callback s d) = Inl PairingRejected"
    and "fst (RequestConfirmation confirm_callback s d k) = Inl PairingRejected"
    and "fst (RequestAuthorization authorization_callback s d) = Inl PairingRejected"
    and "fst (AuthorizeService authorization_callback s d u) = Inl PairingRejected"
  using assms refuses_outside_window [of s d] window_allowed answers_iff_allowed by auto

end

interpretation default_agent:
  agent_policy default_pin_callback default_passkey_callback default_confirm_callback
    default_authorization_callback "\<lambda>s d. False" "\<lambda>s d. False"
  by unfold_locales
     (simp_all add: default_pin_callback_def default_passkey_callback_def default_confirm_callback_def
        default_authorization_callback_def)

end
