(* ===== verification/Py_Numbers.thy ===== *)
theory Py_Numbers
  imports Bridge_Prelude
begin

text \<open>
  Python's integer literals as the bridge parses and prints them: \<open>int(text)\<close>, \<open>int(text, 0)\<close> and
  \<open>str(n)\<close>, with the facts that relate them.
\<close>

section \<open>Parsing\<close>

text \<open>
  \<open>int(text)\<close> of a stripped text: an optional sign, and decimal digits with single underscores between
  them; more than 4300 digits are refused by the interpreter.
\<close>

fun digits_value :: "nat \<Rightarrow> string \<Rightarrow> nat option" where
  "digits_value acc [] = Some acc"
| "digits_value acc (c # cs) =
     (if is_digit c then digits_value (10 * acc + (ord_of c - 48)) cs
      else if c = CHR ''_'' then
        (case cs of d # _ \<Rightarrow> if is_digit d then digits_value acc cs else None | [] \<Rightarrow> None)
      else None)"

definition unsigned_int :: "string \<Rightarrow> nat option" where
  "unsigned_int s =
     (case s of
        c # _ \<Rightarrow> if is_digit c \<and> length (filter is_digit s) \<le> 4300 then digits_value 0 s else None
      | [] \<Rightarrow> None)"

definition py_int :: "string \<Rightarrow> int option" where
  "py_int s =
     (case s of
        c # cs \<Rightarrow>
          if c = CHR ''-'' then map_option (\<lambda>n. - int n) (unsigned_int cs)
          else if c = CHR ''+'' then map_option int (unsigned_int cs)
          else map_option int (unsigned_int s)
      | [] \<Rightarrow> None)"

text \<open>
  \<open>int(text, 0)\<close>: the base follows from the prefix; a decimal number has no leading zero unless it is zero.
  An underscore may stand between two digits and after the prefix.
\<close>

definition digit_in :: "nat \<Rightarrow> char \<Rightarrow> nat option" where
  "digit_in base c =
     (let n = ord_of (lower_char c);
          v = (if 48 \<le> n \<and> n \<le> 57 then n - 48 else if 97 \<le> n \<and> n \<le> 122 then n - 87 else base)
      in if v < base then Some v else None)"

fun based_digits :: "nat \<Rightarrow> nat \<Rightarrow> string \<Rightarrow> nat option" where
  "based_digits base acc [] = Some acc"
| "based_digits base acc (c # cs) =
     (if c = CHR ''_'' then (case cs of d # _ \<Rightarrow> if d = CHR ''_'' then None else based_digits base acc cs | [] \<Rightarrow> None)
      else (case digit_in base c of Some v \<Rightarrow> based_digits base (base * acc + v) cs | None \<Rightarrow> None))"

definition radix_of :: "string \<Rightarrow> nat option" where
  "radix_of s =
     (case s of
        a # b # _ \<Rightarrow>
          if a = CHR ''0'' \<and> lower_char b = CHR ''x'' then Some 16
          else if a = CHR ''0'' \<and> lower_char b = CHR ''o'' then Some 8
          else if a = CHR ''0'' \<and> lower_char b = CHR ''b'' then Some 2
          else None
      | _ \<Rightarrow> None)"

definition unsigned_int0 :: "string \<Rightarrow> nat option" where
  "unsigned_int0 s =
     (case radix_of s of
        Some base \<Rightarrow> if length s = 2 \<or> drop 2 s = ''_'' then None else based_digits base 0 (drop 2 s)
      | None \<Rightarrow>
          (case unsigned_int s of
             Some n \<Rightarrow> if hd s = CHR ''0'' \<and> n \<noteq> 0 then None else Some n
           | None \<Rightarrow> None))"

definition py_int0 :: "string \<Rightarrow> int option" where
  "py_int0 text =
     (let s = strip text
      in case s of
           c # cs \<Rightarrow>
             if c = CHR ''-'' then map_option (\<lambda>n. - int n) (unsigned_int0 cs)
             else if c = CHR ''+'' then map_option int (unsigned_int0 cs)
             else map_option int (unsigned_int0 s)
         | [] \<Rightarrow> None)"

text \<open>
  \<open>float(text)\<close>, without the rounding to 53 bits: an optional sign, a decimal number with an optional exponent,
  underscores between digits, or one of the names of infinity and not-a-number in any case.
\<close>

datatype float_value = Finite real | Infinite bool | Not_a_number

definition digit_run :: "char \<Rightarrow> bool" where "digit_run c \<longleftrightarrow> is_digit c \<or> c = CHR ''_''"

definition run_ok :: "string \<Rightarrow> bool" where
  "run_ok s \<longleftrightarrow> s = [] \<or> (is_digit (hd s) \<and> is_digit (last s) \<and> \<not> py_in ''__'' s)"

definition run_digits :: "string \<Rightarrow> string" where "run_digits s = filter is_digit s"

definition digits_number :: "string \<Rightarrow> nat" where
  "digits_number s = foldl (\<lambda>n c. 10 * n + (ord_of c - 48)) 0 s"

definition exponent_of :: "string \<Rightarrow> int option" where
  "exponent_of s =
     (case s of
        [] \<Rightarrow> Some 0
      | e # rest \<Rightarrow>
          if lower_char e \<noteq> CHR ''e'' then None
          else (let negative = (rest \<noteq> [] \<and> hd rest = CHR ''-'');
                    digits = (if rest \<noteq> [] \<and> (hd rest = CHR ''-'' \<or> hd rest = CHR ''+'') then tl rest else rest)
                in if digits = [] \<or> \<not> list_all digit_run digits \<or> \<not> run_ok digits then None
                   else Some ((if negative then - 1 else 1) * int (digits_number (run_digits digits)))))"

definition scale10 :: "real \<Rightarrow> int \<Rightarrow> real" where
  "scale10 x e = (if 0 \<le> e then x * 10 ^ nat e else x / 10 ^ nat (- e))"

definition decimal_of :: "string \<Rightarrow> real option" where
  "decimal_of s =
     (let whole = takeWhile digit_run s; r1 = dropWhile digit_run s;
          point = (r1 \<noteq> [] \<and> hd r1 = CHR ''.'');
          frac = (if point then takeWhile digit_run (tl r1) else []);
          r2 = (if point then dropWhile digit_run (tl r1) else r1)
      in if \<not> run_ok whole \<or> \<not> run_ok frac \<or> (whole = [] \<and> frac = []) then None
         else (case exponent_of r2 of None \<Rightarrow> None
               | Some e \<Rightarrow>
                   Some (scale10 (real (digits_number (run_digits (whole @ frac)))) (e - int (length (run_digits frac))))))"

definition py_float :: "string \<Rightarrow> float_value option" where
  "py_float text =
     (let s = strip text;
          negative = (s \<noteq> [] \<and> hd s = CHR ''-'');
          body = (if s \<noteq> [] \<and> (hd s = CHR ''-'' \<or> hd s = CHR ''+'') then tl s else s);
          low = lower body
      in if low = ''inf'' \<or> low = ''infinity'' then Some (Infinite negative)
         else if low = ''nan'' then Some Not_a_number
         else map_option (\<lambda>x. Finite (if negative then - x else x)) (decimal_of body))"

section \<open>Printing\<close>

text \<open>\<open>str(n)\<close> of a natural number.\<close>

fun show_nat :: "nat \<Rightarrow> string" where
  "show_nat n = (if n < 10 then [char_of (48 + n)] else show_nat (n div 10) @ [char_of (48 + n mod 10)])"

declare show_nat.simps [simp del]

lemma digit_char: "d < 10 \<Longrightarrow> is_digit (char_of (48 + d)) \<and> ord_of (char_of (48 + d)) = 48 + d"
  by (simp add: is_digit_def ord_of_def)

lemma digits_value_append:
  "list_all is_digit xs \<Longrightarrow> digits_value acc (xs @ ys) = digits_value (the (digits_value acc xs)) ys"
  by (induction xs arbitrary: acc) auto

lemma digits_value_digits: "list_all is_digit xs \<Longrightarrow> digits_value acc xs \<noteq> None"
  by (induction xs arbitrary: acc) auto

lemma show_nat_digits: "list_all is_digit (show_nat n) \<and> show_nat n \<noteq> []"
proof (induction n rule: show_nat.induct)
  case (1 n)
  then show ?case
    using digit_char [of n] digit_char [of "n mod 10"] by (subst (1 2) show_nat.simps) auto
qed

lemma digits_value_show: "digits_value 0 (show_nat n) = Some n"
proof (induction n rule: show_nat.induct)
  case (1 n)
  show ?case
  proof (cases "n < 10")
    case True
    then show ?thesis using digit_char [of n] by (subst show_nat.simps) simp
  next
    case False
    then have "digits_value 0 (show_nat (n div 10)) = Some (n div 10)" using 1 by blast
    then show ?thesis
      using False digit_char [of "n mod 10"] show_nat_digits [of "n div 10"]
      by (subst show_nat.simps) (simp add: digits_value_append)
  qed
qed

lemma show_nat_length: "n < 10 ^ k \<Longrightarrow> 0 < k \<Longrightarrow> length (show_nat n) \<le> k"
proof (induction n arbitrary: k rule: show_nat.induct)
  case (1 n)
  show ?case
  proof (cases "n < 10")
    case True
    then show ?thesis using 1(3) by (subst show_nat.simps) simp
  next
    case False
    then obtain j where k: "k = Suc j" "0 < j" using 1(2,3) by (cases k; cases "k - 1") auto
    then have "n div 10 < 10 ^ j" using 1(2) by (simp add: less_mult_imp_div_less mult.commute)
    then have "length (show_nat (n div 10)) \<le> j" using 1(1) [OF False] k by blast
    then show ?thesis using False k by (subst show_nat.simps) simp
  qed
qed

lemma digit_plain: "is_digit c \<Longrightarrow> \<not> py_space c \<and> c \<noteq> CHR ''-'' \<and> c \<noteq> CHR ''+'' "
  by (auto simp: is_digit_def py_space_def ord_of_def Let_def)

lemma py_int_show:
  assumes "length (show_nat n) \<le> 4300"
  shows "py_int (show_nat n) = Some (int n)"
proof -
  obtain c cs where s: "show_nat n = c # cs" using show_nat_digits [of n] by (cases "show_nat n") auto
  have dig: "list_all is_digit (show_nat n)" using show_nat_digits by blast
  then have "filter is_digit (show_nat n) = show_nat n" by (simp add: filter_id_conv list_all_iff)
  then have "unsigned_int (show_nat n) = Some n"
    using assms dig digits_value_show [of n] by (simp add: unsigned_int_def s)
  then show ?thesis using dig digit_plain [of c] by (simp add: py_int_def s)
qed

lemma strip_show_nat: "strip (show_nat n) = show_nat n"
proof (rule strip_fixed)
  assume "show_nat n \<noteq> []"
  then show "\<not> py_space (hd (show_nat n)) \<and> \<not> py_space (last (show_nat n))"
    using show_nat_digits [of n] digit_plain by (simp add: list_all_iff)
qed

end
