(* ===== verification/BT_Pairing.thy ===== *)
theory BT_Pairing
  imports BT_Actions BT_Agent Py_Numbers
begin

text \<open>
  \<open>bluetooth/manager.py\<close>, pairing consent: the window the operator opens for one address and the
  callbacks of the agent that consult it. \<open>now\<close> is the reading of \<open>time.monotonic()\<close> of the call. The
  callbacks satisfy the contract \<open>agent_policy\<close>, from which the refusals follow.
\<close>

section \<open>The device a request names\<close>

definition address_from_device_path :: "manager \<Rightarrow> string \<Rightarrow> string option" where
  "address_from_device_path m device_path =
     (let candidate = (case device_at m device_path of Some device \<Rightarrow> d_address device | None \<Rightarrow> []);
          candidate = (if candidate = [] \<and> py_in DEVICE_PATH_PREFIX device_path
                       then replace_char (CHR ''_'') (CHR '':'') (after_last DEVICE_PATH_PREFIX device_path)
                       else candidate)
      in case normalize_address candidate of Inr a \<Rightarrow> Some a | Inl e \<Rightarrow> None)"

section \<open>The window\<close>

definition pairing_window_active :: "real \<Rightarrow> string \<Rightarrow> manager \<Rightarrow> bool \<times> manager" where
  "pairing_window_active now address m =
     (case m_pairing_address m of
        None \<Rightarrow> (False, m)
      | Some open_for \<Rightarrow>
          if now \<ge> m_pairing_expires_at m
          then (False, m\<lparr>m_pairing_address := None, m_pairing_pin := None\<rparr>)
          else (open_for = address, m))"

text \<open>
  \<open>_set_adapters_pairable\<close> swallows what a call on one adapter raises, but not the error of the iteration
  itself. The window is set before the first suspension.
\<close>

definition set_adapters_pairable :: "bool \<Rightarrow> unit act" where
  "set_adapters_pairable pairable =
     and_then
       (each_adapter (\<lambda>path a.
          and_then (try_catch (on_adapter path (\<lambda>su. adapter_set_pairable (su_call su) pairable) a) (\<lambda>_. ret ()))
            (\<lambda>_. ret (None :: unit option))))
       (\<lambda>_. ret ())"

definition set_pairing_window :: "real \<Rightarrow> string \<Rightarrow> string option \<Rightarrow> manager \<Rightarrow> manager" where
  "set_pairing_window now address pin m =
     m\<lparr>m_pairing_address := Some address, m_pairing_pin := py_or pin (Some DEFAULT_PIN),
       m_pairing_expires_at := now + PAIRING_WINDOW_SECONDS\<rparr>"

definition open_pairing_window :: "real \<Rightarrow> string \<Rightarrow> string option \<Rightarrow> unit act" where
  "open_pairing_window now address pin =
     and_then (from_sum (normalize_address address)) (\<lambda>address.
     and_then (modify (set_pairing_window now address pin)) (\<lambda>_.
     set_adapters_pairable True))"

definition clear_pairing_window :: "manager \<Rightarrow> manager" where
  "clear_pairing_window m =
     m\<lparr>m_pairing_address := None, m_pairing_pin := None, m_pairing_expires_at := 0\<rparr>"

definition close_pairing_window :: "unit act" where
  "close_pairing_window =
     and_then (modify clear_pairing_window) (\<lambda>_. set_adapters_pairable False)"

definition current_pairing_address :: "real \<Rightarrow> manager \<Rightarrow> string option \<times> manager" where
  "current_pairing_address now m =
     (case m_pairing_address m of
        None \<Rightarrow> (None, m)
      | Some a \<Rightarrow> (case pairing_window_active now a m of
          (active, m') \<Rightarrow> (if active then m_pairing_address m' else None, m')))"

section \<open>The callbacks of the agent (build_agent)\<close>

definition pairing_is_authorized :: "real \<Rightarrow> manager \<Rightarrow> string \<Rightarrow> bool \<times> manager" where
  "pairing_is_authorized now m device_path =
     (case address_from_device_path m device_path of
        None \<Rightarrow> (False, m)
      | Some address \<Rightarrow>
          (case pairing_window_active now address m of
             (active, m') \<Rightarrow>
               if active then (True, m')
               else (case device_at m' device_path of
                       Some device \<Rightarrow> (d_trusted device, m') | None \<Rightarrow> (False, m'))))"

definition authorized_pin :: "real \<Rightarrow> manager \<Rightarrow> string \<Rightarrow> string option \<times> manager" where
  "authorized_pin now m device_path =
     (case address_from_device_path m device_path of
        None \<Rightarrow> (None, m)
      | Some address \<Rightarrow>
          (case pairing_window_active now address m of
             (active, m') \<Rightarrow> (if active then m_pairing_pin m' else None, m')))"

text \<open>
  \<open>str.isdigit\<close> also accepts the superscript digits, which \<open>int\<close> refuses; a decimal string is read with
  its leading zeros.
\<close>

definition py_isdigit :: "string \<Rightarrow> bool" where
  "py_isdigit s \<longleftrightarrow> s \<noteq> [] \<and> list_all (\<lambda>c. is_digit c \<or> ord_of c \<in> {178, 179, 185}) s"

definition authorized_passkey :: "real \<Rightarrow> manager \<Rightarrow> string \<Rightarrow> (py_exc + int option) \<times> manager" where
  "authorized_passkey now m device_path =
     (case authorized_pin now m device_path of
        (None, m') \<Rightarrow> (Inr None, m')
      | (Some pin, m') \<Rightarrow>
          if \<not> py_isdigit pin then (Inr None, m')
          else (case py_int pin of
                  None \<Rightarrow> (Inl (ValueError (''invalid literal for int() with base 10: '' @ pin)), m')
                | Some k \<Rightarrow> (Inr (Some k), m')))"

definition confirm_pairing :: "real \<Rightarrow> manager \<Rightarrow> string \<Rightarrow> int \<Rightarrow> bool \<times> manager" where
  "confirm_pairing now m device_path passkey = pairing_is_authorized now m device_path"

section \<open>The contract\<close>

definition window_for :: "real \<Rightarrow> manager \<Rightarrow> string \<Rightarrow> bool" where
  "window_for now m device_path \<longleftrightarrow>
     m_pairing_address m \<noteq> None \<and> address_from_device_path m device_path = m_pairing_address m \<and>
     now < m_pairing_expires_at m"

definition known_to_trust :: "manager \<Rightarrow> string \<Rightarrow> bool" where
  "known_to_trust m device_path \<longleftrightarrow>
     address_from_device_path m device_path \<noteq> None \<and>
     (case device_at m device_path of Some device \<Rightarrow> d_trusted device | None \<Rightarrow> False)"

lemma device_at_window [simp]:
  "device_at (m\<lparr>m_pairing_address := a, m_pairing_pin := p\<rparr>) path = device_at m path"
  by (simp add: device_at_def)

lemma pairing_is_authorized_iff:
  "fst (pairing_is_authorized now m d) \<longleftrightarrow> window_for now m d \<or> known_to_trust m d"
  by (auto simp: pairing_is_authorized_def pairing_window_active_def window_for_def known_to_trust_def
      split: option.splits)

lemma authorized_pin_iff:
  "fst (authorized_pin now m d) = (if window_for now m d then m_pairing_pin m else None)"
  by (auto simp: authorized_pin_def pairing_window_active_def window_for_def split: option.splits)

lemma authorized_passkey_window: "fst (authorized_passkey now m d) \<noteq> Inr None \<Longrightarrow> window_for now m d"
  using authorized_pin_iff [of now m d]
  by (auto simp: authorized_passkey_def split: prod.splits option.splits if_splits)

interpretation consent:
  agent_policy "authorized_pin now" "authorized_passkey now" "confirm_pairing now" "pairing_is_authorized now"
    "window_for now" "\<lambda>m d. window_for now m d \<or> known_to_trust m d"
  for now
  by unfold_locales
     (auto simp: authorized_pin_iff confirm_pairing_def pairing_is_authorized_iff
       dest: authorized_passkey_window split: if_splits)

section \<open>Facts\<close>

text \<open>The window as the coroutines set it; only they and the expiry change these fields.\<close>

definition window_is :: "string \<Rightarrow> string \<Rightarrow> real \<Rightarrow> manager \<Rightarrow> bool" where
  "window_is a pin t m \<longleftrightarrow>
     m_pairing_address m = Some a \<and> m_pairing_pin m = Some pin \<and> m_pairing_expires_at m = t"

definition window_closed :: "manager \<Rightarrow> bool" where
  "window_closed m \<longleftrightarrow> m_pairing_address m = None \<and> m_pairing_pin m = None"

lemma window_adapters [simp]:
  "window_is a p t (m\<lparr>m_adapters := as\<rparr>) = window_is a p t m"
  "window_closed (m\<lparr>m_adapters := as\<rparr>) = window_closed m"
  by (simp_all add: window_is_def window_closed_def)

lemma preserves_set_adapters_pairable:
  assumes "\<And>m as. P m \<Longrightarrow> P (m\<lparr>m_adapters := as\<rparr>)"
  shows "preserves P (set_adapters_pairable b)"
  unfolding set_adapters_pairable_def
  by (intro keeps preserves_on_adapter assms)

lemma window_for_open:
  "window_is a p t m \<Longrightarrow> window_for now m d \<longleftrightarrow> address_from_device_path m d = Some a \<and> now < t"
  by (auto simp: window_is_def window_for_def)

lemma window_for_closed: "window_closed m \<Longrightarrow> \<not> window_for now m d"
  by (simp add: window_closed_def window_for_def)

lemma py_or_default: "\<exists>p. py_or pin (Some q) = Some p"
  by (cases pin) (auto simp: py_or_def)

lemma open_pairing_window_state:
  assumes "open_pairing_window t0 address pin sc (n, m) = (r, s')" "normalize_address address = Inr a"
    and "py_or pin (Some DEFAULT_PIN) = Some p"
    and others: "others_keep (window_is a p (t0 + PAIRING_WINDOW_SECONDS)) sc"
  shows "window_is a p (t0 + PAIRING_WINDOW_SECONDS) (snd s')"
proof (rule preservesD [OF preserves_set_adapters_pairable others])
  show "window_is a p (t0 + PAIRING_WINDOW_SECONDS) (snd (n, set_pairing_window t0 a pin m))"
    using assms(3) by (simp add: window_is_def set_pairing_window_def)
  show "set_adapters_pairable True sc (n, set_pairing_window t0 a pin m) = (r, s')"
    using assms(1,2) by (simp add: open_pairing_window_def act_defs)
qed simp

lemma close_pairing_window_state:
  assumes "close_pairing_window sc (n, m) = (r, s')" and others: "others_keep window_closed sc"
  shows "window_closed (snd s')"
proof (rule preservesD [OF preserves_set_adapters_pairable others])
  show "window_closed (snd (n, clear_pairing_window m))"
    by (simp add: window_closed_def clear_pairing_window_def)
  show "set_adapters_pairable False sc (n, clear_pairing_window m) = (r, s')"
    using assms(1) by (simp add: close_pairing_window_def act_defs)
qed simp

lemma request_pin_iff:
  "fst (RequestPinCode (authorized_pin now) m d) =
     (if window_for now m d then case m_pairing_pin m of Some p \<Rightarrow> Inr p | None \<Rightarrow> Inl PairingRejected
      else Inl PairingRejected)"
  using authorized_pin_iff [of now m d]
  by (cases "authorized_pin now m d") (auto simp: agent_defs split: option.splits if_splits)

text \<open>BlueZ object paths spell an address with upper-case digits and underscores.\<close>

lemma path_address_chars:
  assumes "MAC_PATTERN a" "c \<in> set (path_address a)"
  shows "c \<noteq> CHR ''d''"
proof -
  obtain h where h: "hex_digit h \<or> h = CHR '':''" and c: "c = (if upper_char h = CHR '':'' then CHR ''_'' else upper_char h)"
  proof -
    obtain h where "h \<in> set a" "c = (if upper_char h = CHR '':'' then CHR ''_'' else upper_char h)"
      using assms(2) unfolding path_address_def upper_def replace_char_def set_map by blast
    then show thesis using that MAC_PATTERN_chars [OF assms(1)] by blast
  qed
  have "upper_char h \<noteq> CHR ''d''"
  proof
    assume eq: "upper_char h = CHR ''d''"
    then have at: "ord_of (upper_char h) = 100" by (simp add: ord_of_def)
    have "h \<noteq> CHR '':''" using at by (auto simp: upper_char_def ord_of_def)
    with h have h: "hex_digit h" by blast
    show False
    proof (cases "97 \<le> ord_of h \<and> ord_of h \<le> 122")
      case True
      then have "upper_char h = char_of (ord_of h - 32)" by (simp add: upper_char_def)
      then have "ord_of (upper_char h) = (ord_of h - 32) mod 256" by (simp add: ord_of_def)
      with True at show False using h by (simp add: hex_digit_def is_digit_def)
    next
      case False
      then show False using at h by (auto simp: upper_char_def hex_digit_def is_digit_def)
    qed
  qed
  then show ?thesis by (auto simp: c)
qed

lemma after_last_path:
  assumes "MAC_PATTERN a"
  shows "after_last DEVICE_PATH_PREFIX (p @ DEVICE_PATH_PREFIX @ path_address a) = path_address a"
proof (rule after_last_append)
  have "CHR ''d'' \<notin> set (tl (DEVICE_PATH_PREFIX @ path_address a))"
    using path_address_chars [OF assms] by auto
  moreover have "CHR ''d'' \<in> set t" if "py_in DEVICE_PATH_PREFIX t" for t
    using that unfolding py_in_iff by auto
  ultimately show "\<not> py_in DEVICE_PATH_PREFIX (tl (DEVICE_PATH_PREFIX @ path_address a))"
    by blast
qed simp

section \<open>Properties\<close>

text \<open>
  C12. What a device of a BlueZ object path can obtain while an operator's pairing window is the last one
  opened: the PIN only if the path names the operator's address and the window has not expired, and a
  confirmation or authorization only in that case or if the cached device is already trusted. Every
  other device, at every time, is refused.
\<close>

theorem pairing_window_admits_only_its_device:
  assumes "open_pairing_window t0 address pin sc (n, m) = (r, (n', m'))" "normalize_address address = Inr a"
    "py_or pin (Some DEFAULT_PIN) = Some p"
    "others_keep (window_is a p (t0 + PAIRING_WINDOW_SECONDS)) sc"
  shows "let admitted = (address_from_device_path m' d = Some a \<and> now < t0 + PAIRING_WINDOW_SECONDS);
             answer = (\<lambda>ok. if ok then Inr () else Inl PairingRejected)
         in fst (RequestPinCode (authorized_pin now) m' d) = (if admitted then Inr p else Inl PairingRejected) \<and>
            fst (RequestConfirmation (confirm_pairing now) m' d k) = answer (admitted \<or> known_to_trust m' d) \<and>
            fst (RequestAuthorization (pairing_is_authorized now) m' d) = answer (admitted \<or> known_to_trust m' d) \<and>
            fst (AuthorizeService (pairing_is_authorized now) m' d u) = answer (admitted \<or> known_to_trust m' d)"
proof -
  have st: "window_is a p (t0 + PAIRING_WINDOW_SECONDS) m'"
    using open_pairing_window_state [OF assms] by simp
  then have "m_pairing_pin m' = Some p" by (simp add: window_is_def)
  then show ?thesis
    unfolding Let_def consent.answers_iff_allowed request_pin_iff window_for_open [OF st] by simp
qed

text \<open>
  Once the window is closed, and as long as none is opened, no device obtains a PIN or a passkey, and
  only the cached devices that are already trusted are confirmed or authorized.
\<close>

theorem closed_window_refuses:
  assumes "close_pairing_window sc (n, m) = (r, (n', m'))" "others_keep window_closed sc"
  shows "fst (RequestPinCode (authorized_pin now) m' d) = Inl PairingRejected \<and>
         fst (RequestPasskey (authorized_passkey now) m' d) = Inl PairingRejected \<and>
         fst (RequestConfirmation (confirm_pairing now) m' d k) =
           (if known_to_trust m' d then Inr () else Inl PairingRejected) \<and>
         fst (AuthorizeService (pairing_is_authorized now) m' d u) =
           (if known_to_trust m' d then Inr () else Inl PairingRejected)"
proof -
  have closed: "\<not> window_for now m' d"
    using close_pairing_window_state [OF assms] window_for_closed by simp
  then show ?thesis
    using consent.refuses_outside_window [OF closed]
    unfolding consent.answers_iff_allowed by simp
qed

text \<open>
  The object path of an uncached device names its address: the path BlueZ builds from a canonical
  address, under any adapter, resolves back to exactly that address.
\<close>

theorem device_path_roundtrip:
  assumes "canonical_address a" "device_at m (p @ DEVICE_PATH_PREFIX @ path_address a) = None"
  shows "address_from_device_path m (p @ DEVICE_PATH_PREFIX @ path_address a) = Some a"
proof -
  have mac: "MAC_PATTERN a" using assms(1) by (simp add: canonical_address_def)
  have "py_in DEVICE_PATH_PREFIX (p @ DEVICE_PATH_PREFIX @ path_address a)"
    unfolding py_in_iff by blast
  then show ?thesis
    unfolding address_from_device_path_def Let_def assms(2) after_last_path [OF mac] path_address_back [OF mac]
    by (simp add: normalize_upper [OF assms(1)])
qed

text \<open>
  A window the operator opens without a PIN answers a numeric passkey request of its device with the
  default PIN read as a number, the passkey 0.
\<close>

theorem default_pin_answers_passkey:
  assumes "open_pairing_window t0 address None sc (n, m) = (r, (n', m'))" "normalize_address address = Inr a"
    "others_keep (window_is a DEFAULT_PIN (t0 + PAIRING_WINDOW_SECONDS)) sc"
    "address_from_device_path m' d = Some a" "now < t0 + PAIRING_WINDOW_SECONDS"
  shows "fst (RequestPasskey (authorized_passkey now) m' d) = Inr 0"
proof -
  have st: "window_is a DEFAULT_PIN (t0 + PAIRING_WINDOW_SECONDS) m'"
    using open_pairing_window_state [OF assms(1,2) _ assms(3)] by (simp add: py_or_def)
  then have "fst (authorized_pin now m' d) = Some ''0000''"
    using assms(4,5) by (simp add: authorized_pin_iff window_for_open [OF st]) (simp add: window_is_def)
  then obtain m'' where pin: "authorized_pin now m' d = (Some ''0000'', m'')"
    by (cases "authorized_pin now m' d") auto
  have "py_isdigit ''0000''" "py_int ''0000'' = Some 0"
    by (simp_all add: py_isdigit_def py_int_def unsigned_int_def is_digit_def ord_of_def)
  then show ?thesis
    using pin by (simp add: RequestPasskey_def authorized_passkey_def)
qed

section \<open>Witnesses\<close>

text \<open>A schedule in which nothing happens while a task is suspended and every call succeeds.\<close>

definition calm :: schedule where
  "calm = (\<lambda>_. \<lparr>su_others = (\<lambda>m. m), su_now = 0, su_intro = CallOk, su_call = CallOk, su_extra = CallOk, su_props = []\<rparr>)"

lemma calm_keeps: "others_keep P calm"
  by (simp add: others_keep_def calm_def)

definition witness_window :: "string option \<Rightarrow> manager" where
  "witness_window pin = set_pairing_window 100 witness_address pin (new_manager None)"

lemma pairable_no_adapters: "m_adapters m = [] \<Longrightarrow> set_adapters_pairable b sc (n, m) = (Inr (), (n, m))"
  by (simp add: set_adapters_pairable_def each_adapter_def act_defs)

lemma witness_window_eq:
  "open_pairing_window 100 witness_address pin calm (0, new_manager None) = (Inr (), (0, witness_window pin))"
  by (simp add: open_pairing_window_def act_defs witness_address_ok pairable_no_adapters witness_window_def
      set_pairing_window_def new_manager_def)

definition witness_path :: string where
  "witness_path = ''/hci0/'' @ DEVICE_PATH_PREFIX @ path_address witness_address"

lemma no_device_at: "device_at (new_manager h) path = None"
  by (simp add: device_at_def new_manager_def)

lemma no_device_window: "device_at (witness_window pin) path = None"
  by (simp add: device_at_def new_manager_def witness_window_def set_pairing_window_def)

lemma witness_path_address: "address_from_device_path (witness_window pin) witness_path = Some witness_address"
proof -
  have mac: "MAC_PATTERN witness_address" using witness_address_canonical by (simp add: canonical_address_def)
  have "py_in DEVICE_PATH_PREFIX witness_path" unfolding witness_path_def py_in_iff by blast
  then show ?thesis
    unfolding address_from_device_path_def Let_def no_device_window witness_path_def
      after_last_path [OF mac] path_address_back [OF mac]
    by (simp add: normalize_upper [OF witness_address_canonical])
qed

theorem pairing_window_admits_only_its_device_witness:
  "fst (RequestPinCode (authorized_pin 120) (witness_window (Some ''1234'')) witness_path) = Inr ''1234'' \<and>
   fst (RequestPinCode (authorized_pin 200) (witness_window (Some ''1234'')) witness_path) = Inl PairingRejected"
proof -
  have p: "py_or (Some ''1234'') (Some DEFAULT_PIN) = Some ''1234''" by (simp add: py_or_def)
  show ?thesis
    using pairing_window_admits_only_its_device [OF witness_window_eq witness_address_ok p calm_keeps,
        where now = 120 and d = witness_path]
      pairing_window_admits_only_its_device [OF witness_window_eq witness_address_ok p calm_keeps,
        where now = 200 and d = witness_path]
    by (simp add: Let_def witness_path_address)
qed

theorem closed_window_refuses_witness:
  "fst (RequestPinCode (authorized_pin 120) (clear_pairing_window (witness_window None)) witness_path) =
     Inl PairingRejected"
proof -
  have eq: "close_pairing_window calm (0, witness_window None) = (Inr (), (0, clear_pairing_window (witness_window None)))"
    by (simp add: close_pairing_window_def act_defs pairable_no_adapters clear_pairing_window_def witness_window_def
        set_pairing_window_def new_manager_def)
  show ?thesis
    using closed_window_refuses [OF eq calm_keeps, where now = 120 and d = witness_path] by simp
qed

theorem device_path_roundtrip_witness:
  "address_from_device_path (new_manager None) (''/hci1/'' @ DEVICE_PATH_PREFIX @ path_address witness_address) =
     Some witness_address"
  by (rule device_path_roundtrip [OF witness_address_canonical no_device_at])

theorem default_pin_answers_passkey_witness:
  "fst (RequestPasskey (authorized_passkey 120) (witness_window None) witness_path) = Inr 0"
  by (rule default_pin_answers_passkey [OF witness_window_eq witness_address_ok calm_keeps witness_path_address]) simp

end
