(* ===== verification/BT_Connect.thy ===== *)
theory BT_Connect
  imports BT_Pairing
begin

text \<open>
  \<open>bluetooth/manager.py\<close>, the operations a request drives: scanning, finding a live device object,
  pairing, connecting, disconnecting and removing. They are actions of \<open>BT_Actions\<close>, so every theorem
  here is about all interleavings with other tasks and signals at the points where the code suspends.
\<close>

section \<open>Scanning\<close>

definition scan_adapters ::
  "(suspension \<Rightarrow> adapter \<Rightarrow> (py_exc + unit) \<times> adapter) \<Rightarrow> string option \<Rightarrow> unit act"
where
  "scan_adapters call adapter_name =
     (if adapter_name = None \<or> adapter_name = Some []
      then and_then (each_adapter (\<lambda>path a. and_then (on_adapter path call a) (\<lambda>_. ret (None :: unit option))))
             (\<lambda>_. ret ())
      else and_then (from_sum (validate_adapter_name (the adapter_name))) (\<lambda>name.
           and_then (query (\<lambda>m. get_adapter_by_name m name)) (\<lambda>adapter.
           case adapter of None \<Rightarrow> ret () | Some a \<Rightarrow> on_adapter (a_path a) call a)))"

definition start_scan :: "string option \<Rightarrow> unit act" where
  "start_scan = scan_adapters (\<lambda>su. adapter_start_discovery (su_intro su) (su_extra su) (su_call su))"

definition stop_scan :: "string option \<Rightarrow> unit act" where
  "stop_scan = scan_adapters (\<lambda>su. adapter_stop_discovery (su_call su))"

section \<open>Finding a live object (ensure_device)\<close>

text \<open>An await on the bus, and the attribute access on \<open>self.bus\<close> that needs one.\<close>

definition bus_await :: "(suspension \<Rightarrow> 'a) \<Rightarrow> 'a act" where
  "bus_await f = suspend (\<lambda>su m.
     (case su_call su of CallOk \<Rightarrow> Inr (f su) | CallFails t \<Rightarrow> Inl (DBusFailure t) | CallCancelled \<Rightarrow> Inl CancelledError, m))"

definition need_bus :: "unit act" where
  "need_bus = and_then (read has_bus) (\<lambda>bus.
     if bus then ret () else throw (RuntimeError ''NoneType object has no attribute''))"

text \<open>The body of the loop: an object BlueZ knows is cached, unless a live one is already there.\<close>

definition adopt_device :: "string \<Rightarrow> dbus_props \<Rightarrow> real \<Rightarrow> nat act" where
  "adopt_device dev_path properties now sc s =
     (case dict_get (m_devices (snd s)) dev_path of
        Some current \<Rightarrow> if \<not> d_detached (m_heap (snd s) current) then (Inr current, s)
                        else (Inr (m_next (snd s)), (fst s, install_device dev_path properties now (snd s)))
      | None \<Rightarrow> (Inr (m_next (snd s)), (fst s, install_device dev_path properties now (snd s))))"

definition fetch_device :: "string \<Rightarrow> nat option act" where
  "fetch_device dev_path =
     try_catch
       (and_then need_bus (\<lambda>_.
        and_then (bus_await (\<lambda>_. ())) (\<lambda>_.
        and_then need_bus (\<lambda>_.
        and_then (bus_await (\<lambda>su. (su_props su, su_now su))) (\<lambda>(properties, now).
        and_then (adopt_device dev_path properties now) (\<lambda>oid. ret (Some oid)))))))
       (\<lambda>_. ret None)"

definition live_object :: "nat option \<Rightarrow> manager \<Rightarrow> nat option" where
  "live_object dev m = (case dev of Some oid \<Rightarrow> if d_detached (m_heap m oid) then None else Some oid | None \<Rightarrow> None)"

definition ensure_device :: "string \<Rightarrow> nat option act" where
  "ensure_device address =
     and_then (query (\<lambda>m. get_device_by_address m address)) (\<lambda>dev.
     and_then (read (live_object dev)) (\<lambda>dev.
     case dev of Some oid \<Rightarrow> ret (Some oid)
     | None \<Rightarrow>
       and_then (read has_bus) (\<lambda>bus.
       if \<not> bus then ret None
       else and_then (from_sum (normalize_address address)) (\<lambda>address.
            each_adapter (\<lambda>path a. fetch_device (a_path a @ ''/'' @ DEVICE_PATH_PREFIX @ path_address address))))))"

section \<open>Connecting (connect_device)\<close>

text \<open>
  \<open>asyncio.timeout\<close>: when the deadline passed, the cancellation it caused leaves the block as a
  \<open>TimeoutError\<close>; a cancellation from outside stays one.
\<close>

definition with_timeout :: "bool \<Rightarrow> 'a act \<Rightarrow> 'a act" where
  "with_timeout expired f sc s =
     (case f sc s of
        (Inl e, s') \<Rightarrow> (Inl (if e = CancelledError \<and> expired then TimeoutExpired else e), s')
      | (Inr x, s') \<Rightarrow> (Inr x, s'))"

text \<open>\<open>async with lock\<close> on a lock that is free: it is taken without suspending and always released.\<close>

definition with_lock :: "string \<Rightarrow> 'a act \<Rightarrow> 'a act" where
  "with_lock name body =
     and_then (modify (\<lambda>m. m\<lparr>m_locked := name # m_locked m\<rparr>)) (\<lambda>_.
     try_finally body (modify (\<lambda>m. m\<lparr>m_locked := remove1 name (m_locked m)\<rparr>)))"

definition is_current :: "nat \<Rightarrow> manager \<Rightarrow> bool" where
  "is_current oid m \<longleftrightarrow>
     dict_get (m_devices m) (d_path (m_heap m oid)) = Some oid \<and> \<not> d_detached (m_heap m oid)"

definition withdrawn_error :: "string \<Rightarrow> py_exc" where
  "withdrawn_error address =
     RuntimeError (''Device '' @ address @ '' was withdrawn or superseded during connection'')"

definition require_current :: "string \<Rightarrow> nat \<Rightarrow> unit act" where
  "require_current address oid =
     and_then (read (is_current oid)) (\<lambda>ok. if ok then ret () else throw (withdrawn_error address))"

definition STALE_MARKERS :: "string list" where
  "STALE_MARKERS = [''unknownobject'', ''unknown object'', ''interface not found'', ''stale device1'', ''unknownmethod'']"

definition stale_error :: "py_exc \<Rightarrow> bool" where
  "stale_error e \<longleftrightarrow> (\<exists>marker \<in> set STALE_MARKERS. py_in marker (lower (exc_text e)))"

definition is_in_progress :: "py_exc \<Rightarrow> bool" where
  "is_in_progress e \<longleftrightarrow> (case e of OperationInProgress _ \<Rightarrow> True | _ \<Rightarrow> False)"

text \<open>The handler of a failed connection attempt; it always raises.\<close>

definition observe_stale :: "string \<Rightarrow> py_exc \<Rightarrow> real \<Rightarrow> unit act" where
  "observe_stale address error now sc s =
     (case m_health (snd s) of
        None \<Rightarrow> (Inr (), s)
      | Some h \<Rightarrow>
          (case observe_speaker h address SP_UNAVAILABLE (Some FC_STALE_BLUEZ_OBJECT) (Some (exc_text error)) 0
                  None now now of
             Inl e \<Rightarrow> (Inl e, s)
           | Inr h' \<Rightarrow> (Inr (), (fst s, (snd s)\<lparr>m_health := Some h'\<rparr>))))"

definition connect_failed :: "string \<Rightarrow> nat \<Rightarrow> real \<Rightarrow> py_exc \<Rightarrow> unit act" where
  "connect_failed address oid now error =
     (if is_in_progress error then throw error
      else if stale_error error
      then and_then (modify (update_obj oid mark_detached)) (\<lambda>_.
           and_then (observe_stale address error now) (\<lambda>_. throw error))
      else throw error)"

definition attempt_connection :: "string \<Rightarrow> nat \<Rightarrow> bool \<Rightarrow> real \<Rightarrow> unit act" where
  "attempt_connection address oid reset_existing now =
     try_catch
       (and_then (read (\<lambda>m. d_connected (m_heap m oid))) (\<lambda>connected.
        and_then (if connected \<and> reset_existing then and_then (dev_disconnect oid) (\<lambda>_. sleep) else ret ()) (\<lambda>_.
        and_then (require_current address oid) (\<lambda>_.
        dev_connect oid))))
       (connect_failed address oid now)"

definition connect_locked :: "string \<Rightarrow> string \<Rightarrow> nat \<Rightarrow> bool \<Rightarrow> real \<Rightarrow> bool act" where
  "connect_locked address adapter_name oid reset_existing now =
     and_then (require_current address oid) (\<lambda>_.
     and_then (read (\<lambda>m. d_connected (m_heap m oid))) (\<lambda>connected.
     if connected \<and> \<not> reset_existing then ret True
     else and_then (try_catch (stop_scan (Some adapter_name)) (\<lambda>_. ret ())) (\<lambda>_.
          and_then sleep (\<lambda>_.
          and_then (require_current address oid) (\<lambda>_.
          and_then (attempt_connection address oid reset_existing now) (\<lambda>_.
          and_then (try_catch (dev_set_trusted True oid) (\<lambda>_. ret ())) (\<lambda>_.
          and_then (require_current address oid) (\<lambda>_. ret True))))))))"

definition not_found_error :: "string \<Rightarrow> py_exc" where
  "not_found_error address =
     ValueError (''Device with address '' @ address @ '' not found. Ensure device is powered on and in pairing mode.'')"

definition busy_error :: "string \<Rightarrow> py_exc" where
  "busy_error adapter_name = OperationInProgress (''Bluetooth connection already in progress on '' @ adapter_name)"

definition connect_device :: "bool \<Rightarrow> real \<Rightarrow> string \<Rightarrow> bool \<Rightarrow> bool act" where
  "connect_device expired now address reset_existing =
     and_then (from_sum (normalize_address address)) (\<lambda>address.
     with_timeout expired
       (and_then (ensure_device address) (\<lambda>dev.
        case dev of None \<Rightarrow> throw (not_found_error address)
        | Some oid \<Rightarrow>
          and_then (query (\<lambda>m. validate_adapter_name (d_adapter_name (m_heap m oid)))) (\<lambda>adapter_name.
          and_then (read (\<lambda>m. adapter_name \<in> set (m_locked m))) (\<lambda>locked.
          if locked then throw (busy_error adapter_name)
          else with_lock adapter_name (connect_locked address adapter_name oid reset_existing now))))))"

section \<open>Pairing (pair_and_trust)\<close>

text \<open>\<open>Adapter1.ConnectDevice\<close> on an adapter; what it returns is not used.\<close>

definition adapter_connect_device :: "adapter \<Rightarrow> unit act" where
  "adapter_connect_device a =
     (if \<not> a_bus a then ret ()
      else and_then (bus_await (\<lambda>_. ())) (\<lambda>_. bus_await (\<lambda>_. ())))"

definition search_adapters :: "string \<Rightarrow> nat option act" where
  "search_adapters address =
     each_adapter (\<lambda>path a.
       try_catch (and_then (adapter_connect_device a) (\<lambda>_. ensure_device address)) (\<lambda>_. ret None))"

definition pair_device :: "string \<Rightarrow> bool act" where
  "pair_device address =
     and_then (try_catch (stop_scan None) (\<lambda>_. ret ())) (\<lambda>_.
     and_then sleep (\<lambda>_.
     and_then (ensure_device address) (\<lambda>dev.
     and_then (read (\<lambda>m. case dev of Some oid \<Rightarrow> has_bus m \<and> \<not> d_connected (m_heap m oid) | None \<Rightarrow> False)) (\<lambda>refresh.
     and_then
       (if refresh
        then and_then (modify (\<lambda>m. m\<lparr>m_devices := dict_del (d_path (m_heap m (the dev))) (m_devices m)\<rparr>)) (\<lambda>_.
             and_then (ensure_device address) (\<lambda>refreshed.
             ret (case refreshed of Some oid \<Rightarrow> Some oid | None \<Rightarrow> dev)))
        else ret dev) (\<lambda>dev.
     and_then
       (case dev of Some oid \<Rightarrow> ret (Some oid)
        | None \<Rightarrow> and_then (search_adapters address) (\<lambda>dev.
             case dev of Some oid \<Rightarrow> ret (Some oid) | None \<Rightarrow> ensure_device address)) (\<lambda>dev.
     case dev of None \<Rightarrow> throw (not_found_error address)
     | Some oid \<Rightarrow>
         and_then (dev_pair oid) (\<lambda>_.
         and_then (dev_connect oid) (\<lambda>_.
         and_then (dev_set_trusted True oid) (\<lambda>_. ret True)))))))))"

definition pair_and_trust :: "real \<Rightarrow> string \<Rightarrow> string option \<Rightarrow> bool act" where
  "pair_and_trust now address pin =
     and_then (from_sum (normalize_address address)) (\<lambda>address.
     and_then (open_pairing_window now address pin) (\<lambda>_.
     try_finally (pair_device address) close_pairing_window))"

section \<open>Disconnecting and removing\<close>

definition disconnect_device :: "string \<Rightarrow> bool act" where
  "disconnect_device address =
     and_then (from_sum (normalize_address address)) (\<lambda>address.
     and_then (ensure_device address) (\<lambda>dev.
     case dev of None \<Rightarrow> throw (ValueError (''Device with address '' @ address @ '' not found''))
     | Some oid \<Rightarrow> and_then (dev_disconnect oid) (\<lambda>_. ret True)))"

definition forget_object :: "nat \<Rightarrow> manager \<Rightarrow> manager" where
  "forget_object oid m = m\<lparr>m_devices := dict_del (d_path (m_heap m oid)) (m_devices m)\<rparr>"

definition remove_found :: "nat \<Rightarrow> bool \<Rightarrow> bool act" where
  "remove_found oid detached =
     and_then (try_catch (dev_set_trusted False oid) (\<lambda>_. ret ())) (\<lambda>_.
     and_then (read (\<lambda>m. d_connected (m_heap m oid))) (\<lambda>connected.
     and_then (if connected then try_catch (dev_disconnect oid) (\<lambda>_. ret ()) else ret ()) (\<lambda>_.
     and_then (read has_bus) (\<lambda>bus.
     if \<not> bus \<or> detached then and_then (modify (forget_object oid)) (\<lambda>_. ret True)
     else and_then
            (try_catch
               (and_then (bus_await (\<lambda>_. ())) (\<lambda>_. and_then need_bus (\<lambda>_. bus_await (\<lambda>_. ())))) (\<lambda>_. ret ())) (\<lambda>_.
          and_then (modify (forget_object oid)) (\<lambda>_. ret True))))))"

definition remove_device :: "string \<Rightarrow> bool act" where
  "remove_device address =
     and_then (from_sum (normalize_address address)) (\<lambda>address.
     and_then (query (\<lambda>m. get_device_by_address m address)) (\<lambda>cached.
     and_then (read (\<lambda>m. case cached of Some oid \<Rightarrow> d_detached (m_heap m oid) | None \<Rightarrow> False)) (\<lambda>detached.
     and_then (case cached of Some oid \<Rightarrow> ret (Some oid) | None \<Rightarrow> ensure_device address) (\<lambda>dev.
     case dev of None \<Rightarrow> ret False | Some oid \<Rightarrow> remove_found oid detached))))"

section \<open>What every coroutine keeps\<close>

lemma device_calls_path:
  "device_connect i c p d = (r, d') \<Longrightarrow> d_path d' = d_path d"
  "device_disconnect c d = (r, d') \<Longrightarrow> d_path d' = d_path d"
  "device_pair i c d = (r, d') \<Longrightarrow> d_path d' = d_path d"
  "device_set_trusted c b d = (r, d') \<Longrightarrow> d_path d' = d_path d"
  by (auto dest!: device_connect_cases device_pair_cases
      simp: device_disconnect_def device_set_trusted_def Let_def set_paired_def
      split: if_splits bus_call.splits)

lemma adapter_calls_path:
  "adapter_set_pairable c b a = (r, a') \<Longrightarrow> a_path a' = a_path a"
  "adapter_start_discovery i f c a = (r, a') \<Longrightarrow> a_path a' = a_path a"
  "adapter_stop_discovery c a = (r, a') \<Longrightarrow> a_path a' = a_path a"
  by (auto simp: adapter_set_pairable_def adapter_start_discovery_def adapter_stop_discovery_def Let_def
      split: if_splits bus_call.splits)

text \<open>
  \<open>stable P\<close>: what a state property must tolerate for every coroutine to keep it: changes of a cached
  object by a call on its proxy, of the adapters, of the locks, and the filing of devices.
\<close>

lemma preserves_dev_calls [keeps]:
  assumes "\<And>m d. P m \<Longrightarrow> d_path d = d_path (m_heap m oid) \<Longrightarrow> P (update_obj oid (\<lambda>_. d) m)"
  shows "preserves P (dev_connect oid)" "preserves P (dev_disconnect oid)" "preserves P (dev_pair oid)"
    "preserves P (dev_set_trusted b oid)"
  unfolding dev_connect_def dev_disconnect_def dev_pair_def dev_set_trusted_def
  by (auto intro!: preserves_on_device assms dest: device_calls_path)

lemma preserves_branch [keeps]:
  "preserves P f \<Longrightarrow> (\<And>x. preserves P (g x)) \<Longrightarrow> preserves P (case v of None \<Rightarrow> f | Some x \<Rightarrow> g x)"
  "preserves P f' \<Longrightarrow> preserves P h \<Longrightarrow> preserves P (if b then f' else h)"
  "(\<And>x y. preserves P (k x y)) \<Longrightarrow> preserves P (case xy of (x, y) \<Rightarrow> k x y)"
  by (cases v) (auto split: prod.splits)

lemma preserves_on_adapter_call:
  assumes "\<And>m a a'. P m \<Longrightarrow> dict_get (m_adapters m) path = Some a \<Longrightarrow> a_path a' = a_path a \<Longrightarrow>
      P (m\<lparr>m_adapters := dict_set path a' (m_adapters m)\<rparr>)"
    and "\<And>su a r a'. f su a = (r, a') \<Longrightarrow> a_path a' = a_path a"
  shows "preserves P (on_adapter path f a)"
  by (rule preserves_on_adapter) (use assms in blast)

lemma preserves_scan:
  assumes "\<And>m path a a'. P m \<Longrightarrow> dict_get (m_adapters m) path = Some a \<Longrightarrow> a_path a' = a_path a \<Longrightarrow>
      P (m\<lparr>m_adapters := dict_set path a' (m_adapters m)\<rparr>)"
  shows "preserves P (start_scan n)" "preserves P (stop_scan n)" "preserves P (set_adapters_pairable b)"
  unfolding start_scan_def stop_scan_def scan_adapters_def set_adapters_pairable_def
  by (intro keeps preserves_on_adapter_call assms; (assumption | erule adapter_calls_path))+

lemma preserves_bus_await [keeps]: "preserves P (bus_await f)"
  unfolding bus_await_def by (rule preserves_suspend) auto

lemma preserves_adopt [keeps]:
  assumes "\<And>m path pr now. P m \<Longrightarrow> P (install_device path pr now m)"
  shows "preserves P (adopt_device path pr now)"
  using assms by (auto simp: preserves_def adopt_device_def split: option.splits)

lemma preserves_ensure [keeps]:
  assumes "\<And>m path pr now. P m \<Longrightarrow> P (install_device path pr now m)"
  shows "preserves P (ensure_device address)"
  unfolding ensure_device_def fetch_device_def need_bus_def
  by (intro keeps assms)

lemma with_timeout_state: "snd (with_timeout expired f sc s) = snd (f sc s)"
  by (simp add: with_timeout_def split: prod.splits sum.splits)

lemma preserves_with_timeout [keeps]: "preserves P f \<Longrightarrow> preserves P (with_timeout expired f)"
  unfolding preserves_def with_timeout_state .

lemma preserves_require_current [keeps]: "preserves P (require_current address oid)"
  unfolding require_current_def by (auto intro!: keeps)

lemma manager_ok_locks [simp]: "manager_ok (m\<lparr>m_locked := l\<rparr>) = manager_ok m"
  by (simp add: manager_ok_def dict_all_def device_filed_def)

lemma manager_ok_window [simp]:
  "manager_ok (set_pairing_window now a pin m) = manager_ok m" "manager_ok (clear_pairing_window m) = manager_ok m"
  by (simp_all add: manager_ok_def dict_all_def device_filed_def set_pairing_window_def clear_pairing_window_def)

lemma manager_ok_object:
  "manager_ok m \<Longrightarrow> d_path d = d_path (m_heap m oid) \<Longrightarrow> manager_ok (update_obj oid (\<lambda>_. d) m)"
  by (auto simp: manager_ok_def device_filed_def update_obj_def dict_all_def)

lemma manager_ok_observe_stale: "preserves manager_ok (observe_stale address e now)"
  using observe_speaker_ok manager_ok_health manager_ok_registry
  by (fastforce simp: preserves_def observe_stale_def split: option.splits sum.splits)

lemma manager_ok_forget_object: "manager_ok m \<Longrightarrow> manager_ok (forget_object oid m)"
  unfolding forget_object_def by (rule manager_ok_forget)

lemma manager_ok_new_flags:
  "manager_ok m \<Longrightarrow> dict_get (m_adapters m) path = Some a \<Longrightarrow> a_path a' = a_path a \<Longrightarrow>
     manager_ok (m\<lparr>m_adapters := dict_set path a' (m_adapters m)\<rparr>)"
  by (rule manager_ok_new_adapter) (simp_all add: filed_adapter)

lemmas keeps_ok = keeps preserves_scan manager_ok_new_flags manager_ok_object manager_ok_install

lemma connect_failed_keeps_ok: "preserves manager_ok (connect_failed address oid now e)"
  unfolding connect_failed_def
  by (intro keeps manager_ok_observe_stale manager_ok_update_obj) simp_all

lemma connect_keeps_ok: "preserves manager_ok (connect_device expired now address reset_existing)"
  unfolding connect_device_def with_lock_def connect_locked_def attempt_connection_def
  by (intro keeps_ok connect_failed_keeps_ok) simp_all

lemma pair_keeps_ok: "preserves manager_ok (pair_and_trust now address pin)"
  unfolding pair_and_trust_def open_pairing_window_def close_pairing_window_def pair_device_def
    search_adapters_def adapter_connect_device_def
  by (intro keeps_ok manager_ok_forget) simp_all

lemma remove_keeps_ok: "preserves manager_ok (remove_device address)"
  unfolding remove_device_def remove_found_def need_bus_def
  by (intro keeps_ok manager_ok_forget_object) simp_all

lemma disconnect_keeps_ok: "preserves manager_ok (disconnect_device address)"
  unfolding disconnect_device_def
  by (intro keeps_ok)

section \<open>Locks and results\<close>

lemma install_device_locked [simp]: "m_locked (install_device path pr now m) = m_locked m"
  by (simp add: install_device_def Let_def drop_detached_duplicates_def alloc_device_def)

lemma update_obj_locked [simp]: "m_locked (update_obj oid f m) = m_locked m"
  by (simp add: update_obj_def)

lemma preserves_locked_parts:
  "preserves (\<lambda>m. m_locked m = L) (ensure_device address)"
  "preserves (\<lambda>m. m_locked m = L) (connect_failed address oid now e)"
  "preserves (\<lambda>m. m_locked m = L) (connect_locked address name oid reset now)"
proof -
  show "preserves (\<lambda>m. m_locked m = L) (ensure_device address)" by (intro keeps) simp
  have "preserves (\<lambda>m. m_locked m = L) (observe_stale address e now)" for e
    by (auto simp: preserves_def observe_stale_def split: option.splits sum.splits)
  then show failed: "preserves (\<lambda>m. m_locked m = L) (connect_failed address oid now e)" for e
    unfolding connect_failed_def by (intro keeps) simp_all
  show "preserves (\<lambda>m. m_locked m = L) (connect_locked address name oid reset now)"
    unfolding connect_locked_def attempt_connection_def
    by (intro keeps preserves_scan failed) simp_all
qed

lemma with_lock_restores:
  assumes "\<And>L. preserves (\<lambda>m. m_locked m = L) body"
  shows "restores m_locked (with_lock name body)"
  unfolding restores_def
proof (intro allI impI)
  fix sc :: schedule and s :: "nat \<times> manager" assume sc: "others_leave m_locked sc"
  let ?s = "(fst s, (snd s)\<lparr>m_locked := name # m_locked (snd s)\<rparr>)"
  obtain r s' where b: "body sc ?s = (r, s')" by (cases "body sc ?s")
  have "m_locked (snd s') = name # m_locked (snd s)"
    by (rule preservesD [OF assms others_leave_keep [OF sc] _ b]) simp
  then show "m_locked (snd (snd (with_lock name body sc s))) = m_locked (snd s)"
    using b by (simp add: with_lock_def act_defs split: prod.splits)
qed

lemma connect_restores_locks: "restores m_locked (connect_device expired now address reset_existing)"
proof -
  have timeout: "restores g f \<Longrightarrow> restores g (with_timeout expired f)" for g :: "manager \<Rightarrow> string list" and f :: "bool act"
    unfolding restores_def with_timeout_state .
  show ?thesis
    unfolding connect_device_def
    by (intro restores_and_then timeout restores_branch with_lock_restores preserves_locked_parts
        preserves_restores keeps)
qed

lemma require_current_run:
  "require_current address oid sc s =
     (if is_current oid (snd s) then (Inr (), s) else (Inl (withdrawn_error address), s))"
  by (simp add: require_current_def act_defs)

lemma advances_stop_scan [advance_rules]: "advances (stop_scan name)"
  unfolding stop_scan_def scan_adapters_def by (auto intro!: advance_rules split: option.split)







section \<open>Failure handling and the undisturbed path\<close>

lemma connect_failed_run:
  assumes ok: "manager_ok (snd s)" and h: "m_health (snd s) = Some h" and a: "canonical_address a"
  shows "connect_failed a oid now e sc s = (Inl e, (fst s,
     if \<not> is_in_progress e \<and> stale_error e
     then (update_obj oid mark_detached (snd s))\<lparr>m_health := Some (case observe_speaker h a SP_UNAVAILABLE
            (Some FC_STALE_BLUEZ_OBJECT) (Some (exc_text e)) 0 None now now of Inr h' \<Rightarrow> h' | Inl _ \<Rightarrow> h)\<rparr>
     else snd s))"
proof -
  have "\<exists>h'. observe_speaker h a SP_UNAVAILABLE (Some FC_STALE_BLUEZ_OBJECT) (Some (exc_text e)) 0 None now now = Inr h'"
    using observe_speaker_accepts [OF manager_ok_registry [OF ok h] normalize_canonical [OF a]] by simp
  then show ?thesis
    using h by (auto simp: connect_failed_def act_defs observe_stale_def update_obj_def)
qed

text \<open>
  A schedule on which no other task changes anything and every call succeeds.
\<close>

definition undisturbed :: "schedule \<Rightarrow> bool" where
  "undisturbed sc \<longleftrightarrow> (\<forall>n. su_others (sc n) = (\<lambda>m. m) \<and> su_intro (sc n) = CallOk \<and> su_call (sc n) = CallOk \<and>
     su_extra (sc n) = CallOk)"

lemma calm_undisturbed: "undisturbed calm"
  by (simp add: undisturbed_def calm_def)

lemma on_device_ok:
  assumes "undisturbed sc" "\<And>su. su_intro su = CallOk \<Longrightarrow> su_call su = CallOk \<Longrightarrow> f su (m_heap m oid) = (Inr (), d)"
  shows "\<exists>k. on_device oid f sc (n, m) = (Inr (), (k, update_obj oid (\<lambda>_. d) m))"
  using assms by (auto simp: on_device_def Let_def suspend_def undisturbed_def)

lemma sleep_ok: "undisturbed sc \<Longrightarrow> sleep sc (n, m) = (Inr (), (Suc n, m))"
  by (simp add: sleep_def suspend_def undisturbed_def)

lemma validate_adapter_stable: "validate_adapter_name n = Inr x \<Longrightarrow> x = n \<and> validate_adapter_name x = Inr x"
  by (auto simp: validate_adapter_name_def split: if_splits)

lemma stop_scan_ok:
  assumes "undisturbed sc" "validate_adapter_name name = Inr name" "name \<noteq> []"
  shows "\<exists>k as. stop_scan (Some name) sc (n, m) = (Inr (), (k, m\<lparr>m_adapters := as\<rparr>))"
proof -
  have unchanged: "\<exists>as. m = m\<lparr>m_adapters := as\<rparr>" by (rule exI [of _ "m_adapters m"]) simp
  have call: "\<exists>k as. on_adapter path (\<lambda>su. adapter_stop_discovery (su_call su)) a sc (n, m) = (Inr (), (k, m\<lparr>m_adapters := as\<rparr>))"
    for path a
    using assms(1) unchanged
    by (auto simp: on_adapter_def Let_def suspend_def undisturbed_def adapter_stop_discovery_def
        split: option.splits)
  obtain r where r: "get_adapter_by_name m name = Inr r"
    using assms(2) by (auto simp: get_adapter_by_name_def)
  show ?thesis
    using call unchanged
    by (cases r) (auto simp: stop_scan_def scan_adapters_def assms(2,3) act_defs r)
qed

lemma adapter_name_nonempty: "validate_adapter_name n = Inr x \<Longrightarrow> x \<noteq> []"
  by (auto simp: validate_adapter_name_def ADAPTER_PATTERN_def starts_with_def split: if_splits)

lemma set_trusted_simps [simp]:
  "d_path (d\<lparr>d_props := set_prop k v (d_props d)\<rparr>) = d_path d"
  by simp

definition trusted_link :: "device \<Rightarrow> device" where
  "trusted_link d =
     (let d = set_connected True d in d\<lparr>d_props := set_prop ''Trusted'' (PBool True) (d_props d)\<rparr>)"

lemma connect_locked_undisturbed:
  assumes sc: "undisturbed sc" and cur: "is_current oid m" and idle: "\<not> d_connected (m_heap m oid)"
    and name: "validate_adapter_name name = Inr name"
  shows "\<exists>k as. connect_locked a name oid reset now sc (n, m) =
      (Inr True, (k, (update_obj oid trusted_link m)\<lparr>m_adapters := as\<rparr>))"
proof -
  obtain k1 as where scan: "stop_scan (Some name) sc (n, m) = (Inr (), (k1, m\<lparr>m_adapters := as\<rparr>))"
    using stop_scan_ok [OF sc name adapter_name_nonempty [OF name]] by blast
  let ?m1 = "m\<lparr>m_adapters := as\<rparr>" and ?d = "m_heap m oid"
  let ?m2 = "update_obj oid (\<lambda>_. set_connected True ?d) ?m1"
  let ?m3 = "update_obj oid (\<lambda>_. trusted_link ?d) ?m2"
  have conn: "\<exists>k. dev_connect oid sc (Suc k1, ?m1) = (Inr (), (k, ?m2))"
    unfolding dev_connect_def using sc
    by (auto simp: undisturbed_def on_device_def Let_def suspend_def device_connect_def split: bus_call.splits)
  then obtain k2 where conn: "dev_connect oid sc (Suc k1, ?m1) = (Inr (), (k2, ?m2))" by blast
  have "\<exists>k. dev_set_trusted True oid sc (k2, ?m2) = (Inr (), (k, ?m3))"
    unfolding dev_set_trusted_def using sc
    by (intro on_device_ok) (auto simp: device_set_trusted_def Let_def trusted_link_def)
  then obtain k3 where trust: "dev_set_trusted True oid sc (k2, ?m2) = (Inr (), (k3, ?m3))" by blast
  have cur1: "is_current oid ?m1" "\<not> d_connected (m_heap ?m1 oid)" using cur idle by (simp_all add: is_current_def)
  have cur3: "is_current oid ?m3"
    using cur by (simp add: is_current_def trusted_link_def Let_def)
  have attempt: "attempt_connection a oid reset now sc (Suc k1, ?m1) = (Inr (), (k2, ?m2))"
    using cur1 by (simp add: attempt_connection_def act_defs require_current_run conn)
  have m3: "?m3 = (update_obj oid trusted_link m)\<lparr>m_adapters := as\<rparr>"
    by (simp add: update_obj_def)
  have "connect_locked a name oid reset now sc (n, m) = (Inr True, (k3, ?m3))"
    using cur idle cur1 cur3
    by (simp add: connect_locked_def and_then_def try_catch_def read_def ret_def require_current_run scan
        sleep_ok [OF sc] attempt trust)
  then show ?thesis unfolding m3 by blast
qed

lemma connect_undisturbed:
  assumes "undisturbed sc" "normalize_address address = Inr a" "get_device_by_address m a = Inr (Some oid)"
    "is_current oid m" "\<not> d_connected (m_heap m oid)"
    "validate_adapter_name (d_adapter_name (m_heap m oid)) = Inr name" "name \<notin> set (m_locked m)"
  shows "\<exists>k m'. connect_device expired now address reset_existing sc (n, m) = (Inr True, (k, m')) \<and>
    m_heap m' = (m_heap m)(oid := trusted_link (m_heap m oid)) \<and> m_devices m' = m_devices m \<and>
    d_connected (m_heap m' oid) \<and> d_trusted (m_heap m' oid)"
proof -
  let ?m = "m\<lparr>m_locked := name # m_locked m\<rparr>"
  have name: "validate_adapter_name name = Inr name"
    using validate_adapter_stable [OF assms(6)] by blast
  have "is_current oid ?m" "\<not> d_connected (m_heap ?m oid)"
    using assms(4,5) by (simp_all add: is_current_def)
  from connect_locked_undisturbed [OF assms(1) this name, of a reset_existing now n]
  obtain k as where run: "connect_locked a name oid reset_existing now sc (n, ?m) =
      (Inr True, (k, (update_obj oid trusted_link ?m)\<lparr>m_adapters := as\<rparr>))" by blast
  have live: "\<not> d_detached (m_heap m oid)" using assms(4) by (simp add: is_current_def)
  have flags: "d_connected (trusted_link (m_heap m oid))" "d_trusted (trusted_link (m_heap m oid))"
    using live by (simp_all add: trusted_link_def Let_def set_connected_def d_connected_def d_trusted_def)
  show ?thesis
    using assms(2,3,6,7) live flags
    by (simp add: connect_device_def ensure_device_def live_object_def with_timeout_def with_lock_def
        and_then_def try_finally_def read_def query_def from_sum_def modify_def ret_def run)
qed

section \<open>Operations that are never cancelled\<close>

definition not_cancelled :: "schedule \<Rightarrow> bool" where
  "not_cancelled sc \<longleftrightarrow> (\<forall>n. su_call (sc n) \<noteq> CallCancelled)"

definition uncancelled :: "schedule \<Rightarrow> unit act \<Rightarrow> bool" where
  "uncancelled sc f \<longleftrightarrow> (\<forall>s. fst (f sc s) \<noteq> Inl CancelledError)"

lemma uncancelled_catch: "uncancelled sc f \<Longrightarrow> \<exists>s'. try_catch f (\<lambda>_. ret ()) sc s = (Inr (), s')"
proof -
  assume f: "uncancelled sc f"
  obtain r s' where fs: "f sc s = (r, s')" by (cases "f sc s")
  have "r \<noteq> Inl CancelledError" using f fs unfolding uncancelled_def by (metis fst_conv)
  then show ?thesis by (cases r) (auto simp: try_catch_def ret_def fs)
qed

lemma uncancelled_and_then:
  assumes f: "uncancelled sc f" and g: "\<And>x. uncancelled sc (g x)"
  shows "uncancelled sc (and_then f g)"
  unfolding uncancelled_def
proof
  fix s
  obtain r s' where fs: "f sc s = (r, s')" by (cases "f sc s")
  have "fst (f sc s) \<noteq> Inl CancelledError" using f unfolding uncancelled_def by blast
  moreover have "fst (g x sc s') \<noteq> Inl CancelledError" for x using g unfolding uncancelled_def by blast
  ultimately show "fst (and_then f g sc s) \<noteq> Inl CancelledError"
    by (cases r) (auto simp: and_then_def fs)
qed

lemma uncancelled_on_device:
  assumes sc: "not_cancelled sc"
    and f: "\<And>su d. su_call su \<noteq> CallCancelled \<Longrightarrow> fst (f su d) \<noteq> Inl CancelledError"
  shows "uncancelled sc (on_device oid f)"
  using f [OF sc [unfolded not_cancelled_def, rule_format]]
  by (auto simp: uncancelled_def on_device_def Let_def suspend_def split: prod.splits) (metis fst_conv)+

lemma uncancelled_calls:
  assumes sc: "not_cancelled sc"
  shows "uncancelled sc (dev_set_trusted b oid)" "uncancelled sc (dev_disconnect oid)"
    "uncancelled sc (bus_await (\<lambda>_. ()))" "uncancelled sc need_bus"
proof -
  show "uncancelled sc (dev_set_trusted b oid)" "uncancelled sc (dev_disconnect oid)"
    unfolding dev_set_trusted_def dev_disconnect_def
    by (auto intro!: uncancelled_on_device [OF sc] simp: device_set_trusted_def device_disconnect_def Let_def
        split: bus_call.splits)
  show "uncancelled sc (bus_await (\<lambda>_. ()))" "uncancelled sc need_bus"
    using sc by (auto simp: uncancelled_def not_cancelled_def bus_await_def suspend_def need_bus_def act_defs
        split: bus_call.splits)
qed

lemma forget_object_forgets: "dict_get (m_devices (forget_object oid m)) (d_path (m_heap (forget_object oid m) oid)) = None"
  by (simp add: forget_object_def)

lemma remove_found_returns:
  assumes sc: "not_cancelled sc"
  shows "\<exists>s'. remove_found oid detached sc s = (Inr True, s') \<and>
      dict_get (m_devices (snd s')) (d_path (m_heap (snd s') oid)) = None"
proof -
  note unc = uncancelled_calls [OF sc]
  obtain s1 where s1: "try_catch (dev_set_trusted False oid) (\<lambda>_. ret ()) sc s = (Inr (), s1)"
    using uncancelled_catch [OF unc(1)] by blast
  have "\<exists>s2. (if b then try_catch (dev_disconnect oid) (\<lambda>_. ret ()) else ret ()) sc s1 = (Inr (), s2)" for b
    using uncancelled_catch [OF unc(2), where s = s1] by (cases b) (simp_all add: ret_def)
  then obtain s2 where s2: "(if d_connected (m_heap (snd s1) oid) then try_catch (dev_disconnect oid) (\<lambda>_. ret ())
      else ret ()) sc s1 = (Inr (), s2)"
    by blast
  have "uncancelled sc (and_then (bus_await (\<lambda>_. ())) (\<lambda>_. and_then need_bus (\<lambda>_. bus_await (\<lambda>_. ()))))"
    by (intro uncancelled_and_then unc)
  then obtain s3 where s3: "try_catch (and_then (bus_await (\<lambda>_. ())) (\<lambda>_. and_then need_bus (\<lambda>_. bus_await (\<lambda>_. ()))))
      (\<lambda>_. ret ()) sc s2 = (Inr (), s3)"
    using uncancelled_catch by blast
  show ?thesis
    using forget_object_forgets s2
    by (simp add: remove_found_def and_then_def [of _ _ sc] s1 s2 s3 read_def modify_def ret_def)
qed

section \<open>Properties\<close>

text \<open>
  Every operation keeps the cache well formed, on every outcome and under every interleaving: if the
  other tasks keep the invariant at the points where the operation is suspended, so does the operation,
  whether it returns, raises or is cancelled.
\<close>

theorem coroutines_keep_cache:
  assumes "manager_ok m" "others_keep manager_ok sc"
  shows "manager_ok (snd (snd (connect_device expired now address reset_existing sc (n, m)))) \<and>
         manager_ok (snd (snd (pair_and_trust now address pin sc (n, m)))) \<and>
         manager_ok (snd (snd (disconnect_device address sc (n, m)))) \<and>
         manager_ok (snd (snd (remove_device address sc (n, m))))"
  using preserves_run [OF connect_keeps_ok assms(2)] preserves_run [OF pair_keeps_ok assms(2)]
    preserves_run [OF disconnect_keeps_ok assms(2)] preserves_run [OF remove_keeps_ok assms(2)] assms(1)
  by simp


text \<open>
  The lock of an adapter is held exactly while a connection runs on it. A second connection on the
  same adapter is refused at once, without suspending and without changing anything; and on every
  outcome of a connection (success, error, timeout, cancellation) the held locks are those held before.
\<close>

theorem connect_lock_discipline:
  assumes "others_leave m_locked sc"
  shows "m_locked (snd (snd (connect_device expired now address reset_existing sc (n, m)))) = m_locked m \<and>
    (normalize_address address = Inr a \<and> get_device_by_address m a = Inr (Some oid) \<and>
     \<not> d_detached (m_heap m oid) \<and> validate_adapter_name (d_adapter_name (m_heap m oid)) = Inr name \<and>
     name \<in> set (m_locked m) \<longrightarrow>
       connect_device expired now address reset_existing sc (n, m) = (Inl (busy_error name), (n, m)))"
proof (intro conjI impI)
  show "m_locked (snd (snd (connect_device expired now address reset_existing sc (n, m)))) = m_locked m"
    using restores_preserves [OF connect_restores_locks assms] by simp
  assume "normalize_address address = Inr a \<and> get_device_by_address m a = Inr (Some oid) \<and>
     \<not> d_detached (m_heap m oid) \<and> validate_adapter_name (d_adapter_name (m_heap m oid)) = Inr name \<and>
     name \<in> set (m_locked m)"
  then show "connect_device expired now address reset_existing sc (n, m) = (Inl (busy_error name), (n, m))"
    by (simp add: connect_device_def ensure_device_def live_object_def with_timeout_def act_defs busy_error_def)
qed

text \<open>
  What a failed connection attempt does: the error is always raised again. Unless it is the busy
  error, an error whose text says that BlueZ no longer knows the object detaches the cached device and
  records the speaker as unavailable with a stale object; any other error changes nothing.
\<close>

theorem connect_failure_handling:
  assumes "manager_ok m" "m_health m = Some h" "canonical_address a"
  shows "\<exists>m'. connect_failed a oid now e sc (n, m) = (Inl e, (n, m')) \<and>
    (if \<not> is_in_progress e \<and> stale_error e
     then m_heap m' oid = mark_detached (m_heap m oid) \<and>
       (\<exists>h' sh. m_health m' = Some h' \<and> dict_get (speakers h') a = Some sh \<and> sh_state sh = SP_UNAVAILABLE \<and>
          map_option classification (sh_failure sh) = Some FC_STALE_BLUEZ_OBJECT)
     else m' = m)"
proof -
  obtain h' where h': "observe_speaker h a SP_UNAVAILABLE (Some FC_STALE_BLUEZ_OBJECT) (Some (exc_text e)) 0 None now now = Inr h'"
    using observe_speaker_accepts [OF manager_ok_registry [OF assms(1,2)] normalize_canonical [OF assms(3)]] by fastforce
  then have "\<exists>sh. dict_get (speakers h') a = Some sh \<and> sh_state sh = SP_UNAVAILABLE \<and>
      map_option classification (sh_failure sh) = Some FC_STALE_BLUEZ_OBJECT"
    using normalize_canonical [OF assms(3)]
    by (auto simp: observe_speaker_def Let_def split: if_splits)
  then show ?thesis
    using connect_failed_run [where s = "(n, m)" and sc = sc and oid = oid and now = now and e = e] assms h'
    by (simp add: update_obj_def)
qed

text \<open>
  The undisturbed connection of a cached, attached, unconnected device: the operation returns
  \<open>True\<close>, and in the device's record exactly the connected and the trusted flag become true. Connecting
  always ends by trusting the device.
\<close>

theorem connect_grants_trust:
  assumes "undisturbed sc" "normalize_address address = Inr a" "get_device_by_address m a = Inr (Some oid)"
    "is_current oid m" "\<not> d_connected (m_heap m oid)"
    "validate_adapter_name (d_adapter_name (m_heap m oid)) = Inr name" "name \<notin> set (m_locked m)"
  shows "\<exists>k m'. connect_device expired now address reset_existing sc (n, m) = (Inr True, (k, m')) \<and>
    m_heap m' = (m_heap m)(oid := trusted_link (m_heap m oid)) \<and> m_devices m' = m_devices m \<and>
    d_connected (m_heap m' oid) \<and> d_trusted (m_heap m' oid)"
  using assms by (rule connect_undisturbed)

text \<open>
  C11. Once the window of a pairing request is open, it is closed again whatever becomes of the request:
  if the other tasks do not open a window of their own, then after the request returned, failed or was
  cancelled no window is open.
\<close>

theorem pair_and_trust_closes_window:
  assumes "normalize_address address = Inr a" "open_pairing_window now a pin sc (n, m) = (Inr (), s1)"
    "others_keep window_closed sc"
  shows "window_closed (snd (snd (pair_and_trust now address pin sc (n, m))))"
proof -
  obtain r s2 where pair: "pair_device a sc s1 = (r, s2)" by (cases "pair_device a sc s1")
  obtain r' s3 where close: "close_pairing_window sc s2 = (r', s3)" by (cases "close_pairing_window sc s2")
  have "window_closed (snd s3)"
    using close_pairing_window_state [of sc "fst s2" "snd s2" r' s3] close assms(3) by simp
  then show ?thesis
    using assms(1,2) by (simp add: pair_and_trust_def act_defs pair close split: sum.splits)
qed

text \<open>
  A cancellation that arrives while the window is being opened leaves it open: the opening is awaited
  outside the guarded block, so a request cancelled at its first suspension (here on the only adapter)
  ends with the device still admitted until the window expires.
\<close>

theorem cancelled_opening_leaves_window:
  assumes "normalize_address address = Inr a" "py_or pin (Some DEFAULT_PIN) = Some p"
    "m_adapters m = [(path, adapter)]" "a_bus adapter" "su_call (sc n) = CallCancelled" "su_others (sc n) = (\<lambda>m. m)"
  shows "\<exists>s'. pair_and_trust now address pin sc (n, m) = (Inl CancelledError, s') \<and>
     window_is a p (now + PAIRING_WINDOW_SECONDS) (snd s')"
proof -
  have a: "normalize_address a = Inr a" by (rule address.canon_stable [OF assms(1)])
  show ?thesis
    using assms
    by (simp add: pair_and_trust_def open_pairing_window_def act_defs a set_adapters_pairable_def each_adapter_def
        set_pairing_window_def on_adapter_def Let_def adapter_set_pairable_def window_is_def)
qed

text \<open>
  Removing a cached device succeeds on every schedule on which it is not cancelled, even if BlueZ
  refuses each call, and it forgets the object: when it returns, nothing is cached under its path.
\<close>

theorem remove_device_forgets:
  assumes "normalize_address address = Inr a" "get_device_by_address m a = Inr (Some oid)"
    "\<forall>n. su_call (sc n) \<noteq> CallCancelled"
  shows "\<exists>s'. remove_device address sc (n, m) = (Inr True, s') \<and>
     dict_get (m_devices (snd s')) (d_path (m_heap (snd s') oid)) = None"
  using remove_found_returns [of sc oid _ "(n, m)"] assms
  by (simp add: remove_device_def act_defs not_cancelled_def)

section \<open>Witnesses\<close>

definition witness_speaker :: manager where
  "witness_speaker = one_speaker ''/d'' [(''Address'', Plain (PStr witness_address))]"

lemma witness_speaker_ok: "manager_ok witness_speaker"
  unfolding witness_speaker_def by (rule one_speaker_ok)

lemma witness_speaker_simps [simp]:
  "m_devices witness_speaker = [(''/d'', 0)]"
  "m_heap witness_speaker 0 = new_device False ''/d'' [(''Address'', Plain (PStr witness_address))] 0"
  "m_locked witness_speaker = []"
  by (simp_all add: witness_speaker_def) (simp add: one_speaker_def speaker_signal_def on_interfaces_added_def
      Let_def install_device_def new_manager_def notify_def alloc_device_def drop_detached_duplicates_def
      has_bus_def ADAPTER_INTERFACE_def DEVICE_INTERFACE_def)

definition witness_device :: device where
  "witness_device = new_device False ''/d'' [(''Address'', Plain (PStr witness_address))] 0"

lemma witness_device_facts:
  "d_address witness_device = witness_address" "\<not> d_connected witness_device" "\<not> d_detached witness_device"
  "d_path witness_device = ''/d''" "d_adapter_name witness_device = ''hci0''"
  by (simp_all add: witness_device_def new_device_def d_address_def str_prop_def get_prop_def d_connected_def
      bool_prop_def d_adapter_name_def d_adapter_path_def)

lemma witness_hci0: "validate_adapter_name ''hci0'' = Inr ''hci0''"
  by (simp add: validate_adapter_name_def ADAPTER_PATTERN_def starts_with_def is_digit_def ord_of_def)

lemma witness_lookup: "get_device_by_address witness_speaker witness_address = Inr (Some 0)"
  using witness_device_facts(1)
  by (simp add: get_device_by_address_def witness_address_ok witness_device_def)

lemma witness_current: "is_current 0 witness_speaker" "\<not> d_connected (m_heap witness_speaker 0)"
  using witness_device_facts by (simp_all add: is_current_def witness_device_def)

lemma witness_adapter: "validate_adapter_name (d_adapter_name (m_heap witness_speaker 0)) = Inr ''hci0''"
  using witness_device_facts witness_hci0 by (simp add: witness_device_def)

theorem coroutines_keep_cache_witness:
  "manager_ok (snd (snd (pair_and_trust 0 witness_address None calm (0, witness_speaker))))"
  using coroutines_keep_cache [OF witness_speaker_ok calm_keeps] by blast



theorem connect_lock_discipline_witness:
  "connect_device False 0 witness_address False calm (0, witness_speaker\<lparr>m_locked := [''hci0'']\<rparr>) =
     (Inl (busy_error ''hci0''), (0, witness_speaker\<lparr>m_locked := [''hci0'']\<rparr>))"
proof -
  let ?m = "witness_speaker\<lparr>m_locked := [''hci0'']\<rparr>"
  have leave: "others_leave m_locked calm" by (simp add: others_leave_def calm_def)
  have look: "get_device_by_address ?m witness_address = Inr (Some 0)"
    using witness_lookup by (simp add: get_device_by_address_def witness_address_ok)
  show ?thesis
    using connect_lock_discipline [OF leave, where m = ?m and address = witness_address and a = witness_address
        and oid = 0 and name = "''hci0''" and expired = False and now = 0 and reset_existing = False and n = 0]
      look witness_address_ok witness_adapter witness_current(1) by (simp add: is_current_def)
qed

theorem connect_failure_handling_witness:
  "\<exists>m'. connect_failed witness_address 0 9 (DBusFailure ''UnknownObject'') calm (0, witness_speaker) =
      (Inl (DBusFailure ''UnknownObject''), (0, m')) \<and> m_heap m' 0 = mark_detached witness_device"
proof -
  have h: "m_health witness_speaker = Some new_registry"
    by (simp add: witness_speaker_def one_speaker_def speaker_signal_def on_interfaces_added_def Let_def
        install_device_def new_manager_def notify_def alloc_device_def drop_detached_duplicates_def has_bus_def
        ADAPTER_INTERFACE_def DEVICE_INTERFACE_def)
  have "lower ''UnknownObject'' = ''unknownobject''" by (simp add: lower_def char_class_defs char_of_eq_iff)
  then have "stale_error (DBusFailure ''UnknownObject'')" "\<not> is_in_progress (DBusFailure ''UnknownObject'')"
    by (simp_all add: stale_error_def STALE_MARKERS_def starts_with_def is_in_progress_def)
  then show ?thesis
    using connect_failure_handling [OF witness_speaker_ok h witness_address_canonical, where oid = 0 and now = 9
        and e = "DBusFailure ''UnknownObject''" and sc = calm and n = 0]
    by (auto simp: witness_device_def)
qed

theorem connect_grants_trust_witness:
  "\<exists>k m'. connect_device False 0 witness_address False calm (0, witness_speaker) = (Inr True, (k, m')) \<and>
     d_trusted (m_heap m' 0)"
  using connect_grants_trust [OF calm_undisturbed witness_address_ok witness_lookup witness_current witness_adapter,
      where reset_existing = False and expired = False and now = 0 and n = 0] by auto

theorem pair_and_trust_closes_window_witness:
  "window_closed (snd (snd (pair_and_trust 100 witness_address None calm (0, new_manager None))))"
  by (rule pair_and_trust_closes_window [OF witness_address_ok witness_window_eq calm_keeps])

theorem cancelled_opening_leaves_window_witness:
  "\<exists>s'. pair_and_trust 100 witness_address None (\<lambda>n. (calm n)\<lparr>su_call := CallCancelled\<rparr>)
        (0, (new_manager None)\<lparr>m_adapters := [(''/hci0'', new_adapter True ''/hci0'' [])]\<rparr>) = (Inl CancelledError, s') \<and>
     window_is witness_address ''0000'' 190 (snd s')"
  using cancelled_opening_leaves_window [where address = witness_address and a = witness_address and pin = None
      and p = "''0000''" and m = "(new_manager None)\<lparr>m_adapters := [(''/hci0'', new_adapter True ''/hci0'' [])]\<rparr>"
      and path = "''/hci0''" and adapter = "new_adapter True ''/hci0'' []" and n = 0 and now = 100
      and sc = "\<lambda>n. (calm n)\<lparr>su_call := CallCancelled\<rparr>"]
  by (simp add: witness_address_ok py_or_def new_adapter_def calm_def)

theorem remove_device_forgets_witness:
  "\<exists>s'. remove_device witness_address calm (0, witness_speaker) = (Inr True, s')"
  using remove_device_forgets [OF witness_address_ok witness_lookup, where sc = calm and n = 0]
  by (auto simp: calm_def)

end
