(* ===== verification/Backoff.thy ===== *)
theory Backoff
  imports Bridge_Constants
begin

text \<open>
  \<open>_calculate_backoff_delay\<close> of \<open>bluetooth/reconnect.py\<close> over the reals: floating point rounding is not
  modelled, the branches, the logarithms and the scaling by \<open>frexp\<close>, \<open>modf\<close> and \<open>ldexp\<close> are. The random
  jitter is an argument.
\<close>

section \<open>The floating point primitives\<close>

definition log2 :: "real \<Rightarrow> real" where
  "log2 x = ln x / ln 2"

definition exp2 :: "real \<Rightarrow> real" where
  "exp2 x = 2 powr x"

definition modf :: "real \<Rightarrow> real \<times> real" where
  "modf x = (if x \<ge> 0 then (x - of_int \<lfloor>x\<rfloor>, of_int \<lfloor>x\<rfloor>) else (x - of_int \<lceil>x\<rceil>, of_int \<lceil>x\<rceil>))"

text \<open>A mantissa in \<open>[1/2, 1)\<close> and a binary exponent.\<close>

definition frexp :: "real \<Rightarrow> real \<times> int" where
  "frexp x = (if x = 0 then (0, 0) else (let e = \<lfloor>log2 \<bar>x\<bar>\<rfloor> + 1 in (x / 2 powr of_int e, e)))"

definition ldexp :: "real \<Rightarrow> int \<Rightarrow> real" where
  "ldexp m e = m * 2 powr of_int e"

section \<open>The policy\<close>

record policy =
  initial_backoff :: real
  backoff_multiplier :: real
  max_backoff :: real
  max_failures :: nat
  breaker_cooldown :: real

text \<open>The guards of \<open>AutoReconnectEngine.__init__\<close>; every real is finite.\<close>

definition policy_error :: "policy \<Rightarrow> py_exc option" where
  "policy_error c =
     (if initial_backoff c < 0 then Some (ValueError ''initial_backoff must be finite and non-negative'')
      else if backoff_multiplier c < 1 then Some (ValueError ''backoff_multiplier must be finite and at least one'')
      else if max_backoff c \<le> 0 then Some (ValueError ''max_backoff must be finite and positive'')
      else None)"

definition default_policy :: policy where
  "default_policy =
     \<lparr>initial_backoff = RECONNECT_INITIAL_BACKOFF_SECONDS, backoff_multiplier = RECONNECT_BACKOFF_MULTIPLIER,
      max_backoff = RECONNECT_MAX_BACKOFF_SECONDS, max_failures = RECONNECT_MAX_FAILURES_BEFORE_BREAKER,
      breaker_cooldown = RECONNECT_CIRCUIT_BREAKER_COOLDOWN_SECONDS\<rparr>"

definition calculate_backoff_delay :: "policy \<Rightarrow> real \<Rightarrow> int \<Rightarrow> real" where
  "calculate_backoff_delay c jitter step =
     (let step = max 0 step;
          delay =
            (if initial_backoff c = 0 then 0
             else if initial_backoff c \<ge> max_backoff c then max_backoff c
             else if backoff_multiplier c = 1 \<or> step = 0 then initial_backoff c
             else if of_int step \<ge> (ln (max_backoff c) - ln (initial_backoff c)) / ln (backoff_multiplier c)
             then max_backoff c
             else case modf (of_int step * log2 (backoff_multiplier c)) of (fraction, growth) \<Rightarrow>
                  (case frexp (initial_backoff c) of (mantissa, exponent) \<Rightarrow>
                     min (max_backoff c) (ldexp mantissa (exponent + \<lfloor>growth\<rfloor>) * exp2 fraction)));
          floor_delay = min RECONNECT_MIN_BACKOFF_SECONDS (initial_backoff c);
          delay = max floor_delay delay
      in min (max_backoff c) (delay * (1 + jitter)))"

section \<open>The closed form\<close>

definition policy_ok :: "policy \<Rightarrow> bool" where
  "policy_ok c \<longleftrightarrow> initial_backoff c \<ge> 0 \<and> backoff_multiplier c \<ge> 1 \<and> max_backoff c > 0"

lemma policy_error_iff: "policy_error c = None \<longleftrightarrow> policy_ok c"
  by (auto simp: policy_error_def policy_ok_def)

definition exponential_delay :: "policy \<Rightarrow> nat \<Rightarrow> real" where
  "exponential_delay c k = min (max_backoff c) (initial_backoff c * backoff_multiplier c ^ k)"

lemma frexp_ldexp:
  assumes "x > 0" "frexp x = (m, e)"
  shows "m * 2 powr of_int e = x"
  using assms by (auto simp: frexp_def Let_def split: if_splits)

lemma modf_sum:
  assumes "modf x = (f, g)"
  shows "f + g = x" "g = of_int \<lfloor>g\<rfloor>"
  using assms by (auto simp: modf_def split: if_splits)

lemma exp2_log2: "x > 0 \<Longrightarrow> 2 powr (real k * log2 x) = x ^ k"
proof -
  assume x: "x > 0"
  have "real k * log2 x * ln 2 = real k * ln x" by (simp add: log2_def)
  then have "2 powr (real k * log2 x) = exp (real k * ln x)" by (simp add: powr_def)
  also have "\<dots> = x ^ k" using x by (simp add: exp_of_nat_mult)
  finally show ?thesis .
qed

lemma scaled_growth:
  assumes "x > 0" "mult > 0" "modf (real k * log2 mult) = (f, g)" "frexp x = (m, e)"
  shows "ldexp m (e + \<lfloor>g\<rfloor>) * exp2 f = x * mult ^ k"
proof -
  have g: "of_int \<lfloor>g\<rfloor> = g" using modf_sum(2) [OF assms(3)] by simp
  have "ldexp m (e + \<lfloor>g\<rfloor>) * exp2 f = (m * 2 powr of_int e) * (2 powr g * 2 powr f)"
    by (simp add: ldexp_def exp2_def powr_add g)
  also have "2 powr g * 2 powr f = 2 powr (f + g)" by (simp add: powr_add)
  also have "f + g = real k * log2 mult" by (rule modf_sum [OF assms(3)])
  finally show ?thesis using assms(1,2) frexp_ldexp [OF assms(1,4)] by (simp add: exp2_log2)
qed

lemma growth_reaches_cap:
  assumes "x > 0" "mult > 1" "cap > 0"
  shows "real k \<ge> (ln cap - ln x) / ln mult \<longleftrightarrow> x * mult ^ k \<ge> cap"
proof -
  have "real k \<ge> (ln cap - ln x) / ln mult \<longleftrightarrow> ln cap - ln x \<le> real k * ln mult"
    using assms(2) by (simp add: pos_divide_le_eq)
  also have "\<dots> \<longleftrightarrow> ln cap \<le> ln (x * mult ^ k)"
    using assms by (simp add: ln_mult ln_realpow) (auto simp: algebra_simps)
  also have "\<dots> \<longleftrightarrow> cap \<le> x * mult ^ k" using assms by simp
  finally show ?thesis .
qed

lemma growth_at_least: "x \<ge> 0 \<Longrightarrow> mult \<ge> 1 \<Longrightarrow> x \<le> x * mult ^ k" for x mult :: real
  using mult_left_mono [of 1 "mult ^ k" x] by (simp add: one_le_power)

lemma backoff_delay_eq:
  assumes "policy_ok c" and step: "nat (max 0 step) = k"
  shows "calculate_backoff_delay c jitter step =
     min (max_backoff c)
       (max (min RECONNECT_MIN_BACKOFF_SECONDS (initial_backoff c)) (exponential_delay c k) * (1 + jitter))"
proof -
  let ?x = "initial_backoff c" and ?m = "backoff_multiplier c" and ?cap = "max_backoff c"
  have ok: "?x \<ge> 0" "?m \<ge> 1" "?cap > 0" using assms(1) by (simp_all add: policy_ok_def)
  have k: "max 0 step = int k" using step by auto
  have grow: "?x \<le> ?x * ?m ^ k" using growth_at_least ok(1,2) .
  have cap: "?x \<ge> ?cap \<Longrightarrow> min ?cap (?x * ?m ^ k) = ?cap" using grow by (simp add: min_absorb1)
  consider "?x = 0" | "?x > 0" "?x \<ge> ?cap" | "?x > 0" "?x < ?cap" "?m = 1 \<or> k = 0" | "?x > 0" "?x < ?cap" "?m > 1" "k \<noteq> 0"
    using ok by fastforce
  then have "(if ?x = 0 then 0
             else if ?x \<ge> ?cap then ?cap
             else if ?m = 1 \<or> max 0 step = 0 then ?x
             else if of_int (max 0 step) \<ge> (ln ?cap - ln ?x) / ln ?m then ?cap
             else case modf (of_int (max 0 step) * log2 ?m) of (fraction, growth) \<Rightarrow>
                  (case frexp ?x of (mantissa, exponent) \<Rightarrow>
                     min ?cap (ldexp mantissa (exponent + \<lfloor>growth\<rfloor>) * exp2 fraction))) = exponential_delay c k"
  proof cases
    case 4
    obtain f g where mod: "modf (real k * log2 ?m) = (f, g)" by fastforce
    obtain m e where fr: "frexp ?x = (m, e)" by fastforce
    have "ldexp m (e + \<lfloor>g\<rfloor>) * exp2 f = ?x * ?m ^ k"
      by (rule scaled_growth [OF _ _ mod fr]) (use 4 in auto)
    then show ?thesis
      using 4 mod fr growth_reaches_cap [of ?x ?m ?cap k] ok
      by (auto simp: k exponential_delay_def)
  qed (use ok grow cap in \<open>auto simp: k exponential_delay_def\<close>)
  then show ?thesis by (simp add: calculate_backoff_delay_def Let_def)
qed

lemma exponential_delay_mono:
  assumes "policy_ok c" "j \<le> k"
  shows "exponential_delay c j \<le> exponential_delay c k"
proof -
  have "initial_backoff c * backoff_multiplier c ^ j \<le> initial_backoff c * backoff_multiplier c ^ k"
    using assms by (intro mult_left_mono power_increasing) (auto simp: policy_ok_def)
  then show ?thesis by (simp add: exponential_delay_def)
qed

lemma backoff_delay_nonneg:
  assumes ok: "policy_ok c" and j: "jitter \<ge> 0"
  shows "calculate_backoff_delay c jitter step \<ge> 0"
proof -
  let ?d = "max (min RECONNECT_MIN_BACKOFF_SECONDS (initial_backoff c)) (exponential_delay c (nat (max 0 step)))"
  have "min RECONNECT_MIN_BACKOFF_SECONDS (initial_backoff c) \<ge> 0" using ok by (simp add: policy_ok_def)
  then have "?d \<ge> 0" by (rule order_trans) (rule max.cobounded1)
  then have "?d * (1 + jitter) \<ge> 0" using j by (intro mult_nonneg_nonneg) auto
  moreover have "max_backoff c > 0" using ok by (simp add: policy_ok_def)
  ultimately show ?thesis unfolding backoff_delay_eq [OF ok refl] by (intro min.boundedI) auto
qed

section \<open>Properties\<close>

text \<open>
  The delay in closed form: for every accepted policy the branches, logarithms and binary scaling
  compute the capped exponential \<open>initial * multiplier ^ step\<close>, raised to the floor, lengthened by the
  jitter and capped again; a negative step counts as zero.
\<close>

theorem backoff_delay_closed_form:
  assumes "policy_error c = None"
  shows "calculate_backoff_delay c jitter step =
     min (max_backoff c)
       (max (min RECONNECT_MIN_BACKOFF_SECONDS (initial_backoff c))
            (min (max_backoff c) (initial_backoff c * backoff_multiplier c ^ nat (max 0 step))) * (1 + jitter))"
  using backoff_delay_eq [OF assms [unfolded policy_error_iff] refl] unfolding exponential_delay_def .

theorem backoff_delay_closed_form_witness: "calculate_backoff_delay default_policy 0 3 = 80"
  using backoff_delay_closed_form [where c = default_policy and jitter = 0 and step = 3]
  by (simp add: policy_error_def default_policy_def)

text \<open>
  C34. Bounds and growth: the delay stays between its floor and the cap, jitter only lengthens it, and
  with the same jitter a later step never waits less.
\<close>

theorem backoff_delay_bounds:
  assumes "policy_error c = None" "0 \<le> jitter" "jitter \<le> RECONNECT_BACKOFF_JITTER" "i \<le> j"
  shows "min (max_backoff c) (min RECONNECT_MIN_BACKOFF_SECONDS (initial_backoff c)) \<le> calculate_backoff_delay c jitter i \<and>
         calculate_backoff_delay c 0 i \<le> calculate_backoff_delay c jitter i \<and>
         calculate_backoff_delay c jitter i \<le> calculate_backoff_delay c jitter j \<and>
         calculate_backoff_delay c jitter j \<le> max_backoff c"
proof -
  have ok: "policy_ok c" using assms(1) by (simp add: policy_error_iff)
  let ?f = "min RECONNECT_MIN_BACKOFF_SECONDS (initial_backoff c)"
  let ?d = "\<lambda>s. max ?f (exponential_delay c (nat (max 0 s)))"
  have eq: "calculate_backoff_delay c t s = min (max_backoff c) (?d s * (1 + t))" for t s
    by (rule backoff_delay_eq [OF ok refl])
  have pos: "?f \<ge> 0" "?d s \<ge> 0" for s using ok by (auto simp: policy_ok_def le_max_iff_disj)
  have longer: "?d s \<le> ?d s * (1 + t)" if "t \<ge> 0" for s t
    using mult_left_mono [of 1 "1 + t" "?d s"] pos(2) [of s] that by simp
  have mono: "?d i \<le> ?d j"
    using exponential_delay_mono [OF ok, of "nat (max 0 i)" "nat (max 0 j)"] assms(4)
    by (intro max.mono) (auto intro!: nat_mono)
  then have grows: "?d i * (1 + jitter) \<le> ?d j * (1 + jitter)"
    using assms(2) by (intro mult_right_mono) auto
  have floor: "?f \<le> ?d i" by simp
  have "?f \<le> ?d i * (1 + jitter)" by (rule order_trans [OF floor longer [OF assms(2)]])
  moreover have "?d i * (1 + 0) \<le> ?d i * (1 + jitter)"
    by (simp only: add_0_right mult_1_right longer [OF assms(2)])
  ultimately show ?thesis
    unfolding eq using grows by (intro conjI min.mono order_refl min.cobounded1)
qed

theorem backoff_delay_bounds_witness:
  "10 \<le> calculate_backoff_delay default_policy (1 / 10) 2 \<and> calculate_backoff_delay default_policy (1 / 10) 9 \<le> 120"
  using backoff_delay_bounds [where c = default_policy and jitter = "1 / 10" and i = 2 and j = 9]
  by (simp add: policy_error_def default_policy_def)

end
