(* ===== verification/Reconnect.thy ===== *)
theory Reconnect
  imports Backoff BT_Manager
begin

text \<open>
  \<open>AutoReconnectEngine\<close> of \<open>bluetooth/reconnect.py\<close>. Profiles and tasks are objects with an identity
  (\<open>is profile\<close>, \<open>is task\<close>), so the dictionaries hold object numbers. A reconnect attempt is a task: it is
  created by a tick, starts later, and ends when \<open>connect_device\<close> answers or it is cancelled; between
  these steps any other event may happen. \<open>now\<close> is the reading of \<open>time.time()\<close> of the step, \<open>jitter\<close> the
  sample of \<open>random.uniform\<close>.
\<close>

section \<open>State\<close>

datatype reconnect_state = RS_IDLE | RS_CONNECTED | RS_RECONNECTING | RS_BACKOFF | RS_CIRCUIT_BROKEN

record profile =
  p_address :: string
  p_enabled :: bool
  p_state :: reconnect_state
  p_failures :: int
  p_step :: int
  p_next_retry :: real
  p_broken_until :: real
  p_adapter :: "string option"
  p_disconnected_since :: "real option"
  p_connected_at :: real
  p_flaps :: int
  p_flap_times :: "real list"
  p_cooldown_until :: real

definition new_profile :: "string \<Rightarrow> bool \<Rightarrow> string option \<Rightarrow> profile" where
  "new_profile address enabled preferred_adapter =
     \<lparr>p_address = address, p_enabled = enabled, p_state = RS_IDLE, p_failures = 0, p_step = 0, p_next_retry = 0,
      p_broken_until = 0, p_adapter = preferred_adapter, p_disconnected_since = None, p_connected_at = 0,
      p_flaps = 0, p_flap_times = [], p_cooldown_until = 0\<rparr>"

datatype task_phase = TP_Created | TP_Connecting | TP_Done

record task =
  t_profile :: nat
  t_phase :: task_phase
  t_cancelled :: bool

record engine =
  e_policy :: policy
  e_profiles :: "nat dict"
  e_heap :: "nat \<Rightarrow> profile"
  e_next :: nat
  e_enabled :: bool
  e_running :: bool
  e_inflight :: "nat dict"
  e_tasks :: "nat \<Rightarrow> task"
  e_next_task :: nat
  e_health :: "registry option"

definition new_engine :: "policy \<Rightarrow> registry option \<Rightarrow> py_exc + engine" where
  "new_engine c health =
     (case policy_error c of Some e \<Rightarrow> Inl e
      | None \<Rightarrow> Inr \<lparr>e_policy = c, e_profiles = [], e_heap = (\<lambda>_. new_profile [] True None), e_next = 0,
          e_enabled = True, e_running = False, e_inflight = [],
          e_tasks = (\<lambda>_. \<lparr>t_profile = 0, t_phase = TP_Done, t_cancelled = False\<rparr>), e_next_task = 0,
          e_health = health\<rparr>)"

definition profile_of :: "engine \<Rightarrow> string \<Rightarrow> profile option" where
  "profile_of e addr = map_option (e_heap e) (dict_get (e_profiles e) addr)"

definition set_profile :: "nat \<Rightarrow> profile \<Rightarrow> engine \<Rightarrow> engine" where
  "set_profile pid p e = e\<lparr>e_heap := (e_heap e)(pid := p)\<rparr>"

definition set_task :: "nat \<Rightarrow> task \<Rightarrow> engine \<Rightarrow> engine" where
  "set_task tid t e = e\<lparr>e_tasks := (e_tasks e)(tid := t)\<rparr>"

text \<open>\<open>if self.health: ...\<close>; for the canonical addresses of the profiles no observation raises.\<close>

definition observe :: "(registry \<Rightarrow> py_exc + registry) \<Rightarrow> engine \<Rightarrow> engine" where
  "observe f e = (case e_health e of None \<Rightarrow> e | Some h \<Rightarrow> e\<lparr>e_health := Some (keep_on_error h (f h))\<rparr>)"

definition observe_state :: "string \<Rightarrow> speaker_state \<Rightarrow> int \<Rightarrow> real \<Rightarrow> engine \<Rightarrow> engine" where
  "observe_state addr state attempt now = observe (\<lambda>h. observe_speaker h addr state None None attempt None now now)"

definition observe_flap :: "string \<Rightarrow> string \<Rightarrow> real \<Rightarrow> engine \<Rightarrow> engine" where
  "observe_flap addr reason now = observe (\<lambda>h. record_suppressed_flap h addr (Some reason) now)"

section \<open>Registration\<close>

definition register_speaker :: "string \<Rightarrow> bool \<Rightarrow> string option \<Rightarrow> engine \<Rightarrow> py_exc + engine" where
  "register_speaker address enabled preferred_adapter e =
     (case normalize_address address of
        Inl err \<Rightarrow> Inl err
      | Inr addr \<Rightarrow>
          if \<not> e_enabled e then Inr e
          else (case dict_get (e_profiles e) addr of
            None \<Rightarrow> Inr (set_profile (e_next e) (new_profile addr enabled preferred_adapter)
                     (e\<lparr>e_profiles := dict_set addr (e_next e) (e_profiles e), e_next := Suc (e_next e)\<rparr>))
          | Some pid \<Rightarrow>
              (let p = (e_heap e pid)\<lparr>p_enabled := enabled\<rparr>;
                   p = (if preferred_adapter = None \<or> preferred_adapter = Some [] then p
                        else p\<lparr>p_adapter := preferred_adapter\<rparr>)
               in Inr (set_profile pid p e))))"

definition task_done :: "engine \<Rightarrow> nat \<Rightarrow> bool" where
  "task_done e tid \<longleftrightarrow> t_phase (e_tasks e tid) = TP_Done"

definition cancel_task :: "nat \<Rightarrow> engine \<Rightarrow> engine" where
  "cancel_task tid e = (if task_done e tid then e else set_task tid ((e_tasks e tid)\<lparr>t_cancelled := True\<rparr>) e)"

definition unregister_address :: "string \<Rightarrow> engine \<Rightarrow> engine" where
  "unregister_address addr e =
     (let e' = (case dict_get (e_inflight e) addr of None \<Rightarrow> e
           | Some tid \<Rightarrow> cancel_task tid (e\<lparr>e_inflight := dict_del addr (e_inflight e)\<rparr>))
      in e'\<lparr>e_profiles := dict_del addr (e_profiles e')\<rparr>)"

definition unregister_speaker :: "string \<Rightarrow> engine \<Rightarrow> py_exc + engine" where
  "unregister_speaker address e =
     (case normalize_address address of Inl err \<Rightarrow> Inl err | Inr addr \<Rightarrow> Inr (unregister_address addr e))"

definition set_global_enabled :: "bool \<Rightarrow> engine \<Rightarrow> engine" where
  "set_global_enabled enabled e =
     (let e' = e\<lparr>e_enabled := enabled\<rparr>
      in if enabled then e'
         else fold (\<lambda>address e. keep_on_error e (unregister_speaker address e)) (map fst (e_profiles e')) e')"

definition release_inflight :: "string \<Rightarrow> nat \<Rightarrow> engine \<Rightarrow> engine" where
  "release_inflight addr tid e =
     (if dict_get (e_inflight e) addr = Some tid then e\<lparr>e_inflight := dict_del addr (e_inflight e)\<rparr> else e)"

definition attempt_in_progress :: "engine \<Rightarrow> string \<Rightarrow> bool" where
  "attempt_in_progress e addr \<longleftrightarrow>
     (case dict_get (e_inflight e) addr of None \<Rightarrow> False | Some tid \<Rightarrow> \<not> task_done e tid)"

section \<open>Device events\<close>

definition link_up :: "real \<Rightarrow> profile \<Rightarrow> profile" where
  "link_up now p =
     (let p = (if p_disconnected_since p \<noteq> None then p\<lparr>p_disconnected_since := None, p_flaps := p_flaps p + 1\<rparr> else p);
          p = (if p_state p \<noteq> RS_CONNECTED then p\<lparr>p_connected_at := now\<rparr> else p)
      in p\<lparr>p_state := RS_CONNECTED, p_failures := 0, p_step := 0, p_next_retry := 0, p_broken_until := 0\<rparr>)"

definition awaiting_drop :: "profile \<Rightarrow> bool" where
  "awaiting_drop p \<longleftrightarrow> p_state p = RS_CONNECTED \<or> p_state p = RS_IDLE"

definition link_down :: "real \<Rightarrow> profile \<Rightarrow> profile" where
  "link_down now p =
     (if p_disconnected_since p = None \<and> awaiting_drop p then p\<lparr>p_disconnected_since := Some now\<rparr> else p)"

definition on_known_device :: "string \<Rightarrow> nat \<Rightarrow> bool \<Rightarrow> real \<Rightarrow> engine \<Rightarrow> engine" where
  "on_known_device addr pid up now e =
     (let p = e_heap e pid
      in if \<not> p_enabled p then e
         else if up
         then set_profile pid (link_up now p)
                ((if p_state p \<noteq> RS_CONNECTED then observe_state addr SP_CONNECTED 0 now else id)
                  ((if p_disconnected_since p \<noteq> None
                    then observe_flap addr ''reconnected inside the grace window'' now else id) e))
         else set_profile pid (link_down now p) e)"

text \<open>
  \<open>self.profiles[addr]\<close>: while reconnection is switched off, the registration does nothing, and the lookup
  after it raises.
\<close>

definition on_registered_device :: "string \<Rightarrow> bool \<Rightarrow> real \<Rightarrow> engine \<Rightarrow> py_exc + engine" where
  "on_registered_device addr up now e =
     (case dict_get (e_profiles e) addr of
        None \<Rightarrow> Inl (KeyError addr)
      | Some pid \<Rightarrow> Inr (on_known_device addr pid up now e))"

definition on_device_event :: "device_info \<Rightarrow> real \<Rightarrow> engine \<Rightarrow> py_exc + engine" where
  "on_device_event device now e =
     (case normalize_address (di_address device) of
        Inl err \<Rightarrow> Inr e
      | Inr addr \<Rightarrow>
          if dict_get (e_profiles e) addr \<noteq> None then on_registered_device addr (di_connected device) now e
          else if (di_trusted device \<or> di_paired device \<or> di_connected device) \<and> di_is_audio_sink device
          then (case register_speaker addr True None e of
                  Inl err \<Rightarrow> Inl err
                | Inr e' \<Rightarrow> on_registered_device addr (di_connected device) now e')
          else Inr e)"

definition handle_bluetooth_event :: "bt_event \<Rightarrow> real \<Rightarrow> engine \<Rightarrow> py_exc + engine" where
  "handle_bluetooth_event event now e =
     (if \<not> e_running e then Inr e
      else case event of
        DeviceUpdated device \<Rightarrow> on_device_event device now e
      | DeviceDiscovered device \<Rightarrow> on_device_event device now e
      | _ \<Rightarrow> Inr e)"

section \<open>The tick\<close>

definition record_flap :: "real \<Rightarrow> profile \<Rightarrow> profile" where
  "record_flap now p =
     (let times = filter (\<lambda>seen. now - seen \<le> RECONNECT_FLAP_WINDOW_SECONDS) (p_flap_times p) @ [now]
      in if length times < RECONNECT_FLAP_LIMIT then p\<lparr>p_flap_times := times\<rparr>
         else p\<lparr>p_flap_times := [], p_cooldown_until := now + RECONNECT_FLAP_COOLDOWN_SECONDS\<rparr>)"

definition flap_limit_reached :: "real \<Rightarrow> profile \<Rightarrow> bool" where
  "flap_limit_reached now p \<longleftrightarrow>
     RECONNECT_FLAP_LIMIT \<le> Suc (length (filter (\<lambda>seen. now - seen \<le> RECONNECT_FLAP_WINDOW_SECONDS) (p_flap_times p)))"

definition backoff_delay :: "engine \<Rightarrow> real \<Rightarrow> profile \<Rightarrow> real" where
  "backoff_delay e jitter p = calculate_backoff_delay (e_policy e) jitter (p_step p)"

definition armed :: "engine \<Rightarrow> real \<Rightarrow> real \<Rightarrow> profile \<Rightarrow> profile" where
  "armed e now jitter p =
     (let p = record_flap now p;
          p = p\<lparr>p_disconnected_since := None, p_state := RS_BACKOFF\<rparr>;
          delay = backoff_delay e jitter p;
          delay = (if p_cooldown_until p > now then max delay (p_cooldown_until p - now) else delay)
      in p\<lparr>p_next_retry := max (max (p_next_retry p) (now + delay)) (p_broken_until p)\<rparr>)"

definition arm_backoff :: "nat \<Rightarrow> real \<Rightarrow> real \<Rightarrow> engine \<Rightarrow> engine" where
  "arm_backoff pid now jitter e =
     (let p = e_heap e pid
      in set_profile pid (armed e now jitter p)
           (observe_state (p_address p) SP_DISCONNECTED 0 now
             ((if flap_limit_reached now p
               then observe_flap (p_address p) ''flap limit reached; holding reconnects'' now else id) e)))"

definition retry_due :: "real \<Rightarrow> profile \<Rightarrow> bool" where
  "retry_due now p \<longleftrightarrow>
     p_state p = RS_BACKOFF \<and> now \<ge> p_next_retry p \<and> now \<ge> p_cooldown_until p \<and>
     now - p_connected_at p \<ge> RECONNECT_POST_CONNECT_SETTLE_SECONDS"

definition spawn_attempt :: "string \<Rightarrow> nat \<Rightarrow> engine \<Rightarrow> engine" where
  "spawn_attempt addr pid e =
     set_task (e_next_task e) \<lparr>t_profile = pid, t_phase = TP_Created, t_cancelled = False\<rparr>
       (e\<lparr>e_next_task := Suc (e_next_task e), e_inflight := dict_set addr (e_next_task e) (e_inflight e)\<rparr>)"

definition tick_retry :: "real \<Rightarrow> string \<Rightarrow> nat \<Rightarrow> engine \<Rightarrow> engine" where
  "tick_retry now addr pid e =
     (if retry_due now (e_heap e pid) \<and> \<not> attempt_in_progress e addr then spawn_attempt addr pid e else e)"

text \<open>A breaker whose time has passed allows one probe.\<close>

definition probe :: "profile \<Rightarrow> profile" where
  "probe p = (if p_state p = RS_CIRCUIT_BROKEN then p\<lparr>p_state := RS_BACKOFF\<rparr> else p)"

definition tick_profile :: "real \<Rightarrow> (string \<Rightarrow> real) \<Rightarrow> string \<times> nat \<Rightarrow> engine \<Rightarrow> engine" where
  "tick_profile now jitter entry e =
     (case entry of (addr, pid) \<Rightarrow>
       if \<not> p_enabled (e_heap e pid) then e
       else if now < p_broken_until (e_heap e pid) then e
       else let p = probe (e_heap e pid);
                e = set_profile pid p e
            in (case p_disconnected_since p of
                  Some since \<Rightarrow>
                    if \<not> awaiting_drop p then tick_retry now addr pid e
                    else if now - since < RECONNECT_DISCONNECT_GRACE_SECONDS then e
                    else tick_retry now addr pid (arm_backoff pid now (jitter addr) e)
                | None \<Rightarrow> tick_retry now addr pid e))"

definition tick :: "real \<Rightarrow> (string \<Rightarrow> real) \<Rightarrow> engine \<Rightarrow> engine" where
  "tick now jitter e = fold (tick_profile now jitter) (e_profiles e) e"

section \<open>The attempt\<close>

definition is_profile :: "engine \<Rightarrow> nat \<Rightarrow> bool" where
  "is_profile e pid \<longleftrightarrow> dict_get (e_profiles e) (p_address (e_heap e pid)) = Some pid"

definition finish_task :: "nat \<Rightarrow> engine \<Rightarrow> engine" where
  "finish_task tid e = set_task tid ((e_tasks e tid)\<lparr>t_phase := TP_Done\<rparr>) e"

text \<open>The first step of \<open>_attempt_reconnect\<close>, up to the call; a task cancelled before it never starts.\<close>

definition attempt_start :: "nat \<Rightarrow> real \<Rightarrow> engine \<Rightarrow> engine" where
  "attempt_start tid now e =
     (let t = e_tasks e tid; pid = t_profile t; p = e_heap e pid
      in if t_cancelled t then finish_task tid e
         else if \<not> is_profile e pid \<or> \<not> p_enabled p \<or> now < p_broken_until p then finish_task tid e
         else set_task tid (t\<lparr>t_phase := TP_Connecting\<rparr>)
                (observe_state (p_address p) SP_RECONNECTING (p_failures p + 1) now
                  (set_profile pid (p\<lparr>p_state := RS_RECONNECTING\<rparr>) e)))"

definition attempt_succeeded :: "nat \<Rightarrow> real \<Rightarrow> engine \<Rightarrow> engine" where
  "attempt_succeeded pid now e =
     (let p = e_heap e pid
      in if \<not> is_profile e pid then e
         else observe_state (p_address p) SP_CONNECTED 0 now
                (set_profile pid (p\<lparr>p_state := RS_CONNECTED, p_connected_at := now, p_disconnected_since := None,
                    p_failures := 0, p_step := 0, p_next_retry := 0, p_broken_until := 0\<rparr>) e))"

definition attempt_cancelled :: "nat \<Rightarrow> real \<Rightarrow> real \<Rightarrow> engine \<Rightarrow> engine" where
  "attempt_cancelled pid now jitter e =
     (let p = e_heap e pid
      in if \<not> is_profile e pid then e
         else set_profile pid (p\<lparr>p_state := RS_BACKOFF,
                p_next_retry := max (max (max (p_next_retry p) (now + backoff_delay e jitter p)) (p_cooldown_until p))
                                    (p_broken_until p)\<rparr>) e)"

definition defer_busy_connection :: "nat \<Rightarrow> real \<Rightarrow> real \<Rightarrow> engine \<Rightarrow> engine" where
  "defer_busy_connection pid now jitter e =
     (let p = e_heap e pid
      in set_profile pid (p\<lparr>p_disconnected_since := None, p_state := RS_BACKOFF,
           p_next_retry := max (max (max (max (p_next_retry p) (now + backoff_delay e jitter p))
               (now + RECONNECT_POST_CONNECT_SETTLE_SECONDS)) (p_cooldown_until p)) (p_broken_until p)\<rparr>) e)"

definition exhausted :: "engine \<Rightarrow> profile \<Rightarrow> bool" where
  "exhausted e p \<longleftrightarrow> int (max_failures (e_policy e)) \<le> p_failures p + 1"

definition failed_profile :: "engine \<Rightarrow> real \<Rightarrow> real \<Rightarrow> profile \<Rightarrow> profile" where
  "failed_profile e now jitter p0 =
     (let p = p0\<lparr>p_failures := p_failures p0 + 1, p_step := p_step p0 + 1\<rparr>;
          p = (if exhausted e p0
               then p\<lparr>p_state := RS_CIRCUIT_BROKEN,
                      p_broken_until := max (p_broken_until p) (now + breaker_cooldown (e_policy e))\<rparr>
               else p\<lparr>p_state := RS_BACKOFF\<rparr>)
      in p\<lparr>p_next_retry := max (max (max (p_next_retry p) (now + backoff_delay e jitter p))
             (p_cooldown_until p)) (p_broken_until p)\<rparr>)"

definition observe_failure :: "profile \<Rightarrow> real \<Rightarrow> engine \<Rightarrow> engine" where
  "observe_failure p now e =
     (if exhausted e p
      then observe (\<lambda>h. observe_speaker h (p_address p) SP_UNAVAILABLE (Some FC_RECONNECT_EXHAUSTED)
                          (Some ''Reconnect attempts exhausted'') (p_failures p + 1) None now now) e
      else observe_state (p_address p) SP_RECONNECTING (p_failures p + 1) now e)"

definition attempt_failed :: "nat \<Rightarrow> real \<Rightarrow> real \<Rightarrow> engine \<Rightarrow> engine" where
  "attempt_failed pid now jitter e =
     (if \<not> is_profile e pid then e
      else set_profile pid (failed_profile e now jitter (e_heap e pid)) (observe_failure (e_heap e pid) now e))"

text \<open>The second step: what \<open>connect_device\<close> answered; a cancelled task gets a cancellation instead.\<close>

definition attempt_finish :: "nat \<Rightarrow> py_exc + bool \<Rightarrow> real \<Rightarrow> real \<Rightarrow> engine \<Rightarrow> engine" where
  "attempt_finish tid answer now jitter e =
     (let pid = t_profile (e_tasks e tid);
          answer = (if t_cancelled (e_tasks e tid) then Inl CancelledError else answer)
      in finish_task tid
           (case answer of
              Inr _ \<Rightarrow> attempt_succeeded pid now e
            | Inl CancelledError \<Rightarrow> attempt_cancelled pid now jitter e
            | Inl (OperationInProgress _) \<Rightarrow> if is_profile e pid then defer_busy_connection pid now jitter e else e
            | Inl _ \<Rightarrow> attempt_failed pid now jitter e))"

section \<open>Starting and stopping\<close>

definition engine_start :: "engine \<Rightarrow> engine" where
  "engine_start e = e\<lparr>e_running := True\<rparr>"

text \<open>\<open>stop\<close> up to its \<open>gather\<close>, and what it does once the workers are done.\<close>

definition engine_stop :: "engine \<Rightarrow> engine" where
  "engine_stop e = fold cancel_task (map snd (e_inflight e)) (e\<lparr>e_running := False\<rparr>)"

definition engine_stopped :: "engine \<Rightarrow> engine" where
  "engine_stopped e = e\<lparr>e_inflight := []\<rparr>"

section \<open>Events\<close>

datatype engine_event =
    RegisterSpeaker string bool "string option"
  | UnregisterSpeaker string
  | SetGlobalEnabled bool
  | BluetoothEvent bt_event real
  | EngineStart
  | Tick real "string \<Rightarrow> real"
  | AttemptStart nat real
  | AttemptFinish nat "py_exc + bool" real real
  | ReleaseInflight string nat
  | EngineStop
  | EngineStopped

text \<open>
  One step of the event loop. The loop ticks only while the engine runs; a task step that does not fit
  the phase of the task, and a callback of a task that is not done, do not happen.
\<close>

fun engine_step :: "engine \<Rightarrow> engine_event \<Rightarrow> engine" where
  "engine_step e (RegisterSpeaker a enabled adapter) = keep_on_error e (register_speaker a enabled adapter e)"
| "engine_step e (UnregisterSpeaker a) = keep_on_error e (unregister_speaker a e)"
| "engine_step e (SetGlobalEnabled b) = set_global_enabled b e"
| "engine_step e (BluetoothEvent ev now) = keep_on_error e (handle_bluetooth_event ev now e)"
| "engine_step e EngineStart = engine_start e"
| "engine_step e (Tick now jitter) = (if e_running e then tick now jitter e else e)"
| "engine_step e (AttemptStart tid now) =
     (if tid < e_next_task e \<and> t_phase (e_tasks e tid) = TP_Created then attempt_start tid now e else e)"
| "engine_step e (AttemptFinish tid answer now jitter) =
     (if tid < e_next_task e \<and> t_phase (e_tasks e tid) = TP_Connecting
      then attempt_finish tid answer now jitter e else e)"
| "engine_step e (ReleaseInflight addr tid) = (if task_done e tid then release_inflight addr tid e else e)"
| "engine_step e EngineStop = engine_stop e"
| "engine_step e EngineStopped =
     (if list_all (task_done e) (map snd (e_inflight e)) then engine_stopped e else e)"

section \<open>The invariant\<close>

text \<open>
  Of a profile: failures and backoff steps agree, the flap window holds fewer dropouts than the limit, an
  open breaker has exhausted its failures, and a link that is up or was never up owes no retry.
\<close>

definition profile_ok :: "policy \<Rightarrow> profile \<Rightarrow> bool" where
  "profile_ok c p \<longleftrightarrow>
     0 \<le> p_failures p \<and> p_step p = p_failures p \<and> length (p_flap_times p) < RECONNECT_FLAP_LIMIT \<and>
     (p_state p = RS_CIRCUIT_BROKEN \<longrightarrow> int (max_failures c) \<le> p_failures p) \<and>
     (awaiting_drop p \<longrightarrow> p_failures p = 0 \<and> p_next_retry p = 0 \<and> p_broken_until p = 0)"

definition task_address :: "engine \<Rightarrow> nat \<Rightarrow> string" where
  "task_address e tid = p_address (e_heap e (t_profile (e_tasks e tid)))"

definition live :: "engine \<Rightarrow> nat \<Rightarrow> bool" where
  "live e tid \<longleftrightarrow> tid < e_next_task e \<and> \<not> task_done e tid \<and> \<not> t_cancelled (e_tasks e tid)"

definition profile_filed :: "engine \<Rightarrow> string \<Rightarrow> nat \<Rightarrow> bool" where
  "profile_filed e addr pid \<longleftrightarrow> pid < e_next e \<and> p_address (e_heap e pid) = addr \<and> canonical_address addr"

definition task_filed :: "engine \<Rightarrow> string \<Rightarrow> nat \<Rightarrow> bool" where
  "task_filed e addr tid \<longleftrightarrow> tid < e_next_task e \<and> task_address e tid = addr"

definition engine_ok :: "engine \<Rightarrow> bool" where
  "engine_ok e \<longleftrightarrow>
     policy_ok (e_policy e) \<and> wf_dict (e_profiles e) \<and> wf_dict (e_inflight e) \<and>
     dict_all (profile_filed e) (e_profiles e) \<and> dict_all (task_filed e) (e_inflight e) \<and>
     (\<forall>pid < e_next e. profile_ok (e_policy e) (e_heap e pid)) \<and>
     (\<forall>tid < e_next_task e. t_profile (e_tasks e tid) < e_next e) \<and>
     (\<forall>tid. live e tid \<longrightarrow> dict_get (e_inflight e) (task_address e tid) = Some tid) \<and>
     (case e_health e of None \<Rightarrow> True | Some h \<Rightarrow> registry_ok h)"

lemma engine_okD:
  assumes "engine_ok e"
  shows "policy_ok (e_policy e)" "wf_dict (e_profiles e)" "wf_dict (e_inflight e)"
    "dict_get (e_profiles e) addr = Some pid \<Longrightarrow> pid < e_next e \<and> p_address (e_heap e pid) = addr \<and> canonical_address addr"
    "dict_get (e_inflight e) addr = Some tid \<Longrightarrow> tid < e_next_task e \<and> task_address e tid = addr"
    "pid < e_next e \<Longrightarrow> profile_ok (e_policy e) (e_heap e pid)"
    "tid < e_next_task e \<Longrightarrow> t_profile (e_tasks e tid) < e_next e"
    "live e tid \<Longrightarrow> dict_get (e_inflight e) (task_address e tid) = Some tid"
    "e_health e = Some h \<Longrightarrow> registry_ok h"
  using assms
  by (simp_all add: engine_ok_def profile_filed_def task_filed_def dict_all_def)

lemma set_profile_simps [simp]:
  "e_policy (set_profile pid p e) = e_policy e" "e_profiles (set_profile pid p e) = e_profiles e"
  "e_inflight (set_profile pid p e) = e_inflight e" "e_next (set_profile pid p e) = e_next e"
  "e_next_task (set_profile pid p e) = e_next_task e" "e_tasks (set_profile pid p e) = e_tasks e"
  "e_health (set_profile pid p e) = e_health e" "e_heap (set_profile pid p e) = (e_heap e)(pid := p)"
  "e_running (set_profile pid p e) = e_running e" "e_enabled (set_profile pid p e) = e_enabled e"
  by (simp_all add: set_profile_def)

lemma set_task_simps [simp]:
  "e_policy (set_task tid t e) = e_policy e" "e_profiles (set_task tid t e) = e_profiles e"
  "e_inflight (set_task tid t e) = e_inflight e" "e_next (set_task tid t e) = e_next e"
  "e_next_task (set_task tid t e) = e_next_task e" "e_tasks (set_task tid t e) = (e_tasks e)(tid := t)"
  "e_health (set_task tid t e) = e_health e" "e_heap (set_task tid t e) = e_heap e"
  "e_running (set_task tid t e) = e_running e" "e_enabled (set_task tid t e) = e_enabled e"
  by (simp_all add: set_task_def)

lemma observe_simps [simp]:
  "e_policy (observe f e) = e_policy e" "e_profiles (observe f e) = e_profiles e"
  "e_inflight (observe f e) = e_inflight e" "e_next (observe f e) = e_next e"
  "e_next_task (observe f e) = e_next_task e" "e_tasks (observe f e) = e_tasks e"
  "e_heap (observe f e) = e_heap e" "e_running (observe f e) = e_running e" "e_enabled (observe f e) = e_enabled e"
  by (simp_all add: observe_def split: option.splits)

lemma same_frame:
  assumes "e_heap e' = e_heap e" "e_tasks e' = e_tasks e" "e_next e' = e_next e" "e_next_task e' = e_next_task e"
  shows "profile_filed e' = profile_filed e" "task_filed e' = task_filed e" "live e' = live e"
    "task_address e' = task_address e" "task_done e' = task_done e"
  using assms by (simp_all add: fun_eq_iff profile_filed_def task_filed_def live_def task_address_def task_done_def)

lemma observe_ok:
  assumes "engine_ok e" "\<And>h h'. registry_ok h \<Longrightarrow> f h = Inr h' \<Longrightarrow> registry_ok h'"
  shows "engine_ok (observe f e)"
proof -
  have "case e_health (observe f e) of None \<Rightarrow> True | Some h \<Rightarrow> registry_ok h"
    using assms by (auto simp: observe_def engine_ok_def keep_on_error_def split: option.splits sum.splits)
  then show ?thesis
    using assms(1) same_frame [of "observe f e" e] by (simp add: engine_ok_def)
qed

lemma observe_steps_ok [intro]:
  "engine_ok e \<Longrightarrow> engine_ok (observe_state a st n now e)"
  "engine_ok e \<Longrightarrow> engine_ok (observe_flap a r now e)"
  "engine_ok e \<Longrightarrow> engine_ok (observe (\<lambda>h. observe_speaker h a st f d n c t1 t2) e)"
  by (auto simp: observe_state_def observe_flap_def intro!: observe_ok intro: observe_speaker_ok suppressed_flap_ok)

lemma set_profile_frame:
  assumes "p_address p = p_address (e_heap e pid)"
  shows "profile_filed (set_profile pid p e) = profile_filed e" "task_filed (set_profile pid p e) = task_filed e"
    "live (set_profile pid p e) = live e" "task_address (set_profile pid p e) = task_address e"
    "task_done (set_profile pid p e) = task_done e"
  using assms
  by (auto simp: fun_eq_iff profile_filed_def task_filed_def live_def task_address_def task_done_def)

lemma set_profile_ok:
  assumes "engine_ok e" "p_address p = p_address (e_heap e pid)" "pid < e_next e \<Longrightarrow> profile_ok (e_policy e) p"
  shows "engine_ok (set_profile pid p e)"
  using assms(1,3) set_profile_frame [OF assms(2)] by (simp add: engine_ok_def)

lemma set_profile_over:
  assumes "engine_ok e'" "e_heap e' = e_heap e" "e_next e' = e_next e" "e_policy e' = e_policy e"
    "p_address p = p_address (e_heap e pid)" "pid < e_next e \<Longrightarrow> profile_ok (e_policy e) p"
  shows "engine_ok (set_profile pid p e')"
  using assms by (intro set_profile_ok) simp_all

lemma profile_flaps: "profile_ok c p \<Longrightarrow> length (p_flap_times p) < RECONNECT_FLAP_LIMIT"
  by (simp add: profile_ok_def)

lemma new_engine_ok:
  assumes "new_engine c health = Inr e" "case health of None \<Rightarrow> True | Some h \<Rightarrow> registry_ok h"
  shows "engine_ok e"
  using assms
  by (auto simp: new_engine_def engine_ok_def live_def task_done_def policy_error_iff split: option.splits)

section \<open>Every step keeps the invariant\<close>

lemma register_ok:
  assumes "engine_ok e" "register_speaker a b ad e = Inr e'"
  shows "engine_ok e'"
proof -
  obtain k where k: "normalize_address a = Inr k" using assms(2) by (auto simp: register_speaker_def split: sum.splits)
  consider "e' = e"
    | "dict_get (e_profiles e) k = None"
      "e' = set_profile (e_next e) (new_profile k b ad) (e\<lparr>e_profiles := dict_set k (e_next e) (e_profiles e), e_next := Suc (e_next e)\<rparr>)"
    | pid p where "dict_get (e_profiles e) k = Some pid" "e' = set_profile pid p e"
      "p = (e_heap e pid)\<lparr>p_enabled := b\<rparr> \<or> p = (e_heap e pid)\<lparr>p_enabled := b, p_adapter := ad\<rparr>"
    using assms(2) k by (auto simp: register_speaker_def Let_def split: option.splits if_splits)
  then show ?thesis
  proof cases
    case 2
    have fresh: "t_profile (e_tasks e tid) \<noteq> e_next e" if "tid < e_next_task e" for tid
      using engine_okD(7) [OF assms(1) that] by simp
    have "dict_all (profile_filed e') (e_profiles e')"
      using engine_okD(4) [OF assms(1)] normalize_address_canonical [OF k]
      by (auto simp: 2 dict_all_def profile_filed_def new_profile_def less_Suc_eq)
    moreover have "dict_all (task_filed e') (e_inflight e')"
      using engine_okD(5) [OF assms(1)] fresh by (auto simp: 2 dict_all_def task_filed_def task_address_def)
    moreover have "live e' tid \<longleftrightarrow> live e tid" "live e tid \<Longrightarrow> task_address e' tid = task_address e tid" for tid
      using fresh by (auto simp: 2 live_def task_done_def task_address_def)
    moreover have "profile_ok (e_policy e) (new_profile k b ad)"
      by (simp add: profile_ok_def new_profile_def)
    ultimately show ?thesis
      using assms(1) by (auto simp: engine_ok_def 2(2) less_Suc_eq)
  next
    case 3
    have "profile_ok (e_policy e) p" if "pid < e_next e"
      using engine_okD(6) [OF assms(1) that] 3(3) by (auto simp: profile_ok_def awaiting_drop_def)
    then show ?thesis
      unfolding 3(2) using assms(1) 3(3) by (intro set_profile_ok) auto
  qed (use assms in simp)
qed

lemma update_task_frame:
  assumes "t_profile t = t_profile (e_tasks e tid)"
  shows "profile_filed (set_task tid t e) = profile_filed e" "task_filed (set_task tid t e) = task_filed e"
    "task_address (set_task tid t e) = task_address e"
  using assms by (auto simp: fun_eq_iff profile_filed_def task_filed_def task_address_def)

lemma set_task_ok:
  assumes "engine_ok e" "t_profile t = t_profile (e_tasks e tid)" "live (set_task tid t e) tid \<Longrightarrow> live e tid"
  shows "engine_ok (set_task tid t e)"
proof -
  have "live (set_task tid t e) i \<Longrightarrow> live e i" for i
    using assms(3) by (cases "i = tid") (auto simp: live_def task_done_def)
  then show ?thesis
    using assms(1,2) update_task_frame [OF assms(2)] by (auto simp: engine_ok_def)
qed

lemma cancel_task_ok: "engine_ok e \<Longrightarrow> engine_ok (cancel_task tid e)"
  unfolding cancel_task_def by (auto intro!: set_task_ok simp: live_def)

lemma finish_task_ok: "engine_ok e \<Longrightarrow> engine_ok (finish_task tid e)"
  unfolding finish_task_def by (auto intro!: set_task_ok simp: live_def task_done_def)

lemma drop_inflight_ok:
  assumes "engine_ok e" "\<And>tid. dict_get (e_inflight e) addr = Some tid \<Longrightarrow> \<not> live e tid"
  shows "engine_ok (e\<lparr>e_inflight := dict_del addr (e_inflight e)\<rparr>)"
proof -
  have "task_address e tid \<noteq> addr" if "live e tid" for tid
    using engine_okD(8) [OF assms(1) that] assms(2) that by auto
  then show ?thesis
    using assms(1) same_frame [of "e\<lparr>e_inflight := dict_del addr (e_inflight e)\<rparr>" e]
    by (auto simp: engine_ok_def)
qed

lemma drop_profile_ok: "engine_ok e \<Longrightarrow> engine_ok (e\<lparr>e_profiles := dict_del addr (e_profiles e)\<rparr>)"
  using same_frame [of "e\<lparr>e_profiles := dict_del addr (e_profiles e)\<rparr>" e] by (auto simp: engine_ok_def)

lemma cancelled_not_live: "\<not> live (cancel_task tid e) tid"
  by (auto simp: cancel_task_def live_def)

lemma cancel_task_simps [simp]:
  "e_inflight (cancel_task tid e) = e_inflight e" "e_profiles (cancel_task tid e) = e_profiles e"
  "e_heap (cancel_task tid e) = e_heap e" "e_health (cancel_task tid e) = e_health e"
  "e_next_task (cancel_task tid e) = e_next_task e"
  by (simp_all add: cancel_task_def)

lemma unregister_ok:
  assumes "engine_ok e"
  shows "engine_ok (unregister_address addr e)"
proof -
  have swap: "cancel_task tid (e\<lparr>e_inflight := x\<rparr>) = (cancel_task tid e)\<lparr>e_inflight := x\<rparr>" for tid x
    by (simp add: cancel_task_def task_done_def set_task_def)
  have "engine_ok ((cancel_task tid e)\<lparr>e_inflight := dict_del addr (e_inflight e)\<rparr>)"
    if "dict_get (e_inflight e) addr = Some tid" for tid
    using drop_inflight_ok [OF cancel_task_ok [OF assms, of tid], of addr] that
    by (auto simp: cancelled_not_live)
  then show ?thesis
    unfolding unregister_address_def Let_def
    by (intro drop_profile_ok) (auto simp: swap assms split: option.splits)
qed

lemma set_global_enabled_ok:
  assumes "engine_ok e"
  shows "engine_ok (set_global_enabled b e)"
proof -
  have "engine_ok (fold (\<lambda>a e. keep_on_error e (unregister_speaker a e)) as e)" if "engine_ok e" for as e
    using that
    by (induction as arbitrary: e)
       (auto simp: unregister_speaker_def keep_on_error_def unregister_ok split: sum.splits)
  moreover have "engine_ok (e\<lparr>e_enabled := b\<rparr>)" for b
    using assms same_frame [of "e\<lparr>e_enabled := b\<rparr>" e] by (auto simp: engine_ok_def)
  ultimately show ?thesis by (simp add: set_global_enabled_def Let_def)
qed

lemma link_up_ok: "profile_ok c (link_up now p) \<longleftrightarrow> length (p_flap_times p) < RECONNECT_FLAP_LIMIT"
  by (simp add: profile_ok_def link_up_def Let_def)

lemma link_down_ok: "profile_ok c (link_down now p) = profile_ok c p"
  by (simp add: profile_ok_def link_down_def awaiting_drop_def)

lemma link_address [simp]: "p_address (link_up now p) = p_address p" "p_address (link_down now p) = p_address p"
  by (simp_all add: link_up_def link_down_def Let_def)

lemma on_known_device_ok:
  assumes "engine_ok e"
  shows "engine_ok (on_known_device addr pid up now e)"
proof -
  let ?e1 = "(if p_disconnected_since (e_heap e pid) \<noteq> None
      then observe_flap addr ''reconnected inside the grace window'' now else id) e"
  let ?e2 = "(if p_state (e_heap e pid) \<noteq> RS_CONNECTED then observe_state addr SP_CONNECTED 0 now else id) ?e1"
  have e2: "engine_ok ?e2" using assms by auto
  have same: "e_heap ?e2 = e_heap e" "e_next ?e2 = e_next e" "e_policy ?e2 = e_policy e"
    by (simp_all add: observe_flap_def observe_state_def)
  have ok: "pid < e_next e \<Longrightarrow> profile_ok (e_policy e) (e_heap e pid)" by (rule engine_okD [OF assms])
  have "engine_ok (set_profile pid (link_up now (e_heap e pid)) ?e2)"
    by (rule set_profile_over [OF e2 same]) (use ok profile_flaps in \<open>auto simp: link_up_ok simp del: RECONNECT_FLAP_LIMIT_def\<close>)
  moreover have "engine_ok (set_profile pid (link_down now (e_heap e pid)) e)"
    by (rule set_profile_ok [OF assms]) (use ok in \<open>simp_all add: link_down_ok\<close>)
  ultimately show ?thesis using assms by (simp add: on_known_device_def Let_def)
qed

lemma on_device_event_ok: "engine_ok e \<Longrightarrow> on_device_event d now e = Inr e' \<Longrightarrow> engine_ok e'"
  using register_ok
  by (auto simp: on_device_event_def on_registered_device_def intro!: on_known_device_ok
      split: sum.splits option.splits if_splits)

lemma handle_bluetooth_event_ok: "engine_ok e \<Longrightarrow> handle_bluetooth_event ev now e = Inr e' \<Longrightarrow> engine_ok e'"
  by (auto simp: handle_bluetooth_event_def dest: on_device_event_ok split: bt_event.splits if_splits)

lemma record_flap_simps [simp]:
  "p_address (record_flap now p) = p_address p" "p_failures (record_flap now p) = p_failures p"
  "p_step (record_flap now p) = p_step p" "p_next_retry (record_flap now p) = p_next_retry p"
  "p_broken_until (record_flap now p) = p_broken_until p" "p_connected_at (record_flap now p) = p_connected_at p"
  "p_enabled (record_flap now p) = p_enabled p" "length (p_flap_times (record_flap now p)) < RECONNECT_FLAP_LIMIT"
  by (simp_all add: record_flap_def Let_def del: RECONNECT_FLAP_LIMIT_def) (simp add: record_flap_def)

lemma armed_simps [simp]:
  "p_address (armed e now j p) = p_address p" "p_state (armed e now j p) = RS_BACKOFF"
  "p_failures (armed e now j p) = p_failures p" "p_step (armed e now j p) = p_step p"
  "p_disconnected_since (armed e now j p) = None"
  "p_flap_times (armed e now j p) = p_flap_times (record_flap now p)"
  "p_cooldown_until (armed e now j p) = p_cooldown_until (record_flap now p)"
  "p_connected_at (armed e now j p) = p_connected_at p" "p_enabled (armed e now j p) = p_enabled p"
  by (simp_all add: armed_def Let_def)

lemma arm_backoff_ok:
  assumes "engine_ok e"
  shows "engine_ok (arm_backoff pid now j e)"
proof -
  let ?p = "e_heap e pid"
  let ?e1 = "(if flap_limit_reached now ?p
       then observe_flap (p_address ?p) ''flap limit reached; holding reconnects'' now else id) e"
  let ?e2 = "observe_state (p_address ?p) SP_DISCONNECTED 0 now ?e1"
  have e2: "engine_ok ?e2" using assms by auto
  have same: "e_heap ?e2 = e_heap e" "e_next ?e2 = e_next e" "e_policy ?e2 = e_policy e"
    by (simp_all add: observe_flap_def observe_state_def)
  show ?thesis
    unfolding arm_backoff_def Let_def
    by (rule set_profile_over [OF e2 same])
      (use engine_okD(6) [OF assms, of pid] in \<open>auto simp: profile_ok_def awaiting_drop_def simp del: RECONNECT_FLAP_LIMIT_def\<close>)
qed

lemma spawn_attempt_ok:
  assumes "engine_ok e" "pid < e_next e" "p_address (e_heap e pid) = addr" "\<not> attempt_in_progress e addr"
  shows "engine_ok (spawn_attempt addr pid e)"
proof -
  let ?e = "spawn_attempt addr pid e"
  have "task_address e tid \<noteq> addr" if "live e tid" for tid
    using engine_okD(8) [OF assms(1) that] assms(4) that by (auto simp: attempt_in_progress_def live_def)
  moreover have "live ?e tid \<longleftrightarrow> live e tid \<or> tid = e_next_task e" for tid
    by (auto simp: spawn_attempt_def live_def task_done_def)
  moreover have "task_address ?e tid = (if tid = e_next_task e then addr else task_address e tid)" for tid
    using assms(3) by (simp add: spawn_attempt_def task_address_def)
  moreover have "profile_filed ?e = profile_filed e"
    by (simp add: fun_eq_iff profile_filed_def spawn_attempt_def)
  moreover have "e_next_task ?e = Suc (e_next_task e)" "e_inflight ?e = dict_set addr (e_next_task e) (e_inflight e)"
    by (simp_all add: spawn_attempt_def)
  ultimately show ?thesis
    using assms(1,2)
    by (auto simp: engine_ok_def dict_all_def task_filed_def live_def)
       (auto simp: spawn_attempt_def less_Suc_eq)
qed

lemma arm_backoff_simps [simp]:
  "e_policy (arm_backoff pid now j e) = e_policy e" "e_profiles (arm_backoff pid now j e) = e_profiles e"
  "e_inflight (arm_backoff pid now j e) = e_inflight e" "e_next (arm_backoff pid now j e) = e_next e"
  "e_next_task (arm_backoff pid now j e) = e_next_task e" "e_tasks (arm_backoff pid now j e) = e_tasks e"
  "e_heap (arm_backoff pid now j e) = (e_heap e)(pid := armed e now j (e_heap e pid))"
  by (simp_all add: arm_backoff_def Let_def observe_state_def observe_flap_def)

lemma tick_retry_simps [simp]:
  "e_profiles (tick_retry now addr pid e) = e_profiles e" "e_heap (tick_retry now addr pid e) = e_heap e"
  "e_next (tick_retry now addr pid e) = e_next e" "e_policy (tick_retry now addr pid e) = e_policy e"
  "e_health (tick_retry now addr pid e) = e_health e"
  by (simp_all add: tick_retry_def spawn_attempt_def)

lemma tick_retry_ok:
  "engine_ok e \<Longrightarrow> pid < e_next e \<Longrightarrow> p_address (e_heap e pid) = addr \<Longrightarrow> engine_ok (tick_retry now addr pid e)"
  by (simp add: tick_retry_def spawn_attempt_ok)

lemma probe_simps [simp]:
  "p_address (probe p) = p_address p" "p_enabled (probe p) = p_enabled p" "p_failures (probe p) = p_failures p"
  "p_disconnected_since (probe p) = p_disconnected_since p" "p_next_retry (probe p) = p_next_retry p"
  "p_cooldown_until (probe p) = p_cooldown_until p" "p_connected_at (probe p) = p_connected_at p"
  "p_broken_until (probe p) = p_broken_until p" "awaiting_drop (probe p) = awaiting_drop p"
  by (simp_all add: probe_def awaiting_drop_def)

lemma probe_ok: "profile_ok c p \<Longrightarrow> profile_ok c (probe p)"
  by (auto simp: probe_def profile_ok_def awaiting_drop_def)

text \<open>What a tick may do with one profile: nothing, wait, retry, or arm and retry.\<close>

lemma tick_profile_cases:
  obtains "tick_profile now jitter (addr, pid) e = e"
  | "tick_profile now jitter (addr, pid) e = set_profile pid (probe (e_heap e pid)) e"
  | "tick_profile now jitter (addr, pid) e = tick_retry now addr pid (set_profile pid (probe (e_heap e pid)) e)"
  | "tick_profile now jitter (addr, pid) e =
      tick_retry now addr pid (arm_backoff pid now (jitter addr) (set_profile pid (probe (e_heap e pid)) e))"
proof -
  let ?e = "set_profile pid (probe (e_heap e pid)) e"
  have "tick_profile now jitter (addr, pid) e \<in>
      {e, ?e, tick_retry now addr pid ?e, tick_retry now addr pid (arm_backoff pid now (jitter addr) ?e)}"
    by (simp add: tick_profile_def Let_def split: option.splits)
  then show thesis using that by blast
qed

lemma tick_profile_profiles [simp]: "e_profiles (tick_profile now jitter entry e) = e_profiles e"
  by (cases entry) (auto intro: tick_profile_cases [of now jitter "fst entry" "snd entry" e])

lemma tick_profile_ok:
  assumes "engine_ok e" "dict_get (e_profiles e) addr = Some pid"
  shows "engine_ok (tick_profile now jitter (addr, pid) e)"
proof -
  have pid: "pid < e_next e" "p_address (e_heap e pid) = addr"
    using engine_okD(4) [OF assms] by auto
  let ?e = "set_profile pid (probe (e_heap e pid)) e"
  have e: "engine_ok ?e"
    using probe_ok [OF engine_okD(6) [OF assms(1) pid(1)]] by (intro set_profile_ok assms(1)) auto
  have addr: "pid < e_next ?e" "p_address (e_heap ?e pid) = addr" using pid by auto
  have retry: "engine_ok (tick_retry now addr pid ?e)" by (rule tick_retry_ok [OF e addr])
  have arm: "engine_ok (tick_retry now addr pid (arm_backoff pid now (jitter addr) ?e))"
    by (rule tick_retry_ok [OF arm_backoff_ok [OF e]]) (use addr in simp_all)
  show ?thesis
    by (rule tick_profile_cases [of now jitter addr pid e]) (simp_all only: assms(1) e retry arm)
qed

lemma tick_ok:
  assumes "engine_ok e"
  shows "engine_ok (tick now jitter e)"
proof -
  have "engine_ok (fold (tick_profile now jitter) entries e')"
    if "engine_ok e'" "\<forall>(a, p) \<in> set entries. dict_get (e_profiles e') a = Some p" for entries e'
    using that
  proof (induction entries arbitrary: e')
    case (Cons x xs)
    then show ?case by (cases x) (auto intro!: Cons.IH tick_profile_ok)
  qed simp
  moreover have "\<forall>(a, p) \<in> set (e_profiles e). dict_get (e_profiles e) a = Some p"
    using engine_okD(2) [OF assms] dict_get_in by fastforce
  ultimately show ?thesis using assms by (simp add: tick_def)
qed

lemma attempt_start_ok:
  assumes "engine_ok e" "tid < e_next_task e" "t_phase (e_tasks e tid) = TP_Created"
  shows "engine_ok (attempt_start tid now e)"
proof -
  let ?t = "e_tasks e tid" and ?p = "e_heap e (t_profile (e_tasks e tid))"
  let ?e = "observe_state (p_address ?p) SP_RECONNECTING (p_failures ?p + 1) now
      (set_profile (t_profile ?t) (?p\<lparr>p_state := RS_RECONNECTING\<rparr>) e)"
  have "profile_ok (e_policy e) ?p" by (intro engine_okD(6) engine_okD(7) assms)
  then have "engine_ok (set_profile (t_profile ?t) (?p\<lparr>p_state := RS_RECONNECTING\<rparr>) e)"
    by (intro set_profile_ok assms(1)) (auto simp: profile_ok_def awaiting_drop_def)
  then have e: "engine_ok ?e" by auto
  have tasks: "e_tasks ?e = e_tasks e" "e_next_task ?e = e_next_task e"
    by (simp_all add: observe_state_def)
  have "engine_ok (set_task tid (?t\<lparr>t_phase := TP_Connecting\<rparr>) ?e)" if "\<not> t_cancelled ?t"
    by (rule set_task_ok [OF e])
      (use assms(2,3) that in \<open>simp_all add: live_def task_done_def tasks\<close>)
  then show ?thesis using assms(1) by (simp add: attempt_start_def Let_def finish_task_ok)
qed

lemma profile_ok_outcomes:
  assumes "profile_ok c p"
  shows "profile_ok c (p\<lparr>p_state := RS_BACKOFF, p_next_retry := t\<rparr>)"
    "profile_ok c (p\<lparr>p_disconnected_since := None, p_state := RS_BACKOFF, p_next_retry := t\<rparr>)"
    "profile_ok c (p\<lparr>p_state := RS_CONNECTED, p_connected_at := t, p_disconnected_since := None,
        p_failures := 0, p_step := 0, p_next_retry := 0, p_broken_until := 0\<rparr>)"
  using assms by (simp_all add: profile_ok_def awaiting_drop_def)

lemma failed_profile_shape:
  "\<exists>t u. failed_profile e now j p = (if exhausted e p
     then p\<lparr>p_failures := p_failures p + 1, p_step := p_step p + 1, p_state := RS_CIRCUIT_BROKEN,
            p_broken_until := u, p_next_retry := t\<rparr>
     else p\<lparr>p_failures := p_failures p + 1, p_step := p_step p + 1, p_state := RS_BACKOFF, p_next_retry := t\<rparr>)"
  unfolding failed_profile_def Let_def by (cases "exhausted e p") (simp_all, blast+)

lemma failed_profile_ok:
  assumes "profile_ok (e_policy e) p"
  shows "profile_ok (e_policy e) (failed_profile e now j p)" "p_address (failed_profile e now j p) = p_address p"
proof -
  obtain t u where eq: "failed_profile e now j p = (if exhausted e p
     then p\<lparr>p_failures := p_failures p + 1, p_step := p_step p + 1, p_state := RS_CIRCUIT_BROKEN,
            p_broken_until := u, p_next_retry := t\<rparr>
     else p\<lparr>p_failures := p_failures p + 1, p_step := p_step p + 1, p_state := RS_BACKOFF, p_next_retry := t\<rparr>)"
    using failed_profile_shape by blast
  show "profile_ok (e_policy e) (failed_profile e now j p)" "p_address (failed_profile e now j p) = p_address p"
    unfolding eq using assms by (simp_all add: profile_ok_def awaiting_drop_def exhausted_def)
qed

lemma attempt_outcome_ok:
  assumes "engine_ok e" "pid < e_next e"
  shows "engine_ok (attempt_succeeded pid now e)" "engine_ok (attempt_cancelled pid now j e)"
    "engine_ok (defer_busy_connection pid now j e)" "engine_ok (attempt_failed pid now j e)"
proof -
  note ok = engine_okD(6) [OF assms]
  have set: "engine_ok (set_profile pid p e)"
    if "profile_ok (e_policy e) p" "p_address p = p_address (e_heap e pid)" for p
    by (rule set_profile_ok [OF assms(1) that(2,1)])
  have branch: "engine_ok x \<Longrightarrow> engine_ok y \<Longrightarrow> engine_ok (if b then x else y)" for x y b by simp
  show "engine_ok (attempt_succeeded pid now e)"
    unfolding attempt_succeeded_def Let_def
    by (intro branch assms(1) observe_steps_ok set profile_ok_outcomes [OF ok]) simp
  show "engine_ok (attempt_cancelled pid now j e)"
    unfolding attempt_cancelled_def Let_def by (intro branch assms(1) set profile_ok_outcomes [OF ok]) simp
  show "engine_ok (defer_busy_connection pid now j e)"
    unfolding defer_busy_connection_def Let_def by (intro set profile_ok_outcomes [OF ok]) simp
  have obs: "engine_ok (observe_failure (e_heap e pid) now e)"
    using assms(1) by (auto simp: observe_failure_def)
  have "engine_ok (set_profile pid (failed_profile e now j (e_heap e pid)) (observe_failure (e_heap e pid) now e))"
    by (rule set_profile_over [OF obs])
      (rule failed_profile_ok [OF ok] | simp add: failed_profile_ok(2) [OF ok] observe_failure_def observe_state_def)+
  then show "engine_ok (attempt_failed pid now j e)" using assms(1) by (simp add: attempt_failed_def)
qed

lemma attempt_finish_ok:
  assumes "engine_ok e" "tid < e_next_task e"
  shows "engine_ok (attempt_finish tid answer now j e)"
  unfolding attempt_finish_def Let_def
  using assms attempt_outcome_ok [OF assms(1) engine_okD(7) [OF assms]]
  by (auto intro!: finish_task_ok split: sum.splits py_exc.splits)

lemma release_ok:
  assumes "engine_ok e" "task_done e tid"
  shows "engine_ok (release_inflight addr tid e)"
  using assms drop_inflight_ok [OF assms(1), of addr] by (auto simp: release_inflight_def live_def)

lemma engine_stop_ok: "engine_ok e \<Longrightarrow> engine_ok (engine_stop e)"
proof -
  assume ok: "engine_ok e"
  have "engine_ok (e\<lparr>e_running := False\<rparr>)"
    using ok same_frame [of "e\<lparr>e_running := False\<rparr>" e] by (auto simp: engine_ok_def)
  moreover have "engine_ok e' \<Longrightarrow> engine_ok (fold cancel_task ts e')" for ts e'
    by (induction ts arbitrary: e') (auto intro: cancel_task_ok)
  ultimately show ?thesis by (simp add: engine_stop_def)
qed

lemma engine_stopped_ok:
  assumes "engine_ok e" "list_all (task_done e) (map snd (e_inflight e))"
  shows "engine_ok (engine_stopped e)"
proof -
  have "\<not> live e tid" for tid
  proof
    assume l: "live e tid"
    have "(task_address e tid, tid) \<in> set (e_inflight e)"
      by (rule map_of_SomeD [OF engine_okD(8) [OF assms(1) l]])
    then have "tid \<in> set (map snd (e_inflight e))" by force
    then show False using assms(2) l by (auto simp: list_all_iff live_def)
  qed
  then show ?thesis
    using assms(1) same_frame [of "engine_stopped e" e] by (auto simp: engine_ok_def engine_stopped_def)
qed

lemma engine_start_ok: "engine_ok e \<Longrightarrow> engine_ok (engine_start e)"
  using same_frame [of "engine_start e" e] by (auto simp: engine_ok_def engine_start_def)

lemma kept_ok: "engine_ok e \<Longrightarrow> (\<And>e'. r = Inr e' \<Longrightarrow> engine_ok e') \<Longrightarrow> engine_ok (keep_on_error e r)"
  by (cases r) simp_all

lemma engine_step_ok: "engine_ok e \<Longrightarrow> engine_ok (engine_step e ev)"
proof (cases ev)
  case (BluetoothEvent b now)
  assume ok: "engine_ok e"
  show ?thesis
    unfolding BluetoothEvent engine_step.simps by (rule kept_ok [OF ok handle_bluetooth_event_ok [OF ok]])
qed (auto simp: keep_on_error_def unregister_speaker_def register_ok unregister_ok set_global_enabled_ok
        engine_start_ok tick_ok attempt_start_ok attempt_finish_ok release_ok
        engine_stop_ok engine_stopped_ok split: sum.splits)

interpretation reconnect: invariant_machine engine_step engine_ok
  by unfold_locales (rule engine_step_ok)

end
