(* ===== verification/Reconnect_Spec.thy ===== *)
theory Reconnect_Spec
  imports Reconnect
begin

text \<open>
  What the reconnect engine promises. \<open>speaker_tick\<close> is the specification of a tick for one speaker on its
  own: the engine's tick over all profiles implements it for every speaker independently. The pacing,
  the breaker, the grace window and the retries are read off it.
\<close>

section \<open>One speaker on its own\<close>

definition armed_profile :: "policy \<Rightarrow> real \<Rightarrow> real \<Rightarrow> profile \<Rightarrow> profile" where
  "armed_profile c now jitter p =
     (let flapped = record_flap now p;
          delay = calculate_backoff_delay c jitter (p_step p);
          hold = (if p_cooldown_until flapped > now then max delay (p_cooldown_until flapped - now) else delay)
      in flapped\<lparr>p_disconnected_since := None, p_state := RS_BACKOFF,
           p_next_retry := max (max (p_next_retry p) (now + hold)) (p_broken_until p)\<rparr>)"

definition waiting :: "real \<Rightarrow> profile \<Rightarrow> bool" where
  "waiting now p \<longleftrightarrow> (\<exists>since. p_disconnected_since p = Some since \<and> awaiting_drop p \<and>
     now - since < RECONNECT_DISCONNECT_GRACE_SECONDS)"

definition drop_confirmed :: "real \<Rightarrow> profile \<Rightarrow> bool" where
  "drop_confirmed now p \<longleftrightarrow> (\<exists>since. p_disconnected_since p = Some since \<and> awaiting_drop p \<and>
     now - since \<ge> RECONNECT_DISCONNECT_GRACE_SECONDS)"

text \<open>The profile and whether an attempt is running, after a tick.\<close>

definition speaker_tick :: "policy \<Rightarrow> real \<Rightarrow> real \<Rightarrow> profile \<times> bool \<Rightarrow> profile \<times> bool" where
  "speaker_tick c now jitter s =
     (case s of (p, busy) \<Rightarrow>
       if \<not> p_enabled p \<or> now < p_broken_until p then (p, busy)
       else if waiting now p then (probe p, busy)
       else let p' = (if drop_confirmed now p then armed_profile c now jitter (probe p) else probe p)
            in (p', busy \<or> retry_due now p'))"

definition speaker_view :: "engine \<Rightarrow> string \<Rightarrow> nat \<Rightarrow> profile \<times> bool" where
  "speaker_view e addr pid = (e_heap e pid, attempt_in_progress e addr)"

lemma armed_eq: "armed e now jitter p = armed_profile (e_policy e) now jitter p"
  by (simp add: armed_def armed_profile_def Let_def backoff_delay_def)

lemma in_progress_frame:
  assumes "e_inflight e' = e_inflight e" "e_tasks e' = e_tasks e"
  shows "attempt_in_progress e' = attempt_in_progress e"
  unfolding attempt_in_progress_def task_done_def fun_eq_iff assms by simp

lemma in_progress_frames [simp]:
  "attempt_in_progress (set_profile pid p e) = attempt_in_progress e"
  "attempt_in_progress (arm_backoff pid now j e) = attempt_in_progress e"
  "attempt_in_progress (observe f e) = attempt_in_progress e"
  by (rule in_progress_frame; simp)+

lemma in_progress_spawn:
  assumes "engine_ok e"
  shows "attempt_in_progress (spawn_attempt a q e) addr \<longleftrightarrow> addr = a \<or> attempt_in_progress e addr"
  using engine_okD(5) [OF assms, of addr]
  by (auto simp: attempt_in_progress_def spawn_attempt_def task_done_def split: option.splits)

lemma in_progress_retry:
  assumes "engine_ok e"
  shows "attempt_in_progress (tick_retry now a q e) addr \<longleftrightarrow>
     attempt_in_progress e addr \<or> (addr = a \<and> retry_due now (e_heap e q))"
  using in_progress_spawn [OF assms] by (auto simp: tick_retry_def)

lemma tick_profile_parts:
  assumes "engine_ok e" "dict_get (e_profiles e) addr = Some pid"
  shows "engine_ok (set_profile pid (probe (e_heap e pid)) e)"
    "engine_ok (arm_backoff pid now j (set_profile pid (probe (e_heap e pid)) e))"
proof -
  have pid: "pid < e_next e" using engine_okD(4) [OF assms] by blast
  show "engine_ok (set_profile pid (probe (e_heap e pid)) e)"
    using probe_ok [OF engine_okD(6) [OF assms(1) pid]] by (intro set_profile_ok assms(1)) auto
  then show "engine_ok (arm_backoff pid now j (set_profile pid (probe (e_heap e pid)) e))"
    by (rule arm_backoff_ok)
qed

lemma tick_profile_own:
  assumes "engine_ok e" "dict_get (e_profiles e) addr = Some pid"
  shows "speaker_view (tick_profile now jitter (addr, pid) e) addr pid =
     speaker_tick (e_policy e) now (jitter addr) (speaker_view e addr pid)"
proof -
  note ok = tick_profile_parts [OF assms]
  show ?thesis
    using in_progress_retry [OF ok(1)] in_progress_retry [OF ok(2)]
    by (cases "p_disconnected_since (e_heap e pid)")
       (auto simp: speaker_view_def speaker_tick_def tick_profile_def Let_def waiting_def drop_confirmed_def armed_eq)
qed

lemma tick_profile_other:
  assumes "engine_ok e" "dict_get (e_profiles e) a = Some q" "a \<noteq> addr" "q \<noteq> pid"
  shows "speaker_view (tick_profile now jitter (a, q) e) addr pid = speaker_view e addr pid"
    "e_policy (tick_profile now jitter (a, q) e) = e_policy e"
proof -
  note ok = tick_profile_parts [OF assms(1,2)]
  show "speaker_view (tick_profile now jitter (a, q) e) addr pid = speaker_view e addr pid"
    using in_progress_retry [OF ok(1)] in_progress_retry [OF ok(2)] assms(3,4)
    by (rule_tac tick_profile_cases [of now jitter a q e]) (simp_all add: speaker_view_def)
  show "e_policy (tick_profile now jitter (a, q) e) = e_policy e"
    by (rule tick_profile_cases [of now jitter a q e]) simp_all
qed

lemma fold_others:
  assumes "engine_ok e" "\<forall>(a, q) \<in> set entries. dict_get (e_profiles e) a = Some q \<and> a \<noteq> addr"
    "dict_get (e_profiles e) addr = Some pid"
  shows "speaker_view (fold (tick_profile now jitter) entries e) addr pid = speaker_view e addr pid \<and>
         e_policy (fold (tick_profile now jitter) entries e) = e_policy e \<and>
         engine_ok (fold (tick_profile now jitter) entries e) \<and>
         e_profiles (fold (tick_profile now jitter) entries e) = e_profiles e"
  using assms
proof (induction entries arbitrary: e)
  case (Cons x xs)
  obtain a q where x: "x = (a, q)" by (cases x)
  have q: "dict_get (e_profiles e) a = Some q" "a \<noteq> addr" using Cons.prems(2) x by auto
  have "q \<noteq> pid" using engine_okD(4) [OF Cons.prems(1)] q Cons.prems(3) by blast
  note other = tick_profile_other [OF Cons.prems(1) q this, of now jitter]
  have "speaker_view (fold (tick_profile now jitter) xs (tick_profile now jitter x e)) addr pid =
      speaker_view (tick_profile now jitter x e) addr pid \<and>
      e_policy (fold (tick_profile now jitter) xs (tick_profile now jitter x e)) = e_policy (tick_profile now jitter x e) \<and>
      engine_ok (fold (tick_profile now jitter) xs (tick_profile now jitter x e)) \<and>
      e_profiles (fold (tick_profile now jitter) xs (tick_profile now jitter x e)) = e_profiles (tick_profile now jitter x e)"
    using tick_profile_ok [OF Cons.prems(1) q(1)] Cons.prems(2,3) x by (intro Cons.IH) auto
  then show ?case using other x by simp
qed simp

lemma tick_implements:
  assumes "engine_ok e" "dict_get (e_profiles e) addr = Some pid"
  shows "speaker_view (tick now jitter e) addr pid =
     speaker_tick (e_policy e) now (jitter addr) (speaker_view e addr pid)"
proof -
  have wf: "wf_dict (e_profiles e)" by (rule engine_okD(2) [OF assms(1)])
  obtain xs ys where split: "e_profiles e = xs @ (addr, pid) # ys"
    using assms(2) by (meson map_of_SomeD split_list)
  have entry: "\<forall>(a, q) \<in> set (xs @ ys). dict_get (e_profiles e) a = Some q \<and> a \<noteq> addr"
  proof -
    have "distinct (map fst (xs @ (addr, pid) # ys))" using wf split by (simp add: wf_dict_def)
    then have "addr \<notin> fst ` set (xs @ ys)" by auto
    moreover have "dict_get (e_profiles e) a = Some q" if "(a, q) \<in> set (xs @ ys)" for a q
    proof -
      have "(a, q) \<in> set (e_profiles e)" using that by (auto simp: split)
      then show ?thesis by (simp only: dict_get_in [OF wf])
    qed
    ultimately show ?thesis by (metis (mono_tags, lifting) case_prodI2 fst_conv image_eqI)
  qed
  let ?e1 = "fold (tick_profile now jitter) xs e"
  have e1: "speaker_view ?e1 addr pid = speaker_view e addr pid" "e_policy ?e1 = e_policy e" "engine_ok ?e1"
    "e_profiles ?e1 = e_profiles e"
    using fold_others [OF assms(1) _ assms(2), of xs now jitter] entry by auto
  let ?e2 = "tick_profile now jitter (addr, pid) ?e1"
  have get: "dict_get (e_profiles ?e1) addr = Some pid" by (simp only: e1(4) assms(2))
  have e2: "speaker_view ?e2 addr pid = speaker_tick (e_policy e) now (jitter addr) (speaker_view e addr pid)"
    using tick_profile_own [OF e1(3) get, of now jitter] e1(1,2) by simp
  have "speaker_view (fold (tick_profile now jitter) ys ?e2) addr pid = speaker_view ?e2 addr pid"
    using fold_others [OF tick_profile_ok [OF e1(3) get, of now jitter], where entries = ys and addr = addr
        and pid = pid and now = now and jitter = jitter] entry get
    by (auto simp: e1(4))
  then show ?thesis using e2 by (simp add: tick_def split)
qed

section \<open>Consequences for the engine\<close>

lemma tick_profiles [simp]: "e_profiles (tick now jitter e) = e_profiles e"
proof -
  have "e_profiles (fold (tick_profile now jitter) xs e) = e_profiles e" for xs e
    by (induction xs arbitrary: e) simp_all
  then show ?thesis by (simp add: tick_def)
qed

lemma tick_profile_running: "e_running (tick_profile now jitter entry e) = e_running e"
proof -
  have spawn: "e_running (tick_retry now a q x) = e_running x" for a q x
    by (simp add: tick_retry_def spawn_attempt_def)
  have arm: "e_running (arm_backoff q now j x) = e_running x" for q j x
    by (simp add: arm_backoff_def Let_def observe_state_def observe_flap_def)
  show ?thesis
    by (rule tick_profile_cases [of now jitter "fst entry" "snd entry" e]) (simp_all add: spawn arm)
qed

lemma tick_running [simp]: "e_running (tick now jitter e) = e_running e"
proof -
  have "e_running (fold (tick_profile now jitter) xs e) = e_running e" for xs e
    by (induction xs arbitrary: e) (simp_all add: tick_profile_running)
  then show ?thesis by (simp add: tick_def)
qed

lemma tick_view:
  assumes "engine_ok e" "dict_get (e_profiles e) addr = Some pid"
  shows "e_heap (tick now jitter e) pid =
      fst (speaker_tick (e_policy e) now (jitter addr) (e_heap e pid, attempt_in_progress e addr))"
    "attempt_in_progress (tick now jitter e) addr =
      snd (speaker_tick (e_policy e) now (jitter addr) (e_heap e pid, attempt_in_progress e addr))"
  using tick_implements [OF assms, of now jitter] by (simp_all add: speaker_view_def prod_eq_iff)

lemma speaker_tick_quiet:
  assumes "now < p_next_retry p \<or> now < p_broken_until p \<or> now < p_cooldown_until p" "\<not> awaiting_drop p"
  shows "\<not> snd (speaker_tick c now jitter (p, False))"
  using assms by (auto simp: speaker_tick_def Let_def waiting_def drop_confirmed_def retry_due_def)

lemma failed_profile_facts:
  "p_failures (failed_profile e now j p) = p_failures p + 1" "p_step (failed_profile e now j p) = p_step p + 1"
  "p_state (failed_profile e now j p) = (if exhausted e p then RS_CIRCUIT_BROKEN else RS_BACKOFF)"
  "exhausted e p \<Longrightarrow> now + breaker_cooldown (e_policy e) \<le> p_broken_until (failed_profile e now j p)"
  "now + calculate_backoff_delay (e_policy e) j (p_step p + 1) \<le> p_next_retry (failed_profile e now j p)"
  by (simp_all add: failed_profile_def Let_def backoff_delay_def le_max_iff_disj)

lemma attempt_failed_parts:
  "e_inflight (attempt_failed pid now j e) = e_inflight e" "e_tasks (attempt_failed pid now j e) = e_tasks e"
  "e_profiles (attempt_failed pid now j e) = e_profiles e" "e_policy (attempt_failed pid now j e) = e_policy e"
  "is_profile e pid \<Longrightarrow> e_heap (attempt_failed pid now j e) pid = failed_profile e now j (e_heap e pid)"
  by (simp_all add: attempt_failed_def observe_failure_def observe_state_def)

lemma finish_task_parts [simp]:
  "e_heap (finish_task tid e) = e_heap e" "e_profiles (finish_task tid e) = e_profiles e"
  "e_policy (finish_task tid e) = e_policy e" "e_inflight (finish_task tid e) = e_inflight e"
  "t_phase (e_tasks (finish_task tid e) tid) = TP_Done"
  by (simp_all add: finish_task_def)

lemma attempt_finish_failed:
  assumes "\<not> t_cancelled (e_tasks e tid)" "err \<noteq> CancelledError" "\<And>m. err \<noteq> OperationInProgress m"
  shows "attempt_finish tid (Inl err) now j e = finish_task tid (attempt_failed (t_profile (e_tasks e tid)) now j e)"
  using assms by (simp add: attempt_finish_def Let_def split: py_exc.splits)

section \<open>Dropouts\<close>

definition ticks :: "(real \<times> (string \<Rightarrow> real)) list \<Rightarrow> engine \<Rightarrow> engine" where
  "ticks ts e = foldl (\<lambda>e (t, jitter). engine_step e (Tick t jitter)) e ts"

lemma waiting_tick:
  assumes "waiting now p"
  shows "speaker_tick c now jitter (p, busy) = (p, busy)"
  using assms by (auto simp: speaker_tick_def waiting_def awaiting_drop_def probe_def)

lemma waiting_ticks:
  assumes "engine_ok e" "dict_get (e_profiles e) addr = Some pid"
    "\<forall>(t, jitter) \<in> set ts. waiting t (e_heap e pid)"
  shows "engine_ok (ticks ts e) \<and> e_heap (ticks ts e) pid = e_heap e pid \<and> e_profiles (ticks ts e) = e_profiles e \<and>
    e_running (ticks ts e) = e_running e \<and> attempt_in_progress (ticks ts e) addr = attempt_in_progress e addr"
  using assms
proof (induction ts arbitrary: e)
  case (Cons x ts)
  obtain t j where x: "x = (t, j)" by (cases x)
  let ?e = "engine_step e (Tick t j)"
  have w: "waiting t (e_heap e pid)" using Cons.prems(3) x by simp
  have e: "engine_ok ?e" by (rule engine_step_ok [OF Cons.prems(1)])
  have view: "e_heap ?e pid = e_heap e pid" "attempt_in_progress ?e addr = attempt_in_progress e addr"
    "e_profiles ?e = e_profiles e" "e_running ?e = e_running e"
    using tick_view [OF Cons.prems(1,2)] waiting_tick [OF w] by simp_all
  have "engine_ok (ticks ts ?e) \<and> e_heap (ticks ts ?e) pid = e_heap ?e pid \<and> e_profiles (ticks ts ?e) = e_profiles ?e \<and>
    e_running (ticks ts ?e) = e_running ?e \<and> attempt_in_progress (ticks ts ?e) addr = attempt_in_progress ?e addr"
    by (rule Cons.IH [OF e]) (use Cons.prems(2,3) view in \<open>auto simp del: engine_step.simps\<close>)
  moreover have "ticks (x # ts) e = ticks ts ?e" by (simp add: ticks_def x)
  ultimately show ?case using view by simp
qed (simp add: ticks_def)

lemma device_event_known:
  assumes "e_running e" "normalize_address (di_address d) = Inr addr" "dict_get (e_profiles e) addr = Some pid"
  shows "engine_step e (BluetoothEvent (DeviceUpdated d) now) = on_known_device addr pid (di_connected d) now e"
  using assms by (simp add: handle_bluetooth_event_def on_device_event_def on_registered_device_def)

lemma on_known_device_parts [simp]:
  "e_profiles (on_known_device addr pid up now e) = e_profiles e" "e_running (on_known_device addr pid up now e) = e_running e"
  "attempt_in_progress (on_known_device addr pid up now e) = attempt_in_progress e"
  "e_heap (on_known_device addr pid up now e) pid =
     (if \<not> p_enabled (e_heap e pid) then e_heap e pid
      else if up then link_up now (e_heap e pid) else link_down now (e_heap e pid))"
  by (simp_all add: on_known_device_def Let_def observe_flap_def observe_state_def)

lemma link_up_after_flap:
  assumes "profile_ok c p" "p_state p = RS_CONNECTED"
  shows "link_up now (p\<lparr>p_disconnected_since := Some t\<rparr>) = p\<lparr>p_flaps := p_flaps p + 1, p_disconnected_since := None\<rparr>"
proof -
  have "p_failures p = 0" "p_step p = 0" "p_next_retry p = 0" "p_broken_until p = 0"
    using assms by (simp_all add: profile_ok_def awaiting_drop_def)
  then show ?thesis using assms(2) by (simp add: link_up_def)
qed

section \<open>Properties\<close>

text \<open>
  C2. From any accepted configuration, any sequence of registrations, device events, ticks, task steps,
  callbacks and stops leaves a well-formed engine: profiles are filed under their canonical address, a
  profile's backoff step equals its consecutive failures, an open breaker has exhausted them, a link that
  is up owes no retry, and the inflight table points at tasks of its own speaker.
\<close>

theorem engine_invariant:
  assumes "new_engine c (Some new_registry) = Inr e"
  shows "engine_ok (foldl engine_step e events)"
  by (rule reconnect.run_ok [OF new_engine_ok [OF assms]]) (simp add: new_registry_ok)

text \<open>
  C8. Whatever happens, a speaker never has two running connection attempts: two tasks of the same
  address that are neither done nor cancelled are the same task.
\<close>

theorem one_attempt_per_speaker:
  assumes "new_engine c (Some new_registry) = Inr e"
    "live (foldl engine_step e events) i" "live (foldl engine_step e events) j"
    "task_address (foldl engine_step e events) i = task_address (foldl engine_step e events) j"
  shows "i = j"
proof -
  have ok: "engine_ok (foldl engine_step e events)"
    by (rule reconnect.run_ok [OF new_engine_ok [OF assms(1)]]) (simp add: new_registry_ok)
  have "Some i = Some j"
    using engine_okD(8) [OF ok assms(2)] engine_okD(8) [OF ok assms(3)] unfolding assms(4) by (rule trans [OF sym])
  then show ?thesis by (rule option.inject [THEN iffD1])
qed

text \<open>
  C3. A tick of the engine implements, for every registered speaker independently of all others, the
  tick of one speaker on its own.
\<close>

theorem tick_refines_speakers:
  assumes "engine_ok e" "dict_get (e_profiles e) addr = Some pid"
  shows "(e_heap (tick now jitter e) pid, attempt_in_progress (tick now jitter e) addr) =
     speaker_tick (e_policy e) now (jitter addr) (e_heap e pid, attempt_in_progress e addr)"
  using tick_implements [OF assms, of now jitter] unfolding speaker_view_def .

text \<open>
  C7. When a tick starts an attempt, the speaker is enabled, no attempt was running, the breaker time is
  over, the link has been left alone for the settle time, and either the retry and the cooldown are due
  or a dropout has just survived the grace window.
\<close>

theorem attempt_pacing:
  assumes "engine_ok e" "dict_get (e_profiles e) addr = Some pid"
    "\<not> attempt_in_progress e addr" "attempt_in_progress (tick now jitter e) addr"
  shows "let p = e_heap e pid
     in p_enabled p \<and> p_broken_until p \<le> now \<and> RECONNECT_POST_CONNECT_SETTLE_SECONDS \<le> now - p_connected_at p \<and>
        ((p_state p \<in> {RS_BACKOFF, RS_CIRCUIT_BROKEN} \<and> p_next_retry p \<le> now \<and> p_cooldown_until p \<le> now) \<or>
         (p_state p \<in> {RS_CONNECTED, RS_IDLE} \<and>
          (\<exists>since. p_disconnected_since p = Some since \<and> RECONNECT_DISCONNECT_GRACE_SECONDS \<le> now - since)))"
proof -
  have arm: "p_connected_at (armed_profile c now j p) = p_connected_at p" for c j p
    by (simp add: armed_profile_def Let_def)
  show ?thesis
    using tick_view(2) [OF assms(1,2), of now jitter] assms(3,4)
    by (auto simp: speaker_tick_def Let_def retry_due_def drop_confirmed_def awaiting_drop_def arm probe_def
        split: if_splits)
qed

text \<open>
  C18. A failed attempt of the current profile counts one failure, waits at least the backoff of the new
  failure count, opens the breaker for its cooldown when the failures are exhausted, and until the retry
  time and the breaker time are over no tick starts another attempt.
\<close>

theorem failed_attempt_backs_off:
  assumes "engine_ok e" "live e tid" "t_phase (e_tasks e tid) = TP_Connecting"
    "dict_get (e_profiles e) addr = Some (t_profile (e_tasks e tid))"
    "err \<noteq> CancelledError" "\<forall>m. err \<noteq> OperationInProgress m"
  shows "let e' = engine_step e (AttemptFinish tid (Inl err) now j);
             p = e_heap e (t_profile (e_tasks e tid)); p' = e_heap e' (t_profile (e_tasks e tid))
     in p_failures p' = p_failures p + 1 \<and>
        now + calculate_backoff_delay (e_policy e) j (p_failures p + 1) \<le> p_next_retry p' \<and>
        (if int (max_failures (e_policy e)) \<le> p_failures p + 1
         then p_state p' = RS_CIRCUIT_BROKEN \<and> now + breaker_cooldown (e_policy e) \<le> p_broken_until p'
         else p_state p' = RS_BACKOFF) \<and>
        (\<forall>t jitter. t < p_next_retry p' \<or> t < p_broken_until p' \<longrightarrow> \<not> attempt_in_progress (tick t jitter e') addr)"
proof -
  let ?pid = "t_profile (e_tasks e tid)" and ?p = "e_heap e (t_profile (e_tasks e tid))"
  let ?e = "engine_step e (AttemptFinish tid (Inl err) now j)"
  have addr: "p_address ?p = addr" using engine_okD(4) [OF assms(1,4)] by blast
  have cur: "is_profile e ?pid" using addr assms(4) by (simp add: is_profile_def)
  have run: "?e = finish_task tid (attempt_failed ?pid now j e)"
    using assms(2,3,5,6) attempt_finish_failed by (simp add: live_def)
  have p': "e_heap ?e ?pid = failed_profile e now j ?p"
    unfolding run by (simp add: attempt_failed_parts cur)
  have step: "p_step ?p = p_failures ?p"
    using engine_okD(6,7) [OF assms(1)] assms(2) by (auto simp: profile_ok_def live_def)
  have ok: "engine_ok ?e" by (rule engine_step_ok [OF assms(1)])
  have get: "dict_get (e_profiles ?e) addr = Some ?pid"
    unfolding run by (simp add: attempt_failed_parts assms(4))
  have "dict_get (e_inflight e) addr = Some tid"
    using engine_okD(8) [OF assms(1,2)] addr by (simp add: task_address_def)
  then have idle: "\<not> attempt_in_progress ?e addr"
    unfolding run by (simp add: attempt_in_progress_def attempt_failed_parts task_done_def)
  have quiet: "\<not> attempt_in_progress (tick t jitter ?e) addr"
    if "t < p_next_retry (e_heap ?e ?pid) \<or> t < p_broken_until (e_heap ?e ?pid)" for t jitter
    using speaker_tick_quiet [of t "e_heap ?e ?pid"] that tick_view(2) [OF ok get, of t jitter] idle
      failed_profile_facts(3) [where e = e and now = now and j = j and p = ?p]
    by (auto simp: p' awaiting_drop_def simp del: engine_step.simps)
  show ?thesis
    using failed_profile_facts [where e = e and now = now and j = j and p = ?p] quiet step
    unfolding Let_def p' by (auto simp: exhausted_def)
qed

text \<open>
  A short dropout is not acted on: if a connected speaker reports a disconnect, is ticked any number
  of times before the grace time is over and then reports a connection, no attempt was started and its
  profile is what it was, with one more suppressed flap.
\<close>

theorem short_dropout_suppressed:
  assumes "engine_ok e" "e_running e" "dict_get (e_profiles e) addr = Some pid" "p_enabled (e_heap e pid)"
    "p_state (e_heap e pid) = RS_CONNECTED" "p_disconnected_since (e_heap e pid) = None"
    "\<not> attempt_in_progress e addr"
    "normalize_address (di_address d) = Inr addr" "\<not> di_connected d"
    "normalize_address (di_address d') = Inr addr" "di_connected d'"
    "\<forall>(t, jitter) \<in> set ts. t - dropped < RECONNECT_DISCONNECT_GRACE_SECONDS"
  shows "let e1 = ticks ts (engine_step e (BluetoothEvent (DeviceUpdated d) dropped));
             e2 = engine_step e1 (BluetoothEvent (DeviceUpdated d') up_at)
     in \<not> attempt_in_progress e2 addr \<and>
        e_heap e2 pid = (e_heap e pid)\<lparr>p_flaps := p_flaps (e_heap e pid) + 1\<rparr>"
proof -
  let ?p = "e_heap e pid" and ?e0 = "engine_step e (BluetoothEvent (DeviceUpdated d) dropped)"
  have e0: "?e0 = on_known_device addr pid False dropped e"
    using device_event_known [OF assms(2,8,3)] assms(9) by simp
  have drop: "e_heap ?e0 pid = ?p\<lparr>p_disconnected_since := Some dropped\<rparr>"
    unfolding e0 using assms(4,5,6) by (simp add: link_down_def awaiting_drop_def)
  have wait: "\<forall>(t, jitter) \<in> set ts. waiting t (e_heap ?e0 pid)"
    using assms(5,12) unfolding drop by (auto simp: waiting_def awaiting_drop_def)
  have ok0: "engine_ok ?e0" by (rule engine_step_ok [OF assms(1)])
  let ?e1 = "ticks ts ?e0"
  have e1: "engine_ok ?e1" "e_heap ?e1 pid = e_heap ?e0 pid" "e_profiles ?e1 = e_profiles e" "e_running ?e1"
      "\<not> attempt_in_progress ?e1 addr"
    using waiting_ticks [OF ok0 _ wait, of addr] assms(2,3,7) unfolding e0 by simp_all
  have "dict_get (e_profiles ?e1) addr = Some pid" by (simp only: e1(3) assms(3))
  from device_event_known [OF e1(4) assms(10) this, of up_at]
  have e2: "engine_step ?e1 (BluetoothEvent (DeviceUpdated d') up_at) = on_known_device addr pid True up_at ?e1"
    using assms(11) by simp
  have "profile_ok (e_policy e) ?p" using engine_okD(4,6) [OF assms(1)] assms(3) by blast
  then have "link_up up_at (?p\<lparr>p_disconnected_since := Some dropped\<rparr>) = ?p\<lparr>p_flaps := p_flaps ?p + 1\<rparr>"
    using link_up_after_flap [OF _ assms(5), of "e_policy e" up_at dropped] assms(6) by simp
  then show ?thesis
    using e1(5) assms(4) unfolding Let_def e2 on_known_device_parts e1(2) drop by simp
qed

text \<open>
  A link that flaps is cooled down: the dropout that reaches the flap limit inside the window empties
  the window and holds every retry for the cooldown, however often the engine ticks.
\<close>

theorem flap_limit_cools_down:
  assumes "engine_ok e" "dict_get (e_profiles e) addr = Some pid" "p_enabled (e_heap e pid)"
    "p_broken_until (e_heap e pid) \<le> now" "drop_confirmed now (e_heap e pid)" "flap_limit_reached now (e_heap e pid)"
    "\<not> attempt_in_progress e addr"
  shows "let e' = tick now jitter e; p' = e_heap e' pid
     in p_flap_times p' = [] \<and> p_cooldown_until p' = now + RECONNECT_FLAP_COOLDOWN_SECONDS \<and>
        now + RECONNECT_FLAP_COOLDOWN_SECONDS \<le> p_next_retry p' \<and> \<not> attempt_in_progress e' addr \<and>
        (\<forall>t jitter'. t < now + RECONNECT_FLAP_COOLDOWN_SECONDS \<longrightarrow> \<not> attempt_in_progress (tick t jitter' e') addr)"
proof -
  let ?p = "e_heap e pid" and ?e = "tick now jitter e"
  let ?p' = "armed_profile (e_policy e) now (jitter addr) (probe ?p)"
  have flap: "record_flap now (probe ?p) = (probe ?p)\<lparr>p_flap_times := [], p_cooldown_until := now + RECONNECT_FLAP_COOLDOWN_SECONDS\<rparr>"
    using assms(6) by (simp add: record_flap_def flap_limit_reached_def Let_def probe_def)
  have p': "p_flap_times ?p' = []" "p_cooldown_until ?p' = now + RECONNECT_FLAP_COOLDOWN_SECONDS"
    "now + RECONNECT_FLAP_COOLDOWN_SECONDS \<le> p_next_retry ?p'" "p_state ?p' = RS_BACKOFF"
    by (simp_all add: armed_profile_def Let_def flap le_max_iff_disj)
  have nw: "\<not> waiting now ?p" using assms(5) by (auto simp: waiting_def drop_confirmed_def)
  have st: "speaker_tick (e_policy e) now (jitter addr) (?p, False) = (?p', False)"
    using assms(3,4,5) nw p' by (simp add: speaker_tick_def Let_def retry_due_def)
  have view: "e_heap ?e pid = ?p'" "\<not> attempt_in_progress ?e addr"
    using tick_view [OF assms(1,2), of now jitter] assms(7) st by simp_all
  have get: "dict_get (e_profiles ?e) addr = Some pid" using assms(2) by simp
  have "\<not> attempt_in_progress (tick t jitter' ?e) addr" if "t < now + RECONNECT_FLAP_COOLDOWN_SECONDS" for t jitter'
    using speaker_tick_quiet [of t ?p'] that p' view tick_view(2) [OF tick_ok [OF assms(1)] get, of t jitter']
    by (simp add: awaiting_drop_def)
  then show ?thesis using p' view by (simp add: Let_def)
qed

text \<open>
  C19. A speaker in backoff, or whose breaker is open, is retried: from some time on every tick of the
  running engine has an attempt for it in progress.
\<close>

theorem disconnected_speaker_is_retried:
  assumes "engine_ok e" "e_running e" "dict_get (e_profiles e) addr = Some pid" "p_enabled (e_heap e pid)"
    "p_state (e_heap e pid) \<in> {RS_BACKOFF, RS_CIRCUIT_BROKEN}"
  shows "\<exists>T. \<forall>now jitter. T \<le> now \<longrightarrow> attempt_in_progress (engine_step e (Tick now jitter)) addr"
proof -
  let ?p = "e_heap e pid"
  let ?T = "max (max (p_next_retry ?p) (p_cooldown_until ?p))
      (max (p_broken_until ?p) (p_connected_at ?p + RECONNECT_POST_CONNECT_SETTLE_SECONDS))"
  have "attempt_in_progress (engine_step e (Tick now jitter)) addr" if T: "?T \<le> now" for now jitter
  proof -
    have "\<not> waiting now ?p" "\<not> drop_confirmed now ?p"
      using assms(5) by (auto simp: waiting_def drop_confirmed_def awaiting_drop_def)
    moreover have "retry_due now (probe ?p)"
      using assms(5) T by (auto simp: retry_due_def probe_def)
    ultimately show ?thesis
      using tick_view(2) [OF assms(1,3), of now jitter] assms(2,4) T by (simp add: speaker_tick_def Let_def)
  qed
  then show ?thesis by blast
qed

text \<open>
  An attempt that outlived its profile has no effect: when the speaker was unregistered or registered
  anew while the attempt was running, its end changes nothing but the state of its own task, whatever
  the connection answered.
\<close>

theorem stale_attempt_changes_nothing:
  assumes "dict_get (e_profiles e) (p_address (e_heap e (t_profile (e_tasks e tid)))) \<noteq> Some (t_profile (e_tasks e tid))"
    "tid < e_next_task e" "t_phase (e_tasks e tid) = TP_Connecting"
  shows "engine_step e (AttemptFinish tid answer now j) = finish_task tid e"
  using assms
  by (auto simp: attempt_finish_def Let_def is_profile_def attempt_succeeded_def attempt_cancelled_def
      attempt_failed_def split: sum.splits py_exc.splits)

text \<open>
  Unregistering a speaker does not last: the next event of an audio device that is merely connected
  or paired, not even trusted, registers it again with reconnection enabled.
\<close>

theorem device_event_reregisters:
  assumes "e_running e" "e_enabled e" "normalize_address (di_address d) = Inr addr" "di_is_audio_sink d"
    "di_paired d \<or> di_connected d"
  shows "map_option p_enabled
      (profile_of (engine_step (engine_step e (UnregisterSpeaker addr)) (BluetoothEvent (DeviceUpdated d) now)) addr) =
    Some True"
proof -
  let ?e = "unregister_address addr e"
  have a: "normalize_address addr = Inr addr" by (rule address.canon_stable [OF assms(3)])
  have un: "engine_step e (UnregisterSpeaker addr) = ?e"
    by (simp add: unregister_speaker_def a)
  have e: "e_running ?e" "e_enabled ?e" "dict_get (e_profiles ?e) addr = None"
    using assms(1,2) by (simp_all add: unregister_address_def Let_def cancel_task_def split: option.splits)
  show ?thesis
    unfolding un using assms(3,4,5) e
    by (auto simp: handle_bluetooth_event_def on_device_event_def on_registered_device_def Let_def register_speaker_def a profile_of_def
        new_profile_def on_known_device_def link_up_def link_down_def observe_state_def observe_flap_def)
qed

section \<open>Witnesses\<close>

text \<open>An engine with one profile and one task in its inflight table.\<close>

definition witness_engine :: "profile \<Rightarrow> task \<Rightarrow> engine" where
  "witness_engine p t =
     \<lparr>e_policy = default_policy, e_profiles = [(witness_address, 0)], e_heap = (\<lambda>_. p), e_next = 1, e_enabled = True,
      e_running = True, e_inflight = [(witness_address, 0)], e_tasks = (\<lambda>_. t), e_next_task = 1, e_health = None\<rparr>"

definition witness_profile :: "reconnect_state \<Rightarrow> int \<Rightarrow> real option \<Rightarrow> real list \<Rightarrow> profile" where
  "witness_profile state failures since flaps =
     (new_profile witness_address True None)\<lparr>p_state := state, p_failures := failures, p_step := failures,
        p_disconnected_since := since, p_flap_times := flaps\<rparr>"

definition witness_task :: "task_phase \<Rightarrow> task" where
  "witness_task phase = \<lparr>t_profile = 0, t_phase = phase, t_cancelled = False\<rparr>"

lemma witness_engine_ok:
  assumes "profile_ok default_policy p" "p_address p = witness_address" "t_profile t = 0"
  shows "engine_ok (witness_engine p t)"
proof -
  have "policy_ok default_policy" by (simp add: policy_ok_def default_policy_def)
  then show ?thesis
    using assms witness_address_canonical
    by (auto simp: engine_ok_def witness_engine_def dict_all_def profile_filed_def task_filed_def task_address_def
        wf_dict_def live_def)
qed

lemma witness_profile_ok:
  "0 \<le> n \<Longrightarrow> length ts < 6 \<Longrightarrow> st = RS_BACKOFF \<or> st = RS_RECONNECTING \<or> (st \<noteq> RS_CIRCUIT_BROKEN \<and> n = 0) \<Longrightarrow>
     profile_ok default_policy (witness_profile st n since ts)"
  by (auto simp: profile_ok_def witness_profile_def new_profile_def awaiting_drop_def)

lemma witness_parts [simp]:
  "e_profiles (witness_engine p t) = [(witness_address, 0)]" "e_heap (witness_engine p t) = (\<lambda>_. p)"
  "e_policy (witness_engine p t) = default_policy" "e_running (witness_engine p t)" "e_enabled (witness_engine p t)"
  "e_tasks (witness_engine p t) = (\<lambda>_. t)" "e_next_task (witness_engine p t) = 1"
  "attempt_in_progress (witness_engine p t) witness_address \<longleftrightarrow> t_phase t \<noteq> TP_Done"
  "p_address (witness_profile st n since ts) = witness_address" "t_profile (witness_task ph) = 0"
  "t_phase (witness_task ph) = ph" "p_enabled (witness_profile st n since ts)"
  "p_state (witness_profile st n since ts) = st" "p_disconnected_since (witness_profile st n since ts) = since"
  "p_broken_until (witness_profile st n since ts) = 0" "p_failures (witness_profile st n since ts) = n"
  "p_flap_times (witness_profile st n since ts) = ts" "p_next_retry (witness_profile st n since ts) = 0"
  "p_cooldown_until (witness_profile st n since ts) = 0" "p_connected_at (witness_profile st n since ts) = 0"
  by (simp_all add: witness_engine_def witness_profile_def witness_task_def new_profile_def attempt_in_progress_def
      task_done_def)

lemma default_engine: "\<exists>e. new_engine default_policy (Some new_registry) = Inr e"
  by (simp add: new_engine_def policy_error_def default_policy_def)

theorem engine_invariant_witness:
  "\<exists>e. new_engine default_policy (Some new_registry) = Inr e \<and>
     engine_ok (foldl engine_step e [RegisterSpeaker witness_address True None, EngineStart, Tick 100 (\<lambda>_. 0)])"
  using default_engine engine_invariant by blast

definition witness_info :: "bool \<Rightarrow> device_info" where
  "witness_info up = (device_to_info (new_device True ''/d'' [(''Address'', Plain (PStr witness_address)),
     (''Paired'', Plain (PBool True)), (''Connected'', Plain (PBool up))] 0))\<lparr>di_is_audio_sink := True\<rparr>"

lemma witness_info_simps [simp]:
  "di_address (witness_info up) = witness_address" "di_connected (witness_info up) = up"
  "di_is_audio_sink (witness_info up)" "di_paired (witness_info up)"
  by (simp_all add: witness_info_def device_to_info_def new_device_def d_address_def str_prop_def get_prop_def
      d_connected_def bool_prop_def d_paired_def)

text \<open>A run that starts an attempt: registered by an event, armed by a tick, retried by the next one.\<close>

definition witness_events :: "engine_event list" where
  "witness_events = [EngineStart, BluetoothEvent (DeviceUpdated (witness_info False)) 0, Tick 100 (\<lambda>_. 0), Tick 200 (\<lambda>_. 0)]"

lemma witness_delay: "calculate_backoff_delay default_policy 0 0 = 10"
  using backoff_delay_eq [of default_policy 0 0 0]
  by (simp add: policy_ok_def default_policy_def exponential_delay_def)

lemma witness_run_live:
  assumes "new_engine default_policy (Some new_registry) = Inr e"
  shows "live (foldl engine_step e witness_events) 0"
proof -
  have e: "e_policy e = default_policy" "e_profiles e = []" "e_inflight e = []" "e_next_task e = 0" "e_enabled e"
    "e_next e = 0"
    using assms by (auto simp: new_engine_def policy_error_def default_policy_def)
  show ?thesis
    unfolding witness_events_def
    by (simp add: engine_start_def handle_bluetooth_event_def on_device_event_def on_registered_device_def Let_def witness_address_ok e
        register_speaker_def on_known_device_def new_profile_def link_down_def awaiting_drop_def tick_def
        tick_profile_def probe_def arm_backoff_def armed_def record_flap_def backoff_delay_def witness_delay
        observe_state_def flap_limit_reached_def tick_retry_def retry_due_def attempt_in_progress_def
        spawn_attempt_def live_def task_done_def)
qed

theorem one_attempt_per_speaker_witness:
  "\<exists>e. new_engine default_policy (Some new_registry) = Inr e \<and>
     (let e' = foldl engine_step e witness_events
      in live e' 0 \<and> (\<nexists>j. j \<noteq> 0 \<and> live e' j \<and> task_address e' j = task_address e' 0))"
proof -
  obtain e where e: "new_engine default_policy (Some new_registry) = Inr e" using default_engine by blast
  show ?thesis
    using e witness_run_live [OF e] one_attempt_per_speaker [OF e witness_run_live [OF e]] by (metis (no_types))
qed

lemma witness_backoff_ok: "engine_ok (witness_engine (witness_profile RS_BACKOFF 2 None []) (witness_task TP_Done))"
  by (rule witness_engine_ok [OF witness_profile_ok]) simp_all

theorem tick_refines_speakers_witness:
  "attempt_in_progress (tick 100 (\<lambda>_. 0) (witness_engine (witness_profile RS_BACKOFF 2 None []) (witness_task TP_Done)))
     witness_address"
  using tick_refines_speakers [OF witness_backoff_ok, where addr = witness_address and pid = 0 and now = 100
      and jitter = "\<lambda>_. 0"]
  by (simp add: speaker_tick_def Let_def waiting_def drop_confirmed_def retry_due_def probe_def awaiting_drop_def)

lemma witness_backoff_tick:
  "attempt_in_progress (tick 100 (\<lambda>_. 0) (witness_engine (witness_profile RS_BACKOFF 2 None []) (witness_task TP_Done)))
     witness_address"
  using tick_view(2) [OF witness_backoff_ok, of witness_address 0 100 "\<lambda>_. 0"]
  by (simp add: speaker_tick_def Let_def waiting_def drop_confirmed_def retry_due_def probe_def awaiting_drop_def)

theorem attempt_pacing_witness:
  "let p = witness_profile RS_BACKOFF 2 None [] in p_enabled p \<and> 15 \<le> 100 - p_connected_at p"
  using attempt_pacing [OF witness_backoff_ok _ _ witness_backoff_tick] by (simp add: Let_def)

theorem failed_attempt_backs_off_witness:
  "let e' = engine_step (witness_engine (witness_profile RS_RECONNECTING 7 None []) (witness_task TP_Connecting))
         (AttemptFinish 0 (Inl TimeoutExpired) 1000 0)
   in p_failures (e_heap e' 0) = 8 \<and> p_state (e_heap e' 0) = RS_CIRCUIT_BROKEN \<and>
      \<not> attempt_in_progress (tick 1299 (\<lambda>_. 0) e') witness_address"
proof -
  let ?e = "witness_engine (witness_profile RS_RECONNECTING 7 None []) (witness_task TP_Connecting)"
  have ok: "engine_ok ?e" by (rule witness_engine_ok [OF witness_profile_ok]) simp_all
  have live: "live ?e 0" by (simp add: live_def task_done_def witness_task_def)
  have max: "int (max_failures default_policy) = 8" "breaker_cooldown default_policy = 300"
    by (simp_all add: default_policy_def)
  show ?thesis
    using failed_attempt_backs_off [OF ok live, where addr = witness_address and err = TimeoutExpired and now = 1000 and j = 0]
    by (simp add: Let_def max del: engine_step.simps)
qed

theorem short_dropout_suppressed_witness:
  "let e = witness_engine (witness_profile RS_CONNECTED 0 None []) (witness_task TP_Done);
       e1 = ticks [(101, \<lambda>_. 0), (104, \<lambda>_. 0)] (engine_step e (BluetoothEvent (DeviceUpdated (witness_info False)) 100))
   in p_flaps (e_heap (engine_step e1 (BluetoothEvent (DeviceUpdated (witness_info True)) 200)) 0) = 1"
proof -
  let ?e = "witness_engine (witness_profile RS_CONNECTED 0 None []) (witness_task TP_Done)"
  have ok: "engine_ok ?e" by (rule witness_engine_ok [OF witness_profile_ok]) simp_all
  have "p_flaps (witness_profile RS_CONNECTED 0 None []) = 0" by (simp add: witness_profile_def new_profile_def)
  then show ?thesis
    using short_dropout_suppressed [OF ok, where addr = witness_address and pid = 0 and d = "witness_info False"
        and d' = "witness_info True" and dropped = 100 and up_at = 200 and ts = "[(101, \<lambda>_. 0), (104, \<lambda>_. 0)]"]
    by (simp add: Let_def witness_address_ok del: engine_step.simps)
qed

theorem flap_limit_cools_down_witness:
  "let e = witness_engine (witness_profile RS_CONNECTED 0 (Some 90) [10, 20, 30, 40, 50]) (witness_task TP_Done);
       e' = tick 100 (\<lambda>_. 0) e
   in p_cooldown_until (e_heap e' 0) = 160 \<and> \<not> attempt_in_progress (tick 159 (\<lambda>_. 0) e') witness_address"
proof -
  let ?e = "witness_engine (witness_profile RS_CONNECTED 0 (Some 90) [10, 20, 30, 40, 50]) (witness_task TP_Done)"
  have ok: "engine_ok ?e" by (rule witness_engine_ok [OF witness_profile_ok]) simp_all
  show ?thesis
    using flap_limit_cools_down [OF ok, where addr = witness_address and pid = 0 and now = 100 and jitter = "\<lambda>_. 0"]
    by (simp add: Let_def drop_confirmed_def awaiting_drop_def flap_limit_reached_def)
qed

theorem disconnected_speaker_is_retried_witness:
  "\<exists>T. \<forall>now jitter. T \<le> now \<longrightarrow> attempt_in_progress (engine_step
      (witness_engine (witness_profile RS_BACKOFF 2 None []) (witness_task TP_Done)) (Tick now jitter)) witness_address"
  by (rule disconnected_speaker_is_retried [OF witness_backoff_ok]) simp_all

theorem stale_attempt_changes_nothing_witness:
  "let e = (witness_engine (witness_profile RS_RECONNECTING 0 None []) (witness_task TP_Connecting))\<lparr>e_profiles := []\<rparr>
   in engine_step e (AttemptFinish 0 (Inr True) 1 0) = finish_task 0 e"
  using stale_attempt_changes_nothing [where tid = 0 and answer = "Inr True" and now = 1 and j = 0
      and e = "(witness_engine (witness_profile RS_RECONNECTING 0 None []) (witness_task TP_Connecting))\<lparr>e_profiles := []\<rparr>"]
  by (simp add: Let_def del: engine_step.simps)

theorem device_event_reregisters_witness:
  "map_option p_enabled (profile_of (engine_step
      (engine_step (witness_engine (witness_profile RS_IDLE 0 None []) (witness_task TP_Done)) (UnregisterSpeaker witness_address))
      (BluetoothEvent (DeviceUpdated (witness_info False)) 5)) witness_address) = Some True"
  by (rule device_event_reregisters) (simp_all add: witness_address_ok)

end
