(* ===== verification/Config_Store.thy ===== *)
theory Config_Store
  imports Bridge_Constants Py_Numbers
begin

text \<open>
  The configuration store of \<open>config.py\<close>: the settings models with their bounds and validators, the load
  with its fallbacks, the environment overrides, and the speaker records. The parser behind
  \<open>SystemSettings.model_validate\<close> (pydantic) is an argument; what the store relies on is that whatever
  it returns satisfies the declared bounds (\<open>schema_ok\<close>). The file is part of the state, and a failing
  write leaves it alone, as \<open>save\<close> swallows every error.
\<close>

section \<open>JSON values\<close>

datatype json =
    JNull
  | JBool bool
  | JInt int
  | JFloat real
  | JString string
  | JList "json list"
  | JObject "(string \<times> json) list"

datatype stored_file = NoFile | Unparsable | Parsed json

section \<open>Settings models\<close>

record speaker_settings =
  ss_address :: string
  ss_custom_alias :: "string option"
  ss_auto_reconnect :: bool
  ss_preferred_adapter :: "string option"
  ss_default_volume :: int
  ss_codec_override :: "string option"

definition new_speaker :: "string \<Rightarrow> speaker_settings" where
  "new_speaker address = \<lparr>ss_address = address, ss_custom_alias = None, ss_auto_reconnect = True,
     ss_preferred_adapter = None, ss_default_volume = DEFAULT_VOLUME_PERCENT, ss_codec_override = None\<rparr>"

definition valid_alias :: "string option \<Rightarrow> py_exc + string option" where
  "valid_alias value =
     (case value of None \<Rightarrow> Inr None
      | Some v \<Rightarrow> if length v > MAX_ALIAS_LENGTH \<or> has_control v
                   then Inl (ValueError ''Speaker alias is invalid'') else Inr (Some v))"

definition valid_codec :: "string option \<Rightarrow> py_exc + string option" where
  "valid_codec value =
     (case value of None \<Rightarrow> Inr None
      | Some v \<Rightarrow> if v \<notin> set SUPPORTED_CODECS
                   then Inl (ValueError ''Codec override is invalid'') else Inr (Some v))"

definition volume_in_range :: "int \<Rightarrow> bool" where
  "volume_in_range v \<longleftrightarrow> VOLUME_MIN_PERCENT \<le> v \<and> v \<le> VOLUME_MAX_PERCENT"

text \<open>\<open>SpeakerSettings.model_validate\<close> of a complete set of fields.\<close>

definition validate_speaker :: "speaker_settings \<Rightarrow> py_exc + speaker_settings" where
  "validate_speaker s =
     (case valid_alias (ss_custom_alias s) of Inl e \<Rightarrow> Inl e
      | Inr _ \<Rightarrow>
          if \<not> volume_in_range (ss_default_volume s) then Inl (ValueError ''default_volume'')
          else (case valid_codec (ss_codec_override s) of Inl e \<Rightarrow> Inl e | Inr _ \<Rightarrow> Inr s))"

definition speaker_ok :: "speaker_settings \<Rightarrow> bool" where
  "speaker_ok s \<longleftrightarrow> validate_speaker s = Inr s"

record player_settings =
  pulse_socket :: string
  sink_probe_timeout :: real
  stop_grace_seconds :: real
  kill_grace_seconds :: real
  command_stop_budget_seconds :: real
  latency_msec :: int
  sample_rate_hz :: int
  channels :: int
  default_volume_ratio :: real
  keepalive_interval_seconds :: real
  keepalive_pulse_duration_seconds :: real
  pipe_chunk_size :: int
  resample_quality :: int
  volume_poll_seconds :: real
  volume_readback_tolerance :: real

definition default_player_settings :: player_settings where
  "default_player_settings =
     \<lparr>pulse_socket = ''/run/audio/pulse.sock'', sink_probe_timeout = 5, stop_grace_seconds = 2,
      kill_grace_seconds = 3 / 2, command_stop_budget_seconds = 1 / 4,
      latency_msec = PLAYBACK_BUFFER_DEFAULT_MS, sample_rate_hz = 48000, channels = 2,
      default_volume_ratio = DEFAULT_VOLUME_RATIO, keepalive_interval_seconds = 240,
      keepalive_pulse_duration_seconds = 1, pipe_chunk_size = 64 * 1024, resample_quality = 10,
      volume_poll_seconds = 30, volume_readback_tolerance = VOLUME_READBACK_TOLERANCE\<rparr>"

text \<open>The \<open>gt\<close>/\<open>ge\<close>/\<open>le\<close> bounds of the fields.\<close>

definition player_settings_ok :: "player_settings \<Rightarrow> bool" where
  "player_settings_ok p \<longleftrightarrow>
     0 < sink_probe_timeout p \<and> 0 < stop_grace_seconds p \<and> 0 < kill_grace_seconds p \<and>
     0 < command_stop_budget_seconds p \<and>
     PLAYBACK_BUFFER_MIN_MS \<le> latency_msec p \<and> latency_msec p \<le> PLAYBACK_BUFFER_MAX_MS \<and>
     0 < sample_rate_hz p \<and> 0 < channels p \<and>
     VOLUME_MIN_RATIO \<le> default_volume_ratio p \<and> default_volume_ratio p \<le> VOLUME_MAX_RATIO \<and>
     0 < keepalive_interval_seconds p \<and> 0 < keepalive_pulse_duration_seconds p \<and>
     0 < pipe_chunk_size p \<and> 0 \<le> resample_quality p \<and> resample_quality p \<le> 15 \<and>
     0 < volume_poll_seconds p \<and> 0 \<le> volume_readback_tolerance p \<and> volume_readback_tolerance p \<le> 1"

record system_settings =
  log_level :: string
  default_codec :: string
  auto_reconnect_enabled :: bool
  native_token :: string
  demo_mode :: bool
  demo_scenario :: string
  player_config :: player_settings
  speaker_records :: "speaker_settings dict"

definition default_settings :: system_settings where
  "default_settings =
     \<lparr>log_level = DEFAULT_LOG_LEVEL, default_codec = DEFAULT_CODEC, auto_reconnect_enabled = True,
      native_token = [], demo_mode = False, demo_scenario = DEFAULT_DEMO_SCENARIO,
      player_config = default_player_settings, speaker_records = []\<rparr>"

definition schema_ok :: "system_settings \<Rightarrow> bool" where
  "schema_ok s \<longleftrightarrow> player_settings_ok (player_config s) \<and> wf_dict (speaker_records s) \<and>
     dict_all (\<lambda>_. speaker_ok) (speaker_records s)"

section \<open>Legacy keys\<close>

definition LEGACY_ROOT_KEYS :: "string list" where "LEGACY_ROOT_KEYS = [''multiroom_sync_enabled'']"
definition LEGACY_SPEAKER_KEYS :: "string list" where "LEGACY_SPEAKER_KEYS = [''latency_offset_ms'']"

definition drop_speaker_keys :: "json \<Rightarrow> json" where
  "drop_speaker_keys entry =
     (case entry of JObject members \<Rightarrow> JObject (fold dict_del LEGACY_SPEAKER_KEYS members) | _ \<Rightarrow> entry)"

text \<open>Only a mapping has the \<open>pop\<close> that is called first; anything else raises.\<close>

definition drop_legacy_keys :: "json \<Rightarrow> json option" where
  "drop_legacy_keys data =
     (case data of
        JObject members \<Rightarrow>
          (let kept = fold dict_del LEGACY_ROOT_KEYS members
           in Some (JObject (case dict_get kept ''speakers'' of
                Some (JObject speakers) \<Rightarrow>
                  dict_set ''speakers'' (JObject (map (\<lambda>(a, e). (a, drop_speaker_keys e)) speakers)) kept
              | _ \<Rightarrow> kept)))
      | _ \<Rightarrow> None)"

section \<open>Environment overrides\<close>

type_synonym environ = "string \<Rightarrow> string option"

definition env_get :: "environ \<Rightarrow> string \<Rightarrow> string \<Rightarrow> string" where
  "env_get env key fallback = (case env key of Some v \<Rightarrow> v | None \<Rightarrow> fallback)"

text \<open>\<open>fresh\<close> is what \<open>secrets.token_urlsafe\<close> returns.\<close>

definition configured_token :: "environ \<Rightarrow> string \<Rightarrow> string" where
  "configured_token env fresh =
     (let configured = env_get env ENV_NATIVE_TOKEN []
      in if configured \<noteq> [] \<and> \<not> has_control configured then configured else fresh)"

definition configured_demo_mode :: "environ \<Rightarrow> bool" where
  "configured_demo_mode env \<longleftrightarrow> lower (strip (env_get env ENV_DEMO_MODE [])) \<in> set TRUTHY_FLAGS"

definition configured_demo_scenario :: "environ \<Rightarrow> string" where
  "configured_demo_scenario env =
     (let v = strip (env_get env ENV_DEMO_SCENARIO DEFAULT_DEMO_SCENARIO)
      in if v = [] then DEFAULT_DEMO_SCENARIO else v)"

definition configured_playback_buffer_ms :: "environ \<Rightarrow> int" where
  "configured_playback_buffer_ms env =
     (let configured = strip (env_get env ENV_PLAYBACK_BUFFER_MS [])
      in if configured = [] then PLAYBACK_BUFFER_DEFAULT_MS
         else (case py_int configured of
                 None \<Rightarrow> PLAYBACK_BUFFER_DEFAULT_MS
               | Some value \<Rightarrow>
                   if \<not> (PLAYBACK_BUFFER_MIN_MS \<le> value \<and> value \<le> PLAYBACK_BUFFER_MAX_MS)
                   then PLAYBACK_BUFFER_DEFAULT_MS else value))"

section \<open>The store\<close>

record config_store =
  cs_settings :: system_settings
  cs_file :: stored_file
  cs_writable :: bool

definition json_option :: "string option \<Rightarrow> json" where
  "json_option v = (case v of None \<Rightarrow> JNull | Some s \<Rightarrow> JString s)"

definition dump_speaker :: "speaker_settings \<Rightarrow> json" where
  "dump_speaker s = JObject
     [(''address'', JString (ss_address s)), (''custom_alias'', json_option (ss_custom_alias s)),
      (''auto_reconnect'', JBool (ss_auto_reconnect s)),
      (''preferred_adapter'', json_option (ss_preferred_adapter s)),
      (''default_volume'', JInt (ss_default_volume s)), (''codec_override'', json_option (ss_codec_override s))]"

definition dump_player :: "player_settings \<Rightarrow> json" where
  "dump_player p = JObject
     [(''pulse_socket'', JString (pulse_socket p)), (''sink_probe_timeout'', JFloat (sink_probe_timeout p)),
      (''stop_grace_seconds'', JFloat (stop_grace_seconds p)),
      (''kill_grace_seconds'', JFloat (kill_grace_seconds p)),
      (''command_stop_budget_seconds'', JFloat (command_stop_budget_seconds p)),
      (''latency_msec'', JInt (latency_msec p)), (''sample_rate_hz'', JInt (sample_rate_hz p)),
      (''channels'', JInt (channels p)), (''default_volume'', JFloat (default_volume_ratio p)),
      (''keepalive_interval_seconds'', JFloat (keepalive_interval_seconds p)),
      (''keepalive_pulse_duration_seconds'', JFloat (keepalive_pulse_duration_seconds p)),
      (''pipe_chunk_size'', JInt (pipe_chunk_size p)), (''resample_quality'', JInt (resample_quality p)),
      (''volume_poll_seconds'', JFloat (volume_poll_seconds p)),
      (''volume_readback_tolerance'', JFloat (volume_readback_tolerance p))]"

text \<open>\<open>model_dump\<close> leaves the token out (\<open>exclude=True\<close>); \<open>save\<close> puts it back.\<close>

definition model_dump :: "system_settings \<Rightarrow> (string \<times> json) list" where
  "model_dump s =
     [(''log_level'', JString (log_level s)), (''default_codec'', JString (default_codec s)),
      (''auto_reconnect_enabled'', JBool (auto_reconnect_enabled s)), (''demo_mode'', JBool (demo_mode s)),
      (''demo_scenario'', JString (demo_scenario s)), (''player'', dump_player (player_config s)),
      (''speakers'', JObject (map (\<lambda>(a, e). (a, dump_speaker e)) (speaker_records s)))]"

definition saved_json :: "system_settings \<Rightarrow> json" where
  "saved_json s = JObject (dict_set ''native_token'' (JString (native_token s)) (model_dump s))"

definition save :: "config_store \<Rightarrow> config_store" where
  "save cs = (if cs_writable cs then cs\<lparr>cs_file := Parsed (saved_json (cs_settings cs))\<rparr> else cs)"

definition with_settings :: "system_settings \<Rightarrow> config_store \<Rightarrow> config_store" where
  "with_settings s cs = cs\<lparr>cs_settings := s\<rparr>"

definition fallback_settings :: "environ \<Rightarrow> string \<Rightarrow> system_settings" where
  "fallback_settings env fresh = default_settings\<lparr>native_token := configured_token env fresh\<rparr>"

definition initial_settings :: "environ \<Rightarrow> string \<Rightarrow> system_settings" where
  "initial_settings env fresh =
     default_settings\<lparr>native_token := configured_token env fresh, demo_mode := configured_demo_mode env,
       demo_scenario := configured_demo_scenario env\<rparr>"

definition parse_settings :: "(json \<Rightarrow> system_settings option) \<Rightarrow> stored_file \<Rightarrow> system_settings option" where
  "parse_settings model_validate f =
     (case f of Parsed data \<Rightarrow> Option.bind (drop_legacy_keys data) model_validate | _ \<Rightarrow> None)"

definition adopt_settings :: "environ \<Rightarrow> string \<Rightarrow> system_settings \<Rightarrow> config_store \<Rightarrow> config_store" where
  "adopt_settings env fresh s cs =
     (let s1 = s\<lparr>demo_mode := configured_demo_mode env,
                 demo_scenario := env_get env ENV_DEMO_SCENARIO (demo_scenario s)\<rparr>
      in if native_token s1 = [] \<or> has_control (native_token s1)
         then save (with_settings (s1\<lparr>native_token := configured_token env fresh\<rparr>) cs)
         else with_settings s1 cs)"

definition load :: "(json \<Rightarrow> system_settings option) \<Rightarrow> environ \<Rightarrow> string \<Rightarrow> config_store \<Rightarrow> config_store" where
  "load model_validate env fresh cs =
     (let cs1 = (if cs_file cs \<noteq> NoFile
                 then (case parse_settings model_validate (cs_file cs) of
                         Some s \<Rightarrow> adopt_settings env fresh s cs
                       | None \<Rightarrow> with_settings (fallback_settings env fresh) cs)
                 else save (with_settings (initial_settings env fresh) cs));
          s1 = cs_settings cs1
      in with_settings
           (s1\<lparr>player_config := (player_config s1)\<lparr>latency_msec := configured_playback_buffer_ms env\<rparr>\<rparr>) cs1)"

text \<open>\<open>__init__\<close>: the file it reads, given whether \<open>/data\<close> exists and can be written, then the first load.\<close>

definition config_path :: "string option \<Rightarrow> bool \<Rightarrow> bool \<Rightarrow> string" where
  "config_path config_file exists writable =
     (case config_file of
        Some f \<Rightarrow> if f \<noteq> [] then f else if exists \<and> writable then DEFAULT_CONFIG_PATH else FALLBACK_CONFIG_PATH
      | None \<Rightarrow> if exists \<and> writable then DEFAULT_CONFIG_PATH else FALLBACK_CONFIG_PATH)"

definition new_store ::
  "(json \<Rightarrow> system_settings option) \<Rightarrow> environ \<Rightarrow> string \<Rightarrow> stored_file \<Rightarrow> bool \<Rightarrow> config_store" where
  "new_store model_validate env fresh f writable =
     load model_validate env fresh \<lparr>cs_settings = default_settings, cs_file = f, cs_writable = writable\<rparr>"

section \<open>Speaker records\<close>

definition record_key :: "string \<Rightarrow> string" where
  "record_key address = lower (strip address)"

definition speakers_of :: "config_store \<Rightarrow> speaker_settings dict" where
  "speakers_of cs = speaker_records (cs_settings cs)"

definition set_speakers :: "speaker_settings dict \<Rightarrow> config_store \<Rightarrow> config_store" where
  "set_speakers d cs = cs\<lparr>cs_settings := (cs_settings cs)\<lparr>speaker_records := d\<rparr>\<rparr>"

definition put_speaker :: "string \<Rightarrow> speaker_settings \<Rightarrow> config_store \<Rightarrow> config_store" where
  "put_speaker k s cs = save (set_speakers (dict_set k s (speakers_of cs)) cs)"

definition drop_speaker :: "string \<Rightarrow> config_store \<Rightarrow> config_store" where
  "drop_speaker k cs = save (set_speakers (dict_del k (speakers_of cs)) cs)"

definition get_speaker :: "config_store \<Rightarrow> string \<Rightarrow> speaker_settings option" where
  "get_speaker cs address = dict_get (speakers_of cs) (record_key address)"

definition get_or_create_speaker :: "string \<Rightarrow> config_store \<Rightarrow> speaker_settings \<times> config_store" where
  "get_or_create_speaker address cs =
     (let addr = record_key address
      in case dict_get (speakers_of cs) addr of
           Some s \<Rightarrow> (s, cs)
         | None \<Rightarrow> (new_speaker addr, put_speaker addr (new_speaker addr) cs))"

text \<open>The keyword arguments of \<open>update_speaker\<close>; \<open>None\<close> is dropped, as the code does.\<close>

record speaker_update =
  up_custom_alias :: "string option"
  up_auto_reconnect :: "bool option"
  up_preferred_adapter :: "string option"
  up_default_volume :: "int option"
  up_codec_override :: "string option"

definition no_update :: speaker_update where
  "no_update = \<lparr>up_custom_alias = None, up_auto_reconnect = None, up_preferred_adapter = None,
     up_default_volume = None, up_codec_override = None\<rparr>"

definition merge_update :: "speaker_update \<Rightarrow> speaker_settings \<Rightarrow> speaker_settings" where
  "merge_update u s =
     s\<lparr>ss_custom_alias := (if up_custom_alias u = None then ss_custom_alias s else up_custom_alias u),
       ss_auto_reconnect := (case up_auto_reconnect u of None \<Rightarrow> ss_auto_reconnect s | Some b \<Rightarrow> b),
       ss_preferred_adapter := (if up_preferred_adapter u = None then ss_preferred_adapter s else up_preferred_adapter u),
       ss_default_volume := (case up_default_volume u of None \<Rightarrow> ss_default_volume s | Some v \<Rightarrow> v),
       ss_codec_override := (if up_codec_override u = None then ss_codec_override s else up_codec_override u)\<rparr>"

definition update_speaker ::
  "string \<Rightarrow> speaker_update \<Rightarrow> config_store \<Rightarrow> (py_exc + speaker_settings) \<times> config_store" where
  "update_speaker address u cs =
     (case get_or_create_speaker address cs of (s, cs1) \<Rightarrow>
        (case validate_speaker (merge_update u s) of
           Inl e \<Rightarrow> (Inl e, cs1)
         | Inr s' \<Rightarrow> (Inr s', put_speaker (ss_address s) s' cs1)))"

definition remove_speaker :: "string \<Rightarrow> config_store \<Rightarrow> bool \<times> config_store" where
  "remove_speaker address cs =
     (let addr = record_key address
      in if dict_get (speakers_of cs) addr \<noteq> None then (True, drop_speaker addr cs) else (False, cs))"

section \<open>Facts shared by the properties\<close>

lemmas config_defs = save_def with_settings_def set_speakers_def speakers_of_def

lemma save_settings [simp]: "cs_settings (save cs) = cs_settings cs"
  by (simp add: save_def)

lemma cs_settings_with [simp]: "cs_settings (with_settings s cs) = s"
  by (simp add: with_settings_def)

lemma speakers_put [simp]: "speakers_of (put_speaker k s cs) = dict_set k s (speakers_of cs)"
  by (simp add: put_speaker_def set_speakers_def speakers_of_def)

lemma speakers_drop [simp]: "speakers_of (drop_speaker k cs) = dict_del k (speakers_of cs)"
  by (simp add: drop_speaker_def set_speakers_def speakers_of_def)

lemma player_put_drop [simp]:
  "player_config (cs_settings (put_speaker k s cs)) = player_config (cs_settings cs)"
  "player_config (cs_settings (drop_speaker k cs)) = player_config (cs_settings cs)"
  by (simp_all add: put_speaker_def drop_speaker_def set_speakers_def)

lemma validate_speaker_same: "validate_speaker s = Inr s' \<Longrightarrow> s' = s \<and> speaker_ok s"
  by (auto simp: speaker_ok_def validate_speaker_def split: sum.splits if_splits)

lemma fresh_speaker_ok [simp]: "speaker_ok (new_speaker a)"
  by (simp add: speaker_ok_def validate_speaker_def new_speaker_def valid_alias_def valid_codec_def
    volume_in_range_def)

lemma ss_address_simps [simp]:
  "ss_address (new_speaker a) = a" "ss_address (merge_update u s) = ss_address s"
  by (simp_all add: new_speaker_def merge_update_def)

text \<open>A key is its own key.\<close>

lemma record_key_idem [simp]: "record_key (record_key a) = record_key a"
proof -
  have "lower (lower s) = lower s" for s by (simp add: lower_def lower_char_idem)
  then show ?thesis by (simp add: record_key_def strip_lower)
qed

interpretation config: record_store "\<lambda>cs. dict_get (speakers_of cs)" put_speaker drop_speaker
  "\<lambda>cs. wf_dict (speakers_of cs)"
  by unfold_locales auto

text \<open>The invariant of the store: the schema, and every record filed under the key it names.\<close>

definition keys_ok :: "config_store \<Rightarrow> bool" where
  "keys_ok cs \<longleftrightarrow> dict_all (\<lambda>k s. record_key k = k \<and> ss_address s = k) (speakers_of cs)"

definition config_ok :: "config_store \<Rightarrow> bool" where
  "config_ok cs \<longleftrightarrow> schema_ok (cs_settings cs) \<and> keys_ok cs"

lemma schema_speakers:
  "schema_ok (cs_settings cs) \<longleftrightarrow> player_settings_ok (player_config (cs_settings cs)) \<and>
     wf_dict (speakers_of cs) \<and> dict_all (\<lambda>_. speaker_ok) (speakers_of cs)"
  by (simp add: schema_ok_def speakers_of_def)

lemma config_ok_put:
  "config_ok cs \<Longrightarrow> speaker_ok s \<Longrightarrow> record_key k = k \<Longrightarrow> ss_address s = k \<Longrightarrow> config_ok (put_speaker k s cs)"
  by (auto simp: config_ok_def keys_ok_def schema_speakers)

lemma config_ok_drop: "config_ok cs \<Longrightarrow> config_ok (drop_speaker k cs)"
  by (auto simp: config_ok_def keys_ok_def schema_speakers)

lemma get_or_create_ok:
  assumes "config_ok cs" and "get_or_create_speaker a cs = (s, cs1)"
  shows "config_ok cs1 \<and> ss_address s = record_key a \<and> dict_get (speakers_of cs1) (record_key a) = Some s"
proof (cases "dict_get (speakers_of cs) (record_key a)")
  case None
  then have "s = new_speaker (record_key a)" "cs1 = put_speaker (record_key a) s cs"
    using assms(2) by (auto simp: get_or_create_speaker_def Let_def)
  then show ?thesis using assms(1) by (auto intro: config_ok_put)
next
  case (Some s0)
  then have "s = s0" "cs1 = cs" using assms(2) by (auto simp: get_or_create_speaker_def Let_def)
  then show ?thesis using assms(1) Some by (auto simp: config_ok_def keys_ok_def dest: dict_allD)
qed

lemma update_speaker_ok: "config_ok cs \<Longrightarrow> config_ok (snd (update_speaker a u cs))"
proof -
  assume ok: "config_ok cs"
  obtain s cs1 where gc: "get_or_create_speaker a cs = (s, cs1)" by (cases "get_or_create_speaker a cs")
  note got = get_or_create_ok [OF ok gc]
  show ?thesis
  proof (cases "validate_speaker (merge_update u s)")
    case (Inl e)
    then show ?thesis using got by (simp add: update_speaker_def gc)
  next
    case (Inr s')
    then show ?thesis
      using got validate_speaker_same [OF Inr] by (simp add: update_speaker_def gc config_ok_put)
  qed
qed

lemma remove_speaker_ok: "config_ok cs \<Longrightarrow> config_ok (snd (remove_speaker a cs))"
  by (simp add: remove_speaker_def Let_def config_ok_drop)

lemma buffer_bounds:
  "PLAYBACK_BUFFER_MIN_MS \<le> configured_playback_buffer_ms env \<and>
   configured_playback_buffer_ms env \<le> PLAYBACK_BUFFER_MAX_MS"
  by (auto simp: configured_playback_buffer_ms_def Let_def split: option.splits)

lemma schema_override:
  "schema_ok s \<Longrightarrow>
   schema_ok (s\<lparr>player_config := (player_config s)\<lparr>latency_msec := configured_playback_buffer_ms env\<rparr>\<rparr>)"
  using buffer_bounds [of env] by (simp add: schema_ok_def player_settings_ok_def)

lemma schema_defaults [simp]: "schema_ok default_settings"
  by (simp add: schema_ok_def default_settings_def default_player_settings_def player_settings_ok_def)

lemma schema_irrelevant [simp]:
  "schema_ok (s\<lparr>native_token := t\<rparr>) = schema_ok s" "schema_ok (s\<lparr>demo_mode := b\<rparr>) = schema_ok s"
  "schema_ok (s\<lparr>demo_scenario := d\<rparr>) = schema_ok s"
  by (simp_all add: schema_ok_def)

lemma drop_legacy_saved: "drop_legacy_keys (saved_json s) = Some (saved_json s)"
proof -
  have "drop_speaker_keys (dump_speaker e) = dump_speaker e" for e
    by (simp add: drop_speaker_keys_def dump_speaker_def LEGACY_SPEAKER_KEYS_def)
  then show ?thesis
    by (simp add: drop_legacy_keys_def saved_json_def model_dump_def LEGACY_ROOT_KEYS_def Let_def
      case_prod_unfold)
qed

lemma update_speaker_result:
  assumes ok: "config_ok cs" and upd: "update_speaker a u cs = (r, cs')"
    and s: "s = (case get_speaker cs a of Some s \<Rightarrow> s | None \<Rightarrow> new_speaker (record_key a))"
  shows "(if speaker_ok (merge_update u s) then r = Inr (merge_update u s) else (\<exists>e. r = Inl e)) \<and>
     get_speaker cs' b =
       (if record_key b \<noteq> record_key a then get_speaker cs b
        else Some (if speaker_ok (merge_update u s) then merge_update u s else s))"
proof -
  obtain s0 cs1 where gc: "get_or_create_speaker a cs = (s0, cs1)" by (cases "get_or_create_speaker a cs")
  have s0: "s0 = s" and cs1: "speakers_of cs1 = (if get_speaker cs a = None
      then dict_set (record_key a) s (speakers_of cs) else speakers_of cs)"
    using gc s by (auto simp: get_or_create_speaker_def get_speaker_def Let_def split: option.splits)
  have key: "ss_address s = record_key a" "dict_get (speakers_of cs1) (record_key a) = Some s"
    using get_or_create_ok [OF ok gc] by (simp_all add: s0)
  consider (good) "validate_speaker (merge_update u s) = Inr (merge_update u s)"
    | (bad) e where "validate_speaker (merge_update u s) = Inl e"
    using validate_speaker_same by (cases "validate_speaker (merge_update u s)") auto
  then show ?thesis
  proof cases
    case good
    then have "r = Inr (merge_update u s)" "cs' = put_speaker (record_key a) (merge_update u s) cs1"
      using upd by (auto simp: update_speaker_def gc s0 key)
    then show ?thesis using good by (auto simp: speaker_ok_def get_speaker_def cs1)
  next
    case bad
    then have "r = Inl e" "cs' = cs1" using upd by (auto simp: update_speaker_def gc s0)
    then show ?thesis using bad key(2) by (auto simp: speaker_ok_def get_speaker_def cs1)
  qed
qed

lemma volume_update_ok:
  assumes "speaker_ok s" and "volume_in_range v"
  shows "speaker_ok (merge_update (no_update\<lparr>up_default_volume := Some v\<rparr>) s)"
  using assms
  by (auto simp: speaker_ok_def validate_speaker_def merge_update_def no_update_def split: sum.splits if_splits)

lemma keys_simps [simp]:
  "keys_ok (save cs) = keys_ok cs" "keys_ok (cs\<lparr>cs_file := f\<rparr>) = keys_ok cs"
  by (simp_all add: keys_ok_def speakers_of_def)

section \<open>Restarts and requests\<close>

text \<open>
  What happens to the store over time: a restart loads the file again, in the environment of that moment;
  the file may be replaced from outside; requests reach the store while the bridge runs.
\<close>

datatype config_event =
    CE_load environ string
  | CE_file stored_file
  | CE_create string
  | CE_update string speaker_update
  | CE_remove string
  | CE_save

fun config_step :: "(json \<Rightarrow> system_settings option) \<Rightarrow> config_store \<Rightarrow> config_event \<Rightarrow> config_store" where
  "config_step mv cs (CE_load env fresh) = load mv env fresh cs"
| "config_step mv cs (CE_file f) = cs\<lparr>cs_file := f\<rparr>"
| "config_step mv cs (CE_create a) = snd (get_or_create_speaker a cs)"
| "config_step mv cs (CE_update a u) = snd (update_speaker a u cs)"
| "config_step mv cs (CE_remove a) = snd (remove_speaker a cs)"
| "config_step mv cs CE_save = save cs"

text \<open>What is relied on of the parser, and what a file may or may not respect.\<close>

definition parser_sound :: "(json \<Rightarrow> system_settings option) \<Rightarrow> bool" where
  "parser_sound mv \<longleftrightarrow> (\<forall>j s. mv j = Some s \<longrightarrow> schema_ok s)"

definition records_filed :: "system_settings \<Rightarrow> bool" where
  "records_filed s \<longleftrightarrow> dict_all (\<lambda>k r. record_key k = k \<and> ss_address r = k) (speaker_records s)"

definition files_normalised :: "(json \<Rightarrow> system_settings option) \<Rightarrow> bool" where
  "files_normalised mv \<longleftrightarrow> (\<forall>j s. mv j = Some s \<longrightarrow> records_filed s)"

lemma keys_filed: "keys_ok cs \<longleftrightarrow> records_filed (cs_settings cs)"
  by (simp add: keys_ok_def records_filed_def speakers_of_def)

lemma parsed_by: "parse_settings mv f = Some s \<Longrightarrow> \<exists>j. mv j = Some s"
  by (auto simp: parse_settings_def bind_eq_Some_conv split: stored_file.splits)

text \<open>Loaded settings are the parsed ones or the defaults, up to the fields the environment decides.\<close>

lemma load_keeps:
  assumes start: "P default_settings" "\<And>s. parse_settings mv (cs_file cs) = Some s \<Longrightarrow> P s"
    and step: "\<And>s t. P s \<Longrightarrow> P (s\<lparr>native_token := t\<rparr>)" "\<And>s b. P s \<Longrightarrow> P (s\<lparr>demo_mode := b\<rparr>)"
      "\<And>s d. P s \<Longrightarrow> P (s\<lparr>demo_scenario := d\<rparr>)"
      "\<And>s. P s \<Longrightarrow> P (s\<lparr>player_config := (player_config s)\<lparr>latency_msec := configured_playback_buffer_ms env\<rparr>\<rparr>)"
  shows "P (cs_settings (load mv env fresh cs))"
proof -
  have "P (cs_settings (adopt_settings env fresh s cs))" if "P s" for s
    using step(1) [OF step(3) [OF step(2) [OF that]]] step(3) [OF step(2) [OF that]]
    by (simp add: adopt_settings_def Let_def)
  moreover have "P (fallback_settings env fresh)" "P (initial_settings env fresh)"
    unfolding fallback_settings_def initial_settings_def by (intro step start)+
  ultimately show ?thesis
    unfolding load_def Let_def cs_settings_with using start(2) by (intro step(4)) (simp split: option.split)
qed

lemma load_keeps_schema:
  assumes "parser_sound mv"
  shows "schema_ok (cs_settings (load mv env fresh cs))"
proof (rule load_keeps)
  show "parse_settings mv (cs_file cs) = Some s \<Longrightarrow> schema_ok s" for s
    using assms parsed_by unfolding parser_sound_def by blast
qed (simp_all add: schema_override)

lemma load_keeps_keys:
  assumes "files_normalised mv"
  shows "keys_ok (load mv env fresh cs)"
  unfolding keys_filed
proof (rule load_keeps)
  show "parse_settings mv (cs_file cs) = Some s \<Longrightarrow> records_filed s" for s
    using assms parsed_by unfolding files_normalised_def by blast
qed (simp_all add: records_filed_def default_settings_def dict_all_def)

lemma schema_put: "schema_ok (cs_settings cs) \<Longrightarrow> speaker_ok s \<Longrightarrow> schema_ok (cs_settings (put_speaker k s cs))"
  by (auto simp: schema_speakers)

lemma create_keeps_schema: "schema_ok (cs_settings cs) \<Longrightarrow> schema_ok (cs_settings (snd (get_or_create_speaker a cs)))"
  by (simp add: get_or_create_speaker_def Let_def schema_put split: option.split)

lemma update_keeps_schema: "schema_ok (cs_settings cs) \<Longrightarrow> schema_ok (cs_settings (snd (update_speaker a u cs)))"
  using create_keeps_schema [of cs a] validate_speaker_same
  by (fastforce simp: update_speaker_def intro: schema_put split: prod.split sum.split)

lemma remove_keeps_schema: "schema_ok (cs_settings cs) \<Longrightarrow> schema_ok (cs_settings (snd (remove_speaker a cs)))"
  by (auto simp: remove_speaker_def Let_def schema_speakers)

text \<open>The bounds of the schema need a parser that respects them; the keys also files that do.\<close>

interpretation store: invariant_machine "config_step mv" "\<lambda>cs. parser_sound mv \<longrightarrow> schema_ok (cs_settings cs)" for mv
proof
  fix cs :: config_store and e assume ok: "parser_sound mv \<longrightarrow> schema_ok (cs_settings cs)"
  show "parser_sound mv \<longrightarrow> schema_ok (cs_settings (config_step mv cs e))"
    using ok by (cases e) (auto simp: load_keeps_schema create_keeps_schema update_keeps_schema remove_keeps_schema)
qed

interpretation filed_store: invariant_machine "config_step mv"
  "\<lambda>cs. parser_sound mv \<and> files_normalised mv \<longrightarrow> config_ok cs" for mv
proof
  fix cs :: config_store and e assume ok: "parser_sound mv \<and> files_normalised mv \<longrightarrow> config_ok cs"
  show "parser_sound mv \<and> files_normalised mv \<longrightarrow> config_ok (config_step mv cs e)"
  proof (cases e)
    case (CE_load env fresh)
    then show ?thesis by (simp add: config_ok_def load_keeps_schema load_keeps_keys)
  next
    case (CE_create a)
    then show ?thesis using ok get_or_create_ok [of cs a] by (cases "get_or_create_speaker a cs") auto
  next
    case (CE_update a u)
    then show ?thesis using ok update_speaker_ok [of cs a u] by auto
  next
    case (CE_remove a)
    then show ?thesis using ok remove_speaker_ok [of cs a] by auto
  qed (use ok in \<open>auto simp: config_ok_def\<close>)
qed

section \<open>Properties\<close>

text \<open>
  C16. From the start on a file of any content, through restarts in any environment, replacements of the file
  from outside and requests in any order, the settings stay within their schema: the bounds of every field,
  and every speaker record valid. What the parser accepts is relied on to respect the declared bounds. The
  keys of a file are not normalised by the load; when those of every file the parser accepts are, each record
  is, at every moment, filed under the normalised address it names.
\<close>

theorem config_invariant:
  assumes "\<forall>j s. mv j = Some s \<longrightarrow> schema_ok s"
  shows "schema_ok (cs_settings (foldl (config_step mv) (new_store mv env fresh f writable) es)) \<and>
    ((\<forall>j s. mv j = Some s \<longrightarrow> dict_all (\<lambda>k r. record_key k = k \<and> ss_address r = k) (speaker_records s)) \<longrightarrow>
     dict_all (\<lambda>k r. record_key k = k \<and> ss_address r = k)
       (speakers_of (foldl (config_step mv) (new_store mv env fresh f writable) es)))"
proof -
  have sound: "parser_sound mv" using assms by (simp add: parser_sound_def)
  have start: "schema_ok (cs_settings (new_store mv env fresh f writable))"
    unfolding new_store_def by (rule load_keeps_schema [OF sound])
  have "config_ok (new_store mv env fresh f writable)" if "files_normalised mv"
    using start load_keeps_keys [OF that] by (simp add: config_ok_def new_store_def)
  then show ?thesis
    using store.run_ok [of mv _ es] filed_store.run_ok [of mv _ es] start sound
    by (auto simp: files_normalised_def records_filed_def config_ok_def keys_ok_def)
qed

theorem config_invariant_witness:
  "dict_all (\<lambda>k r. record_key k = k \<and> ss_address r = k) (speakers_of (foldl (config_step (\<lambda>_. Some default_settings))
     (new_store (\<lambda>_. Some default_settings) (\<lambda>_. None) ''t'' (Parsed (JObject [])) True)
     [CE_update ''AA'' (no_update\<lparr>up_default_volume := Some 50\<rparr>), CE_load (\<lambda>_. None) ''u'', CE_remove ''aa'']))"
proof -
  have schema: "\<forall>j s. Some default_settings = Some s \<longrightarrow> schema_ok s" by simp
  have "\<forall>j s. Some default_settings = Some s \<longrightarrow> dict_all (\<lambda>k r. record_key k = k \<and> ss_address r = k) (speaker_records s)"
    by (simp add: default_settings_def dict_all_def)
  then show ?thesis
    by (rule mp [OF conjunct2 [OF config_invariant [of "\<lambda>_. Some default_settings", OF schema]]])
qed

text \<open>
  Loading always gives settings of the schema, whatever the file and the environment hold, with a usable
  native token and a bounded playback buffer. What the parser accepts is assumed to satisfy the bounds
  the models declare, and the generated token to be non-empty and printable.
\<close>

theorem load_schema:
  assumes "\<And>j s. model_validate j = Some s \<Longrightarrow> schema_ok s" and "fresh \<noteq> []" and "\<not> has_control fresh"
    and "cs' = load model_validate env fresh cs"
  shows "schema_ok (cs_settings cs') \<and>
    native_token (cs_settings cs') \<noteq> [] \<and> \<not> has_control (native_token (cs_settings cs'))"
proof -
  have token: "configured_token env fresh \<noteq> [] \<and> \<not> has_control (configured_token env fresh)"
    using assms(2,3) by (simp add: configured_token_def Let_def)
  define cs1 where "cs1 = (if cs_file cs \<noteq> NoFile
      then (case parse_settings model_validate (cs_file cs) of
              Some s \<Rightarrow> adopt_settings env fresh s cs
            | None \<Rightarrow> with_settings (fallback_settings env fresh) cs)
      else save (with_settings (initial_settings env fresh) cs))"
  have parsed: "schema_ok s" if "parse_settings model_validate f = Some s" for f s
    using that assms(1) by (auto simp: parse_settings_def bind_eq_Some_conv split: stored_file.splits)
  have one: "schema_ok (cs_settings cs1) \<and> native_token (cs_settings cs1) \<noteq> [] \<and>
      \<not> has_control (native_token (cs_settings cs1))"
    using token by (auto simp: cs1_def adopt_settings_def Let_def fallback_settings_def initial_settings_def
      dest: parsed split: option.splits)
  have cs': "cs_settings cs' = (cs_settings cs1)\<lparr>player_config :=
      (player_config (cs_settings cs1))\<lparr>latency_msec := configured_playback_buffer_ms env\<rparr>\<rparr>"
    unfolding assms(4) load_def cs1_def Let_def by simp
  show ?thesis using one by (simp add: cs' schema_override)
qed

theorem load_schema_witness:
  "schema_ok (cs_settings (load (\<lambda>_. None) (\<lambda>_. Some ''7'') ''u''
     \<lparr>cs_settings = default_settings, cs_file = Parsed (JList []), cs_writable = False\<rparr>))"
  using load_schema [where model_validate = "\<lambda>_. None" and fresh = "''u''" and env = "\<lambda>_. Some ''7''"
      and cs = "\<lparr>cs_settings = default_settings, cs_file = Parsed (JList []), cs_writable = False\<rparr>"]
  by (simp add: has_control_def ord_of_def)

text \<open>
  The playback buffer of the environment is used exactly when it is a number of milliseconds within the
  bounds: the result never leaves them, and every number within them is taken as it is written.
\<close>

theorem playback_buffer_bounds:
  "PLAYBACK_BUFFER_MIN_MS \<le> configured_playback_buffer_ms env \<and>
   configured_playback_buffer_ms env \<le> PLAYBACK_BUFFER_MAX_MS \<and>
   configured_playback_buffer_ms (env(ENV_PLAYBACK_BUFFER_MS \<mapsto> show_nat n)) =
     (if n < 50 \<or> n > 2000 then PLAYBACK_BUFFER_DEFAULT_MS else int n)"
proof -
  have "configured_playback_buffer_ms (env(ENV_PLAYBACK_BUFFER_MS \<mapsto> show_nat n)) = int n"
    if n: "50 \<le> n" "n \<le> 2000"
  proof -
    have "length (show_nat n) \<le> 4" using n by (intro show_nat_length) simp_all
    then have "py_int (show_nat n) = Some (int n)" by (intro py_int_show) simp
    then show ?thesis
      using n show_nat_digits [of n]
      by (simp add: configured_playback_buffer_ms_def env_get_def strip_show_nat)
  qed
  moreover have "configured_playback_buffer_ms (env(ENV_PLAYBACK_BUFFER_MS \<mapsto> show_nat n)) = 500"
    if n: "n < 50 \<or> n > 2000"
  proof -
    have "py_int (show_nat n) = None \<or> py_int (show_nat n) = Some (int n)"
    proof -
      obtain c cs where s: "show_nat n = c # cs" using show_nat_digits [of n] by (cases "show_nat n") auto
      have dig: "list_all is_digit (show_nat n)" using show_nat_digits by blast
      then have "unsigned_int (show_nat n) \<in> {None, Some n}"
        using digits_value_show [of n] by (simp add: unsigned_int_def s)
      then show ?thesis using dig digit_plain [of c] by (auto simp: py_int_def s)
    qed
    then show ?thesis
      using n show_nat_digits [of n]
      by (auto simp: configured_playback_buffer_ms_def env_get_def strip_show_nat)
  qed
  ultimately show ?thesis using buffer_bounds [of env] by (simp add: not_less)
qed

text \<open>
  What \<open>update_speaker\<close> does: on valid fields the merged record is stored and returned; on invalid fields it
  raises, an existing record stays as it is, but a speaker that had none has been given a default record.
  Other speakers are never touched.
\<close>

theorem update_speaker_spec:
  assumes ok: "config_ok cs" and upd: "update_speaker a u cs = (r, cs')"
    and s: "s = (case get_speaker cs a of Some s \<Rightarrow> s | None \<Rightarrow> new_speaker (record_key a))"
  shows "(if speaker_ok (merge_update u s) then r = Inr (merge_update u s) else (\<exists>e. r = Inl e)) \<and>
     get_speaker cs' b =
       (if record_key b \<noteq> record_key a then get_speaker cs b
        else Some (if speaker_ok (merge_update u s) then merge_update u s else s))"
  using assms by (rule update_speaker_result)

theorem update_speaker_spec_witness:
  "let cs = \<lparr>cs_settings = default_settings, cs_file = NoFile, cs_writable = True\<rparr>;
       (r, cs') = update_speaker ''A'' (no_update\<lparr>up_default_volume := Some 250\<rparr>) cs
   in (\<exists>e. r = Inl e) \<and> get_speaker cs ''a'' = None \<and> get_speaker cs' ''a'' = Some (new_speaker ''a'')"
proof -
  let ?cs = "\<lparr>cs_settings = default_settings, cs_file = NoFile, cs_writable = True\<rparr>"
  let ?u = "no_update\<lparr>up_default_volume := Some 250\<rparr>"
  have key: "record_key ''A'' = ''a''" "record_key ''a'' = ''a''"
    by (simp_all add: record_key_def strip_def lstrip_def lower_def char_class_defs char_of_eq_iff)
  have none: "get_speaker ?cs b = None" for b by (simp add: get_speaker_def speakers_of_def default_settings_def)
  have ok: "config_ok ?cs"
    by (simp add: config_ok_def keys_ok_def speakers_of_def) (simp add: default_settings_def)
  have bad: "\<not> speaker_ok (merge_update ?u (new_speaker ''a''))"
    by (simp add: speaker_ok_def validate_speaker_def volume_in_range_def merge_update_def no_update_def
      new_speaker_def valid_alias_def)
  obtain r cs' where run: "update_speaker ''A'' ?u ?cs = (r, cs')" by (cases "update_speaker ''A'' ?u ?cs")
  show ?thesis
    using update_speaker_spec [OF ok run refl, of "''a''"] bad by (simp add: run none key)
qed

text \<open>
  A settings file that cannot be used is left as it is, and the defaults apply; the demo mode the
  environment asks for is dropped then, although it is not a stored setting.
\<close>

theorem unusable_file_drops_demo_mode:
  assumes "cs_file cs \<noteq> NoFile" and "parse_settings model_validate (cs_file cs) = None"
  shows "\<not> demo_mode (cs_settings (load model_validate env fresh cs)) \<and>
         demo_scenario (cs_settings (load model_validate env fresh cs)) = DEFAULT_DEMO_SCENARIO \<and>
         cs_file (load model_validate env fresh cs) = cs_file cs"
  using assms by (simp add: load_def Let_def with_settings_def fallback_settings_def default_settings_def)

theorem unusable_file_drops_demo_mode_witness:
  "configured_demo_mode [ENV_DEMO_MODE \<mapsto> ''1''] \<and>
   \<not> demo_mode (cs_settings (load (\<lambda>_. None) [ENV_DEMO_MODE \<mapsto> ''1''] ''u''
       \<lparr>cs_settings = default_settings, cs_file = Unparsable, cs_writable = True\<rparr>))"
  using unusable_file_drops_demo_mode [where model_validate = "\<lambda>_. None"
      and cs = "\<lparr>cs_settings = default_settings, cs_file = Unparsable, cs_writable = True\<rparr>"
      and env = "[ENV_DEMO_MODE \<mapsto> ''1'']" and fresh = "''u''"]
  by (simp add: parse_settings_def configured_demo_mode_def env_get_def strip_def lstrip_def lower_def
    char_class_defs bridge_defs)

end
