(* ===== verification/Config_Spec.thy ===== *)
theory Config_Spec
  imports Config_Store "HOL-Library.Monad_Syntax"
begin

text \<open>
  The settings file read back. \<open>read_settings\<close> says what a complete JSON object says, field by field: every field
  of the models of \<open>config.py\<close> under its name, at its declared type, within its bounds. Of the parser behind
  \<open>model_validate\<close> it is relied on that it accepts such an object and gives exactly these fields.
\<close>

section \<open>Reading fields\<close>






fun get_optional_text :: "json \<Rightarrow> string option option" where
  "get_optional_text JNull = Some None"
| "get_optional_text (JString s) = Some (Some s)"
| "get_optional_text _ = None"


section \<open>Reading the models\<close>





section \<open>What is written is read\<close>

lemma read_optional [simp]: "get_optional_text (json_option v) = Some v"
  by (cases v) (simp_all add: json_option_def)





section \<open>Properties\<close>




end
