(* ===== verification/Media_Url.thy ===== *)
theory Media_Url
  imports Validation Py_Numbers
begin

text \<open>
  The media URL policy of \<open>health.py\<close>: \<open>validate_media_url\<close>, \<open>media_host_is_blocked\<close> and
  \<open>_media_address\<close>, with the parts of \<open>urllib.parse\<close> and \<open>ipaddress\<close> they call (\<open>urlsplit\<close>, the host and
  port of a network location, the parsing and classification of IP literals). Texts are Latin-1, for which
  the NFKC check of \<open>urlsplit\<close> never fires.
\<close>

section \<open>Cutting texts\<close>

text \<open>\<open>partition\<close>, \<open>rpartition\<close> and \<open>split\<close> for a one-character separator.\<close>

definition before :: "char \<Rightarrow> string \<Rightarrow> string" where "before c s = takeWhile (\<lambda>d. d \<noteq> c) s"
definition after :: "char \<Rightarrow> string \<Rightarrow> string" where "after c s = tl (dropWhile (\<lambda>d. d \<noteq> c) s)"
definition after_last_char :: "char \<Rightarrow> string \<Rightarrow> string" where
  "after_last_char c s = rev (takeWhile (\<lambda>d. d \<noteq> c) (rev s))"
definition before_last_char :: "char \<Rightarrow> string \<Rightarrow> string" where
  "before_last_char c s = rev (tl (dropWhile (\<lambda>d. d \<noteq> c) (rev s)))"

fun split_on :: "char \<Rightarrow> string \<Rightarrow> string list" where
  "split_on c [] = [[]]"
| "split_on c (d # s) =
     (if d = c then [] # split_on c s else (case split_on c s of p # ps \<Rightarrow> (d # p) # ps | [] \<Rightarrow> [[d]]))"

section \<open>IP literals (ipaddress)\<close>

datatype ip_address = IPv4 nat | IPv6 nat

definition parse_octet :: "string \<Rightarrow> nat option" where
  "parse_octet s =
     (if s = [] \<or> \<not> list_all is_digit s \<or> length s > 3 \<or> (s \<noteq> ''0'' \<and> hd s = CHR ''0'') then None
      else (case digits_value 0 s of Some n \<Rightarrow> if n > 255 then None else Some n | None \<Rightarrow> None))"

definition ipv4_of_string :: "string \<Rightarrow> nat option" where
  "ipv4_of_string s =
     (case map parse_octet (split_on (CHR ''.'') s) of
        [Some a, Some b, Some c, Some d] \<Rightarrow> Some (((a * 256 + b) * 256 + c) * 256 + d)
      | _ \<Rightarrow> None)"

definition ascii_hex :: "char \<Rightarrow> nat option" where
  "ascii_hex c =
     (let n = ord_of c in
      if 48 \<le> n \<and> n \<le> 57 then Some (n - 48)
      else if 97 \<le> n \<and> n \<le> 102 then Some (n - 87)
      else if 65 \<le> n \<and> n \<le> 70 then Some (n - 55)
      else None)"

fun hex_number :: "nat \<Rightarrow> string \<Rightarrow> nat option" where
  "hex_number acc [] = Some acc"
| "hex_number acc (c # cs) = (case ascii_hex c of Some v \<Rightarrow> hex_number (16 * acc + v) cs | None \<Rightarrow> None)"

text \<open>\<open>_parse_hextet\<close>: an empty part passes the first two checks and fails in \<open>int\<close>.\<close>

definition parse_hextet :: "string \<Rightarrow> nat option" where
  "parse_hextet s = (if s = [] \<or> length s > 4 then None else hex_number 0 s)"

fun hextets_value :: "nat \<Rightarrow> string list \<Rightarrow> nat option" where
  "hextets_value acc [] = Some acc"
| "hextets_value acc (p # ps) =
     (case parse_hextet p of Some v \<Rightarrow> hextets_value (acc * 65536 + v) ps | None \<Rightarrow> None)"

text \<open>The parts of an address, an IPv4 suffix turned into two numbers.\<close>

definition hex_digits4 :: "nat \<Rightarrow> string" where
  "hex_digits4 n = map (\<lambda>k. let d = n div 16 ^ k mod 16 in char_of (if d < 10 then 48 + d else 87 + d)) [3, 2, 1, 0]"

definition ipv6_parts :: "string \<Rightarrow> string list option" where
  "ipv6_parts s =
     (let parts = split_on (CHR '':'') s
      in if length parts < 3 then None
         else if CHR ''.'' \<in> set (last parts) then
           (case ipv4_of_string (last parts) of
              Some v \<Rightarrow> Some (butlast parts @ [hex_digits4 (v div 65536), hex_digits4 (v mod 65536)])
            | None \<Rightarrow> None)
         else Some parts)"

definition inner_gaps :: "string list \<Rightarrow> nat list" where
  "inner_gaps parts = filter (\<lambda>i. parts ! i = []) [1..<length parts - 1]"

definition ipv6_of_string :: "string \<Rightarrow> nat option" where
  "ipv6_of_string s =
     (case ipv6_parts s of
        None \<Rightarrow> None
      | Some parts \<Rightarrow>
          if length parts > 9 \<or> length (inner_gaps parts) > 1 then None
          else (case inner_gaps parts of
            skip # _ \<Rightarrow>
              (let hi = take skip parts; lo = drop (Suc skip) parts;
                   hi' = (if hd parts = [] then tl hi else hi);
                   lo' = (if last parts = [] then butlast lo else lo)
               in if (hd parts = [] \<and> hi' \<noteq> []) \<or> (last parts = [] \<and> lo' \<noteq> [])
                     \<or> length hi' + length lo' > 7 then None
                  else (case hextets_value 0 hi' of
                          Some h \<Rightarrow> hextets_value (h * 65536 ^ (8 - (length hi' + length lo'))) lo'
                        | None \<Rightarrow> None))
          | [] \<Rightarrow>
              if length parts \<noteq> 8 \<or> hd parts = [] \<or> last parts = [] then None
              else hextets_value 0 parts))"

text \<open>A scope identifier after \<open>%\<close> is cut off; it must not be empty nor hold another \<open>%\<close>.\<close>

definition ipv6_address :: "string \<Rightarrow> nat option" where
  "ipv6_address s =
     (if CHR ''%'' \<in> set s \<and> (after (CHR ''%'') s = [] \<or> CHR ''%'' \<in> set (after (CHR ''%'') s)) then None
      else ipv6_of_string (before (CHR ''%'') s))"

definition ip_address :: "string \<Rightarrow> ip_address option" where
  "ip_address s =
     (if CHR ''/'' \<in> set s then None
      else (case ipv4_of_string s of
              Some n \<Rightarrow> Some (IPv4 n)
            | None \<Rightarrow> map_option IPv6 (ipv6_address s)))"

text \<open>\<open>in_net b bits a\<close>: \<open>a\<close> agrees with the base address above its last \<open>bits\<close> bits.\<close>

definition in_net :: "nat \<Rightarrow> nat \<Rightarrow> nat \<Rightarrow> bool" where
  "in_net base bits a \<longleftrightarrow> a div 2 ^ bits = base div 2 ^ bits"

definition ipv4_refused :: "nat \<Rightarrow> bool" where
  "ipv4_refused a \<longleftrightarrow>
     in_net 0x7F000000 24 a \<or> in_net 0xA9FE0000 16 a \<or> in_net 0xE0000000 28 a \<or> in_net 0xF0000000 28 a \<or> a = 0"

definition ipv6_reserved_networks :: "(nat \<times> nat) list" where
  "ipv6_reserved_networks =
     map (\<lambda>(top, len). (top * 2 ^ 120, 128 - len))
       [(0x00, 8), (0x01, 8), (0x02, 7), (0x04, 6), (0x08, 5), (0x10, 4), (0x40, 3), (0x60, 3), (0x80, 3),
        (0xA0, 3), (0xC0, 3), (0xE0, 4), (0xF0, 5), (0xF8, 6), (0xFE, 9)]"

definition ipv6_refused :: "nat \<Rightarrow> bool" where
  "ipv6_refused a \<longleftrightarrow>
     a = 1 \<or> in_net (0xFE80 * 2 ^ 112) 118 a \<or> in_net (0xFF * 2 ^ 120) 120 a \<or>
     list_ex (\<lambda>(base, bits). in_net base bits a) ipv6_reserved_networks \<or> a = 0"

section \<open>Blocked hosts\<close>

definition MEDIA_BLOCKED_HOST_NAMES :: "string list" where
  "MEDIA_BLOCKED_HOST_NAMES = [''localhost'', ''localhost.localdomain'', ''ip6-localhost'', ''ip6-loopback'']"
definition MEDIA_LOCALHOST_SUFFIX :: string where "MEDIA_LOCALHOST_SUFFIX = ''.localhost''"

definition media_address :: "string \<Rightarrow> ip_address option" where
  "media_address host =
     (case ip_address host of
        Some a \<Rightarrow> Some a
      | None \<Rightarrow>
          (case py_int0 host of
             None \<Rightarrow> None
           | Some n \<Rightarrow> if \<not> (0 \<le> n \<and> n \<le> 0xFFFFFFFF) then None else Some (IPv4 (nat n))))"

definition rstrip_char :: "char \<Rightarrow> string \<Rightarrow> string" where
  "rstrip_char c s = rev (dropWhile (\<lambda>d. d = c) (rev s))"

definition media_host_is_blocked :: "string \<Rightarrow> bool" where
  "media_host_is_blocked hostname \<longleftrightarrow>
     (if hostname = [] then True
      else let host = rstrip_char (CHR ''.'') (lower (strip hostname))
        in if host \<in> set MEDIA_BLOCKED_HOST_NAMES \<or> ends_with MEDIA_LOCALHOST_SUFFIX host then True
           else (case media_address host of
                   None \<Rightarrow> False
                 | Some (IPv4 a) \<Rightarrow> ipv4_refused a
                 | Some (IPv6 a) \<Rightarrow>
                     if a div 2 ^ 32 = 0xFFFF then ipv4_refused (a mod 2 ^ 32) else ipv6_refused a))"

section \<open>Splitting a URL (urllib.parse)\<close>

record split_url =
  u_scheme :: string
  u_netloc :: string
  u_path :: string

definition scheme_char :: "char \<Rightarrow> bool" where
  "scheme_char c \<longleftrightarrow> is_ascii_alnum c \<or> c \<in> set ''+-.''"

definition ip_v_future :: "string \<Rightarrow> bool" where
  "ip_v_future s \<longleftrightarrow>
     (let t = tl s; hexes = takeWhile (\<lambda>c. ascii_hex c \<noteq> None) t; rest = dropWhile (\<lambda>c. ascii_hex c \<noteq> None) t
      in hexes \<noteq> [] \<and> length rest \<ge> 2 \<and> hd rest = CHR ''.'')"

definition bracketed_host_ok :: "string \<Rightarrow> bool" where
  "bracketed_host_ok h \<longleftrightarrow>
     (if starts_with ''v'' h then ip_v_future h
      else (case ip_address h of Some (IPv6 _) \<Rightarrow> True | _ \<Rightarrow> False))"

definition netloc_end :: "char \<Rightarrow> bool" where "netloc_end c \<longleftrightarrow> c \<in> set ''/?#''"

definition urlsplit :: "string \<Rightarrow> py_exc + split_url" where
  "urlsplit url0 =
     (let url = filter (\<lambda>c. ord_of c \<notin> {9, 10, 13}) (dropWhile (\<lambda>c. ord_of c \<le> 32) url0);
          pre = before (CHR '':'') url;
          has_scheme = (CHR '':'' \<in> set url \<and> pre \<noteq> [] \<and> is_ascii_alpha (hd url) \<and> list_all scheme_char pre);
          scheme = (if has_scheme then lower pre else []);
          rest = (if has_scheme then after (CHR '':'') url else url);
          netloc = (if starts_with ''//'' rest then takeWhile (\<lambda>c. \<not> netloc_end c) (drop 2 rest) else []);
          tail = (if starts_with ''//'' rest then dropWhile (\<lambda>c. \<not> netloc_end c) (drop 2 rest) else rest);
          path = before (CHR ''?'') (before (CHR ''#'') tail)
      in if (CHR ''['' \<in> set netloc) \<noteq> (CHR '']'' \<in> set netloc) then Inl (ValueError ''Invalid IPv6 URL'')
         else if CHR ''['' \<in> set netloc \<and>
           \<not> bracketed_host_ok (before (CHR '']'') (after (CHR ''['') netloc)) then Inl (ValueError ''bracketed host'')
         else Inr \<lparr>u_scheme = scheme, u_netloc = netloc, u_path = path\<rparr>)"

definition hostinfo :: "string \<Rightarrow> string" where
  "hostinfo netloc = (if CHR ''@'' \<in> set netloc then after_last_char (CHR ''@'') netloc else netloc)"

definition raw_host :: "string \<Rightarrow> string" where
  "raw_host netloc =
     (let h = hostinfo netloc
      in if CHR ''['' \<in> set h then before (CHR '']'') (after (CHR ''['') h) else before (CHR '':'') h)"

definition url_hostname :: "string \<Rightarrow> string" where
  "url_hostname netloc =
     (let h = raw_host netloc
      in lower (before (CHR ''%'') h) @ drop (length (before (CHR ''%'') h)) h)"

definition url_port_text :: "string \<Rightarrow> string" where
  "url_port_text netloc =
     (let h = hostinfo netloc
      in if CHR ''['' \<in> set h then after (CHR '':'') (after (CHR '']'') (after (CHR ''['') h))
         else after (CHR '':'') h)"

definition url_has_userinfo :: "string \<Rightarrow> bool" where
  "url_has_userinfo netloc \<longleftrightarrow>
     CHR ''@'' \<in> set netloc \<and>
     (let u = before_last_char (CHR ''@'') netloc
      in before (CHR '':'') u \<noteq> [] \<or> after (CHR '':'') u \<noteq> [])"

definition MIN_TCP_PORT :: nat where [simp]: "MIN_TCP_PORT = 1"
definition MAX_TCP_PORT :: nat where [simp]: "MAX_TCP_PORT = 65535"
definition MAX_MEDIA_URL_LENGTH :: nat where [simp]: "MAX_MEDIA_URL_LENGTH = 2048"
definition DELETE_CODEPOINT :: nat where [simp]: "DELETE_CODEPOINT = 127"
definition HTTP_SCHEMES :: "string list" where "HTTP_SCHEMES = [''http'', ''https'']"

definition url_port_ok :: "string \<Rightarrow> bool" where
  "url_port_ok netloc \<longleftrightarrow>
     (let p = url_port_text netloc
      in p = [] \<or> (list_all is_digit p \<and>
           (case unsigned_int p of Some n \<Rightarrow> MIN_TCP_PORT \<le> n \<and> n \<le> MAX_TCP_PORT | None \<Rightarrow> False)))"

definition unsafe_url_error :: py_exc where
  "unsafe_url_error = ValueError ''Media URL must be a safe HTTP(S) URL''"
definition blocked_url_error :: py_exc where
  "blocked_url_error =
     ValueError ''Media URL must not target a loopback, link-local or multicast address''"

definition url_char_ok :: "char \<Rightarrow> bool" where
  "url_char_ok c \<longleftrightarrow> \<not> (ord_of c < MIN_PORTABLE_CODEPOINT \<or> ord_of c = DELETE_CODEPOINT)"

definition validate_media_url :: "string \<Rightarrow> py_exc + string" where
  "validate_media_url url =
     (if url = [] \<or> length url > MAX_MEDIA_URL_LENGTH then Inl unsafe_url_error
      else if \<not> list_all url_char_ok url then Inl unsafe_url_error
      else (case urlsplit url of
              Inl e \<Rightarrow> Inl e
            | Inr parsed \<Rightarrow>
                if u_scheme parsed \<notin> set HTTP_SCHEMES \<or> url_hostname (u_netloc parsed) = []
                   \<or> url_has_userinfo (u_netloc parsed) then Inl unsafe_url_error
                else if media_host_is_blocked (url_hostname (u_netloc parsed)) then Inl blocked_url_error
                else if \<not> url_port_ok (u_netloc parsed) then Inl unsafe_url_error
                else Inr url))"

section \<open>Plain hosts\<close>

text \<open>Hosts spelt with digits and dots, as literal IPv4 addresses and single numbers are.\<close>

definition numeric_host :: "string \<Rightarrow> bool" where
  "numeric_host h \<longleftrightarrow> h \<noteq> [] \<and> list_all (\<lambda>c. is_digit c \<or> c = CHR ''.'') h \<and> is_digit (last h) \<and> is_digit (hd h)"

lemma digit_or_dot:
  assumes "is_digit c \<or> c = CHR ''.''"
  shows "\<not> py_space c" "lower_char c = c" "url_char_ok c" "ord_of c \<notin> {9, 10, 13}" "\<not> netloc_end c"
    "c \<notin> {CHR ''['', CHR '']'', CHR ''@'', CHR '':'', CHR ''%'', CHR ''/''}"
proof -
  have n: "ord_of c \<in> {46..57}" using assms by (auto simp: is_digit_def ord_of_def)
  have char: "c = char_of (ord_of c)" by (simp add: ord_of_def)
  show "\<not> py_space c" "lower_char c = c" "url_char_ok c" "ord_of c \<notin> {9, 10, 13}"
    using n by (auto simp: py_space_def lower_char_def is_upper_def url_char_ok_def Let_def)
  show "\<not> netloc_end c"
    using assms by (auto simp: netloc_end_def is_digit_def ord_of_def)
  show "c \<notin> {CHR ''['', CHR '']'', CHR ''@'', CHR '':'', CHR ''%'', CHR ''/''}"
    using assms by (auto simp: is_digit_def ord_of_def)
qed

lemma numeric_chars: "numeric_host h \<Longrightarrow> c \<in> set h \<Longrightarrow> is_digit c \<or> c = CHR ''.''"
  by (auto simp: numeric_host_def list_all_iff)

lemma numeric_normal:
  assumes "numeric_host h"
  shows "strip h = h" "lower h = h" "rstrip_char (CHR ''.'') h = h"
    "h \<notin> set MEDIA_BLOCKED_HOST_NAMES" "\<not> ends_with MEDIA_LOCALHOST_SUFFIX h"
proof -
  note chars = numeric_chars [OF assms, THEN digit_or_dot(1)] numeric_chars [OF assms, THEN digit_or_dot(2)]
  show "strip h = h" using chars by (intro strip_none)
  show "lower h = h" unfolding lower_def using chars by (intro map_idI)
  have dot: "\<not> is_digit (CHR ''.'')" "\<not> is_digit (CHR ''l'')" "\<not> is_digit (CHR ''i'')" "\<not> is_digit (CHR ''t'')"
    by (simp_all add: is_digit_def ord_of_def)
  have ends: "h \<noteq> []" "is_digit (hd h)" "is_digit (last h)" using assms by (auto simp: numeric_host_def)
  then have "dropWhile (\<lambda>d. d = CHR ''.'') (rev h) = rev h"
    using dot by (auto simp: dropWhile_eq_self_iff hd_rev)
  then show "rstrip_char (CHR ''.'') h = h" by (simp add: rstrip_char_def)
  show "h \<notin> set MEDIA_BLOCKED_HOST_NAMES"
    using ends(2) dot by (auto simp: MEDIA_BLOCKED_HOST_NAMES_def)
  show "\<not> ends_with MEDIA_LOCALHOST_SUFFIX h"
  proof
    assume "ends_with MEDIA_LOCALHOST_SUFFIX h"
    then obtain t where "rev h = rev MEDIA_LOCALHOST_SUFFIX @ t" by (auto simp: ends_with_def starts_with_iff)
    then have "hd (rev h) = CHR ''t''" by (simp add: MEDIA_LOCALHOST_SUFFIX_def)
    then show False using ends dot by (simp add: hd_rev)
  qed
qed

lemma numeric_blocked:
  "numeric_host h \<Longrightarrow> media_host_is_blocked h =
     (case media_address h of
        None \<Rightarrow> False
      | Some (IPv4 a) \<Rightarrow> ipv4_refused a
      | Some (IPv6 a) \<Rightarrow> if a div 2 ^ 32 = 0xFFFF then ipv4_refused (a mod 2 ^ 32) else ipv6_refused a)"
  by (simp add: media_host_is_blocked_def numeric_normal Let_def) (simp add: numeric_host_def)

definition http_url :: "string \<Rightarrow> string \<Rightarrow> string" where
  "http_url host rest = ''http://'' @ host @ CHR ''/'' # rest"

lemma takeWhile_stop: "(\<And>x. x \<in> set xs \<Longrightarrow> P x) \<Longrightarrow> \<not> P y \<Longrightarrow> takeWhile P (xs @ y # ys) = xs"
  by (induction xs) auto

lemma dropWhile_stop: "(\<And>x. x \<in> set xs \<Longrightarrow> P x) \<Longrightarrow> \<not> P y \<Longrightarrow> dropWhile P (xs @ y # ys) = y # ys"
  by (induction xs) auto

lemma url_ok_kept: "list_all url_char_ok s \<Longrightarrow> filter (\<lambda>c. ord_of c \<notin> {9, 10, 13}) s = s"
  by (auto simp: filter_id_conv list_all_iff url_char_ok_def)

lemma http_chars: "list_all url_char_ok ''http://''"
  by (simp add: url_char_ok_def ord_of_def)

lemma urlsplit_plain:
  assumes "numeric_host h" and "list_all url_char_ok p"
  shows "urlsplit (http_url h p) =
     Inr \<lparr>u_scheme = ''http'', u_netloc = h, u_path = before (CHR ''?'') (before (CHR ''#'') (CHR ''/'' # p))\<rparr>"
proof -
  note chars = numeric_chars [OF assms(1), THEN digit_or_dot(3)]
    numeric_chars [OF assms(1), THEN digit_or_dot(5)] numeric_chars [OF assms(1), THEN digit_or_dot(6)]
  have ok: "list_all url_char_ok (http_url h p)"
    using chars(1) assms(2) http_chars by (auto simp: http_url_def list_all_iff url_char_ok_def ord_of_def)
  have "dropWhile (\<lambda>c. ord_of c \<le> 32) (http_url h p) = http_url h p"
    by (simp add: http_url_def ord_of_def)
  then have url: "filter (\<lambda>c. ord_of c \<notin> {9, 10, 13}) (dropWhile (\<lambda>c. ord_of c \<le> 32) (http_url h p)) = http_url h p"
    using url_ok_kept [OF ok] by simp
  have pre: "before (CHR '':'') (http_url h p) = ''http''" "CHR '':'' \<in> set (http_url h p)"
    "after (CHR '':'') (http_url h p) = ''//'' @ h @ CHR ''/'' # p" "is_ascii_alpha (hd (http_url h p))"
    "scheme_char (CHR ''h'')" "scheme_char (CHR ''t'')" "scheme_char (CHR ''p'')" "lower ''http'' = ''http''"
    by (simp_all add: before_def after_def http_url_def scheme_char_def lower_def char_class_defs)
  have stop: "netloc_end (CHR ''/'')" by (simp add: netloc_end_def)
  have net: "takeWhile (\<lambda>c. \<not> netloc_end c) (h @ CHR ''/'' # p) = h"
    "dropWhile (\<lambda>c. \<not> netloc_end c) (h @ CHR ''/'' # p) = CHR ''/'' # p"
    using chars(2) stop by (auto intro!: takeWhile_stop dropWhile_stop)
  have br: "CHR ''['' \<notin> set h" "CHR '']'' \<notin> set h" using chars(3) by blast+
  show ?thesis
    unfolding urlsplit_def url Let_def by (simp add: pre net br starts_with_def)
qed

lemma before_absent: "c \<notin> set s \<Longrightarrow> before c s = s"
  by (simp add: before_def takeWhile_eq_all_conv) metis

lemma after_absent: "c \<notin> set s \<Longrightarrow> after c s = []"
proof -
  assume "c \<notin> set s"
  then have "dropWhile (\<lambda>d. d \<noteq> c) s = []" by (auto simp: dropWhile_eq_Nil_conv)
  then show ?thesis by (simp only: after_def list.sel(2))
qed

lemma validate_plain_host:
  assumes h: "numeric_host h" and p: "list_all url_char_ok p" and len: "length h + length p \<le> 2040"
  shows "validate_media_url (http_url h p) =
     (if media_host_is_blocked h then Inl blocked_url_error else Inr (http_url h p))"
proof -
  note chars = numeric_chars [OF h, THEN digit_or_dot(6)]
  have absent: "CHR ''['' \<notin> set h" "CHR ''@'' \<notin> set h" "CHR '':'' \<notin> set h" "CHR ''%'' \<notin> set h"
    using chars by blast+
  have ok: "list_all url_char_ok (http_url h p)"
    using numeric_chars [OF h, THEN digit_or_dot(3)] p http_chars
    by (auto simp: http_url_def list_all_iff url_char_ok_def ord_of_def)
  have net: "url_hostname h = h" "\<not> url_has_userinfo h" "url_port_ok h"
    using absent numeric_normal(2) [OF h]
    by (simp_all add: url_hostname_def raw_host_def hostinfo_def url_has_userinfo_def url_port_ok_def
      url_port_text_def before_absent after_absent Let_def)
  have "h \<noteq> []" using h by (simp add: numeric_host_def)
  then show ?thesis
    using ok len by (simp add: validate_media_url_def urlsplit_plain [OF h p] net HTTP_SCHEMES_def)
      (simp add: http_url_def)
qed

section \<open>Dotted and single numbers\<close>

definition dotted :: "nat \<Rightarrow> nat \<Rightarrow> nat \<Rightarrow> nat \<Rightarrow> string" where
  "dotted a b c d = show_nat a @ CHR ''.'' # show_nat b @ CHR ''.'' # show_nat c @ CHR ''.'' # show_nat d"

lemma show_nat_facts:
  "show_nat n \<noteq> []" "c \<in> set (show_nat n) \<Longrightarrow> is_digit c" "is_digit (hd (show_nat n))" "is_digit (last (show_nat n))"
  "CHR ''.'' \<notin> set (show_nat n)"
proof -
  have all: "list_all is_digit (show_nat n)" and ne: "show_nat n \<noteq> []" using show_nat_digits by blast+
  then show "show_nat n \<noteq> []" "c \<in> set (show_nat n) \<Longrightarrow> is_digit c"
    "is_digit (hd (show_nat n))" "is_digit (last (show_nat n))"
    by (auto simp: list_all_iff)
  have "\<not> is_digit (CHR ''.'')" by (simp add: is_digit_def ord_of_def)
  then show "CHR ''.'' \<notin> set (show_nat n)" using all by (auto simp: list_all_iff)
qed

lemma numeric_dotted: "numeric_host (dotted a b c d)"
  using show_nat_facts by (auto simp: numeric_host_def dotted_def list_all_iff)

lemma numeric_single: "numeric_host (show_nat n)"
  using show_nat_facts by (auto simp: numeric_host_def list_all_iff)

lemma split_on_sep: "c \<notin> set p \<Longrightarrow> split_on c (p @ c # s) = p # split_on c s"
  by (induction p) auto

lemma split_on_none: "c \<notin> set p \<Longrightarrow> split_on c p = [p]"
  by (induction p) auto

lemma show_nat_hd: "0 < n \<Longrightarrow> hd (show_nat n) \<noteq> CHR ''0''"
proof (induction n rule: show_nat.induct)
  case (1 n)
  show ?case
  proof (cases "n < 10")
    case True
    have "char_of (48 + n) \<noteq> CHR ''0''"
    proof
      assume "char_of (48 + n) = CHR ''0''"
      then have "(of_char (char_of (48 + n)) :: nat) = of_char (CHR ''0'')" by simp
      then show False using True 1(2) by simp
    qed
    then show ?thesis using True by (subst show_nat.simps) simp
  next
    case False
    then have "hd (show_nat (n div 10)) \<noteq> CHR ''0''" using 1(1) by simp
    then show ?thesis using False show_nat_facts(1) by (subst show_nat.simps) simp
  qed
qed

lemma parse_octet_show: "n < 256 \<Longrightarrow> parse_octet (show_nat n) = Some n"
proof -
  assume n: "n < 256"
  have "list_all is_digit (show_nat n)" using show_nat_digits by blast
  moreover have "length (show_nat n) \<le> 3" using n by (intro show_nat_length) simp_all
  moreover have "show_nat n = ''0'' \<or> hd (show_nat n) \<noteq> CHR ''0''"
  proof (cases "n = 0")
    case True
    then show ?thesis by (subst show_nat.simps) (simp add: char_of_eq_iff)
  qed (use show_nat_hd in blast)
  ultimately show ?thesis
    using n show_nat_facts(1) [of n] digits_value_show [of n] by (auto simp: parse_octet_def)
qed

lemma digit_letter:
  assumes "is_digit c"
  shows "lower_char c \<notin> {CHR ''x'', CHR ''o'', CHR ''b''}" "c \<noteq> CHR ''-''" "c \<noteq> CHR ''+''" "c \<noteq> CHR ''_''"
proof -
  have "lower_char c = c" using digit_or_dot(2) assms by blast
  then show "lower_char c \<notin> {CHR ''x'', CHR ''o'', CHR ''b''}" "c \<noteq> CHR ''-''" "c \<noteq> CHR ''+''" "c \<noteq> CHR ''_''"
    using assms by (auto simp: is_digit_def ord_of_def)
qed

lemma radix_none:
  assumes "\<And>c. c \<in> set s \<Longrightarrow> is_digit c \<or> c = CHR ''.''"
  shows "radix_of s = None"
proof -
  have "lower_char (CHR ''.'') = CHR ''.''" by (simp add: digit_or_dot)
  then have "lower_char c \<notin> {CHR ''x'', CHR ''o'', CHR ''b''}" if "c \<in> set s" for c
    using assms [OF that] digit_letter(1) by fastforce
  then show ?thesis by (auto simp: radix_of_def split: list.splits)
qed

lemma py_int0_show: "n \<le> 4294967295 \<Longrightarrow> py_int0 (show_nat n) = Some (int n)"
proof -
  assume "n \<le> 4294967295"
  then have len: "length (show_nat n) \<le> 10" by (intro show_nat_length) simp_all
  obtain c cs where s: "show_nat n = c # cs" using show_nat_facts(1) [of n] by (cases "show_nat n") auto
  have c: "is_digit c" using show_nat_facts(3) [of n] by (simp add: s)
  have "filter is_digit (show_nat n) = show_nat n" using show_nat_facts(2) by (auto simp: filter_id_conv)
  then have "unsigned_int (show_nat n) = Some n"
    using c len digits_value_show [of n] by (simp add: unsigned_int_def s)
  moreover have "radix_of (show_nat n) = None" using show_nat_facts(2) by (intro radix_none) blast
  moreover have "hd (show_nat n) \<noteq> CHR ''0'' \<or> n = 0" using show_nat_hd by blast
  ultimately have "unsigned_int0 (show_nat n) = Some n" by (auto simp: unsigned_int0_def)
  then show ?thesis
    using c digit_letter(2,3) [OF c] unfolding py_int0_def strip_show_nat by (simp add: s)
qed

lemma digits_value_dot: "CHR ''.'' \<in> set s \<Longrightarrow> digits_value acc s = None"
proof (induction acc s rule: digits_value.induct)
  case (2 acc c cs)
  have "\<not> is_digit (CHR ''.'')" by (simp add: is_digit_def ord_of_def)
  then show ?case using 2 by (auto split: list.splits)
qed simp

lemma py_int0_dot:
  assumes "CHR ''.'' \<in> set s" "\<And>c. c \<in> set s \<Longrightarrow> is_digit c \<or> c = CHR ''.''" "strip s = s"
  shows "py_int0 s = None"
proof -
  obtain c cs where s: "s = c # cs" using assms(1) by (cases s) auto
  have c: "c \<noteq> CHR ''-''" "c \<noteq> CHR ''+''" using assms(2) [of c] digit_letter [of c] by (auto simp: s)
  have "unsigned_int s = None"
    using digits_value_dot [OF assms(1), of 0] by (simp add: unsigned_int_def s del: digits_value.simps)
  then have "unsigned_int0 s = None" using radix_none [of s] assms(2) by (simp add: unsigned_int0_def)
  then show ?thesis using c assms(3) by (simp add: py_int0_def s)
qed

lemma ip_address_dotted:
  assumes "a < 256" "b < 256" "c < 256" "d < 256"
  shows "ip_address (dotted a b c d) = Some (IPv4 (((a * 256 + b) * 256 + c) * 256 + d))"
proof -
  have "CHR ''/'' \<notin> set (dotted a b c d)"
    using numeric_chars [OF numeric_dotted, THEN digit_or_dot(6)] by blast
  then show ?thesis
    using assms by (simp add: ip_address_def ipv4_of_string_def)
      (simp add: dotted_def split_on_sep split_on_none show_nat_facts parse_octet_show)
qed

lemma ip_address_single: "ip_address (show_nat n) = None"
proof -
  have "CHR '':'' \<notin> set (show_nat n)" "CHR ''%'' \<notin> set (show_nat n)" "CHR ''/'' \<notin> set (show_nat n)"
    using numeric_chars [OF numeric_single, THEN digit_or_dot(6)] by blast+
  then show ?thesis
    by (simp add: ip_address_def ipv4_of_string_def split_on_none show_nat_facts ipv6_address_def
      ipv6_of_string_def ipv6_parts_def before_absent split: option.splits)
qed

lemma refused_octets:
  assumes "a < 256" "b < 256" "c < 256" "d < 256"
  shows "ipv4_refused (((a * 256 + b) * 256 + c) * 256 + d) \<longleftrightarrow>
     a = 127 \<or> (a = 169 \<and> b = 254) \<or> 224 \<le> a \<or> (a = 0 \<and> b = 0 \<and> c = 0 \<and> d = 0)"
proof -
  let ?v = "((a * 256 + b) * 256 + c) * 256 + d"
  have cut: "(x * 256 + y) div 256 = x" if "y < 256" for x y :: nat using that by simp
  have d16: "?v div 2 ^ 16 = a * 256 + b"
    using cut [OF assms(3)] cut [OF assms(4)] div_mult2_eq [of ?v 256 256] by simp
  have d24: "?v div 2 ^ 24 = a"
    using div_mult2_eq [of ?v "2 ^ 16" 256] cut [OF assms(2)] by (simp add: d16 [simplified])
  have d28: "?v div 2 ^ 28 = a div 16"
    using div_mult2_eq [of ?v "2 ^ 24" 16] by (simp add: d24 [simplified])
  have "a * 256 + b = 43518 \<longleftrightarrow> a = 169 \<and> b = 254"
  proof
    assume eq: "a * 256 + b = 43518"
    have "a = 43518 div 256" using cut [OF assms(2), of a] by (simp add: eq)
    then show "a = 169 \<and> b = 254" using eq by simp
  qed simp
  moreover have "a div 16 = 14 \<or> a div 16 = 15 \<longleftrightarrow> 224 \<le> a"
  proof -
    have "a div 16 < 16" using assms(1) by simp
    then have "a div 16 = 14 \<or> a div 16 = 15 \<longleftrightarrow> 14 \<le> a div 16" by arith
    then show ?thesis by (simp add: less_eq_div_iff_mult_less_eq)
  qed
  ultimately show ?thesis unfolding ipv4_refused_def in_net_def d16 d24 d28 by auto
qed

lemma validate_dotted:
  assumes "a < 256" "b < 256" "c < 256" "d < 256" and "list_all url_char_ok p" and "length p \<le> 2000"
  shows "validate_media_url (http_url (dotted a b c d) p) =
     (if a = 127 \<or> (a = 169 \<and> b = 254) \<or> 224 \<le> a \<or> (a = 0 \<and> b = 0 \<and> c = 0 \<and> d = 0)
      then Inl blocked_url_error else Inr (http_url (dotted a b c d) p))"
proof -
  have "length (show_nat n) \<le> 3" if "n < 256" for n using that by (intro show_nat_length) simp_all
  then have "length (show_nat a) \<le> 3" "length (show_nat b) \<le> 3" "length (show_nat c) \<le> 3"
    "length (show_nat d) \<le> 3" using assms(1-4) by blast+
  then have "length (dotted a b c d) \<le> 15" by (simp add: dotted_def)
  then have len: "length (dotted a b c d) + length p \<le> 2040" using assms(6) by simp
  have media: "media_address (dotted a b c d) = Some (IPv4 (((a * 256 + b) * 256 + c) * 256 + d))"
    by (simp add: media_address_def ip_address_dotted [OF assms(1-4)])
  have "media_host_is_blocked (dotted a b c d) \<longleftrightarrow>
      a = 127 \<or> (a = 169 \<and> b = 254) \<or> 224 \<le> a \<or> (a = 0 \<and> b = 0 \<and> c = 0 \<and> d = 0)"
    by (simp only: numeric_blocked [OF numeric_dotted] media option.case ip_address.case refused_octets [OF assms(1-4)])
  then show ?thesis
    using len validate_plain_host [OF numeric_dotted assms(5)] by simp
qed

section \<open>Properties\<close>

text \<open>
  C17. Which literal IPv4 targets a media URL may name, end to end through the URL parser: exactly the
  addresses outside loopback, link-local, multicast, reserved and the unspecified one. The URL is
  returned unchanged, and a refusal says why.
\<close>

theorem media_url_dotted_targets:
  assumes "a < 256" "b < 256" "c < 256" "d < 256" and "list_all url_char_ok p" and "length p \<le> 2000"
  shows "validate_media_url (http_url (dotted a b c d) p) =
     (if a = 127 \<or> (a = 169 \<and> b = 254) \<or> 224 \<le> a \<or> (a = 0 \<and> b = 0 \<and> c = 0 \<and> d = 0)
      then Inl blocked_url_error else Inr (http_url (dotted a b c d) p))"
  using assms by (rule validate_dotted)

theorem media_url_dotted_targets_witness:
  "validate_media_url (http_url (dotted 127 0 0 1) ''a'') = Inl blocked_url_error \<and>
   validate_media_url (http_url (dotted 192 168 1 5) ''a'') = Inr (http_url (dotted 192 168 1 5) ''a'')"
  using media_url_dotted_targets [of 127 0 0 1 "''a''"] media_url_dotted_targets [of 192 168 1 5 "''a''"]
  by (simp add: url_char_ok_def ord_of_def)

text \<open>
  A host spelt as one decimal number is judged exactly as the dotted spelling of the same address.
\<close>

theorem media_host_single_number:
  assumes "a < 256" "b < 256" "c < 256" "d < 256"
  shows "media_host_is_blocked (show_nat (((a * 256 + b) * 256 + c) * 256 + d)) =
         media_host_is_blocked (dotted a b c d)"
proof -
  let ?n = "((a * 256 + b) * 256 + c) * 256 + d"
  have "?n \<le> 4294967295" using assms by simp
  then have "media_address (show_nat ?n) = Some (IPv4 ?n)"
    by (simp add: media_address_def ip_address_single py_int0_show)
  then show ?thesis
    by (simp add: numeric_blocked numeric_single numeric_dotted media_address_def ip_address_dotted [OF assms])
qed

theorem media_host_single_number_witness: "media_host_is_blocked (show_nat 2130706433)"
  using media_host_single_number [of 127 0 0 1]
  by (simp add: numeric_blocked numeric_dotted media_address_def ip_address_dotted ipv4_refused_def in_net_def)

text \<open>
  The short form of a numeric address is a name to the policy, whatever it denotes: a host of two
  numbers (such as \<open>127.1\<close>, which resolvers read as \<open>127.0.0.1\<close>) is never blocked.
\<close>

theorem media_host_short_form_passes: "\<not> media_host_is_blocked (show_nat a @ CHR ''.'' # show_nat b)"
proof -
  let ?h = "show_nat a @ CHR ''.'' # show_nat b"
  have num: "numeric_host ?h"
    using show_nat_facts by (auto simp: numeric_host_def list_all_iff)
  have "CHR '':'' \<notin> set ?h" "CHR ''%'' \<notin> set ?h" "CHR ''/'' \<notin> set ?h"
    using numeric_chars [OF num, THEN digit_or_dot(6)] by blast+
  moreover have "split_on (CHR ''.'') ?h = [show_nat a, show_nat b]"
    by (simp add: split_on_sep split_on_none show_nat_facts)
  ultimately have "ip_address ?h = None"
    by (simp add: ip_address_def ipv4_of_string_def split_on_none ipv6_address_def ipv6_of_string_def
      ipv6_parts_def before_absent split: option.splits)
  moreover have "py_int0 ?h = None" by (rule py_int0_dot) (use num numeric_chars in \<open>auto simp: numeric_normal\<close>)
  ultimately show ?thesis by (simp add: numeric_blocked [OF num] media_address_def)
qed

end
