(* ===== verification/Display_Text.thy ===== *)
theory Display_Text
  imports Media_Url
begin

text \<open>
  Display metadata of \<open>ha/player.py\<close>: \<open>_text\<close>, the bounded text the bridge shows for a stream, and
  \<open>_title_from_url\<close>. Texts are lists of code points here, because \<open>unquote\<close> produces characters outside
  Latin-1: it decodes the percent escapes of each ASCII run as UTF-8, one U+FFFD per malformed sequence.
\<close>

type_synonym utext = "nat list"

definition utext_of :: "string \<Rightarrow> utext" where "utext_of s = map ord_of s"

section \<open>Percent decoding (urllib.parse.unquote)\<close>

definition hex_code :: "nat \<Rightarrow> nat option" where
  "hex_code n =
     (if 48 \<le> n \<and> n \<le> 57 then Some (n - 48)
      else if 97 \<le> n \<and> n \<le> 102 then Some (n - 87)
      else if 65 \<le> n \<and> n \<le> 70 then Some (n - 55)
      else None)"

definition escape_of :: "utext \<Rightarrow> nat option" where
  "escape_of s =
     (case s of a # b # _ \<Rightarrow> (case (hex_code a, hex_code b) of (Some x, Some y) \<Rightarrow> Some (16 * x + y) | _ \<Rightarrow> None)
      | _ \<Rightarrow> None)"

fun unquote_to_bytes :: "utext \<Rightarrow> nat list" where
  "unquote_to_bytes [] = []"
| "unquote_to_bytes (c # cs) =
     (if c = 37 then (case escape_of cs of Some v \<Rightarrow> v # unquote_to_bytes (drop 2 cs) | None \<Rightarrow> c # unquote_to_bytes cs)
      else c # unquote_to_bytes cs)"

definition REPLACEMENT :: nat where "REPLACEMENT = 0xFFFD"

definition continuation :: "nat \<Rightarrow> bool" where "continuation b \<longleftrightarrow> 128 \<le> b \<and> b < 192"

definition second_ok :: "nat \<Rightarrow> nat \<Rightarrow> bool" where
  "second_ok b1 b2 \<longleftrightarrow>
     continuation b2 \<and> (b1 = 224 \<longrightarrow> 160 \<le> b2) \<and> (b1 = 237 \<longrightarrow> b2 < 160) \<and>
     (b1 = 240 \<longrightarrow> 144 \<le> b2) \<and> (b1 = 244 \<longrightarrow> b2 < 144)"

text \<open>
  \<open>decode('utf-8', 'replace')\<close>: the character a sequence starting with \<open>b1\<close> gives, and how many of the
  following bytes belong to it. A malformed sequence ends before the first byte that cannot continue it.
\<close>

definition utf8_step :: "nat \<Rightarrow> nat list \<Rightarrow> nat \<times> nat" where
  "utf8_step b1 bs =
     (if b1 < 128 then (b1, 0)
      else if 194 \<le> b1 \<and> b1 \<le> 223 then
        (case bs of b2 # _ \<Rightarrow>
           if continuation b2 then ((b1 - 192) * 64 + (b2 - 128), 1) else (REPLACEMENT, 0)
         | [] \<Rightarrow> (REPLACEMENT, 0))
      else if 224 \<le> b1 \<and> b1 \<le> 239 then
        (case bs of b2 # r \<Rightarrow>
           if \<not> second_ok b1 b2 then (REPLACEMENT, 0)
           else (case r of b3 # _ \<Rightarrow>
                   if continuation b3 then ((b1 - 224) * 4096 + (b2 - 128) * 64 + (b3 - 128), 2)
                   else (REPLACEMENT, 1)
                 | [] \<Rightarrow> (REPLACEMENT, 1))
         | [] \<Rightarrow> (REPLACEMENT, 0))
      else if 240 \<le> b1 \<and> b1 \<le> 244 then
        (case bs of b2 # r \<Rightarrow>
           if \<not> second_ok b1 b2 then (REPLACEMENT, 0)
           else (case r of b3 # r' \<Rightarrow>
                   if \<not> continuation b3 then (REPLACEMENT, 1)
                   else (case r' of b4 # _ \<Rightarrow>
                           if continuation b4
                           then ((b1 - 240) * 262144 + (b2 - 128) * 4096 + (b3 - 128) * 64 + (b4 - 128), 3)
                           else (REPLACEMENT, 2)
                         | [] \<Rightarrow> (REPLACEMENT, 2))
                 | [] \<Rightarrow> (REPLACEMENT, 1))
         | [] \<Rightarrow> (REPLACEMENT, 0))
      else (REPLACEMENT, 0))"

fun utf8_decode :: "nat list \<Rightarrow> utext" where
  "utf8_decode [] = []"
| "utf8_decode (b1 # bs) =
     fst (utf8_step b1 bs) # utf8_decode (drop (snd (utf8_step b1 bs)) bs)"

definition ascii_code :: "nat \<Rightarrow> bool" where "ascii_code n \<longleftrightarrow> n < 128"

function unquote :: "utext \<Rightarrow> utext" where
  "unquote s =
     (if s = [] then []
      else (let run = takeWhile ascii_code s; rest = dropWhile ascii_code s
            in utf8_decode (unquote_to_bytes run) @ takeWhile (Not \<circ> ascii_code) rest
               @ unquote (dropWhile (Not \<circ> ascii_code) rest)))"
  by pat_completeness auto

lemma runs_consumed: "s \<noteq> [] \<Longrightarrow> length (dropWhile (Not \<circ> P) (dropWhile P s)) < length s"
proof (cases s)
  case (Cons c cs)
  have shorter: "length (dropWhile Q ys) \<le> length ys" for Q and ys :: "'a list" by (rule length_dropWhile_le)
  show ?thesis
  proof (cases "P c")
    case True
    then have "length (dropWhile (Not \<circ> P) (dropWhile P s)) \<le> length cs"
      using shorter [of "Not \<circ> P" "dropWhile P cs"] shorter [of P cs] by (simp add: Cons)
    then show ?thesis by (simp add: Cons)
  next
    case False
    then show ?thesis using shorter [of "Not \<circ> P" cs] by (simp add: Cons)
  qed
qed simp

termination unquote
  by (relation "measure length") (auto simp: runs_consumed)

declare unquote.simps [simp del]

section \<open>Display texts\<close>

definition u_space :: "nat \<Rightarrow> bool" where
  "u_space n \<longleftrightarrow> (9 \<le> n \<and> n \<le> 13) \<or> (28 \<le> n \<and> n \<le> 32) \<or> n \<in> {133, 160, 0x1680, 0x2028, 0x2029, 0x202F, 0x205F, 0x3000}
     \<or> (0x2000 \<le> n \<and> n \<le> 0x200A)"

definition u_strip :: "utext \<Rightarrow> utext" where
  "u_strip s = rev (dropWhile u_space (rev (dropWhile u_space s)))"

fun u_in :: "utext \<Rightarrow> utext \<Rightarrow> bool" where
  "u_in n [] = (n = [])"
| "u_in n (c # cs) = (take (length n) (c # cs) = n \<or> u_in n cs)"

definition URL_MARK :: utext where "URL_MARK = [58, 47, 47]"

text \<open>
  The loop of \<open>_text\<close>: \<open>Some None\<close> is the early return, \<open>Some (Some d)\<close> the fully decoded text, and \<open>None\<close>
  would be a loop that never ends.
\<close>

partial_function (option) decode_loop :: "utext \<Rightarrow> utext option option" where
  "decode_loop decoded =
     (if u_in URL_MARK decoded then Some None
      else (let next_decoded = unquote decoded
            in if next_decoded = decoded then Some (Some decoded) else decode_loop next_decoded))"

text \<open>
  \<open>_DISPLAY_URI_SCHEME\<close>. Ignoring case, \<open>[a-z]\<close> also matches four letters outside ASCII.
\<close>

definition folded_letter :: "nat \<Rightarrow> bool" where
  "folded_letter n \<longleftrightarrow> (97 \<le> n \<and> n \<le> 122) \<or> (65 \<le> n \<and> n \<le> 90) \<or> n \<in> {0x130, 0x131, 0x17F, 0x212A}"

definition uri_scheme_char :: "nat \<Rightarrow> bool" where
  "uri_scheme_char n \<longleftrightarrow> folded_letter n \<or> (48 \<le> n \<and> n \<le> 57) \<or> n \<in> {43, 46, 45}"

definition display_uri_scheme :: "utext \<Rightarrow> bool" where
  "display_uri_scheme s \<longleftrightarrow>
     (case s of [] \<Rightarrow> False
      | c # cs \<Rightarrow> folded_letter c \<and>
          (case dropWhile uri_scheme_char cs of k # d # _ \<Rightarrow> k = 58 \<and> \<not> u_space d | _ \<Rightarrow> False))"

definition display_control :: "nat \<Rightarrow> bool" where
  "display_control n \<longleftrightarrow> n < 32 \<or> (127 \<le> n \<and> n \<le> 159)"

definition TITLE_MAX_LENGTH :: nat where [simp]: "TITLE_MAX_LENGTH = 128"

definition display_text :: "utext \<Rightarrow> utext option" where
  "display_text value =
     (let shown = take TITLE_MAX_LENGTH (u_strip value)
      in case decode_loop shown of
           Some (Some decoded) \<Rightarrow>
             if shown = [] \<or> display_uri_scheme decoded \<or> list_ex display_control decoded then None else Some shown
         | _ \<Rightarrow> None)"

text \<open>\<open>_text\<close> of a value that may be something else than a string.\<close>

definition text_of :: "utext option \<Rightarrow> utext option" where
  "text_of value = Option.bind value display_text"

section \<open>Titles from URLs\<close>

definition TTS_STREAM_MARKER :: utext where "TTS_STREAM_MARKER = utext_of ''/api/tts_proxy/''"
definition TTS_STREAM_TITLE :: utext where "TTS_STREAM_TITLE = utext_of ''Text to speech''"

definition u_after_last :: "nat \<Rightarrow> utext \<Rightarrow> utext" where
  "u_after_last c s = rev (takeWhile (\<lambda>d. d \<noteq> c) (rev s))"

definition u_before_last :: "nat \<Rightarrow> utext \<Rightarrow> utext" where
  "u_before_last c s = rev (tl (dropWhile (\<lambda>d. d \<noteq> c) (rev s)))"

definition title_from_url :: "string \<Rightarrow> utext option" where
  "title_from_url url =
     (case urlsplit url of
        Inl _ \<Rightarrow> None
      | Inr parsed \<Rightarrow>
          (let path = utext_of (u_path parsed)
           in if u_in TTS_STREAM_MARKER path then Some TTS_STREAM_TITLE
              else (let name = u_strip (unquote (u_after_last 47 path))
                    in if name = [] then None
                       else (let stem = (if 46 \<in> set (tl name) then u_before_last 46 name else name)
                             in display_text (u_strip (map (\<lambda>n. if n = 95 then 32 else n) stem))))))"

section \<open>The decoding shrinks its text\<close>

lemma utf8_decode_length: "length (utf8_decode bs) \<le> length bs"
proof (induction bs rule: utf8_decode.induct)
  case (2 b1 bs)
  then have "length (utf8_decode (drop (snd (utf8_step b1 bs)) bs)) \<le> length bs"
    by (rule order_trans) simp
  then show ?case by simp
qed simp

lemma utf8_decode_ascii: "list_all ascii_code s \<Longrightarrow> utf8_decode s = s"
  by (induction s) (auto simp: ascii_code_def utf8_step_def)

lemma escape_of_length: "escape_of s = Some v \<Longrightarrow> 2 \<le> length s"
  by (auto simp: escape_of_def split: list.splits)

lemma unquote_to_bytes_shrinks:
  "unquote_to_bytes s = s \<or> length (unquote_to_bytes s) < length s"
proof (induction s rule: unquote_to_bytes.induct)
  case (2 c cs)
  show ?case
  proof (cases "c = 37 \<and> escape_of cs \<noteq> None")
    case True
    then obtain v where v: "escape_of cs = Some v" by auto
    have "length (unquote_to_bytes (drop 2 cs)) \<le> length (drop 2 cs)" using 2 True v by auto
    then have "length (unquote_to_bytes (drop 2 cs)) < length cs" using escape_of_length [OF v] by simp
    then show ?thesis using True v by simp
  next
    case False
    then show ?thesis using 2 by (auto split: option.splits)
  qed
qed simp

lemma unquote_to_bytes_unchanged_or_shorter:
  assumes "list_all ascii_code s"
  shows "utf8_decode (unquote_to_bytes s) = s \<or> length (utf8_decode (unquote_to_bytes s)) < length s"
  using unquote_to_bytes_shrinks [of s] utf8_decode_ascii [OF assms] utf8_decode_length [of "unquote_to_bytes s"]
  by auto

lemma unquote_shrinks: "unquote s = s \<or> length (unquote s) < length s"
proof (induction s rule: unquote.induct)
  case (1 s)
  show ?case
  proof (cases "s = []")
    case True
    then show ?thesis by (subst unquote.simps) simp
  next
    case False
    let ?run = "takeWhile ascii_code s" and ?rest = "dropWhile ascii_code s"
    let ?wide = "takeWhile (Not \<circ> ascii_code) ?rest" and ?more = "dropWhile (Not \<circ> ascii_code) ?rest"
    have parts: "s = ?run @ ?wide @ ?more" by simp
    have eq: "unquote s = utf8_decode (unquote_to_bytes ?run) @ ?wide @ unquote ?more"
      by (subst unquote.simps) (simp add: False Let_def)
    have "list_all ascii_code ?run" by (auto simp: list_all_iff dest: set_takeWhileD)
    then have run: "utf8_decode (unquote_to_bytes ?run) = ?run \<or>
        length (utf8_decode (unquote_to_bytes ?run)) < length ?run"
      by (rule unquote_to_bytes_unchanged_or_shorter)
    have more: "unquote ?more = ?more \<or> length (unquote ?more) < length ?more"
      using 1 [OF False refl refl] .
    have len: "length s = length ?run + length ?wide + length ?more"
      by (metis add.assoc length_append parts)
    have "unquote s = s" if "utf8_decode (unquote_to_bytes ?run) = ?run" "unquote ?more = ?more"
      unfolding eq that using parts by simp
    moreover have "length (unquote s) < length s"
      if "\<not> (utf8_decode (unquote_to_bytes ?run) = ?run \<and> unquote ?more = ?more)"
      using that run more unfolding eq len length_append by fastforce
    ultimately show ?thesis by blast
  qed
qed

lemma unquote_fixed_iterate: "unquote s = s \<Longrightarrow> (unquote ^^ k) s = s"
  by (induction k) auto

lemma iterate_fixed: "length s \<le> k \<Longrightarrow> unquote ((unquote ^^ k) s) = (unquote ^^ k) s"
proof (induction k arbitrary: s)
  case 0
  then show ?case by (subst unquote.simps) simp
next
  case (Suc k)
  show ?case
  proof (cases "unquote s = s")
    case True
    then show ?thesis by (simp add: unquote_fixed_iterate)
  next
    case False
    then have "length (unquote s) \<le> k" using unquote_shrinks [of s] Suc.prems by auto
    then show ?thesis using Suc.IH [of "unquote s"] by (simp add: funpow_swap1)
  qed
qed

lemma decode_loop_run:
  assumes "\<forall>i < k. \<not> u_in URL_MARK ((unquote ^^ i) s)"
  shows "decode_loop s = decode_loop ((unquote ^^ k) s)"
  using assms
proof (induction k)
  case (Suc k)
  let ?d = "(unquote ^^ k) s"
  have "decode_loop s = decode_loop ?d" using Suc by simp
  also have "\<dots> = decode_loop (unquote ?d)"
  proof (cases "unquote ?d = ?d")
    case False
    then show ?thesis using Suc.prems by (subst decode_loop.simps) (simp add: Let_def)
  qed simp
  finally show ?case by simp
qed simp

lemma iterate_bounded: "length s \<le> k \<Longrightarrow> (unquote ^^ k) s = (unquote ^^ length s) s"
proof (induction k)
  case (Suc k)
  show ?case
  proof (cases "length s = Suc k")
    case False
    then have "(unquote ^^ Suc k) s = (unquote ^^ k) s" using Suc.prems iterate_fixed [of s k] by simp
    then show ?thesis using False Suc by simp
  qed simp
qed simp

lemma decode_loop_value:
  "decode_loop s =
     Some (if \<exists>k \<le> length s. u_in URL_MARK ((unquote ^^ k) s) then None else Some ((unquote ^^ length s) s))"
proof (cases "\<exists>k \<le> length s. u_in URL_MARK ((unquote ^^ k) s)")
  case True
  define k where "k = (LEAST k. k \<le> length s \<and> u_in URL_MARK ((unquote ^^ k) s))"
  have k: "k \<le> length s" "u_in URL_MARK ((unquote ^^ k) s)"
    using LeastI_ex [OF True] by (simp_all add: k_def)
  have "\<forall>i < k. \<not> u_in URL_MARK ((unquote ^^ i) s)"
    using not_less_Least [of _ "\<lambda>k. k \<le> length s \<and> u_in URL_MARK ((unquote ^^ k) s)"] k(1)
    unfolding k_def by fastforce
  then have "decode_loop s = decode_loop ((unquote ^^ k) s)" by (rule decode_loop_run)
  also have "\<dots> = Some None" using k(2) by (subst decode_loop.simps) simp
  finally show ?thesis using True by simp
next
  case False
  let ?d = "(unquote ^^ length s) s"
  have "decode_loop s = decode_loop ?d" using False by (intro decode_loop_run) auto
  also have "\<dots> = Some (Some ?d)"
    using False iterate_fixed [of s "length s"] by (subst decode_loop.simps) auto
  finally show ?thesis using False by auto
qed


lemma display_text_hi: "display_text [104, 105] = Some [104, 105]"
proof -
  have strip: "u_strip [104, 105] = [104, 105]" by (simp add: u_strip_def u_space_def)
  have un: "unquote [104, 105] = [104, 105]"
    by (subst unquote.simps) (simp add: ascii_code_def utf8_step_def, subst unquote.simps, simp)
  have "decode_loop [104, 105] = Some (Some [104, 105])"
    by (subst decode_loop.simps) (simp add: un URL_MARK_def)
  then show ?thesis
    by (simp add: display_text_def strip display_uri_scheme_def display_control_def uri_scheme_char_def folded_letter_def)
qed

lemma display_text_shape:
  assumes "display_text value = Some t"
  shows "t \<noteq> [] \<and> length t \<le> TITLE_MAX_LENGTH \<and> (\<forall>k. \<not> u_in URL_MARK ((unquote ^^ k) t)) \<and>
    (\<exists>k. unquote ((unquote ^^ k) t) = (unquote ^^ k) t \<and> \<not> display_uri_scheme ((unquote ^^ k) t) \<and>
         list_all (\<lambda>c. \<not> display_control c) ((unquote ^^ k) t))"
proof -
  have t: "t = take TITLE_MAX_LENGTH (u_strip value)" "t \<noteq> []"
    and none: "\<not> (\<exists>k \<le> length t. u_in URL_MARK ((unquote ^^ k) t))"
    and final: "\<not> display_uri_scheme ((unquote ^^ length t) t)"
      "\<not> list_ex display_control ((unquote ^^ length t) t)"
    using assms by (auto simp: display_text_def Let_def decode_loop_value split: if_splits)
  have "\<not> u_in URL_MARK ((unquote ^^ k) t)" for k
    using none iterate_bounded [of t k] by (cases "k \<le> length t") auto
  moreover have "list_all (\<lambda>c. \<not> display_control c) ((unquote ^^ length t) t)"
    using final(2) by (simp add: list_ex_iff list_all_iff)
  moreover have "unquote ((unquote ^^ length t) t) = (unquote ^^ length t) t" by (simp add: iterate_fixed)
  moreover have "length t \<le> TITLE_MAX_LENGTH" unfolding t(1) by (simp only: length_take min.cobounded2)
  ultimately show ?thesis using t(2) final(1) by blast
qed

section \<open>Properties\<close>

text \<open>
  C32. The decoding loop always ends, after at most as many rounds as the text has characters: each round that
  changes the text shortens it. What it computes: it returns early exactly when some decoding depth
  shows a URL, and otherwise gives the text no further decoding changes.
\<close>

theorem decode_loop_terminates:
  "decode_loop s =
     Some (if \<exists>k \<le> length s. u_in URL_MARK ((unquote ^^ k) s) then None else Some ((unquote ^^ length s) s))"
  by (rule decode_loop_value)

text \<open>
  C33. What is shown never hides a URL: a display text is non-empty, at most 128 characters long, and at no
  depth of percent decoding it contains \<open>://\<close>; its decoded form has no control character and does not start
  like a URI.
\<close>

theorem display_text_hides_no_url:
  assumes "display_text value = Some t"
  shows "t \<noteq> [] \<and> length t \<le> TITLE_MAX_LENGTH \<and> (\<forall>k. \<not> u_in URL_MARK ((unquote ^^ k) t)) \<and>
    (\<exists>k. unquote ((unquote ^^ k) t) = (unquote ^^ k) t \<and> \<not> display_uri_scheme ((unquote ^^ k) t) \<and>
         list_all (\<lambda>c. \<not> display_control c) ((unquote ^^ k) t))"
  using display_text_shape [OF assms] .

theorem display_text_hides_no_url_witness:
  "display_text [104, 105] = Some [104, 105] \<and> \<not> u_in URL_MARK ((unquote ^^ 3) [104, 105])"
  using display_text_hides_no_url [OF display_text_hi] display_text_hi by blast

end
