(* ===== verification/Player_State.thy ===== *)
theory Player_State
  imports Async Health Config_Store Display_Text "HOL-Library.Multiset"
begin

text \<open>
  The state of \<open>MediaPlayerBridge\<close> (\<open>ha/player.py\<close>) and its synchronous operations. A queue session is an
  object (the code compares sessions with \<open>is\<close>, and a coroutine keeps using one after it was replaced), so
  sessions live in a heap. The items of a session are objects too: \<open>s_pool\<close> holds them, and the lists of the
  session (\<open>s_items\<close>, \<open>s_original\<close>, \<open>s_history\<close>) hold their positions in it. Child processes are numbers;
  \<open>p_procs\<close> says whether one has exited.
\<close>

section \<open>Data\<close>

datatype playback_state = PLAYBACK_IDLE | PLAYBACK_PLAYING | PLAYBACK_PAUSED

datatype repeat_mode = Repeat_off | Repeat_one | Repeat_all

definition repeat_of :: "string \<Rightarrow> repeat_mode option" where
  "repeat_of s = (if s = ''off'' then Some Repeat_off else if s = ''one'' then Some Repeat_one
     else if s = ''all'' then Some Repeat_all else None)"

datatype session_status = Session_playing | Session_paused | Session_failed | Session_completed

record queue_item =
  qi_url :: string
  qi_title :: "utext option"
  qi_artist :: "utext option"

type_synonym process_pair = "nat \<times> nat"

record session =
  s_generation :: nat
  s_playlist :: utext
  s_pool :: "queue_item list"
  s_items :: "nat list"
  s_original :: "nat list"
  s_index :: nat
  s_shuffle :: bool
  s_repeat :: repeat_mode
  s_status :: session_status
  s_error :: "string option"
  s_processes :: "process_pair option"
  s_history :: "nat list"

definition new_session :: "nat \<Rightarrow> utext \<Rightarrow> queue_item list \<Rightarrow> session" where
  "new_session generation playlist items =
     \<lparr>s_generation = generation, s_playlist = playlist, s_pool = items, s_items = [0..<length items],
      s_original = [0..<length items], s_index = 0, s_shuffle = False, s_repeat = Repeat_off,
      s_status = Session_playing, s_error = None, s_processes = None, s_history = []\<rparr>"

record timeline =
  tl_position :: real
  tl_clock_started_at :: "real option"
  tl_duration :: "real option"
  tl_url :: string
  tl_title :: "utext option"
  tl_artist :: "utext option"

record process =
  pr_returncode :: "int option"
  pr_stopped :: bool
  pr_terminating :: bool
  pr_killed :: bool

text \<open>The background tasks that have been started, with their arguments.\<close>

datatype background =
    Probe_duration string string "nat option"
  | Drain_output nat
  | Pipe_audio nat nat
  | Watch_processes string nat nat "nat option"
  | Reap_processes string "nat list"
  | Warm_sink string

text \<open>A loop task: it runs, it returned (its cancellation is caught inside), or it ended with an error.\<close>

datatype loop_task = Loop_running | Loop_returned | Loop_failed py_exc

record player =
  p_states :: "playback_state dict"
  p_volumes :: "real dict"
  p_sink_rates :: "int dict"
  p_active :: "process_pair dict"
  p_sessions :: "nat dict"
  p_heap :: "nat \<Rightarrow> session"
  p_next_session :: nat
  p_generations :: "nat dict"
  p_last_urls :: "string dict"
  p_timelines :: "timeline dict"
  p_tasks :: "background list"
  p_keepalive :: "string list"
  p_keepalive_task :: "loop_task option"
  p_volume_task :: "loop_task option"
  p_last_codec :: "string dict"
  p_warmups :: "string list"
  p_locks :: "string list"
  p_procs :: "nat \<Rightarrow> process"
  p_next_process :: nat
  p_settings :: player_settings
  p_config :: "config_store option"
  p_health :: "registry option"
  p_callback :: bool

definition exited_process :: process where
  "exited_process = \<lparr>pr_returncode = Some 0, pr_stopped = False, pr_terminating = False, pr_killed = False\<rparr>"

definition startup_volumes :: "config_store option \<Rightarrow> real dict" where
  "startup_volumes store =
     (case store of None \<Rightarrow> []
      | Some cs \<Rightarrow> fold (\<lambda>(address, s) d.
          (case normalize_address address of
             Inr a \<Rightarrow> dict_set a (of_int (ss_default_volume s) / 100) d
           | Inl _ \<Rightarrow> d)) (speakers_of cs) [])"

definition new_player :: "config_store option \<Rightarrow> registry option \<Rightarrow> bool \<Rightarrow> player" where
  "new_player store health callback =
     \<lparr>p_states = [], p_volumes = startup_volumes store, p_sink_rates = [], p_active = [], p_sessions = [],
      p_heap = (\<lambda>_. new_session 0 [] []), p_next_session = 0, p_generations = [], p_last_urls = [],
      p_timelines = [], p_tasks = [], p_keepalive = [], p_keepalive_task = None, p_volume_task = None,
      p_last_codec = [], p_warmups = [], p_locks = [], p_procs = (\<lambda>_. exited_process), p_next_process = 0,
      p_settings = (case store of Some cs \<Rightarrow> player_config (cs_settings cs) | None \<Rightarrow> default_player_settings),
      p_config = store, p_health = health, p_callback = callback\<rparr>"

section \<open>Sessions and generations\<close>

definition generation_of :: "player \<Rightarrow> string \<Rightarrow> nat option" where
  "generation_of p a = dict_get (p_generations p) a"

definition next_playback_generation :: "string \<Rightarrow> player \<Rightarrow> nat \<times> player" where
  "next_playback_generation a p =
     (let g = (case generation_of p a of Some n \<Rightarrow> n | None \<Rightarrow> 0) + 1
      in (g, p\<lparr>p_generations := dict_set a g (p_generations p)\<rparr>))"

definition update_session :: "nat \<Rightarrow> (session \<Rightarrow> session) \<Rightarrow> player \<Rightarrow> player" where
  "update_session oid f p = p\<lparr>p_heap := (p_heap p)(oid := f (p_heap p oid))\<rparr>"

definition blank_urls :: "session \<Rightarrow> session" where
  "blank_urls s =
     s\<lparr>s_pool := map (\<lambda>i. if i \<in> set (s_items s) then (s_pool s ! i)\<lparr>qi_url := []\<rparr> else s_pool s ! i)
                    [0..<length (s_pool s)]\<rparr>"

definition clear_session :: "session \<Rightarrow> session" where
  "clear_session s = (blank_urls s)\<lparr>s_items := [], s_history := [], s_processes := None\<rparr>"

text \<open>Called with a normalised address; the one that takes any text is \<open>invalidate_playback_session\<close>.\<close>

definition invalidate_session :: "string \<Rightarrow> player \<Rightarrow> nat \<times> player" where
  "invalidate_session a p =
     (case next_playback_generation a p of (g, p1) \<Rightarrow>
        (case dict_get (p_sessions p1) a of
           None \<Rightarrow> (g, p1)
         | Some oid \<Rightarrow>
             (g, (update_session oid clear_session p1)\<lparr>p_sessions := dict_del a (p_sessions p1),
                    p_last_urls := dict_del a (p_last_urls p1)\<rparr>)))"

definition invalidate_playback_session :: "string \<Rightarrow> player \<Rightarrow> (py_exc + nat) \<times> player" where
  "invalidate_playback_session address p =
     (case normalize_address address of
        Inl e \<Rightarrow> (Inl e, p)
      | Inr a \<Rightarrow> (case invalidate_session a p of (g, p') \<Rightarrow> (Inr g, p')))"

section \<open>Timelines\<close>

definition timeline_position :: "real \<Rightarrow> timeline \<Rightarrow> real" where
  "timeline_position now t =
     max (tl_position t + (case tl_clock_started_at t of Some c \<Rightarrow> now - c | None \<Rightarrow> 0)) 0"

text \<open>\<open>round(x)\<close>: to the nearest integer, ties to the even one.\<close>

definition py_round :: "real \<Rightarrow> int" where
  "py_round x = (let f = \<lfloor>x\<rfloor>; d = x - of_int f
     in if d < 1 / 2 then f else if d > 1 / 2 then f + 1 else if even f then f else f + 1)"

definition round_3 :: "real \<Rightarrow> real" where
  "round_3 x = of_int (py_round (x * 1000)) / 1000"

record timeline_view =
  tv_position :: "real option"
  tv_duration :: "real option"
  tv_updated_at :: "real option"
  tv_title :: "utext option"
  tv_artist :: "utext option"

definition get_timeline :: "real \<Rightarrow> player \<Rightarrow> string \<Rightarrow> timeline_view" where
  "get_timeline now p a =
     (case dict_get (p_timelines p) a of
        None \<Rightarrow> \<lparr>tv_position = None, tv_duration = None, tv_updated_at = None, tv_title = None, tv_artist = None\<rparr>
      | Some t \<Rightarrow>
          (let position = timeline_position now t;
               position' = (case tl_duration t of Some d \<Rightarrow> min position d | None \<Rightarrow> position)
           in \<lparr>tv_position = Some (round_3 position'), tv_duration = tl_duration t, tv_updated_at = Some now,
               tv_title = text_of (tl_title t), tv_artist = text_of (tl_artist t)\<rparr>))"

definition start_timeline :: "real \<Rightarrow> string \<Rightarrow> string \<Rightarrow> utext option \<Rightarrow> player \<Rightarrow> player" where
  "start_timeline now a url title p =
     p\<lparr>p_timelines := dict_set a
        \<lparr>tl_position = 0, tl_clock_started_at = Some now, tl_duration = None, tl_url = url,
         tl_title = (case text_of title of Some t \<Rightarrow> Some t | None \<Rightarrow> title_from_url url), tl_artist = None\<rparr>
        (p_timelines p)\<rparr>"

definition pause_timeline :: "real \<Rightarrow> string \<Rightarrow> player \<Rightarrow> player" where
  "pause_timeline now a p =
     (case dict_get (p_timelines p) a of
        Some t \<Rightarrow>
          if tl_clock_started_at t = None then p
          else p\<lparr>p_timelines := dict_set a
                 (t\<lparr>tl_position := timeline_position now t, tl_clock_started_at := None\<rparr>) (p_timelines p)\<rparr>
      | None \<Rightarrow> p)"

definition resume_timeline :: "real \<Rightarrow> string \<Rightarrow> player \<Rightarrow> player" where
  "resume_timeline now a p =
     (case dict_get (p_timelines p) a of
        Some t \<Rightarrow>
          if tl_clock_started_at t \<noteq> None then p
          else p\<lparr>p_timelines := dict_set a (t\<lparr>tl_clock_started_at := Some now\<rparr>) (p_timelines p)\<rparr>
      | None \<Rightarrow> p)"

definition clear_timeline :: "string \<Rightarrow> player \<Rightarrow> player" where
  "clear_timeline a p = p\<lparr>p_timelines := dict_del a (p_timelines p)\<rparr>"

section \<open>States, volumes, the queue as published\<close>

definition get_state :: "player \<Rightarrow> string \<Rightarrow> playback_state" where
  "get_state p a = (case dict_get (p_states p) a of Some s \<Rightarrow> s | None \<Rightarrow> PLAYBACK_IDLE)"

definition set_state :: "string \<Rightarrow> playback_state \<Rightarrow> player \<Rightarrow> player" where
  "set_state a s p = p\<lparr>p_states := dict_set a s (p_states p)\<rparr>"

definition stored_default_volume :: "player \<Rightarrow> string \<Rightarrow> real" where
  "stored_default_volume p a =
     (case p_config p of
        Some cs \<Rightarrow>
          (case get_speaker cs a of
             Some s \<Rightarrow> of_int (ss_default_volume s) / of_int VOLUME_MAX_PERCENT
           | None \<Rightarrow> default_volume_ratio (p_settings p))
      | None \<Rightarrow> default_volume_ratio (p_settings p))"

definition get_volume :: "player \<Rightarrow> string \<Rightarrow> real" where
  "get_volume p a = (case dict_get (p_volumes p) a of Some v \<Rightarrow> v | None \<Rightarrow> stored_default_volume p a)"

record queue_view =
  qv_status :: session_status
  qv_playlist :: utext
  qv_title :: "utext option"
  qv_artist :: "utext option"
  qv_position :: "real option"
  qv_duration :: "real option"
  qv_updated_at :: "real option"
  qv_index :: nat
  qv_count :: nat
  qv_shuffle :: bool
  qv_repeat :: repeat_mode
  qv_error :: "string option"

definition get_queue :: "real \<Rightarrow> string \<Rightarrow> player \<Rightarrow> py_exc + queue_view option" where
  "get_queue now a p =
     (case dict_get (p_sessions p) a of
        None \<Rightarrow> Inr None
      | Some oid \<Rightarrow>
          (let s = p_heap p oid in
           if s_items s = [] then Inr None
           else if \<not> s_index s < length (s_items s) then Inl IndexError
           else (let item = s_pool s ! (s_items s ! s_index s); t = get_timeline now p a
             in Inr (Some
                \<lparr>qv_status = s_status s, qv_playlist = s_playlist s, qv_title = qi_title item,
                 qv_artist = qi_artist item, qv_position = tv_position t, qv_duration = tv_duration t,
                 qv_updated_at = tv_updated_at t, qv_index = s_index s + 1, qv_count = length (s_items s),
                 qv_shuffle = s_shuffle s, qv_repeat = s_repeat s, qv_error = s_error s\<rparr>))))"

section \<open>Queue requests\<close>

text \<open>
  An entry of a \<open>start_queue\<close> request: \<open>None\<close> where the field is missing or not a string; an entry that is
  not a mapping has no URL.
\<close>

record raw_item =
  ri_url :: "string option"
  ri_title :: "utext option"
  ri_artist :: "utext option"

definition MAX_QUEUE_ITEMS :: nat where [simp]: "MAX_QUEUE_ITEMS = 250"
definition MAX_QUEUE_PAYLOAD_BYTES :: nat where [simp]: "MAX_QUEUE_PAYLOAD_BYTES = 256 * 1024"

text \<open>\<open>len(text.encode('utf-8'))\<close>; a surrogate cannot be encoded.\<close>

fun utf8_length :: "utext \<Rightarrow> nat option" where
  "utf8_length [] = Some 0"
| "utf8_length (c # cs) =
     (if 0xD800 \<le> c \<and> c \<le> 0xDFFF then None
      else map_option (\<lambda>n. (if c < 0x80 then 1 else if c < 0x800 then 2 else if c < 0x10000 then 3 else 4) + n)
             (utf8_length cs))"

definition encoded_length :: "utext option \<Rightarrow> nat option" where
  "encoded_length t = utf8_length (case t of Some s \<Rightarrow> s | None \<Rightarrow> [])"

fun validate_items :: "raw_item list \<Rightarrow> (queue_item list \<times> nat) option" where
  "validate_items [] = Some ([], 0)"
| "validate_items (e # es) =
     (case ri_url e of
        None \<Rightarrow> None
      | Some u \<Rightarrow>
          (case validate_media_url u of
             Inl _ \<Rightarrow> None
           | Inr url \<Rightarrow>
               (let title = text_of (ri_title e); artist = text_of (ri_artist e)
                in case (utf8_length (utext_of url), encoded_length title, encoded_length artist, validate_items es) of
                     (Some a, Some b, Some c, Some (items, n)) \<Rightarrow>
                       Some (\<lparr>qi_url = url, qi_title = title, qi_artist = artist\<rparr> # items, a + b + c + n)
                   | _ \<Rightarrow> None)))"

definition queue_invalid :: py_exc where "queue_invalid = MediaPlayerError ''Queue request is invalid''"
definition queue_too_large :: py_exc where "queue_too_large = MediaPlayerError ''Queue request is too large''"
definition unicode_error :: py_exc where "unicode_error = ValueError ''surrogates not allowed''"

definition validate_queue :: "utext option \<Rightarrow> raw_item list \<Rightarrow> py_exc + utext \<times> queue_item list" where
  "validate_queue playlist items =
     (case text_of playlist of
        None \<Rightarrow> Inl queue_invalid
      | Some name \<Rightarrow>
          if \<not> (1 \<le> length items \<and> length items \<le> MAX_QUEUE_ITEMS) then Inl queue_invalid
          else (case utf8_length name of
                  None \<Rightarrow> Inl unicode_error
                | Some n \<Rightarrow>
                    (case validate_items items of
                       None \<Rightarrow> Inl queue_invalid
                     | Some (validated, m) \<Rightarrow>
                         if n + m > MAX_QUEUE_PAYLOAD_BYTES then Inl queue_too_large else Inr (name, validated))))"

section \<open>Queue order\<close>

text \<open>
  \<open>Random.shuffle\<close>: Fisher--Yates from the last position down; \<open>pick i\<close> is the random draw below \<open>i + 1\<close>.
\<close>

primrec shuffle_from :: "(nat \<Rightarrow> nat) \<Rightarrow> nat \<Rightarrow> 'a list \<Rightarrow> 'a list" where
  "shuffle_from pick 0 xs = xs"
| "shuffle_from pick (Suc i) xs =
     (let j = pick (Suc i) mod (Suc i + 1)
      in shuffle_from pick i (xs[Suc i := xs ! j, j := xs ! Suc i]))"

definition rng_shuffle :: "(nat \<Rightarrow> nat) \<Rightarrow> 'a list \<Rightarrow> 'a list" where
  "rng_shuffle pick xs = shuffle_from pick (length xs - 1) xs"

definition set_shuffle :: "(nat \<Rightarrow> nat) \<Rightarrow> bool \<Rightarrow> session \<Rightarrow> session" where
  "set_shuffle pick shuffle s =
     (if shuffle \<noteq> s_shuffle s
      then (let tail = drop (s_index s + 1) (s_items s);
                tail' = (if shuffle then rng_shuffle pick tail
                         else filter (\<lambda>i. i \<in> set tail) (s_original s))
            in s\<lparr>s_shuffle := shuffle, s_items := take (s_index s + 1) (s_items s) @ tail'\<rparr>)
      else s)"

text \<open>
  What happens to the session when its stream ends by itself (\<open>_watch_processes\<close>): \<open>None\<close> when the queue is
  over. With \<open>repeat one\<close> nothing moves.
\<close>

definition advance_session :: "session \<Rightarrow> py_exc + session option" where
  "advance_session s =
     (if s_repeat s = Repeat_one then Inr (Some s)
      else if s_index s + 1 < length (s_items s) then
        Inr (Some (s\<lparr>s_history := s_history s @ [s_items s ! s_index s], s_index := s_index s + 1\<rparr>))
      else if s_repeat s = Repeat_all then
        (if s_index s < length (s_items s)
         then Inr (Some (s\<lparr>s_history := s_history s @ [s_items s ! s_index s], s_index := 0\<rparr>))
         else Inl IndexError)
      else Inr None)"

datatype queue_operation = QO_play | QO_pause | QO_next | QO_previous | QO_set_shuffle | QO_set_repeat | QO_stop | QO_other

definition restart_current :: "real option \<Rightarrow> queue_operation \<Rightarrow> session \<Rightarrow> bool" where
  "restart_current position operation s \<longleftrightarrow>
     operation = QO_previous \<and> (s_index s = 0 \<or> (case position of Some x \<Rightarrow> x > 3 | None \<Rightarrow> False))"

text \<open>\<open>next(index for index, item in enumerate(items) if item is previous)\<close>; a miss is a \<open>RuntimeError\<close> in a coroutine.\<close>

fun position_of :: "nat \<Rightarrow> nat list \<Rightarrow> nat option" where
  "position_of x [] = None"
| "position_of x (y # ys) = (if x = y then Some 0 else map_option Suc (position_of x ys))"

definition next_index :: "real option \<Rightarrow> queue_operation \<Rightarrow> session \<Rightarrow> py_exc + nat" where
  "next_index position operation s =
     (if operation = QO_next then
        (if s_index s + 1 < length (s_items s) then Inr (s_index s + 1)
         else if s_repeat s = Repeat_all then Inr 0
         else Inl (MediaPlayerError ''No next item in queue''))
      else if operation = QO_previous \<and> \<not> restart_current position operation s then
        (if s_history s \<noteq> [] then
           (case position_of (last (s_history s)) (s_items s) of
              Some i \<Rightarrow> Inr i | None \<Rightarrow> Inl (RuntimeError ''coroutine raised StopIteration''))
         else Inr (s_index s - 1))
      else Inr (s_index s))"

definition replaces_process :: "queue_operation \<Rightarrow> session \<Rightarrow> bool" where
  "replaces_process operation s \<longleftrightarrow>
     operation \<in> {QO_next, QO_previous} \<or> (operation = QO_play \<and> s_status s = Session_failed)"

text \<open>
  The move of \<open>control_queue\<close> once the old stream is stopped. The session may have been cleared while the
  children exited; then there is no current item to remember.
\<close>

definition move_session :: "queue_operation \<Rightarrow> bool \<Rightarrow> nat \<Rightarrow> session \<Rightarrow> py_exc + session" where
  "move_session operation restart target s =
     (if operation = QO_next \<and> \<not> s_index s < length (s_items s) then Inl IndexError
      else (let s1 = (if operation = QO_next then s\<lparr>s_history := s_history s @ [s_items s ! s_index s]\<rparr>
                      else if operation = QO_previous \<and> \<not> restart \<and> s_history s \<noteq> []
                        then s\<lparr>s_history := butlast (s_history s)\<rparr> else s);
                s2 = (if operation \<in> {QO_next, QO_previous} then s1\<lparr>s_index := target\<rparr> else s1)
            in Inr (s2\<lparr>s_status := Session_playing, s_error := None\<rparr>)))"

end
