(* ===== verification/Player_Playback.thy ===== *)
theory Player_Playback
  imports Player_State
begin

text \<open>
  The playback coroutines of \<open>ha/player.py\<close> that do not depend on a queue operation: stopping a process
  pair, starting a stream (\<open>_play_url_locked\<close>, \<open>play_url\<close>), the stop command, and the volume write. A pause
  also says whether the awaiting task was cancelled and what the awaited call gave: the sink resolver,
  the spawn of a child, the state callback. Awaits between which the coroutine touches no shared state
  are one pause.
\<close>

section \<open>Pauses\<close>

record player_pause = "player pause" +
  pp_clock :: real
  pp_cancelled :: bool
  pp_sink :: "py_exc + string option"
  pp_spawn :: bool
  pp_notify :: "py_exc + unit"
  pp_output :: "string option"
  pp_random :: "nat \<Rightarrow> nat"

text \<open>\<open>pp_output\<close> is what an awaited child printed, \<open>None\<close> when it could not be run or failed or timed out.\<close>

text \<open>\<open>pp_clock\<close> and \<open>pp_random\<close> are the clock and the random draws in the stretch that ends with the pause.\<close>

type_synonym 'a play = "(nat \<Rightarrow> player_pause) \<Rightarrow> nat \<times> player \<Rightarrow> (py_exc + 'a) \<times> nat \<times> player"

definition awaiting :: "(player_pause \<Rightarrow> player \<Rightarrow> (py_exc + 'a) \<times> player) \<Rightarrow> 'a play" where
  "awaiting f = suspend (\<lambda>su p. if pp_cancelled su then (Inl CancelledError, p) else f su p)"

definition at_now :: "(real \<Rightarrow> player \<Rightarrow> player) \<Rightarrow> unit play" where
  "at_now f sc s = (Inr (), (fst s, f (pp_clock (sc (fst s))) (snd s)))"

definition query_now :: "(real \<Rightarrow> player \<Rightarrow> py_exc + 'a) \<Rightarrow> 'a play" where
  "query_now f sc s = (f (pp_clock (sc (fst s))) (snd s), s)"

definition state_op :: "(player \<Rightarrow> (py_exc + 'a) \<times> player) \<Rightarrow> 'a play" where
  "state_op f sc s = (case f (snd s) of (r, p) \<Rightarrow> (r, (fst s, p)))"

definition notify_state :: "string \<Rightarrow> unit play" where
  "notify_state a sc s =
     (if p_callback (snd s) then awaiting (\<lambda>su p. (pp_notify su, p)) sc s else (Inr (), s))"

text \<open>
  \<open>async with self._address_lock(a)\<close>: a free lock is taken at once; otherwise the await ends with the lock
  handed over, or with a cancellation.
\<close>

definition take_lock :: "string \<Rightarrow> player \<Rightarrow> player" where
  "take_lock a p = p\<lparr>p_locks := List.insert a (p_locks p)\<rparr>"

definition release_lock :: "string \<Rightarrow> player \<Rightarrow> player" where
  "release_lock a p = p\<lparr>p_locks := removeAll a (p_locks p)\<rparr>"

definition acquire_lock :: "string \<Rightarrow> unit play" where
  "acquire_lock a sc s =
     (if a \<in> set (p_locks (snd s)) then awaiting (\<lambda>su p. (Inr (), take_lock a p)) sc s
      else modify (take_lock a) sc s)"

definition with_address_lock :: "string \<Rightarrow> 'a play \<Rightarrow> 'a play" where
  "with_address_lock a body =
     and_then (acquire_lock a) (\<lambda>_. try_finally body (modify (release_lock a)))"

section \<open>Processes\<close>

definition live_process :: "player \<Rightarrow> nat \<Rightarrow> bool" where
  "live_process p k \<longleftrightarrow> pr_returncode (p_procs p k) = None"

definition update_process :: "nat \<Rightarrow> (process \<Rightarrow> process) \<Rightarrow> player \<Rightarrow> player" where
  "update_process k f p = p\<lparr>p_procs := (p_procs p)(k := f (p_procs p k))\<rparr>"

definition continue_process :: "nat \<Rightarrow> player \<Rightarrow> player" where
  "continue_process k = update_process k (\<lambda>q. q\<lparr>pr_stopped := False\<rparr>)"

definition terminate_process :: "nat \<Rightarrow> player \<Rightarrow> player" where
  "terminate_process k = update_process k (\<lambda>q. q\<lparr>pr_terminating := True\<rparr>)"

definition kill_process :: "nat \<Rightarrow> player \<Rightarrow> player" where
  "kill_process k = update_process k (\<lambda>q. q\<lparr>pr_killed := True\<rparr>)"

definition each_live :: "(nat \<Rightarrow> player \<Rightarrow> player) \<Rightarrow> nat list \<Rightarrow> player \<Rightarrow> player" where
  "each_live f ks p = fold (\<lambda>k p. if live_process p k then f k p else p) ks p"

definition signal_process :: "bool \<Rightarrow> nat \<Rightarrow> player \<Rightarrow> player" where
  "signal_process stop k = update_process k (\<lambda>q. if pr_returncode q = None then q\<lparr>pr_stopped := stop\<rparr> else q)"

definition pair_list :: "process_pair option \<Rightarrow> nat list" where
  "pair_list pr = (case pr of Some (d, q) \<Rightarrow> [d, q] | None \<Rightarrow> [])"

text \<open>\<open>SIGSTOP\<close> and \<open>SIGCONT\<close>.\<close>

definition signal_processes :: "bool \<Rightarrow> string \<Rightarrow> player \<Rightarrow> player" where
  "signal_processes stop a p = fold (signal_process stop) (pair_list (dict_get (p_active p) a)) p"

definition track_task :: "background \<Rightarrow> player \<Rightarrow> player" where
  "track_task t p = p\<lparr>p_tasks := p_tasks p @ [t]\<rparr>"

text \<open>The wait is bounded and its result ignored; the children may or may not have exited afterwards.\<close>

definition wait_for_exits :: "nat list \<Rightarrow> unit play" where
  "wait_for_exits ks sc s =
     (if list_ex (live_process (snd s)) ks then awaiting (\<lambda>su p. (Inr (), p)) sc s else (Inr (), s))"

definition stop_processes :: "string \<Rightarrow> unit play" where
  "stop_processes a sc s =
     (case dict_get (p_active (snd s)) a of
        None \<Rightarrow> (Inr (), s)
      | Some pr \<Rightarrow>
          (let ks = pair_list (Some pr)
           in and_then (modify (\<lambda>p. each_live terminate_process ks (each_live continue_process ks
                          (p\<lparr>p_active := dict_del a (p_active p)\<rparr>))))
                (\<lambda>_. and_then (wait_for_exits ks)
                  (\<lambda>_. modify (track_task (Reap_processes a ks)))) sc s))"

definition cancel_sink_warmup :: "string \<Rightarrow> unit play" where
  "cancel_sink_warmup a sc s =
     (if a \<in> set (p_warmups (snd s))
      then and_then (modify (\<lambda>p. p\<lparr>p_warmups := removeAll a (p_warmups p)\<rparr>))
             (\<lambda>_. suspend (\<lambda>su p. (Inr (), p))) sc s
      else (Inr (), s))"

section \<open>Starting a stream\<close>

datatype transport = Pulse | Pipewire

definition transport_name :: "transport \<Rightarrow> string" where
  "transport_name t = (case t of Pulse \<Rightarrow> ''pulse'' | Pipewire \<Rightarrow> ''pipewire'')"

definition parse_sink :: "string \<Rightarrow> py_exc + transport \<times> string" where
  "parse_sink sink =
     (if starts_with ''pulse:'' sink
      then (case validate_identifier (remove_prefix ''pulse:'' sink) ''PulseAudio sink'' of
              Inl e \<Rightarrow> Inl e | Inr s \<Rightarrow> Inr (Pulse, s))
      else (case validate_identifier sink ''PipeWire sink'' of Inl e \<Rightarrow> Inl e | Inr s \<Rightarrow> Inr (Pipewire, s)))"

definition COMPONENT_PIPEWIRE :: string where "COMPONENT_PIPEWIRE = ''pipewire''"

definition sink_missing_detail :: string where
  "sink_missing_detail = ''No matching PipeWire or host PulseAudio A2DP sink''"
definition sink_held_detail :: string where
  "sink_held_detail =
     ''Connected BlueZ device has no PipeWire or host PulseAudio A2DP sink; restart the add-on to disarm host Bluetooth discovery''"

definition observe_missing_sink :: "string \<Rightarrow> real \<Rightarrow> player \<Rightarrow> player" where
  "observe_missing_sink a now p =
     (case p_health p of None \<Rightarrow> p
      | Some h \<Rightarrow>
          (let held = (case dict_get (speakers h) a of Some sp \<Rightarrow> sh_state sp = SP_CONNECTED | None \<Rightarrow> False)
           in p\<lparr>p_health := Some (observe_component h COMPONENT_PIPEWIRE HS_UNAVAILABLE True
                (Some (if held then FC_SINK_UNAVAILABLE_TRANSPORT_HELD else FC_SINK_MISSING))
                (Some (if held then sink_held_detail else sink_missing_detail))
                (Some ''pw-dump+pactl'') now now)\<rparr>))"

definition observe_healthy_sink :: "transport \<Rightarrow> real \<Rightarrow> player \<Rightarrow> player" where
  "observe_healthy_sink t now p =
     (case p_health p of None \<Rightarrow> p
      | Some h \<Rightarrow> p\<lparr>p_health := Some (observe_component h COMPONENT_PIPEWIRE HS_HEALTHY True None None
                                     (Some (transport_name t)) now now)\<rparr>)"

definition report_codec :: "string \<Rightarrow> real \<Rightarrow> player \<Rightarrow> player" where
  "report_codec a now p =
     (case dict_get (p_last_codec p) a of
        None \<Rightarrow> p
      | Some codec \<Rightarrow>
          if codec = [] then p
          else (case p_health p of None \<Rightarrow> p
                | Some h \<Rightarrow> p\<lparr>p_health := Some (keep_on_error h (record_speaker_codec h a (Some codec) now))\<rparr>))"

definition codec_char :: "char \<Rightarrow> bool" where
  "codec_char c \<longleftrightarrow> is_digit c \<or> (97 \<le> ord_of c \<and> ord_of c \<le> 122) \<or> c = CHR ''_''"

definition codec_token :: "string option \<Rightarrow> string option" where
  "codec_token value =
     (case value of None \<Rightarrow> None
      | Some v \<Rightarrow>
          (let candidate = replace_char (CHR ''-'') (CHR ''_'') (lower (strip v))
           in case candidate of
                c # cs \<Rightarrow>
                  if codec_char c \<and> c \<noteq> CHR ''_'' \<and> list_all codec_char cs \<and> length cs \<le> 31 then Some candidate else None
              | [] \<Rightarrow> None))"

definition configured_codec :: "player \<Rightarrow> string \<Rightarrow> string option" where
  "configured_codec p a =
     (case p_config p of None \<Rightarrow> None
      | Some cs \<Rightarrow> Option.bind (dict_get (speakers_of cs) a) ss_codec_override)"

definition codec_pin_wanted :: "player \<Rightarrow> string \<Rightarrow> bool" where
  "codec_pin_wanted p a =
     (case codec_token (configured_codec p a) of
        None \<Rightarrow> False
      | Some requested \<Rightarrow> requested \<noteq> DEFAULT_CODEC \<and> dict_get (p_last_codec p) a \<noteq> Some requested)"

text \<open>The pin is a matter of the audio server: every failure is logged, and nothing of the bridge changes.\<close>

definition apply_codec_override :: "string \<Rightarrow> unit play" where
  "apply_codec_override a sc s =
     (if codec_pin_wanted (snd s) a then awaiting (\<lambda>su p. (Inr (), p)) sc s else (Inr (), s))"

definition fresh_process :: process where
  "fresh_process = \<lparr>pr_returncode = None, pr_stopped = False, pr_terminating = False, pr_killed = False\<rparr>"

definition spawn_error :: py_exc where "spawn_error = RuntimeError ''spawn''"

definition spawn_process :: "nat play" where
  "spawn_process = awaiting (\<lambda>su p.
     if pp_spawn su
     then (Inr (p_next_process p),
           p\<lparr>p_procs := (p_procs p)(p_next_process p := fresh_process), p_next_process := Suc (p_next_process p)\<rparr>)
     else (Inl spawn_error, p))"

definition unable_to_start :: py_exc where
  "unable_to_start = MediaPlayerError ''Unable to start media playback''"
definition sink_unavailable :: py_exc where
  "sink_unavailable = MediaPlayerError ''Connected Bluetooth audio sink is unavailable''"

definition sink_invalid :: "string \<Rightarrow> py_exc" where
  "sink_invalid sink =
     MediaPlayerError (''Connected '' @ (if starts_with ''pulse:'' sink then ''PulseAudio'' else ''PipeWire'')
       @ '' sink is invalid'')"

text \<open>What is done with the children of a pair that could not be started.\<close>

definition abandon_spawned :: "string \<Rightarrow> nat list \<Rightarrow> unit play" where
  "abandon_spawned a ks =
     and_then (modify (\<lambda>p. each_live (\<lambda>k p. terminate_process k (continue_process k p)) ks p)) (\<lambda>_.
     and_then (wait_for_exits ks) (\<lambda>_.
     and_then (read (\<lambda>p. filter (live_process p) ks)) (\<lambda>remaining.
     and_then (modify (\<lambda>p. fold kill_process remaining p)) (\<lambda>_.
     and_then (wait_for_exits remaining) (\<lambda>_.
     modify (\<lambda>p. let left = filter (live_process p) ks
       in if left = [] then p else track_task (Reap_processes a left) p))))))"

definition commit_playback ::
  "string \<Rightarrow> string \<Rightarrow> nat option \<Rightarrow> utext option \<Rightarrow> process_pair \<Rightarrow> real \<Rightarrow> player \<Rightarrow> player"
where
  "commit_playback a url generation title pr now p =
     (let p1 = p\<lparr>p_active := dict_set a pr (p_active p), p_last_urls := dict_set a url (p_last_urls p)\<rparr>;
          p2 = set_state a PLAYBACK_PLAYING (start_timeline now a url title p1);
          p3 = (case dict_get (p_sessions p2) a of
                  Some oid \<Rightarrow>
                    if generation = Some (s_generation (p_heap p2 oid))
                    then update_session oid (\<lambda>s. s\<lparr>s_processes := Some pr\<rparr>) p2 else p2
                | None \<Rightarrow> p2)
      in fold track_task
           [Probe_duration a url generation, Drain_output (fst pr), Drain_output (snd pr),
            Pipe_audio (fst pr) (snd pr), Watch_processes a (fst pr) (snd pr) generation] p3)"

definition spawn_or_abandon :: "string \<Rightarrow> nat list \<Rightarrow> nat play" where
  "spawn_or_abandon a started =
     try_catch spawn_process (\<lambda>_. and_then (abandon_spawned a started) (\<lambda>_. throw unable_to_start))"

definition resolve_sink :: "(string option) play" where
  "resolve_sink = awaiting (\<lambda>su p. (pp_sink su, p))"

definition open_stream :: "string \<Rightarrow> string \<Rightarrow> nat option \<Rightarrow> utext option \<Rightarrow> transport \<Rightarrow> unit play" where
  "open_stream a url generation title t =
     and_then (at_now (\<lambda>now p. report_codec a now (observe_healthy_sink t now p))) (\<lambda>_.
     and_then (apply_codec_override a) (\<lambda>_.
     and_then (spawn_or_abandon a []) (\<lambda>decoder.
     and_then (spawn_or_abandon a [decoder]) (\<lambda>sink_player.
     and_then (at_now (commit_playback a url generation title (decoder, sink_player))) (\<lambda>_.
     notify_state a)))))"

definition play_url_locked :: "string \<Rightarrow> string \<Rightarrow> nat option \<Rightarrow> utext option \<Rightarrow> unit play" where
  "play_url_locked a url generation title =
     and_then (cancel_sink_warmup a) (\<lambda>_.
     and_then (stop_processes a) (\<lambda>_.
     and_then resolve_sink (\<lambda>found.
       (case found of
          None \<Rightarrow> and_then (at_now (observe_missing_sink a)) (\<lambda>_. throw sink_unavailable)
        | Some sink \<Rightarrow>
            if sink = [] then and_then (at_now (observe_missing_sink a)) (\<lambda>_. throw sink_unavailable)
            else (case parse_sink sink of
                    Inl _ \<Rightarrow> throw (sink_invalid sink)
                  | Inr (t, _) \<Rightarrow> open_stream a url generation title t)))))"

definition is_media_error :: "py_exc \<Rightarrow> bool" where
  "is_media_error e = (case e of MediaPlayerError _ \<Rightarrow> True | _ \<Rightarrow> False)"

definition play_url :: "string \<Rightarrow> string \<Rightarrow> unit play" where
  "play_url address url =
     and_then (from_sum (normalize_address address)) (\<lambda>a.
     (case validate_media_url url of
        Inl e \<Rightarrow> throw (MediaPlayerError (if e = blocked_url_error
          then ''Media URL must not target a loopback, link-local or multicast address''
          else ''Media URL must be a safe HTTP(S) URL''))
      | Inr u \<Rightarrow>
          and_then (state_op (\<lambda>p. case invalidate_session a p of (g, p') \<Rightarrow> (Inr g, p'))) (\<lambda>generation.
          with_address_lock a
            (and_then (read (\<lambda>p. generation_of p a)) (\<lambda>current.
             if current \<noteq> Some generation then ret ()
             else try_catch (play_url_locked a u (Some generation) None)
                    (\<lambda>e. throw (if is_media_error e then e else unable_to_start)))))))"

text \<open>\<open>execute(address, \"stop\")\<close>; it takes no lock.\<close>

definition execute_stop :: "string \<Rightarrow> unit play" where
  "execute_stop address =
     and_then (from_sum (normalize_address address)) (\<lambda>a.
     and_then (modify (\<lambda>p. snd (invalidate_session a p))) (\<lambda>_.
     and_then (stop_processes a) (\<lambda>_.
     and_then (modify (\<lambda>p. set_state a PLAYBACK_IDLE (clear_timeline a p))) (\<lambda>_.
     notify_state a))))"

end
