(* ===== verification/Player_Queue.thy ===== *)
theory Player_Queue
  imports Player_Playback
begin

text \<open>
  The queue coroutines of \<open>ha/player.py\<close>: \<open>start_queue\<close>, \<open>control_queue\<close>, \<open>_watch_processes\<close>, the
  dispatcher \<open>execute\<close>, the volume write, the tasks of the two loops, and the shutdown.
\<close>

definition QUEUE_ERROR_PLAYBACK_FAILED :: string where "QUEUE_ERROR_PLAYBACK_FAILED = ''Playback failed''"

definition play_queue_item_locked :: "string \<Rightarrow> nat \<Rightarrow> unit play" where
  "play_queue_item_locked a oid =
     and_then (read (\<lambda>p. p_heap p oid)) (\<lambda>s.
     if \<not> s_index s < length (s_items s) then throw IndexError
     else and_then (modify (update_session oid (\<lambda>s. s\<lparr>s_status := Session_playing, s_error := None\<rparr>))) (\<lambda>_.
       (let item = s_pool s ! (s_items s ! s_index s)
        in play_url_locked a (qi_url item) (Some (s_generation s)) (qi_title item))))"

definition fail_session :: "string \<Rightarrow> nat \<Rightarrow> player \<Rightarrow> player" where
  "fail_session a oid p =
     set_state a PLAYBACK_IDLE
       (update_session oid (\<lambda>s. s\<lparr>s_status := Session_failed, s_error := Some QUEUE_ERROR_PLAYBACK_FAILED\<rparr>) p)"

text \<open>
  \<open>try: await self._play_queue_item_locked(...) except MediaPlayerError: ...\<close>. After a stream that ended by
  itself the timeline is paused too.
\<close>

definition play_item_or_fail :: "bool \<Rightarrow> string \<Rightarrow> nat \<Rightarrow> unit play" where
  "play_item_or_fail pausing a oid =
     try_catch (play_queue_item_locked a oid) (\<lambda>e.
       if is_media_error e
       then and_then (at_now (\<lambda>now p. fail_session a oid (if pausing then pause_timeline now a p else p)))
              (\<lambda>_. notify_state a)
       else throw e)"

definition published_queue :: "string \<Rightarrow> (queue_view option) play" where
  "published_queue a = query_now (\<lambda>now p. get_queue now a p)"

section \<open>Starting a queue\<close>

definition alloc_session :: "session \<Rightarrow> player \<Rightarrow> nat \<times> player" where
  "alloc_session s p =
     (p_next_session p, p\<lparr>p_heap := (p_heap p)(p_next_session p := s), p_next_session := Suc (p_next_session p)\<rparr>)"

definition install_session :: "string \<Rightarrow> nat \<Rightarrow> utext \<Rightarrow> queue_item list \<Rightarrow> player \<Rightarrow> (py_exc + nat) \<times> player" where
  "install_session a generation name items p =
     (case alloc_session (new_session generation name items) p of
        (oid, p') \<Rightarrow> (Inr oid, p'\<lparr>p_sessions := dict_set a oid (p_sessions p')\<rparr>))"

definition start_queue :: "string \<Rightarrow> utext option \<Rightarrow> raw_item list \<Rightarrow> (queue_view option) play" where
  "start_queue address playlist items =
     and_then (from_sum (normalize_address address)) (\<lambda>a.
     and_then (from_sum (validate_queue playlist items)) (\<lambda>(name, validated).
     and_then (state_op (\<lambda>p. case invalidate_session a p of (g, p') \<Rightarrow> (Inr g, p'))) (\<lambda>generation.
     and_then (with_address_lock a
       (and_then (read (\<lambda>p. generation_of p a)) (\<lambda>current.
        if current \<noteq> Some generation then ret False
        else and_then (state_op (install_session a generation name validated)) (\<lambda>oid.
             and_then (play_item_or_fail False a oid) (\<lambda>_. ret True)))))
     (\<lambda>_. published_queue a))))"

section \<open>Controlling a queue\<close>

definition bad_shuffle :: py_exc where "bad_shuffle = MediaPlayerError ''Shuffle value is invalid''"
definition bad_repeat :: py_exc where "bad_repeat = MediaPlayerError ''Repeat mode is invalid''"
definition bad_operation :: py_exc where "bad_operation = MediaPlayerError ''Unsupported queue operation''"
definition no_queue :: py_exc where "no_queue = MediaPlayerError ''No active queue''"
definition nothing_to_pause :: py_exc where "nothing_to_pause = MediaPlayerError ''No active playback to pause''"
definition nothing_to_resume :: py_exc where "nothing_to_resume = MediaPlayerError ''No active playback to resume''"
definition nothing_to_retry :: py_exc where "nothing_to_retry = MediaPlayerError ''No failed queue item to retry''"

definition check_operation :: "queue_operation \<Rightarrow> bool option \<Rightarrow> string option \<Rightarrow> py_exc + unit" where
  "check_operation operation shuffle repeat =
     (if operation = QO_set_shuffle \<and> shuffle = None then Inl bad_shuffle
      else if operation = QO_set_repeat \<and> Option.bind repeat repeat_of = None then Inl bad_repeat
      else if operation \<in> {QO_other, QO_stop} then Inl bad_operation
      else Inr ())"

text \<open>What \<open>control_queue\<close> decides before it takes the lock.\<close>

record control_plan =
  cp_session :: nat
  cp_restart :: bool
  cp_target :: nat
  cp_generation :: "nat option"

definition plan_control ::
  "real \<Rightarrow> string \<Rightarrow> queue_operation \<Rightarrow> bool option \<Rightarrow> string option \<Rightarrow> player \<Rightarrow> (py_exc + control_plan) \<times> player"
where
  "plan_control now a operation shuffle repeat p =
     (case dict_get (p_sessions p) a of
        None \<Rightarrow> (Inl no_queue, p)
      | Some oid \<Rightarrow>
          (let initial = p_heap p oid; position = tv_position (get_timeline now p a)
           in if s_items initial = [] then (Inl no_queue, p)
              else (case check_operation operation shuffle repeat of
                Inl e \<Rightarrow> (Inl e, p)
              | Inr _ \<Rightarrow>
                  (case next_index position operation initial of
                     Inl e \<Rightarrow> (Inl e, p)
                   | Inr target \<Rightarrow>
                       (if replaces_process operation initial
                        then (case next_playback_generation a p of (g, p') \<Rightarrow>
                          (Inr \<lparr>cp_session = oid, cp_restart = restart_current position operation initial,
                                cp_target = target, cp_generation = Some g\<rparr>, p'))
                        else (Inr \<lparr>cp_session = oid, cp_restart = restart_current position operation initial,
                                   cp_target = target, cp_generation = None\<rparr>, p))))))"

definition session_is :: "string \<Rightarrow> nat \<Rightarrow> player \<Rightarrow> bool" where
  "session_is a oid p \<longleftrightarrow> dict_get (p_sessions p) a = Some oid \<and> s_items (p_heap p oid) \<noteq> []"

definition draws :: "(nat \<Rightarrow> nat) play" where
  "draws sc s = (Inr (pp_random (sc (fst s))), s)"

definition control_shuffle :: "string \<Rightarrow> nat \<Rightarrow> bool \<Rightarrow> unit play" where
  "control_shuffle a oid shuffle =
     and_then draws (\<lambda>pick.
     and_then (modify (update_session oid (set_shuffle pick shuffle))) (\<lambda>_. notify_state a))"

definition control_repeat :: "string \<Rightarrow> nat \<Rightarrow> repeat_mode \<Rightarrow> unit play" where
  "control_repeat a oid mode =
     and_then (modify (update_session oid (\<lambda>s. s\<lparr>s_repeat := mode\<rparr>))) (\<lambda>_. notify_state a)"

definition pause_session :: "string \<Rightarrow> nat \<Rightarrow> real \<Rightarrow> player \<Rightarrow> player" where
  "pause_session a oid now p =
     set_state a PLAYBACK_PAUSED (update_session oid (\<lambda>s. s\<lparr>s_status := Session_paused\<rparr>)
       (pause_timeline now a (signal_processes True a p)))"

definition resume_session :: "string \<Rightarrow> nat \<Rightarrow> real \<Rightarrow> player \<Rightarrow> player" where
  "resume_session a oid now p =
     set_state a PLAYBACK_PLAYING (update_session oid (\<lambda>s. s\<lparr>s_status := Session_playing\<rparr>)
       (resume_timeline now a (signal_processes False a p)))"

definition control_pause :: "string \<Rightarrow> nat \<Rightarrow> unit play" where
  "control_pause a oid =
     and_then (read (\<lambda>p. p_heap p oid)) (\<lambda>s.
     if s_status s \<noteq> Session_playing \<or> s_processes s = None then throw nothing_to_pause
     else and_then (at_now (pause_session a oid)) (\<lambda>_. notify_state a))"

definition control_resume :: "string \<Rightarrow> nat \<Rightarrow> unit play" where
  "control_resume a oid =
     and_then (read (\<lambda>p. (s_processes (p_heap p oid), dict_get (p_active p) a))) (\<lambda>(own, active).
     if own = None \<or> active \<noteq> own then throw nothing_to_resume
     else and_then (at_now (resume_session a oid)) (\<lambda>_. notify_state a))"

definition claim_session :: "nat \<Rightarrow> nat option \<Rightarrow> player \<Rightarrow> player" where
  "claim_session oid generation p =
     (case generation of
        Some g \<Rightarrow> update_session oid (\<lambda>s. s\<lparr>s_generation := g, s_processes := None\<rparr>) p
      | None \<Rightarrow> p)"

definition move_op :: "queue_operation \<Rightarrow> control_plan \<Rightarrow> player \<Rightarrow> (py_exc + unit) \<times> player" where
  "move_op operation plan p =
     (case move_session operation (cp_restart plan) (cp_target plan) (p_heap p (cp_session plan)) of
        Inl e \<Rightarrow> (Inl e, p)
      | Inr s \<Rightarrow> (Inr (), update_session (cp_session plan) (\<lambda>_. s) p))"

definition control_replace :: "string \<Rightarrow> queue_operation \<Rightarrow> control_plan \<Rightarrow> unit play" where
  "control_replace a operation plan =
     and_then (modify (claim_session (cp_session plan) (cp_generation plan))) (\<lambda>_.
     and_then (stop_processes a) (\<lambda>_.
     and_then (state_op (move_op operation plan)) (\<lambda>_.
     play_item_or_fail False a (cp_session plan))))"

definition control_play :: "string \<Rightarrow> control_plan \<Rightarrow> unit play" where
  "control_play a plan =
     and_then (read (\<lambda>p. s_status (p_heap p (cp_session plan)))) (\<lambda>status.
     if status = Session_paused then control_resume a (cp_session plan)
     else if status = Session_playing then ret ()
     else if status \<noteq> Session_failed then throw nothing_to_retry
     else control_replace a QO_play plan)"

definition control_locked ::
  "string \<Rightarrow> queue_operation \<Rightarrow> bool option \<Rightarrow> string option \<Rightarrow> control_plan \<Rightarrow> unit play"
where
  "control_locked a operation shuffle repeat plan =
     and_then (read (\<lambda>p. session_is a (cp_session plan) p \<and>
         (case cp_generation plan of Some g \<Rightarrow> generation_of p a = Some g | None \<Rightarrow> True))) (\<lambda>current.
     if \<not> current then ret ()
     else (case operation of
             QO_set_shuffle \<Rightarrow> control_shuffle a (cp_session plan) (shuffle = Some True)
           | QO_set_repeat \<Rightarrow>
               (case Option.bind repeat repeat_of of
                  Some mode \<Rightarrow> control_repeat a (cp_session plan) mode | None \<Rightarrow> ret ())
           | QO_pause \<Rightarrow> control_pause a (cp_session plan)
           | QO_play \<Rightarrow> control_play a plan
           | _ \<Rightarrow> control_replace a operation plan))"

definition plan_now ::
  "string \<Rightarrow> queue_operation \<Rightarrow> bool option \<Rightarrow> string option \<Rightarrow> control_plan play"
where
  "plan_now a operation shuffle repeat sc s =
     (case plan_control (pp_clock (sc (fst s))) a operation shuffle repeat (snd s) of
        (r, p) \<Rightarrow> (r, (fst s, p)))"

definition control_queue ::
  "string \<Rightarrow> queue_operation \<Rightarrow> bool option \<Rightarrow> string option \<Rightarrow> (queue_view option) play"
where
  "control_queue address operation shuffle repeat =
     and_then (from_sum (normalize_address address)) (\<lambda>a.
     if operation = QO_stop then and_then (execute_stop a) (\<lambda>_. ret None)
     else and_then (plan_now a operation shuffle repeat) (\<lambda>plan.
       with_address_lock a
         (and_then (control_locked a operation shuffle repeat plan) (\<lambda>_. published_queue a))))"

section \<open>The end of a stream\<close>

definition exit_codes :: "player \<Rightarrow> process_pair \<Rightarrow> int option \<times> int option" where
  "exit_codes p pr = (pr_returncode (p_procs p (fst pr)), pr_returncode (p_procs p (snd pr)))"

text \<open>\<open>gather(decoder.wait(), player.wait())\<close>: it ends when both children have exited, or with a cancellation.\<close>

definition wait_for_pair :: "process_pair \<Rightarrow> unit play" where
  "wait_for_pair pr =
     awaiting (\<lambda>su p. if live_process p (fst pr) \<or> live_process p (snd pr) then (Inl CancelledError, p) else (Inr (), p))"

definition drop_active :: "string \<Rightarrow> player \<Rightarrow> player" where
  "drop_active a p = p\<lparr>p_active := dict_del a (p_active p)\<rparr>"

definition end_stream :: "string \<Rightarrow> player \<Rightarrow> player" where
  "end_stream a p = clear_timeline a (set_state a PLAYBACK_IDLE (drop_active a p))"

definition session_ended :: "string \<Rightarrow> nat \<Rightarrow> player \<Rightarrow> player" where
  "session_ended a oid p = update_session oid (\<lambda>s. s\<lparr>s_processes := None\<rparr>) (drop_active a p)"

definition complete_session :: "string \<Rightarrow> nat \<Rightarrow> real \<Rightarrow> player \<Rightarrow> player" where
  "complete_session a oid now p =
     set_state a PLAYBACK_IDLE (pause_timeline now a
       (update_session oid (\<lambda>s. (blank_urls s)\<lparr>s_status := Session_completed\<rparr>) p))"

definition stream_current :: "string \<Rightarrow> nat \<Rightarrow> process_pair \<Rightarrow> nat option \<Rightarrow> player \<Rightarrow> bool" where
  "stream_current a oid pr generation p \<longleftrightarrow>
     generation_of p a = generation \<and> dict_get (p_sessions p) a = Some oid \<and>
     Some (s_generation (p_heap p oid)) = generation \<and> s_processes (p_heap p oid) = Some pr \<and>
     dict_get (p_active p) a = Some pr"

definition advance_op :: "nat \<Rightarrow> player \<Rightarrow> (py_exc + bool) \<times> player" where
  "advance_op oid p =
     (case advance_session (p_heap p oid) of
        Inl e \<Rightarrow> (Inl e, p)
      | Inr None \<Rightarrow> (Inr False, p)
      | Inr (Some s) \<Rightarrow> (Inr True, update_session oid (\<lambda>_. s) p))"

definition session_stream_ended :: "string \<Rightarrow> nat \<Rightarrow> process_pair \<Rightarrow> unit play" where
  "session_stream_ended a oid pr =
     and_then (read (\<lambda>p. exit_codes p pr)) (\<lambda>codes.
     and_then (modify (session_ended a oid)) (\<lambda>_.
     if codes \<noteq> (Some 0, Some 0)
     then and_then (at_now (\<lambda>now p. fail_session a oid (pause_timeline now a p))) (\<lambda>_. notify_state a)
     else and_then (state_op (advance_op oid)) (\<lambda>more.
       if more then play_item_or_fail True a oid
       else and_then (at_now (complete_session a oid)) (\<lambda>_. notify_state a))))"

definition watch_processes :: "string \<Rightarrow> process_pair \<Rightarrow> nat option \<Rightarrow> unit play" where
  "watch_processes a pr generation =
     and_then (wait_for_pair pr) (\<lambda>_.
     and_then (read (\<lambda>p. (dict_get (p_active p) a = Some pr,
                          generation = None \<or> generation_of p a = generation,
                          dict_get (p_sessions p) a))) (\<lambda>(own, current, sess).
     if \<not> own \<or> \<not> current then ret ()
     else (case sess of
             Some oid \<Rightarrow>
               and_then (read (\<lambda>p. generation \<noteq> None \<and> Some (s_generation (p_heap p oid)) = generation \<and>
                                   s_processes (p_heap p oid) = Some pr)) (\<lambda>mine.
               if \<not> mine then ret ()
               else with_address_lock a
                 (and_then (read (stream_current a oid pr generation)) (\<lambda>still.
                  if \<not> still then ret () else session_stream_ended a oid pr)))
           | None \<Rightarrow> and_then (modify (end_stream a)) (\<lambda>_. notify_state a))))"

section \<open>The dispatcher\<close>

datatype player_operation = PO_play | PO_pause | PO_stop | PO_set_volume "real option" | PO_play_media "string option" | PO_other

text \<open>
  \<open>_apply_volume\<close> asks for the sink and runs one child, without touching the state of the bridge. The
  resolver is awaited outside its \<open>try\<close>, so what it raises is passed on.
\<close>

definition apply_volume :: "unit play" where
  "apply_volume =
     and_then resolve_sink (\<lambda>found.
       (case found of
          None \<Rightarrow> ret ()
        | Some sink \<Rightarrow>
            if sink = [] then ret ()
            else (case parse_sink sink of Inl _ \<Rightarrow> ret () | Inr _ \<Rightarrow> awaiting (\<lambda>su p. (Inr (), p)))))"

definition bad_volume :: py_exc where "bad_volume = MediaPlayerError ''Volume must be between 0.0 and 1.0''"
definition url_required :: py_exc where "url_required = MediaPlayerError ''Media URL is required''"
definition unsupported_operation :: py_exc where
  "unsupported_operation = MediaPlayerError ''Unsupported media player operation''"

definition record_volume :: "string \<Rightarrow> real \<Rightarrow> player \<Rightarrow> (py_exc + unit) \<times> player" where
  "record_volume a v p =
     (let p1 = p\<lparr>p_volumes := dict_set a v (p_volumes p)\<rparr>
      in case p_config p1 of
           None \<Rightarrow> (Inr (), p1)
         | Some cs \<Rightarrow>
             (case update_speaker a (no_update\<lparr>up_default_volume := Some (py_round (v * of_int VOLUME_MAX_PERCENT))\<rparr>) cs of
                (Inl e, cs') \<Rightarrow> (Inl e, p1\<lparr>p_config := Some cs'\<rparr>)
              | (Inr _, cs') \<Rightarrow> (Inr (), p1\<lparr>p_config := Some cs'\<rparr>)))"

definition execute_play :: "string \<Rightarrow> unit play" where
  "execute_play a =
     and_then (read (\<lambda>p. (dict_get (p_sessions p) a \<noteq> None, dict_get (p_active p) a \<noteq> None,
                          dict_get (p_last_urls p) a))) (\<lambda>(queued, active, last_url).
     if queued then and_then (control_queue a QO_play None None) (\<lambda>_. ret ())
     else if \<not> active then
       (case last_url of
          None \<Rightarrow> throw nothing_to_resume
        | Some u \<Rightarrow> if u = [] then throw nothing_to_resume else play_url a u)
     else and_then (at_now (\<lambda>now p. set_state a PLAYBACK_PLAYING (resume_timeline now a (signal_processes False a p))))
            (\<lambda>_. notify_state a))"

definition execute_pause :: "string \<Rightarrow> unit play" where
  "execute_pause a =
     and_then (read (\<lambda>p. (dict_get (p_sessions p) a \<noteq> None, dict_get (p_active p) a \<noteq> None))) (\<lambda>(queued, active).
     if queued then and_then (control_queue a QO_pause None None) (\<lambda>_. ret ())
     else if \<not> active then throw nothing_to_pause
     else and_then (at_now (\<lambda>now p. set_state a PLAYBACK_PAUSED (pause_timeline now a (signal_processes True a p))))
            (\<lambda>_. notify_state a))"

definition execute_set_volume :: "string \<Rightarrow> real option \<Rightarrow> unit play" where
  "execute_set_volume a volume =
     (case volume of
        None \<Rightarrow> throw bad_volume
      | Some v \<Rightarrow>
          if \<not> (VOLUME_MIN_RATIO \<le> v \<and> v \<le> VOLUME_MAX_RATIO) then throw bad_volume
          else and_then (state_op (record_volume a v)) (\<lambda>_.
               and_then apply_volume (\<lambda>_. notify_state a)))"

definition execute :: "string \<Rightarrow> player_operation \<Rightarrow> unit play" where
  "execute address operation =
     and_then (from_sum (normalize_address address)) (\<lambda>a.
     (case operation of
        PO_play \<Rightarrow> execute_play a
      | PO_pause \<Rightarrow> execute_pause a
      | PO_stop \<Rightarrow> execute_stop a
      | PO_set_volume v \<Rightarrow> execute_set_volume a v
      | PO_play_media u \<Rightarrow>
          (case u of None \<Rightarrow> throw url_required
           | Some url \<Rightarrow> if url = [] then throw url_required else play_url a url)
      | PO_other \<Rightarrow> throw unsupported_operation))"

section \<open>Keep-alive registration\<close>

definition start_sink_warmup :: "string \<Rightarrow> player \<Rightarrow> player" where
  "start_sink_warmup a p =
     (if a \<in> set (p_warmups p) then p else track_task (Warm_sink a) (p\<lparr>p_warmups := p_warmups p @ [a]\<rparr>))"

definition register_keepalive :: "string \<Rightarrow> player \<Rightarrow> (py_exc + unit) \<times> player" where
  "register_keepalive address p =
     (case normalize_address address of
        Inl e \<Rightarrow> (Inl e, p)
      | Inr a \<Rightarrow> (Inr (), start_sink_warmup a (p\<lparr>p_keepalive := List.insert a (p_keepalive p)\<rparr>)))"

definition unregister_keepalive :: "string \<Rightarrow> player \<Rightarrow> (py_exc + unit) \<times> player" where
  "unregister_keepalive address p =
     (case normalize_address address of
        Inl e \<Rightarrow> (Inl e, p)
      | Inr a \<Rightarrow>
          (let p1 = snd (invalidate_session a (p\<lparr>p_keepalive := removeAll a (p_keepalive p)\<rparr>))
           in (Inr (), p1\<lparr>p_warmups := removeAll a (p_warmups p1)\<rparr>)))"

section \<open>Reaping and shutdown\<close>

text \<open>\<open>_async_wait_for_exit\<close>: whether the child exited within the grace time.\<close>

definition wait_for_exit :: "nat \<Rightarrow> bool play" where
  "wait_for_exit k = awaiting (\<lambda>su p. (Inr (\<not> live_process p k), p))"

primrec reap_processes :: "nat list \<Rightarrow> unit play" where
  "reap_processes [] = ret ()"
| "reap_processes (k # ks) =
     and_then (read (\<lambda>p. live_process p k)) (\<lambda>alive.
     if \<not> alive then reap_processes ks
     else and_then (wait_for_exit k) (\<lambda>gone.
          if gone then reap_processes ks
          else and_then (modify (kill_process k)) (\<lambda>_.
               and_then (wait_for_exit k) (\<lambda>_. reap_processes ks))))"

primrec stop_each :: "string list \<Rightarrow> (nat list) play" where
  "stop_each [] = ret []"
| "stop_each (a # as) =
     and_then (read (\<lambda>p. dict_get (p_active p) a)) (\<lambda>pr.
     if pr = None then throw (KeyError a)
     else and_then (stop_processes a) (\<lambda>_.
     and_then (modify (set_state a PLAYBACK_IDLE)) (\<lambda>_.
     and_then (stop_each as) (\<lambda>ks. ret (pair_list pr @ ks)))))"

text \<open>
  The tasks of the two loops. To stop one is to cancel it and to await it: of a task that still runs, the
  pause says how it took its cancellation; a task that has ended gives its result at once, and the
  \<open>except\<close> around the await names \<open>CancelledError\<close> only.
\<close>

definition start_keepalive :: "player \<Rightarrow> player" where
  "start_keepalive p = (if p_keepalive_task p = None then p\<lparr>p_keepalive_task := Some Loop_running\<rparr> else p)"

definition start_volume_watch :: "player \<Rightarrow> player" where
  "start_volume_watch p = (if p_volume_task p = None then p\<lparr>p_volume_task := Some Loop_running\<rparr> else p)"

definition unless_cancelled :: "py_exc + unit \<Rightarrow> py_exc + unit" where
  "unless_cancelled r = (case r of Inl e \<Rightarrow> if e = CancelledError then Inr () else Inl e | Inr _ \<Rightarrow> Inr ())"

definition await_cancelled :: "loop_task \<Rightarrow> unit play" where
  "await_cancelled t =
     (case t of
        Loop_running \<Rightarrow> suspend (\<lambda>su p. (unless_cancelled (pp_notify su), p))
      | Loop_returned \<Rightarrow> ret ()
      | Loop_failed e \<Rightarrow> from_sum (unless_cancelled (Inl e)))"

definition stop_keepalive :: "unit play" where
  "stop_keepalive =
     and_then (read p_keepalive_task) (\<lambda>task.
     case task of None \<Rightarrow> ret ()
     | Some t \<Rightarrow> and_then (await_cancelled t) (\<lambda>_. modify (\<lambda>p. p\<lparr>p_keepalive_task := None\<rparr>)))"

definition stop_volume_watch :: "unit play" where
  "stop_volume_watch =
     and_then (read p_volume_task) (\<lambda>task.
     and_then (modify (\<lambda>p. p\<lparr>p_volume_task := None\<rparr>)) (\<lambda>_.
     case task of None \<Rightarrow> ret () | Some t \<Rightarrow> await_cancelled t))"

text \<open>\<open>async_shutdown\<close>: the two loops are stopped first, the remaining background tasks are cancelled last.\<close>

definition async_shutdown :: "unit play" where
  "async_shutdown =
     and_then (modify (\<lambda>p. fold (\<lambda>a q. snd (invalidate_session a q)) (map fst (p_sessions p)) p)) (\<lambda>_.
     and_then stop_keepalive (\<lambda>_.
     and_then stop_volume_watch (\<lambda>_.
     and_then (modify (\<lambda>p. p\<lparr>p_warmups := []\<rparr>)) (\<lambda>_.
     and_then (read (\<lambda>p. map fst (p_active p))) (\<lambda>addresses.
     and_then (stop_each addresses) (\<lambda>stopping.
     and_then (wait_for_exits stopping) (\<lambda>_.
     and_then (read (\<lambda>p. p_tasks p \<noteq> [])) (\<lambda>running.
     if running then awaiting (\<lambda>su p. (Inr (), p\<lparr>p_tasks := []\<rparr>)) else ret ()))))))))"

end
