(* ===== verification/Player_Invariant.thy ===== *)
theory Player_Invariant
  imports Player_Queue
begin

text \<open>
  The invariant of the queue sessions and its preservation by every player coroutine, under every
  interleaving with tasks that keep it themselves. \<open>player_inv K\<close> also carries the sizes \<open>K\<close> of sessions a
  suspended coroutine still refers to: a session object keeps its original items for life.
\<close>

section \<open>Sessions\<close>

definition session_ok :: "session \<Rightarrow> bool" where
  "session_ok s \<longleftrightarrow>
     distinct (s_original s) \<and> set (s_original s) \<subseteq> {..<length (s_pool s)} \<and>
     (if s_items s = [] then s_history s = []
      else mset (s_items s) = mset (s_original s) \<and> s_index s < length (s_items s) \<and>
           set (s_history s) \<subseteq> set (s_items s))"

text \<open>What a change of a session object has to respect.\<close>

definition session_step :: "(session \<Rightarrow> session) \<Rightarrow> bool" where
  "session_step f \<longleftrightarrow>
     (\<forall>s. session_ok s \<longrightarrow> session_ok (f s) \<and> s_original (f s) = s_original s \<and>
          (s_items s \<noteq> [] \<longrightarrow> s_items (f s) \<noteq> []))"

lemma session_ok_new: "session_ok (new_session g name items)"
  by (auto simp: session_ok_def new_session_def)

lemma blank_urls_simps [simp]:
  "s_items (blank_urls s) = s_items s" "s_original (blank_urls s) = s_original s"
  "s_index (blank_urls s) = s_index s" "s_history (blank_urls s) = s_history s"
  "length (s_pool (blank_urls s)) = length (s_pool s)"
  by (simp_all add: blank_urls_def)

lemma session_ok_clear: "session_ok s \<Longrightarrow> session_ok (clear_session s) \<and> s_original (clear_session s) = s_original s"
  by (simp add: session_ok_def clear_session_def)

lemma shuffle_from_mset: "i < length xs \<Longrightarrow> mset (shuffle_from pick i xs) = mset xs"
proof (induction i arbitrary: xs)
  case (Suc i)
  have j: "pick (Suc i) mod (Suc i + 1) < length xs"
    using Suc.prems by (metis add.commute le_less_trans less_Suc_eq_le mod_less_divisor plus_1_eq_Suc zero_less_Suc)
  then show ?case
    using Suc by (simp add: Let_def mset_swap)
qed simp

lemma rng_shuffle_mset [simp]: "mset (rng_shuffle pick xs) = mset xs"
proof (cases xs)
  case (Cons y ys)
  then show ?thesis by (simp add: rng_shuffle_def shuffle_from_mset del: shuffle_from.simps)
qed (simp add: rng_shuffle_def)

lemma unshuffle_mset:
  assumes "distinct original" and "mset items = mset original"
  shows "mset (filter (\<lambda>i. i \<in> set (drop k items)) original) = mset (drop k items)"
proof (rule set_eq_iff_mset_eq_distinct [THEN iffD1])
  have d: "distinct items" using assms by (metis mset_eq_imp_distinct_iff)
  then show "distinct (drop k items)" by simp
  show "distinct (filter (\<lambda>i. i \<in> set (drop k items)) original)" using assms(1) by simp
  have "set (drop k items) \<subseteq> set original"
    using set_drop_subset [of k items] mset_eq_setD [OF assms(2)] by simp
  then show "set (filter (\<lambda>i. i \<in> set (drop k items)) original) = set (drop k items)" by auto
qed

lemma set_shuffle_parts:
  assumes "session_ok s" and "s_items s \<noteq> []"
  shows "mset (s_items (set_shuffle pick b s)) = mset (s_items s)"
    and "take (s_index s + 1) (s_items (set_shuffle pick b s)) = take (s_index s + 1) (s_items s)"
    and "s_original (set_shuffle pick b s) = s_original s" "s_index (set_shuffle pick b s) = s_index s"
    "s_history (set_shuffle pick b s) = s_history s" "s_pool (set_shuffle pick b s) = s_pool s"
proof -
  have ok: "distinct (s_original s)" "mset (s_items s) = mset (s_original s)" "s_index s < length (s_items s)"
    using assms by (auto simp: session_ok_def)
  have split: "mset (take k (s_items s)) + mset (drop k (s_items s)) = mset (s_items s)" for k
    by (metis append_take_drop_id mset_append)
  show "mset (s_items (set_shuffle pick b s)) = mset (s_items s)"
    using split [of "s_index s + 1"] unshuffle_mset [OF ok(1,2), of "s_index s + 1"]
    by (simp add: set_shuffle_def Let_def)
  show "take (s_index s + 1) (s_items (set_shuffle pick b s)) = take (s_index s + 1) (s_items s)"
    using ok(3) by (simp add: set_shuffle_def Let_def)
  show "s_original (set_shuffle pick b s) = s_original s" "s_index (set_shuffle pick b s) = s_index s"
    "s_history (set_shuffle pick b s) = s_history s" "s_pool (set_shuffle pick b s) = s_pool s"
    by (simp_all add: set_shuffle_def Let_def)
qed

lemma step_shuffle: "session_step (set_shuffle pick b)"
  unfolding session_step_def
proof (intro allI impI)
  fix s assume ok: "session_ok s"
  show "session_ok (set_shuffle pick b s) \<and> s_original (set_shuffle pick b s) = s_original s \<and>
      (s_items s \<noteq> [] \<longrightarrow> s_items (set_shuffle pick b s) \<noteq> [])"
  proof (cases "s_items s = []")
    case True
    then show ?thesis
      using ok by (simp add: set_shuffle_def session_ok_def Let_def rng_shuffle_def)
  next
    case False
    note parts = set_shuffle_parts [OF ok False, of pick b]
    then have "length (s_items (set_shuffle pick b s)) = length (s_items s)"
      "set (s_items (set_shuffle pick b s)) = set (s_items s)"
      using mset_eq_length mset_eq_setD by blast+
    then show ?thesis using ok False parts by (auto simp: session_ok_def)
  qed
qed

lemma session_step_same:
  assumes "\<And>s. s_items (f s) = s_items s" "\<And>s. s_original (f s) = s_original s" "\<And>s. s_index (f s) = s_index s"
    "\<And>s. s_history (f s) = s_history s" "\<And>s. length (s_pool (f s)) = length (s_pool s)"
  shows "session_step f"
  by (simp add: session_step_def session_ok_def assms)

lemma advance_ok:
  assumes "session_ok s" "advance_session s = Inr (Some s')"
  shows "session_ok s' \<and> s_original s' = s_original s \<and> s_items s' = s_items s"
proof -
  have moved: "session_ok (s\<lparr>s_history := s_history s @ [s_items s ! s_index s], s_index := i\<rparr>)"
    if "i < length (s_items s)" "s_index s < length (s_items s)" for i
  proof -
    have "s_items s \<noteq> []" using that by auto
    then show ?thesis using assms(1) that by (simp add: session_ok_def)
  qed
  show ?thesis
  proof (cases "s_repeat s = Repeat_one")
    case True
    then show ?thesis using assms by (simp add: advance_session_def)
  next
    case False
    then show ?thesis
    proof (cases "s_index s + 1 < length (s_items s)")
      case True
      then show ?thesis using assms(2) False moved by (auto simp: advance_session_def)
    next
      case last: False
      then have "0 < length (s_items s)" "s_index s < length (s_items s)"
        "s' = s\<lparr>s_history := s_history s @ [s_items s ! s_index s], s_index := 0\<rparr>"
        using assms(2) False by (auto simp: advance_session_def split: if_splits)
      then show ?thesis using moved [of 0] by simp
    qed
  qed
qed

lemma move_ok:
  assumes "session_ok s" "move_session operation restart target s = Inr s'" "target < length (s_original s)"
  shows "session_ok s' \<and> s_original s' = s_original s \<and> s_items s' = s_items s"
proof -
  have len: "s_items s \<noteq> [] \<Longrightarrow> length (s_items s) = length (s_original s)"
    using assms(1) mset_eq_length by (auto simp: session_ok_def)
  have sub: "set (butlast (s_history s)) \<subseteq> set (s_history s)" by (auto dest: in_set_butlastD)
  show ?thesis
  proof (cases "operation = QO_next")
    case True
    then have i: "s_index s < length (s_items s)"
      and s': "s' = s\<lparr>s_history := s_history s @ [s_items s ! s_index s], s_index := target,
                      s_status := Session_playing, s_error := None\<rparr>"
      using assms(2) by (auto simp: move_session_def Let_def split: if_splits)
    moreover from i have "s_items s \<noteq> []" by auto
    ultimately show ?thesis using assms(1,3) len by (simp add: session_ok_def)
  next
    case False
    define h where "h = (if operation = QO_previous \<and> \<not> restart \<and> s_history s \<noteq> [] then butlast (s_history s) else s_history s)"
    have s': "s' = s\<lparr>s_history := h, s_index := (if operation = QO_previous then target else s_index s),
        s_status := Session_playing, s_error := None\<rparr>"
      using assms(2) False by (auto simp: move_session_def Let_def h_def split: if_splits)
    have h: "set h \<subseteq> set (s_history s)" using sub by (simp add: h_def)
    show ?thesis
    proof (cases "s_items s = []")
      case True
      then have "h = []" using assms(1) by (simp add: session_ok_def h_def)
      then show ?thesis using assms(1) True by (simp add: s' session_ok_def)
    next
      case False
      then show ?thesis using assms(1,3) len h by (auto simp: s' session_ok_def)
    qed
  qed
qed

lemma position_of_bound: "position_of x xs = Some i \<Longrightarrow> i < length xs \<and> xs ! i = x"
  by (induction xs arbitrary: i) (auto split: if_splits)

lemma position_of_member: "x \<in> set xs \<Longrightarrow> \<exists>i. position_of x xs = Some i"
  by (induction xs) auto

lemma next_index_bound:
  assumes "session_ok s" "s_items s \<noteq> []" "next_index position operation s = Inr target"
  shows "target < length (s_original s)"
proof -
  have len: "length (s_items s) = length (s_original s)"
    using assms(1,2) mset_eq_length by (auto simp: session_ok_def)
  have i: "s_index s < length (s_items s)" using assms(1,2) by (simp add: session_ok_def)
  show ?thesis
    using assms(3) i position_of_bound
    by (auto simp: next_index_def len [symmetric] split: if_splits option.splits)
qed

lemma next_index_never_stops:
  assumes "session_ok s" "next_index position operation s = Inl e"
  shows "e = MediaPlayerError ''No next item in queue''"
proof -
  have "s_history s \<noteq> [] \<Longrightarrow> last (s_history s) \<in> set (s_items s)"
    using assms(1) by (auto simp: session_ok_def split: if_splits)
  then have "s_history s \<noteq> [] \<Longrightarrow> position_of (last (s_history s)) (s_items s) \<noteq> None"
    using position_of_member by fastforce
  then show ?thesis using assms(2) by (auto simp: next_index_def split: if_splits option.splits)
qed

section \<open>The player\<close>

definition sessions_filed :: "player \<Rightarrow> bool" where
  "sessions_filed p \<longleftrightarrow>
     (\<forall>a oid. dict_get (p_sessions p) a = Some oid \<longrightarrow>
        oid < p_next_session p \<and> s_items (p_heap p oid) \<noteq> [] \<and>
        (\<forall>b. dict_get (p_sessions p) b = Some oid \<longrightarrow> b = a))"

definition health_fine :: "registry option \<Rightarrow> bool" where
  "health_fine h \<longleftrightarrow> (case h of None \<Rightarrow> True | Some r \<Rightarrow> registry_ok r)"

definition config_fine :: "config_store option \<Rightarrow> bool" where
  "config_fine c \<longleftrightarrow> (case c of None \<Rightarrow> True | Some cs \<Rightarrow> config_ok cs)"

definition player_ok :: "player \<Rightarrow> bool" where
  "player_ok p \<longleftrightarrow> (\<forall>oid. session_ok (p_heap p oid)) \<and> sessions_filed p \<and> health_fine (p_health p) \<and>
     config_fine (p_config p)"

definition player_inv :: "(nat \<times> nat) set \<Rightarrow> player \<Rightarrow> bool" where
  "player_inv K p \<longleftrightarrow> player_ok p \<and>
     (\<forall>(oid, n) \<in> K. oid < p_next_session p \<and> length (s_original (p_heap p oid)) = n)"

definition queue_part :: "player \<Rightarrow> nat dict \<times> (nat \<Rightarrow> session) \<times> nat \<times> registry option \<times> config_store option" where
  "queue_part p = (p_sessions p, p_heap p, p_next_session p, p_health p, p_config p)"

lemma inv_frame: "queue_part p' = queue_part p \<Longrightarrow> player_inv K p \<Longrightarrow> player_inv K p'"
  by (simp add: queue_part_def player_inv_def player_ok_def sessions_filed_def)

lemma inv_new: "health_fine health \<Longrightarrow> config_fine store \<Longrightarrow> player_inv {} (new_player store health callback)"
  by (simp add: player_inv_def player_ok_def sessions_filed_def new_player_def session_ok_new)

lemma inv_update:
  assumes "player_inv K p" "session_step f"
  shows "player_inv K (update_session oid f p)"
  using assms by (fastforce simp: player_inv_def player_ok_def sessions_filed_def update_session_def session_step_def)

lemma inv_move:
  assumes "player_inv K p" "session_ok s" "s_original s = s_original (p_heap p oid)"
    "s_items s = s_items (p_heap p oid)"
  shows "player_inv K (update_session oid (\<lambda>_. s) p)"
  using assms by (fastforce simp: player_inv_def player_ok_def sessions_filed_def update_session_def)

lemma part_simps [simp]:
  "queue_part (set_state a st p) = queue_part p"
  "queue_part (clear_timeline a p) = queue_part p"
  "queue_part (start_timeline now a url title p) = queue_part p"
  "queue_part (track_task t p) = queue_part p"
  "queue_part (take_lock a p) = queue_part p"
  "queue_part (release_lock a p) = queue_part p"
  "queue_part (continue_process k p) = queue_part p"
  "queue_part (terminate_process k p) = queue_part p"
  "queue_part (kill_process k p) = queue_part p"
  "queue_part (signal_process b k p) = queue_part p"
  "queue_part (drop_active a p) = queue_part p"
  by (simp_all add: queue_part_def set_state_def clear_timeline_def start_timeline_def track_task_def
    take_lock_def release_lock_def continue_process_def terminate_process_def kill_process_def
    signal_process_def update_process_def drop_active_def)

lemma part_cases [simp]:
  "queue_part (pause_timeline now a p) = queue_part p"
  "queue_part (resume_timeline now a p) = queue_part p"
  by (auto simp: queue_part_def pause_timeline_def resume_timeline_def split: option.splits)

lemma part_fold: "(\<And>x p. queue_part (f x p) = queue_part p) \<Longrightarrow> queue_part (fold f xs p) = queue_part p"
  by (induction xs arbitrary: p) auto

lemma part_each_live:
  "(\<And>k p. queue_part (f k p) = queue_part p) \<Longrightarrow> queue_part (each_live f ks p) = queue_part p"
  unfolding each_live_def by (rule part_fold) simp

lemma part_batches [simp]:
  "queue_part (each_live terminate_process ks p) = queue_part p"
  "queue_part (each_live continue_process ks p) = queue_part p"
  "queue_part (each_live (\<lambda>k p. terminate_process k (continue_process k p)) ks p) = queue_part p"
  "queue_part (fold kill_process ks p) = queue_part p"
  by (rule part_each_live, simp)+ (rule part_fold, simp)

lemma part_signal [simp]: "queue_part (signal_processes b a p) = queue_part p"
  unfolding signal_processes_def by (rule part_fold) simp

lemma inv_cong: "queue_part p' = queue_part p \<Longrightarrow> player_inv K p' = player_inv K p"
  using inv_frame [of p' p K] inv_frame [of p p' K] by auto

lemma part_fields:
  "queue_part (p\<lparr>p_active := x\<rparr>) = queue_part p" "queue_part (p\<lparr>p_last_urls := y\<rparr>) = queue_part p"
  "queue_part (p\<lparr>p_warmups := z\<rparr>) = queue_part p" "queue_part (p\<lparr>p_tasks := t\<rparr>) = queue_part p"
  "queue_part (p\<lparr>p_keepalive := k\<rparr>) = queue_part p" "queue_part (p\<lparr>p_volumes := v\<rparr>) = queue_part p"
  "queue_part (p\<lparr>p_procs := q, p_next_process := n\<rparr>) = queue_part p"
  "queue_part (p\<lparr>p_keepalive_task := kt\<rparr>) = queue_part p" "queue_part (p\<lparr>p_volume_task := vt\<rparr>) = queue_part p"
  by (simp_all add: queue_part_def)

lemma inv_observe [simp]:
  assumes "player_inv K p"
  shows "player_inv K (observe_missing_sink a now p)" "player_inv K (observe_healthy_sink t now p)"
    "player_inv K (report_codec a now p)"
  using assms
  by (auto simp: player_inv_def player_ok_def sessions_filed_def health_fine_def observe_missing_sink_def
    observe_healthy_sink_def report_codec_def keep_on_error_def Let_def
    intro: observe_component_ok speaker_codec_ok split: option.splits sum.splits)

lemma inv_config:
  assumes "player_inv K p" "config_ok cs"
  shows "player_inv K (p\<lparr>p_volumes := v, p_config := Some cs\<rparr>)"
  using assms by (simp add: player_inv_def player_ok_def sessions_filed_def config_fine_def)

lemma inv_record_volume:
  assumes "player_inv K p" "record_volume a v p = (r, p')"
  shows "player_inv K p'"
proof (cases "p_config p")
  case None
  then have "p' = p\<lparr>p_volumes := dict_set a v (p_volumes p)\<rparr>"
    using assms(2) by (simp add: record_volume_def Let_def)
  then show ?thesis using assms(1) by (simp add: player_inv_def player_ok_def sessions_filed_def)
next
  case (Some cs)
  define u where "u = no_update\<lparr>up_default_volume := Some (py_round (v * of_int VOLUME_MAX_PERCENT))\<rparr>"
  obtain q cs' where upd: "update_speaker a u cs = (q, cs')" by (cases "update_speaker a u cs")
  have "config_ok cs'"
    using assms(1) Some update_speaker_ok [of cs a u] upd by (simp add: player_inv_def player_ok_def config_fine_def)
  moreover have "p' = p\<lparr>p_volumes := dict_set a v (p_volumes p), p_config := Some cs'\<rparr>"
    using assms(2) upd by (cases q) (simp_all add: record_volume_def Let_def Some u_def)
  ultimately show ?thesis using inv_config [OF assms(1)] by simp
qed

lemmas inv_simps [simp] =
  part_simps [THEN inv_cong] part_cases [THEN inv_cong] part_batches [THEN inv_cong]
  part_signal [THEN inv_cong] part_fields [THEN inv_cong]

lemma part_next_generation: "next_playback_generation a p = (g, p') \<Longrightarrow> queue_part p' = queue_part p"
  by (auto simp: next_playback_generation_def Let_def queue_part_def)

lemma inv_invalidate:
  assumes "player_inv K p"
  shows "player_inv K (snd (invalidate_session a p))"
proof -
  obtain g p1 where g: "next_playback_generation a p = (g, p1)" by (cases "next_playback_generation a p")
  have p1: "player_inv K p1" using inv_frame [OF part_next_generation [OF g] assms] .
  then show ?thesis
    by (auto simp: invalidate_session_def g player_inv_def player_ok_def sessions_filed_def update_session_def
      session_ok_clear split: option.splits)
qed

lemma inv_install:
  assumes "player_inv K p" "items \<noteq> []" "install_session a g name items p = (r, p')"
  shows "player_inv K p'"
proof -
  let ?oid = "p_next_session p"
  have p': "p_sessions p' = dict_set a ?oid (p_sessions p)" "p_next_session p' = Suc ?oid"
    "p_heap p' = (p_heap p)(?oid := new_session g name items)" "p_health p' = p_health p"
    "p_config p' = p_config p"
    using assms(3) by (auto simp: install_session_def alloc_session_def)
  have old: "oid < ?oid" if "dict_get (p_sessions p) b = Some oid" for b oid
    using assms(1) that by (auto simp: player_inv_def player_ok_def sessions_filed_def)
  have "s_items (new_session g name items) \<noteq> []" using assms(2) by (simp add: new_session_def)
  moreover have "session_ok (p_heap p oid)" for oid
    using assms(1) by (simp add: player_inv_def player_ok_def)
  ultimately have "player_ok p'"
    using assms(1) old unfolding player_inv_def player_ok_def sessions_filed_def p'
    by (auto simp: session_ok_new less_Suc_eq dest: old)
  then show ?thesis
    using assms(1) by (fastforce simp: player_inv_def p')
qed

section \<open>Coroutines\<close>

text \<open>A coroutine that picks one of several by the state it starts in.\<close>

lemma preserves_pick:
  fixes f :: "('s, 'z, 'a) coroutine"
  assumes "\<And>sc s. \<exists>g. preserves P g \<and> f sc s = g sc s"
  shows "preserves P f"
  unfolding preserves_def
proof (intro allI impI)
  fix sc :: "('s, 'z) timetable" and s :: "nat \<times> 's" assume "others_keep P sc" "P (snd s)"
  moreover obtain g where "preserves P g" "f sc s = g sc s" using assms by blast
  ultimately show "P (snd (snd (f sc s)))" using preserves_run by metis
qed

lemma ret_same: "(Inr x, s) = ret x sc s"
  by (simp add: ret_def)

lemma preserves_awaiting:
  "(\<And>su p r p'. P p \<Longrightarrow> f su p = (r, p') \<Longrightarrow> P p') \<Longrightarrow> preserves P (awaiting f)"
  unfolding awaiting_def by (rule preserves_suspend) (auto split: if_splits)

lemma preserves_state_op: "(\<And>p r p'. P p \<Longrightarrow> f p = (r, p') \<Longrightarrow> P p') \<Longrightarrow> preserves P (state_op f)"
  unfolding preserves_def state_op_def by (fastforce split: prod.splits)

lemma preserves_at_now: "(\<And>now p. P p \<Longrightarrow> P (f now p)) \<Longrightarrow> preserves P (at_now f)"
  unfolding preserves_def at_now_def by simp

lemma preserves_waits [keeps]:
  "preserves P (query_now f')" "preserves P (awaiting (\<lambda>su p. (h su p, p)))" "preserves P (notify_state a)"
  "preserves P (wait_for_exits ks)" "preserves P (apply_codec_override a)" "preserves P resolve_sink"
  "preserves P (published_queue a)" "preserves P draws" "preserves P (wait_for_exit k)"
  "preserves P (wait_for_pair pr)" "preserves P (suspend (\<lambda>su p. (Inr (), p)))"
proof -
  have wait: "preserves P (awaiting (\<lambda>su p. (h su p, p)))" for h :: "player_pause \<Rightarrow> player \<Rightarrow> py_exc + 'z"
    by (rule preserves_awaiting) auto
  have wait': "preserves P (awaiting (\<lambda>su p. (h su p, p)))" for h :: "player_pause \<Rightarrow> player \<Rightarrow> py_exc + 'y"
    by (rule preserves_awaiting) auto
  have now: "preserves P (query_now f')" for f' :: "real \<Rightarrow> player \<Rightarrow> py_exc + 'x"
    unfolding preserves_def query_now_def by simp
  show "preserves P (query_now f')" "preserves P (awaiting (\<lambda>su p. (h su p, p)))" by (rule now) (rule wait)
  show "preserves P (notify_state a)"
    by (rule preserves_pick) (auto simp: notify_state_def ret_same intro: wait keeps)
  show "preserves P (wait_for_exits ks)" "preserves P (apply_codec_override a)"
    by (rule preserves_pick; auto simp: wait_for_exits_def apply_codec_override_def ret_same intro: wait keeps)+
  show "preserves P resolve_sink" "preserves P (wait_for_exit k)"
    unfolding resolve_sink_def wait_for_exit_def by (rule preserves_awaiting; auto)+
  show "preserves P (published_queue a)" unfolding published_queue_def preserves_def query_now_def by simp
  show "preserves P draws" unfolding preserves_def draws_def by simp
  show "preserves P (wait_for_pair pr)"
    unfolding wait_for_pair_def by (rule preserves_awaiting) (auto split: if_splits)
  show "preserves P (suspend (\<lambda>su p. (Inr (), p)))" by (rule preserves_suspend) auto
qed

lemma keeps_now [keeps]: "(\<And>now p. P p \<Longrightarrow> P (f now p)) \<Longrightarrow> preserves P (at_now f)"
  by (rule preserves_at_now)

lemma inv_update_keeps: "session_step f \<Longrightarrow> preserves (player_inv K) (modify (update_session oid f))"
  by (rule preserves_modify) (rule inv_update)

lemma keeps_lock:
  assumes "preserves (player_inv K) body"
  shows "preserves (player_inv K) (with_address_lock a body)"
proof -
  have "preserves (player_inv K) (awaiting (\<lambda>su p. (Inr (), take_lock a p)))"
    by (rule preserves_awaiting) auto
  moreover have "preserves (player_inv K) (modify (take_lock a))" by (rule preserves_modify) simp
  ultimately have "preserves (player_inv K) (acquire_lock a)"
    by (intro preserves_pick) (auto simp: acquire_lock_def)
  then show ?thesis
    unfolding with_address_lock_def using assms by (intro keeps) simp_all
qed

lemma keeps_stop [keeps]: "preserves (player_inv K) (stop_processes a)"
proof -
  have run: "preserves (player_inv K)
      (and_then (modify (\<lambda>p. each_live terminate_process ks (each_live continue_process ks
                          (p\<lparr>p_active := dict_del a (p_active p)\<rparr>))))
        (\<lambda>_. and_then (wait_for_exits ks) (\<lambda>_. modify (track_task (Reap_processes a ks)))))" for ks
    by (intro keeps) simp_all
  show ?thesis
    by (rule preserves_pick) (auto simp: stop_processes_def ret_same Let_def intro: run keeps split: option.split)
qed

lemma keeps_warmup [keeps]: "preserves (player_inv K) (cancel_sink_warmup a)"
proof -
  have sus: "preserves (player_inv K) (suspend (\<lambda>su p. (Inr (), p)) :: unit play)" by (rule preserves_waits)
  have "preserves (player_inv K)
      (and_then (modify (\<lambda>p. p\<lparr>p_warmups := removeAll a (p_warmups p)\<rparr>)) (\<lambda>_. suspend (\<lambda>su p. (Inr (), p))) :: unit play)"
    by (rule preserves_and_then [OF preserves_modify sus]) simp
  then show ?thesis
    by (intro preserves_pick) (auto simp: cancel_sink_warmup_def ret_same intro: keeps)
qed

lemma keeps_spawn [keeps]: "preserves (player_inv K) spawn_process"
  unfolding spawn_process_def by (rule preserves_awaiting) (auto split: if_splits)

lemma keeps_abandon [keeps]: "preserves (player_inv K) (abandon_spawned a ks)"
  unfolding abandon_spawned_def Let_def by (intro keeps) simp_all

lemma inv_commit: "player_inv K p \<Longrightarrow> player_inv K (commit_playback a url g title pr now p)"
proof -
  assume inv: "player_inv K p"
  let ?p1 = "p\<lparr>p_active := dict_set a pr (p_active p), p_last_urls := dict_set a url (p_last_urls p)\<rparr>"
  have p2: "player_inv K (set_state a PLAYBACK_PLAYING (start_timeline now a url title ?p1))"
    using inv by simp
  have step: "session_step (\<lambda>s. s\<lparr>s_processes := Some pr\<rparr>)" by (rule session_step_same) simp_all
  show ?thesis
    unfolding commit_playback_def Let_def
    by (rule inv_frame [OF part_fold]) (auto intro: inv p2 inv_update step split: option.split)
qed

lemma keeps_open_stream [keeps]: "preserves (player_inv K) (open_stream a url g title t)"
  unfolding open_stream_def spawn_or_abandon_def
  by (intro keeps) (simp_all add: inv_commit)

lemma keeps_play_locked [keeps]: "preserves (player_inv K) (play_url_locked a url g title)"
proof -
  have missing: "preserves (player_inv K) (and_then (at_now (observe_missing_sink a)) (\<lambda>_. throw sink_unavailable) :: unit play)"
    by (intro keeps) simp
  show ?thesis
    unfolding play_url_locked_def
    by (auto intro!: keeps_warmup keeps_stop preserves_and_then preserves_waits missing keeps_open_stream
      preserves_basic split: option.split sum.split)
qed

lemma keeps_invalidate [keeps]:
  "preserves (player_inv K) (state_op (\<lambda>p. case invalidate_session a p of (g, p') \<Rightarrow> (Inr g, p')))"
proof (rule preserves_state_op)
  fix p and r :: "py_exc + nat" and p'
  assume "player_inv K p" "(case invalidate_session a p of (g, p') \<Rightarrow> (Inr g, p')) = (r, p')"
  then show "player_inv K p'" using inv_invalidate [of K p a] by (auto split: prod.splits)
qed

lemma keeps_play_url [keeps]: "preserves (player_inv K) (play_url address url)"
  unfolding play_url_def
  by (auto intro!: preserves_and_then preserves_basic keeps_invalidate keeps_lock preserves_try_catch
    keeps_play_locked split: sum.split)

lemma keeps_execute_stop [keeps]: "preserves (player_inv K) (execute_stop address)"
  unfolding execute_stop_def
  by (intro keeps) (simp_all add: inv_invalidate)

section \<open>Queue coroutines\<close>

lemma session_steps:
  "session_step (\<lambda>s. s\<lparr>s_status := st, s_error := e\<rparr>)" "session_step (\<lambda>s. s\<lparr>s_status := st\<rparr>)"
  "session_step (\<lambda>s. s\<lparr>s_repeat := m\<rparr>)" "session_step (\<lambda>s. s\<lparr>s_processes := pr\<rparr>)"
  "session_step (\<lambda>s. s\<lparr>s_generation := g, s_processes := pr\<rparr>)"
  "session_step (\<lambda>s. (blank_urls s)\<lparr>s_status := st\<rparr>)"
  by (rule session_step_same; simp)+

lemma inv_queue_ops [simp]:
  assumes "player_inv K p"
  shows "player_inv K (fail_session a oid p)" "player_inv K (pause_session a oid now p)"
    "player_inv K (resume_session a oid now p)" "player_inv K (session_ended a oid p)"
    "player_inv K (complete_session a oid now p)" "player_inv K (end_stream a p)"
    "player_inv K (claim_session oid g p)"
  using assms
  by (auto simp: fail_session_def pause_session_def resume_session_def session_ended_def complete_session_def
    end_stream_def claim_session_def inv_update session_steps split: option.split)

lemma keeps_play_item [keeps]: "preserves (player_inv K) (play_queue_item_locked a oid)"
  unfolding play_queue_item_locked_def Let_def
  by (auto intro!: preserves_and_then preserves_basic preserves_modify inv_update session_steps keeps_play_locked)

lemma keeps_play_item_or_fail [keeps]: "preserves (player_inv K) (play_item_or_fail pausing a oid)"
proof -
  have "preserves (player_inv K) (and_then (at_now (\<lambda>now p. fail_session a oid (if pausing then pause_timeline now a p else p)))
      (\<lambda>_. notify_state a))"
    by (intro preserves_and_then keeps_now preserves_waits) simp
  then show ?thesis
    unfolding play_item_or_fail_def
    by (auto intro!: preserves_try_catch keeps_play_item preserves_basic)
qed

lemma validate_items_length: "validate_items es = Some (items, n) \<Longrightarrow> length items = length es"
  by (induction es arbitrary: items n) (auto simp: Let_def split: option.splits sum.splits)

lemma validate_queue_nonempty: "validate_queue playlist es = Inr (name, items) \<Longrightarrow> items \<noteq> []"
  using validate_items_length
  by (fastforce simp: validate_queue_def split: option.splits if_splits)

lemma from_sum_then [simp]:
  "and_then (from_sum (Inr x)) g = g x" "and_then (from_sum (Inl e)) g = throw e"
  by (simp_all add: fun_eq_iff and_then_def from_sum_def throw_def)

lemma keeps_start_queue [keeps]: "preserves (player_inv K) (start_queue address playlist items)"
proof (cases "normalize_address address")
  case (Inr a)
  show ?thesis
  proof (cases "validate_queue playlist items")
    case valid: (Inr nv)
    obtain name validated where nv: "nv = (name, validated)" by (cases nv)
    have ne: "validated \<noteq> []" using valid nv validate_queue_nonempty by blast
    have install: "preserves (player_inv K) (state_op (install_session a g name validated))" for g
      by (rule preserves_state_op) (rule inv_install [OF _ ne])
    show ?thesis
      unfolding start_queue_def Inr valid nv from_sum_then prod.case
      by (auto intro!: preserves_and_then keeps_invalidate keeps_lock preserves_basic install
        keeps_play_item_or_fail preserves_waits)
  qed (simp add: start_queue_def Inr preserves_basic)
qed (simp add: start_queue_def preserves_basic)

lemma keeps_control_simple:
  "preserves (player_inv K) (control_shuffle a oid b)" "preserves (player_inv K) (control_repeat a oid m)"
  "preserves (player_inv K) (control_pause a oid)" "preserves (player_inv K) (control_resume a oid)"
proof -
  show "preserves (player_inv K) (control_shuffle a oid b)" "preserves (player_inv K) (control_repeat a oid m)"
    unfolding control_shuffle_def control_repeat_def
    by (intro preserves_and_then preserves_waits preserves_modify; simp add: inv_update step_shuffle session_steps)+
  have "preserves (player_inv K) (and_then (at_now (pause_session a oid)) (\<lambda>_. notify_state a))"
    "preserves (player_inv K) (and_then (at_now (resume_session a oid)) (\<lambda>_. notify_state a))"
    by (intro preserves_and_then keeps_now preserves_waits; simp)+
  then show "preserves (player_inv K) (control_pause a oid)" "preserves (player_inv K) (control_resume a oid)"
    unfolding control_pause_def control_resume_def
    by (auto intro!: preserves_and_then preserves_basic)
qed

text \<open>A planned move keeps the invariant as long as the session it was planned for has kept its size.\<close>

lemma keeps_control_replace:
  assumes "(cp_session plan, n) \<in> K" "cp_target plan < n"
  shows "preserves (player_inv K) (control_replace a operation plan)"
proof -
  have "player_inv K p'" if inv: "player_inv K p" and op: "move_op operation plan p = (r, p')" for p p' r
  proof (cases "move_session operation (cp_restart plan) (cp_target plan) (p_heap p (cp_session plan))")
    case (Inr s)
    let ?s0 = "p_heap p (cp_session plan)"
    have "session_ok ?s0" using inv by (simp add: player_inv_def player_ok_def)
    moreover have "cp_target plan < length (s_original ?s0)"
      using inv assms by (auto simp: player_inv_def)
    ultimately have "session_ok s \<and> s_original s = s_original ?s0 \<and> s_items s = s_items ?s0"
      using move_ok Inr by blast
    then show ?thesis using op inv Inr by (auto simp: move_op_def intro: inv_move)
  qed (use op inv in \<open>simp add: move_op_def\<close>)
  then have "preserves (player_inv K) (state_op (move_op operation plan))" by (rule preserves_state_op)
  moreover have "preserves (player_inv K) (modify (claim_session (cp_session plan) (cp_generation plan)))"
    by (rule preserves_modify) simp
  ultimately show ?thesis
    unfolding control_replace_def by (intro preserves_and_then keeps_stop keeps_play_item_or_fail)
qed

lemma keeps_control_locked:
  assumes "(cp_session plan, n) \<in> K" "cp_target plan < n"
  shows "preserves (player_inv K) (control_locked a operation shuffle repeat plan)"
proof -
  note replace = keeps_control_replace [OF assms]
  have play: "preserves (player_inv K) (control_play a plan)"
    unfolding control_play_def
    by (auto intro!: preserves_and_then preserves_basic keeps_control_simple replace)
  show ?thesis
    unfolding control_locked_def
    by (auto intro!: preserves_and_then preserves_basic keeps_control_simple replace play
      split: queue_operation.split option.split)
qed

section \<open>Every coroutine\<close>

text \<open>
  The other tasks respect the same rules, whatever sessions they hold; and a coroutine is sound when it
  respects them too.
\<close>

definition fair_others :: "(nat \<Rightarrow> player_pause) \<Rightarrow> bool" where
  "fair_others sc \<longleftrightarrow> (\<forall>K. others_keep (player_inv K) sc)"

definition sound :: "'a play \<Rightarrow> bool" where
  "sound f \<longleftrightarrow> (\<forall>sc s K. fair_others sc \<longrightarrow> player_inv K (snd s) \<longrightarrow> player_inv K (snd (snd (f sc s))))"

lemma soundI: "(\<And>K. preserves (player_inv K) f) \<Longrightarrow> sound f"
  unfolding sound_def fair_others_def using preserves_run by blast

lemma soundD: "sound f \<Longrightarrow> fair_others sc \<Longrightarrow> player_inv K (snd s) \<Longrightarrow> player_inv K (snd (snd (f sc s)))"
  unfolding sound_def by blast

lemma sound_and_then:
  assumes f: "sound f" and g: "\<And>x. sound (g x)"
  shows "sound (and_then f g)"
  unfolding sound_def
proof (intro allI impI)
  fix sc :: "nat \<Rightarrow> player_pause" and s :: "nat \<times> player" and K
  assume sc: "fair_others sc" and s: "player_inv K (snd s)"
  obtain r s' where fs: "f sc s = (r, s')" by (cases "f sc s")
  have "player_inv K (snd s')" using soundD [OF f sc s] by (simp add: fs)
  then show "player_inv K (snd (snd (and_then f g sc s)))"
    using soundD [OF g sc] by (cases r) (auto simp: and_then_def fs)
qed

lemma inv_insert: "player_inv (insert x K) p \<Longrightarrow> player_inv K p"
  by (simp add: player_inv_def)

lemma plan_control_ok:
  assumes "player_inv K p" "plan_control now a operation shuffle repeat p = (r, p')"
  shows "player_inv K p' \<and> (\<forall>plan. r = Inr plan \<longrightarrow>
     (\<exists>n. player_inv (insert (cp_session plan, n) K) p' \<and> cp_target plan < n))"
proof -
  have frame: "player_inv K' q" if "next_playback_generation a p = (g, q)" "player_inv K' p" for K' g q
    using inv_frame [OF part_next_generation [OF that(1)] that(2)] .
  have ins: "player_inv (insert (oid, length (s_original (p_heap p oid))) K) p"
    if "dict_get (p_sessions p) a = Some oid" for oid
    using assms(1) that by (auto simp: player_inv_def player_ok_def sessions_filed_def)
  have ok: "session_ok (p_heap p oid)" for oid
    using assms(1) by (simp add: player_inv_def player_ok_def)
  show ?thesis
    using assms ins ok next_index_bound frame
    unfolding plan_control_def Let_def
    by (fastforce split: option.splits sum.splits if_splits prod.splits)
qed

lemma sound_control_queue: "sound (control_queue address operation shuffle repeat)"
proof (cases "normalize_address address")
  case (Inr a)
  let ?body = "\<lambda>plan. with_address_lock a
      (and_then (control_locked a operation shuffle repeat plan) (\<lambda>_. published_queue a))"
  have body: "sound (and_then (plan_now a operation shuffle repeat) ?body)"
    unfolding sound_def
  proof (intro allI impI)
    fix sc :: "nat \<Rightarrow> player_pause" and s :: "nat \<times> player" and K
    assume sc: "fair_others sc" and s: "player_inv K (snd s)"
    obtain r p where pc: "plan_control (pp_clock (sc (fst s))) a operation shuffle repeat (snd s) = (r, p)"
      by (cases "plan_control (pp_clock (sc (fst s))) a operation shuffle repeat (snd s)")
    have run: "plan_now a operation shuffle repeat sc s = (r, (fst s, p))" by (simp add: plan_now_def pc)
    note ok = plan_control_ok [OF s pc]
    show "player_inv K (snd (snd (and_then (plan_now a operation shuffle repeat) ?body sc s)))"
    proof (cases r)
      case (Inl e)
      then show ?thesis using ok by (simp add: and_then_def run)
    next
      case (Inr plan)
      then obtain n where n: "player_inv (insert (cp_session plan, n) K) p" "cp_target plan < n"
        using ok by blast
      have pres: "preserves (player_inv (insert (cp_session plan, n) K)) (?body plan)"
        by (intro keeps_lock preserves_and_then preserves_waits)
          (rule keeps_control_locked [OF insertI1 n(2)])
      have keep: "others_keep (player_inv (insert (cp_session plan, n) K)) sc"
        using sc unfolding fair_others_def by (rule spec)
      have "player_inv (insert (cp_session plan, n) K) (snd (snd (?body plan sc (fst s, p))))"
        by (rule preserves_run [OF pres keep]) (simp only: snd_conv n(1))
      then have "player_inv K (snd (snd (?body plan sc (fst s, p))))" by (rule inv_insert)
      moreover have "and_then (plan_now a operation shuffle repeat) ?body sc s = ?body plan sc (fst s, p)"
        by (simp add: and_then_def run Inr)
      ultimately show ?thesis by (simp only:)
    qed
  qed
  have "sound (and_then (execute_stop a) (\<lambda>_. ret (None :: queue_view option)))"
    by (intro soundI keeps)
  then show ?thesis using body by (simp add: control_queue_def Inr)
next
  case (Inl e)
  have "sound (throw e :: (queue_view option) play)" by (intro soundI keeps)
  then show ?thesis by (simp add: control_queue_def Inl)
qed

lemma keeps_stream_ended: "preserves (player_inv K) (session_stream_ended a oid pr)"
proof -
  have adv: "preserves (player_inv K) (state_op (advance_op oid))"
  proof (rule preserves_state_op)
    fix p and r :: "py_exc + bool" and p' assume inv: "player_inv K p" and op: "advance_op oid p = (r, p')"
    have ok: "session_ok (p_heap p oid)" using inv by (simp add: player_inv_def player_ok_def)
    show "player_inv K p'"
    proof (cases "\<exists>s'. advance_session (p_heap p oid) = Inr (Some s')")
      case True
      then obtain s' where s': "advance_session (p_heap p oid) = Inr (Some s')" by blast
      then have "p' = update_session oid (\<lambda>_. s') p" using op by (simp add: advance_op_def)
      then show ?thesis using advance_ok [OF ok s'] inv inv_move by blast
    next
      case False
      then have "p' = p" using op by (auto simp: advance_op_def split: sum.splits option.splits)
      then show ?thesis using inv by simp
    qed
  qed
  have ends: "preserves (player_inv K) (and_then (at_now (\<lambda>now p. fail_session a oid (pause_timeline now a p))) (\<lambda>_. notify_state a))"
    "preserves (player_inv K) (and_then (at_now (complete_session a oid)) (\<lambda>_. notify_state a))"
    "preserves (player_inv K) (modify (session_ended a oid))"
    by (intro preserves_and_then keeps_now preserves_waits preserves_modify; simp)+
  show ?thesis
    unfolding session_stream_ended_def
    by (auto intro!: preserves_and_then preserves_basic ends adv keeps_play_item_or_fail)
qed

lemma keeps_watch: "preserves (player_inv K) (watch_processes a pr g)"
proof -
  have "preserves (player_inv K) (and_then (modify (end_stream a)) (\<lambda>_. notify_state a))"
    by (intro preserves_and_then preserves_waits preserves_modify) simp
  then show ?thesis
    unfolding watch_processes_def
    by (auto intro!: preserves_and_then preserves_waits preserves_basic keeps_lock keeps_stream_ended
      split: option.split)
qed

lemma keeps_simple_commands:
  "preserves (player_inv K) (execute_set_volume a v)"
  "preserves (player_inv K) (and_then (at_now (\<lambda>now p. set_state a PLAYBACK_PLAYING (resume_timeline now a (signal_processes False a p))))
     (\<lambda>_. notify_state a))"
  "preserves (player_inv K) (and_then (at_now (\<lambda>now p. set_state a PLAYBACK_PAUSED (pause_timeline now a (signal_processes True a p))))
     (\<lambda>_. notify_state a))"
proof -
  have rec: "preserves (player_inv K) (state_op (record_volume a w))" for w
    by (intro preserves_state_op) (rule inv_record_volume)
  have app: "preserves (player_inv K) apply_volume"
    unfolding apply_volume_def
    by (auto intro!: preserves_and_then preserves_waits preserves_basic split: option.split sum.split)
  show "preserves (player_inv K) (execute_set_volume a v)"
    unfolding execute_set_volume_def
    by (auto intro!: preserves_and_then preserves_basic rec app preserves_waits split: option.split)
  show "preserves (player_inv K) (and_then (at_now (\<lambda>now p. set_state a PLAYBACK_PLAYING (resume_timeline now a (signal_processes False a p))))
     (\<lambda>_. notify_state a))"
    "preserves (player_inv K) (and_then (at_now (\<lambda>now p. set_state a PLAYBACK_PAUSED (pause_timeline now a (signal_processes True a p))))
     (\<lambda>_. notify_state a))"
    by (intro preserves_and_then keeps_now preserves_waits; simp)+
qed

lemma sound_execute: "sound (execute address operation)"
proof (cases "normalize_address address")
  case (Inr a)
  have queued: "sound (and_then (control_queue a q None None) (\<lambda>_. ret ()))" for q
    by (rule sound_and_then [OF sound_control_queue]) (intro soundI keeps)
  have "sound (execute_play a)" "sound (execute_pause a)"
    unfolding execute_play_def execute_pause_def
    by (auto intro!: sound_and_then queued soundI [OF keeps_play_url] soundI [OF keeps_simple_commands(2)]
      soundI [OF keeps_simple_commands(3)] soundI [OF preserves_basic(3)] soundI [OF preserves_basic(2)]
      split: option.split)
  then show ?thesis
    using Inr by (auto simp: execute_def intro!: soundI [OF keeps_execute_stop] soundI [OF keeps_simple_commands(1)]
      soundI [OF keeps_play_url] soundI [OF preserves_basic(2)] split: player_operation.split option.split)
next
  case (Inl e)
  then show ?thesis by (simp add: execute_def soundI preserves_basic)
qed

lemma keeps_registration:
  "preserves (player_inv K) (state_op (register_keepalive address))"
  "preserves (player_inv K) (state_op (unregister_keepalive address))"
proof -
  show "preserves (player_inv K) (state_op (register_keepalive address))"
    by (rule preserves_state_op)
      (auto simp: register_keepalive_def start_sink_warmup_def split: sum.splits if_splits)
  show "preserves (player_inv K) (state_op (unregister_keepalive address))"
    by (rule preserves_state_op)
      (auto simp: unregister_keepalive_def Let_def inv_invalidate split: sum.splits if_splits)
qed

lemma keeps_reap: "preserves (player_inv K) (reap_processes ks)"
proof (induction ks)
  case (Cons k ks)
  have "preserves (player_inv K) (modify (kill_process k))" by (rule preserves_modify) simp
  then show ?case
    using Cons by (auto intro!: preserves_and_then preserves_basic preserves_waits)
qed (simp add: preserves_basic)

lemma keeps_stop_each: "preserves (player_inv K) (stop_each as)"
proof (induction as)
  case (Cons a as)
  have "preserves (player_inv K) (modify (set_state a PLAYBACK_IDLE))" by (rule preserves_modify) simp
  then show ?case
    using Cons by (auto intro!: preserves_and_then preserves_basic preserves_waits keeps_stop)
qed (simp add: preserves_basic)

lemma keeps_loop_stops:
  "preserves (player_inv K) stop_keepalive" "preserves (player_inv K) stop_volume_watch"
proof -
  have await: "preserves (player_inv K) (await_cancelled t)" for t
    unfolding await_cancelled_def by (cases t) (auto intro: preserves_suspend preserves_basic)
  have "preserves (player_inv K) (modify (\<lambda>p. p\<lparr>p_keepalive_task := None\<rparr>))"
    "preserves (player_inv K) (modify (\<lambda>p. p\<lparr>p_volume_task := None\<rparr>))" by (rule preserves_modify, simp)+
  then show "preserves (player_inv K) stop_keepalive" "preserves (player_inv K) stop_volume_watch"
    unfolding stop_keepalive_def stop_volume_watch_def
    by (auto intro!: preserves_and_then preserves_basic await split: option.split)
qed

lemma keeps_shutdown: "preserves (player_inv K) async_shutdown"
proof -
  have inv: "player_inv K (fold (\<lambda>a q. snd (invalidate_session a q)) as p)" if "player_inv K p" for as p
    using that by (induction as arbitrary: p) (auto intro: inv_invalidate)
  have last: "preserves (player_inv K) (awaiting (\<lambda>su p. (Inr (), p\<lparr>p_tasks := []\<rparr>)))"
    by (rule preserves_awaiting) auto
  have "preserves (player_inv K) (modify (\<lambda>p. p\<lparr>p_warmups := []\<rparr>))" by (rule preserves_modify) simp
  then show ?thesis
    unfolding async_shutdown_def
    by (auto intro!: preserves_and_then preserves_modify inv preserves_waits preserves_basic keeps_loop_stops keeps_stop_each last)
qed

lemma sound_lemmas:
  "sound (start_queue address playlist items)" "sound (play_url address url)" "sound (watch_processes a pr g)"
  "sound (state_op (unregister_keepalive address))" "sound (state_op (register_keepalive address))"
  "sound (reap_processes ks)" "sound async_shutdown"
  by (intro soundI keeps_start_queue keeps_play_url keeps_watch keeps_registration keeps_reap keeps_shutdown)+

end
