(* ===== verification/Player_Spec.thy ===== *)
theory Player_Spec
  imports Player_Invariant
begin

text \<open>
  What the player promises: the order in which a queue is played, moves that undo each other, shuffling as
  a permutation that can be undone, superseded requests that do nothing, the effect of a stop, volumes
  that are stored, and the races the code does not close.
\<close>

section \<open>Timetables to evaluate on\<close>

definition calm_play :: "nat \<Rightarrow> player_pause" where
  "calm_play = (\<lambda>_. \<lparr>su_others = (\<lambda>p. p), su_now = 0, pp_clock = 0, pp_cancelled = False,
     pp_sink = Inr (Some ''sink''), pp_spawn = True, pp_notify = Inr (), pp_output = None, pp_random = (\<lambda>_. 0)\<rparr>)"

definition silent_player :: player where "silent_player = new_player None None False"

definition witness_track :: "string \<Rightarrow> queue_item" where
  "witness_track name = \<lparr>qi_url = ''http://radio.example/'' @ name, qi_title = None, qi_artist = None\<rparr>"

lemma fair_calm: "fair_others calm_play"
  by (simp add: fair_others_def others_keep_def calm_play_def)

lemma silent_ok: "player_inv {} silent_player"
  by (simp add: silent_player_def inv_new health_fine_def config_fine_def)

section \<open>Queue order\<close>

text \<open>The session after its stream has ended by itself \<open>k\<close> times: \<open>None\<close> once the queue is over.\<close>

primrec after_ends :: "nat \<Rightarrow> session \<Rightarrow> session option" where
  "after_ends 0 s = Some s"
| "after_ends (Suc k) s =
     (case after_ends k s of None \<Rightarrow> None
      | Some t \<Rightarrow> (case advance_session t of Inr r \<Rightarrow> r | Inl _ \<Rightarrow> None))"

lemma after_ends_one: "s_repeat s = Repeat_one \<Longrightarrow> after_ends k s = Some s"
  by (induction k) (auto simp: advance_session_def)

lemma after_ends_off:
  assumes "s_repeat s = Repeat_off" "s_index s = 0" "s_history s = []" "s_items s \<noteq> []"
  shows "after_ends k s =
    (if k < length (s_items s) then Some (s\<lparr>s_index := k, s_history := take k (s_items s)\<rparr>) else None)"
proof (induction k)
  case 0
  have "s\<lparr>s_index := 0, s_history := []\<rparr> = s" using assms by (cases s) simp
  then show ?case using assms by simp
next
  case (Suc k)
  then show ?case using assms by (auto simp: advance_session_def take_Suc_conv_app_nth not_less_eq)
qed

lemma after_ends_all:
  assumes "s_repeat s = Repeat_all" "s_index s = 0" "s_history s = []" "s_items s \<noteq> []"
  shows "after_ends k s = Some (s\<lparr>s_index := k mod length (s_items s),
     s_history := map (\<lambda>i. s_items s ! (i mod length (s_items s))) [0..<k]\<rparr>)"
proof (induction k)
  case 0
  have "s\<lparr>s_index := 0, s_history := []\<rparr> = s" using assms by (cases s) simp
  then show ?case using assms by simp
next
  case (Suc k)
  let ?n = "length (s_items s)"
  have n: "0 < ?n" using assms(4) by simp
  then have "k mod ?n < ?n" by simp
  then have "Suc k mod ?n = (if Suc (k mod ?n) < ?n then Suc (k mod ?n) else 0)"
    by (simp add: mod_Suc)
  then show ?case
    using Suc assms n by (auto simp: advance_session_def)
qed

lemma distinct_filter_drop: "distinct xs \<Longrightarrow> filter (\<lambda>x. x \<in> set (drop k xs)) xs = drop k xs"
proof -
  assume d: "distinct xs"
  have "filter (\<lambda>x. x \<in> set (drop k xs)) xs =
      filter (\<lambda>x. x \<in> set (drop k xs)) (take k xs) @ filter (\<lambda>x. x \<in> set (drop k xs)) (drop k xs)"
    by (metis append_take_drop_id filter_append)
  moreover have "filter (\<lambda>x. x \<in> set (drop k xs)) (take k xs) = []"
    using set_take_disj_set_drop_if_distinct [OF d, of k k] by (auto simp: filter_empty_conv)
  moreover have "filter (\<lambda>x. x \<in> set (drop k xs)) (drop k xs) = drop k xs" by (simp add: filter_id_conv)
  ultimately show ?thesis by simp
qed

section \<open>Watching a superseded stream\<close>

lemma watch_superseded:
  assumes "\<not> pp_cancelled (sc n)" "p' = su_others (sc n) p"
    and "\<not> live_process p' (fst pr)" "\<not> live_process p' (snd pr)" "generation_of p' a \<noteq> Some g"
  shows "watch_processes a pr (Some g) sc (n, p) = (Inr (), (Suc n, p'))"
  using assms
  by (simp add: watch_processes_def wait_for_pair_def awaiting_def and_then_def suspend_def read_def ret_def
    Let_def)

section \<open>One speaker's share of the state\<close>

definition speaker_part :: "string \<Rightarrow> player \<Rightarrow> nat option \<times> process_pair option \<times> timeline option \<times> playback_state" where
  "speaker_part a p = (dict_get (p_sessions p) a, dict_get (p_active p) a, dict_get (p_timelines p) a, get_state p a)"

lemma speaker_part_simps [simp]:
  "speaker_part a (track_task t p) = speaker_part a p"
  "speaker_part a (continue_process k p) = speaker_part a p"
  "speaker_part a (terminate_process k p) = speaker_part a p"
  "speaker_part a (p\<lparr>p_generations := g\<rparr>) = speaker_part a p"
  by (simp_all add: speaker_part_def get_state_def track_task_def continue_process_def terminate_process_def
    update_process_def)

lemma speaker_part_each_live:
  "(\<And>k p. speaker_part a (f k p) = speaker_part a p) \<Longrightarrow> speaker_part a (each_live f ks p) = speaker_part a p"
  unfolding each_live_def by (induction ks arbitrary: p) auto

lemma speaker_part_batches [simp]:
  "speaker_part a (each_live terminate_process ks p) = speaker_part a p"
  "speaker_part a (each_live continue_process ks p) = speaker_part a p"
  by (rule speaker_part_each_live, simp)+

lemma stop_processes_part:
  assumes "others_leave (speaker_part a) sc" and "speaker_part a p = (qs, act, tline, st)"
    and "stop_processes a sc (n, p) = (r, (n', p'))"
  shows "speaker_part a p' = (qs, None, tline, st) \<and> (r = Inr () \<or> r = Inl CancelledError)"
proof (cases "dict_get (p_active p) a")
  case None
  then show ?thesis using assms by (auto simp: stop_processes_def speaker_part_def)
next
  case (Some pr)
  have drop: "speaker_part a (p\<lparr>p_active := dict_del a (p_active p)\<rparr>) = (qs, None, tline, st)"
    using assms(2) by (simp add: speaker_part_def get_state_def)
  have others: "speaker_part a (su_others (sc m) q) = speaker_part a q" for m q
    using assms(1) by (simp add: others_leave_def)
  show ?thesis
    using assms(3) drop others
    by (auto simp: stop_processes_def Some Let_def act_defs wait_for_exits_def awaiting_def split: if_splits)
qed

section \<open>Volumes\<close>

lemma py_round_bounds:
  assumes "0 \<le> x" "x \<le> of_int n"
  shows "0 \<le> py_round x \<and> py_round x \<le> n \<and> \<bar>x - of_int (py_round x)\<bar> \<le> 1 / 2"
proof -
  define f where "f = \<lfloor>x\<rfloor>"
  have f: "of_int f \<le> x" "x < of_int f + 1" unfolding f_def by linarith+
  have f0: "0 \<le> f" using assms(1) unfolding f_def by simp
  have fn: "f \<le> n" using f(1) assms(2) by linarith
  have top: "f + 1 \<le> n" if "of_int f + 1 / 2 \<le> x"
  proof (rule ccontr)
    assume "\<not> f + 1 \<le> n"
    then have "f = n" using fn by simp
    then show False using that assms(2) by simp
  qed
  consider "py_round x = f" "x - of_int f \<le> 1 / 2" | "py_round x = f + 1" "of_int f + 1 / 2 \<le> x"
    unfolding py_round_def Let_def f_def [symmetric] by (auto split: if_splits) argo+
  then show ?thesis
  proof cases
    case 1
    then show ?thesis using f f0 fn by simp
  next
    case 2
    then show ?thesis using f f0 top by (simp add: abs_le_iff)
  qed
qed

section \<open>A start on a quiet speaker\<close>

definition stop_request :: "string \<Rightarrow> player \<Rightarrow> player" where
  "stop_request a p = snd (snd (execute_stop a calm_play (0, p)))"

definition all_exit :: "player \<Rightarrow> player" where
  "all_exit p = p\<lparr>p_procs := (\<lambda>_. exited_process)\<rparr>"

definition during :: "nat \<Rightarrow> (player \<Rightarrow> player) \<Rightarrow> nat \<Rightarrow> player_pause" where
  "during k f n = (calm_play n)\<lparr>su_others := (if n = k then f else (\<lambda>p. p))\<rparr>"

lemma during_later: "i \<in> {Suc 0, Suc (Suc 0)} \<Longrightarrow> during 0 f i = calm_play i"
  by (auto simp: during_def calm_play_def)

lemma during_now:
  "su_others (during k f k) = f" "pp_cancelled (during k f i) = False" "pp_sink (during k f i) = Inr (Some ''sink'')"
  "pp_clock (during k f i) = 0" "pp_spawn (during k f i) = True"
  by (simp_all add: during_def calm_play_def)

lemmas play_eval = act_defs awaiting_def at_now_def state_op_def query_now_def notify_state_def
  cancel_sink_warmup_def stop_processes_def resolve_sink_def apply_codec_override_def codec_pin_wanted_def
  configured_codec_def codec_token_def spawn_process_def wait_for_exits_def Let_def

lemma sink_parsed: "parse_sink ''sink'' = Inr (Pipewire, ''sink'')"
  by (simp add: parse_sink_def validate_identifier_def IDENTIFIER_PATTERN_def identifier_tail_def starts_with_def
    char_class_defs)

text \<open>The start of a stream up to its last pause, when only the first pause is disturbed.\<close>

definition with_pair :: "player \<Rightarrow> player" where
  "with_pair q = q\<lparr>p_procs := (p_procs q)(p_next_process q := fresh_process, Suc (p_next_process q) := fresh_process),
     p_next_process := Suc (Suc (p_next_process q))\<rparr>"

lemma quiet_start:
  assumes "a \<notin> set (p_warmups p)" "dict_get (p_active p) a = None"
    and "q = su_others (sc n) p" "\<not> pp_cancelled (sc n)" "pp_sink (sc n) = Inr (Some ''sink'')"
    and "p_health q = None" "dict_get (p_last_codec q) a = None" "\<not> codec_pin_wanted q a" "\<not> p_callback q"
    and "\<And>i. i \<in> {Suc n, Suc (Suc n)} \<Longrightarrow> sc i = calm_play i"
  shows "play_url_locked a url g title sc (n, p) =
    (Inr (), (Suc (Suc (Suc n)), commit_playback a url g title (p_next_process q, Suc (p_next_process q))
       (pp_clock (sc (Suc (Suc (Suc n))))) (with_pair q)))"
proof -
  have calm: "su_others (calm_play i) = (\<lambda>p. p)" "\<not> pp_cancelled (calm_play i)" "pp_spawn (calm_play i)" for i
    by (simp_all add: calm_play_def)
  have sc: "sc (Suc n) = calm_play (Suc n)" "sc (Suc (Suc n)) = calm_play (Suc (Suc n))" using assms(10) by simp_all
  have quiet: "report_codec a now (observe_healthy_sink t now q) = q" for now t
    using assms(6,7) by (simp add: report_codec_def observe_healthy_sink_def)
  have cb: "\<not> p_callback (commit_playback a url g title pr now (with_pair q))" for pr now
    using assms(9)
    by (auto simp: commit_playback_def Let_def track_task_def set_state_def start_timeline_def with_pair_def
      update_session_def split: option.split)
  have open_run: "open_stream a url g title t sc (Suc n, q) =
     (Inr (), (Suc (Suc (Suc n)), commit_playback a url g title (p_next_process q, Suc (p_next_process q))
       (pp_clock (sc (Suc (Suc (Suc n))))) (with_pair q)))" for t
    using assms(8) cb
    by (simp add: open_stream_def spawn_or_abandon_def act_defs at_now_def quiet apply_codec_override_def
      spawn_process_def awaiting_def sc calm notify_state_def with_pair_def)
  show ?thesis
    using assms(1,2,4,5)
    by (simp add: play_url_locked_def act_defs cancel_sink_warmup_def stop_processes_def resolve_sink_def awaiting_def
      sink_parsed open_run assms(3) [symmetric])
qed

section \<open>Properties\<close>

text \<open>
  C4. Whatever the other tasks do between two suspensions, as long as they respect the sessions themselves,
  every player coroutine leaves the queue sessions well formed: the current index points into the queue,
  the queue is a permutation of what was started, the history holds items of the queue, and no session
  is filed twice. Sessions a suspended coroutine still holds keep their size.
\<close>

theorem player_coroutines_keep_queues:
  assumes "fair_others sc" and "player_inv K (snd s)"
  shows "player_inv K (snd (snd (start_queue address playlist items sc s))) \<and>
    player_inv K (snd (snd (control_queue address operation shuffle repeat sc s))) \<and>
    player_inv K (snd (snd (execute address command sc s))) \<and>
    player_inv K (snd (snd (watch_processes address pr generation sc s))) \<and>
    player_inv K (snd (snd (state_op (unregister_keepalive address) sc s))) \<and>
    player_inv K (snd (snd (async_shutdown sc s)))"
  using soundD [OF sound_control_queue assms] soundD [OF sound_execute assms]
    sound_lemmas [THEN soundD, OF assms] by blast

theorem player_coroutines_keep_queues_witness:
  "player_inv {} (snd (snd (execute witness_address PO_stop calm_play (0, silent_player))))"
  using player_coroutines_keep_queues [OF fair_calm, where s = "(0, silent_player)" and K = "{}"] silent_ok
  by simp

text \<open>
  Publishing a queue never fails, and the position it shows lies within the queue; no queue control ever
  fails to find the item it wants to return to.
\<close>

theorem published_queue_in_range:
  assumes "player_ok p"
  shows "(\<exists>v. get_queue now a p = Inr v \<and> (\<forall>q. v = Some q \<longrightarrow> 1 \<le> qv_index q \<and> qv_index q \<le> qv_count q)) \<and>
    fst (plan_control now a operation shuffle repeat p) \<noteq> Inl (RuntimeError ''coroutine raised StopIteration'')"
proof
  have ok: "session_ok (p_heap p oid)" for oid using assms by (simp add: player_ok_def)
  then show "\<exists>v. get_queue now a p = Inr v \<and> (\<forall>q. v = Some q \<longrightarrow> 1 \<le> qv_index q \<and> qv_index q \<le> qv_count q)"
    by (auto simp: get_queue_def Let_def session_ok_def Suc_le_eq split: option.splits)
  show "fst (plan_control now a operation shuffle repeat p) \<noteq> Inl (RuntimeError ''coroutine raised StopIteration'')"
    using next_index_never_stops [OF ok]
    by (auto simp: plan_control_def Let_def check_operation_def no_queue_def bad_shuffle_def bad_repeat_def
      bad_operation_def split: option.splits sum.splits if_splits prod.splits)
qed

theorem published_queue_in_range_witness: "\<exists>v. get_queue 0 witness_address silent_player = Inr v"
proof -
  have "player_ok silent_player" using silent_ok by (simp add: player_inv_def)
  then show ?thesis using published_queue_in_range [of silent_player 0 witness_address] by blast
qed

text \<open>
  C9. The order in which a queue plays when nobody intervenes. After \<open>k\<close> streams that ended by themselves:
  without repetition the \<open>k\<close>-th item is playing, everything before it is history, and after the last one
  the queue is over; with \<open>repeat all\<close> the position is \<open>k\<close> modulo the length; with \<open>repeat one\<close> it never moves.
\<close>

theorem queue_play_order:
  "after_ends k ((new_session g name (x # xs))\<lparr>s_repeat := mode\<rparr>) =
     (let s = (new_session g name (x # xs))\<lparr>s_repeat := mode\<rparr>; n = Suc (length xs) in
      case mode of
        Repeat_off \<Rightarrow> if k < n then Some (s\<lparr>s_index := k, s_history := [0..<k]\<rparr>) else None
      | Repeat_one \<Rightarrow> Some s
      | Repeat_all \<Rightarrow> Some (s\<lparr>s_index := k mod n, s_history := map (\<lambda>i. i mod n) [0..<k]\<rparr>))"
proof -
  let ?s = "(new_session g name (x # xs))\<lparr>s_repeat := mode\<rparr>" and ?n = "Suc (length xs)"
  have s: "s_repeat ?s = mode" "s_index ?s = 0" "s_history ?s = []" "s_items ?s = [0..<?n]"
    by (simp_all add: new_session_def del: upt_Suc)
  have ne: "s_items ?s \<noteq> []" by (simp add: s(4) del: upt_Suc)
  have len: "length (s_items ?s) = ?n" by (simp add: s(4) del: upt_Suc)
  have nth: "[0..<?n] ! (i mod ?n) = i mod ?n" for i by (simp del: upt_Suc)
  show ?thesis
  proof (cases mode)
    case Repeat_off
    have "take k [0..<?n] = [0..<k]" if "k < ?n" using that by (simp add: take_upt del: upt_Suc)
    then show ?thesis
      using after_ends_off [OF _ s(2,3) ne, of k] s(1) Repeat_off unfolding len s(4) by (simp add: Let_def del: upt_Suc)
  next
    case Repeat_one
    then show ?thesis using after_ends_one [of ?s k] s(1) by (simp add: Let_def)
  next
    case Repeat_all
    then show ?thesis
      using after_ends_all [OF _ s(2,3) ne, of k] s(1) unfolding len s(4) nth by (simp add: Let_def del: upt_Suc)
  qed
qed

text \<open>
  C29. Going to the next item and back: unless the queue wrapped around to its first item (where \<open>previous\<close>
  restarts the current one), \<open>previous\<close> finds the item that was left and restores position and history.
\<close>

theorem next_previous_roundtrip:
  assumes "session_ok s" and "next_index position QO_next s = Inr t" and "t \<noteq> 0"
    and "move_session QO_next r t s = Inr s1" and "\<not> restart_current position' QO_previous s1"
  shows "next_index position' QO_previous s1 = Inr (s_index s) \<and>
    move_session QO_previous False (s_index s) s1 = Inr (s\<lparr>s_status := Session_playing, s_error := None\<rparr>)"
proof -
  have i: "s_index s < length (s_items s)"
    and s1: "s1 = s\<lparr>s_history := s_history s @ [s_items s ! s_index s], s_index := t,
                    s_status := Session_playing, s_error := None\<rparr>"
    using assms(4) by (auto simp: move_session_def Let_def split: if_splits)
  have "s_items s \<noteq> []" using i by auto
  then have "distinct (s_items s)"
    using assms(1) by (auto simp: session_ok_def dest: mset_eq_imp_distinct_iff)
  moreover obtain j where j: "position_of (s_items s ! s_index s) (s_items s) = Some j"
    using position_of_member i nth_mem by metis
  ultimately have "j = s_index s"
    using position_of_bound [OF j] i by (metis nth_eq_iff_index_eq)
  then have "next_index position' QO_previous s1 = Inr (s_index s)"
    using j assms(5) by (simp add: next_index_def s1)
  moreover have "move_session QO_previous False (s_index s) s1 = Inr (s\<lparr>s_status := Session_playing, s_error := None\<rparr>)"
    by (simp add: move_session_def s1 Let_def)
  ultimately show ?thesis by blast
qed

theorem next_previous_roundtrip_witness:
  "\<exists>s1. move_session QO_next False 1 (new_session 1 [65] [witness_track ''a'', witness_track ''b'']) = Inr s1 \<and> s_index s1 = 1 \<and>
     next_index None QO_previous s1 = Inr 0"
proof -
  let ?s = "new_session 1 [65] [witness_track ''a'', witness_track ''b'']"
  obtain s1 where s1: "move_session QO_next False 1 ?s = Inr s1" "s_index s1 = 1"
    by (simp add: move_session_def new_session_def Let_def)
  have "next_index None QO_next ?s = Inr 1" by (simp add: next_index_def new_session_def)
  moreover have "\<not> restart_current None QO_previous s1" by (simp add: restart_current_def s1(2))
  ultimately have "next_index None QO_previous s1 = Inr (s_index ?s)"
    using next_previous_roundtrip [OF session_ok_new _ _ s1(1)] by simp
  then show ?thesis using s1 by (auto simp: new_session_def)
qed

text \<open>
  Shuffling permutes what is still to come and nothing else, whatever the random draws; switching it off
  puts the remaining items back in the order they were queued in, so that an undisturbed queue is as before.
\<close>

theorem shuffle_is_undone:
  assumes "session_ok s" and "s_items s = s_original s" and "s_items s \<noteq> []" and "\<not> s_shuffle s"
  shows "mset (s_items (set_shuffle pick True s)) = mset (s_items s) \<and>
    take (s_index s + 1) (s_items (set_shuffle pick True s)) = take (s_index s + 1) (s_items s) \<and>
    set_shuffle pick' False (set_shuffle pick True s) = s"
proof -
  let ?t = "set_shuffle pick True s" and ?k = "s_index s + 1"
  note parts = set_shuffle_parts [OF assms(1,3), of pick True]
  have d: "distinct (s_items s)" using assms(1,2) by (simp add: session_ok_def)
  have shuffled: "s_shuffle ?t" using assms(4) by (simp add: set_shuffle_def Let_def)
  have "mset (drop ?k (s_items ?t)) = mset (drop ?k (s_items s))"
    using parts(1,2) by (metis append_take_drop_id mset_append add_left_cancel)
  then have "set (drop ?k (s_items ?t)) = set (drop ?k (s_items s))" by (rule mset_eq_setD)
  then have "filter (\<lambda>i. i \<in> set (drop ?k (s_items ?t))) (s_original s) = drop ?k (s_items s)"
    using distinct_filter_drop [OF d, of ?k] by (simp add: assms(2))
  then have "s_items (set_shuffle pick' False ?t) = s_items s"
    using parts(2,3,4) shuffled by (simp add: set_shuffle_def [of pick' False] Let_def)
  moreover have "set_shuffle pick' False ?t = s\<lparr>s_items := s_items (set_shuffle pick' False ?t)\<rparr>"
    using assms(4) shuffled by (simp add: set_shuffle_def Let_def)
  ultimately have "set_shuffle pick' False ?t = s" by simp
  then show ?thesis using parts(1,2) by blast
qed

theorem shuffle_is_undone_witness:
  "set_shuffle (\<lambda>_. 1) False (set_shuffle (\<lambda>_. 0) True (new_session 1 [65] [witness_track ''a'', witness_track ''b'', witness_track ''c''])) = new_session 1 [65] [witness_track ''a'', witness_track ''b'', witness_track ''c'']"
  using shuffle_is_undone [where s = "new_session 1 [65] [witness_track ''a'', witness_track ''b'', witness_track ''c'']", OF session_ok_new]
  by (simp add: new_session_def)

text \<open>
  C10. A play request that was overtaken while it waited for the speaker's lock does nothing: no process is
  started and nothing of the state the newer request left is changed.
\<close>

theorem superseded_play_does_nothing:
  assumes "normalize_address address = Inr a" and "validate_media_url url = Inr u"
    and "invalidate_session a p = (g, p1)" and "a \<in> set (p_locks p1)" and "\<not> pp_cancelled (sc n)"
    and "generation_of (su_others (sc n) p1) a \<noteq> Some g"
  shows "play_url address url sc (n, p) =
     (Inr (), (Suc n, release_lock a (take_lock a (su_others (sc n) p1))))"
proof -
  have "generation_of (take_lock a p') a = generation_of p' a" for p'
    by (simp add: generation_of_def take_lock_def)
  then show ?thesis
    using assms
    by (simp add: play_url_def with_address_lock_def acquire_lock_def awaiting_def state_op_def act_defs)
qed

theorem superseded_play_does_nothing_witness:
  "let p = take_lock witness_address silent_player;
       newer = (\<lambda>q. snd (invalidate_session witness_address q));
       u = http_url (dotted 8 8 8 8) ''a''
   in \<exists>q. play_url witness_address u (\<lambda>n. (calm_play n)\<lparr>su_others := newer\<rparr>) (0, p) = (Inr (), (1, q)) \<and> p_active q = []"
proof -
  let ?a = witness_address and ?u = "http_url (dotted 8 8 8 8) ''a''"
  let ?newer = "\<lambda>q. snd (invalidate_session ?a q)" and ?p = "take_lock ?a silent_player"
  let ?sc = "\<lambda>n. (calm_play n)\<lparr>su_others := ?newer\<rparr>"
  have u: "validate_media_url ?u = Inr ?u"
    using validate_dotted [of 8 8 8 8 "''a''"] by (simp add: url_char_ok_def ord_of_def)
  obtain g p1 where inv: "invalidate_session ?a ?p = (g, p1)" by (cases "invalidate_session ?a ?p")
  then have p1: "g = 1" "generation_of p1 ?a = Some 1" "?a \<in> set (p_locks p1)" "p_sessions p1 = []" "p_active p1 = []"
    by (auto simp: invalidate_session_def next_playback_generation_def generation_of_def take_lock_def
      silent_player_def new_player_def Let_def split: option.splits)
  have newer: "generation_of (?newer p1) ?a \<noteq> Some g" "p_active (?newer p1) = []"
    using p1 by (simp_all add: invalidate_session_def next_playback_generation_def generation_of_def Let_def)
  have "play_url ?a ?u ?sc (0, ?p) = (Inr (), (Suc 0, release_lock ?a (take_lock ?a (su_others (?sc 0) p1))))"
    by (rule superseded_play_does_nothing [OF witness_address_ok u inv p1(3)])
      (use newer in \<open>simp_all add: calm_play_def\<close>)
  then show ?thesis using newer(2) by (simp add: Let_def release_lock_def take_lock_def)
qed

text \<open>
  What a stop leaves behind when the other tasks leave the speaker alone: no queue, no running pair, no
  timeline, and the idle state, on every outcome but a cancellation before the end.
\<close>

theorem stop_silences:
  assumes "normalize_address address = Inr a" and "others_leave (speaker_part a) sc"
    and "execute_stop address sc (n, p) = (r, (n', p'))" and "r \<noteq> Inl CancelledError"
  shows "speaker_part a p' = (None, None, None, PLAYBACK_IDLE)"
proof -
  let ?p1 = "snd (invalidate_session a p)"
  have "dict_get (p_sessions ?p1) a = None"
    by (auto simp: invalidate_session_def next_playback_generation_def Let_def split: option.splits)
  then obtain act tline st where part: "speaker_part a ?p1 = (None, act, tline, st)"
    by (simp add: speaker_part_def)
  obtain r1 n1 p2 where stop: "stop_processes a sc (n, ?p1) = (r1, (n1, p2))"
    by (cases "stop_processes a sc (n, ?p1)") auto
  note p2 = stop_processes_part [OF assms(2) part stop]
  have run: "execute_stop address sc (n, p) = (case r1 of Inl e \<Rightarrow> (Inl e, (n1, p2))
      | Inr _ \<Rightarrow> notify_state a sc (n1, set_state a PLAYBACK_IDLE (clear_timeline a p2)))"
    using stop by (simp add: execute_stop_def assms(1) act_defs split: sum.split)
  then have r1: "r1 = Inr ()" using p2 assms(3,4) by auto
  have idle: "speaker_part a (set_state a PLAYBACK_IDLE (clear_timeline a p2)) = (None, None, None, PLAYBACK_IDLE)"
    using p2 by (simp add: speaker_part_def set_state_def clear_timeline_def get_state_def)
  have others: "speaker_part a (su_others (sc m) q) = speaker_part a q" for m q
    using assms(2) by (simp add: others_leave_def)
  show ?thesis
    using assms(3) idle others
    by (auto simp: run r1 notify_state_def awaiting_def suspend_def split: if_splits prod.splits)
qed

theorem stop_silences_witness:
  "\<exists>n' p'. execute_stop witness_address calm_play (0, silent_player) = (Inr (), (n', p')) \<and>
     speaker_part witness_address p' = (None, None, None, PLAYBACK_IDLE)"
proof -
  have leave: "others_leave (speaker_part witness_address) calm_play"
    by (simp add: others_leave_def calm_play_def)
  obtain r n' p' where run: "execute_stop witness_address calm_play (0, silent_player) = (r, (n', p'))"
    by (metis prod.exhaust)
  then have "r = Inr ()"
    by (auto simp: execute_stop_def witness_address_ok act_defs stop_processes_def notify_state_def
      invalidate_session_def next_playback_generation_def set_state_def clear_timeline_def silent_player_def
      new_player_def Let_def)
  then show ?thesis using stop_silences [OF witness_address_ok leave run] run by simp
qed

text \<open>
  A stop that arrives while a stream is being started is lost: the start does not look at the generation
  again after it resolved the sink, so the stream plays on; and since its generation is superseded, the
  end of its processes is ignored, and the speaker is reported as playing from then on.
\<close>

theorem stop_during_start_is_lost:
  "\<exists>n p. play_url_locked witness_address url (Some 1) None (during 0 (stop_request witness_address))
        (0, snd (invalidate_session witness_address silent_player)) = (Inr (), (n, p)) \<and>
     get_state p witness_address = PLAYBACK_PLAYING \<and> generation_of p witness_address = Some 2 \<and>
     Watch_processes witness_address 0 1 (Some 1) \<in> set (p_tasks p) \<and>
     (\<exists>q. watch_processes witness_address (0, 1) (Some 1) (during 0 all_exit) (0, p) = (Inr (), (1, q)) \<and>
          get_state q witness_address = PLAYBACK_PLAYING)"
proof -
  let ?a = witness_address
  define p0 where "p0 = snd (invalidate_session ?a silent_player)"
  define q where "q = stop_request ?a p0"
  have p0: "p_sessions p0 = []" "p_active p0 = []" "p_generations p0 = [(?a, 1)]" "p_warmups p0 = []"
    "p_tasks p0 = []" "p_callback p0 = False" "p_health p0 = None" "p_last_codec p0 = []" "p_config p0 = None"
    "p_next_process p0 = 0"
    by (simp_all add: p0_def invalidate_session_def next_playback_generation_def generation_of_def silent_player_def
      new_player_def Let_def)
  have q: "p_sessions q = []" "p_active q = []" "p_generations q = [(?a, 2)]" "p_callback q = False"
    "p_health q = None" "p_last_codec q = []" "p_config q = None" "p_next_process q = 0"
    by (simp_all add: q_def stop_request_def execute_stop_def witness_address_ok act_defs notify_state_def
      stop_processes_def invalidate_session_def next_playback_generation_def generation_of_def Let_def p0
      set_state_def clear_timeline_def)
  define p where "p = commit_playback ?a url (Some 1) None (0, Suc 0) 0 (with_pair q)"
  have parts: "get_state p ?a = PLAYBACK_PLAYING" "generation_of p ?a = Some 2"
    "Watch_processes ?a 0 1 (Some 1) \<in> set (p_tasks p)"
    by (simp_all add: p_def commit_playback_def Let_def get_state_def with_pair_def q
      set_state_def start_timeline_def generation_of_def track_task_def)
  have "\<not> codec_pin_wanted q ?a" by (simp add: codec_pin_wanted_def configured_codec_def codec_token_def q)
  then have "play_url_locked ?a url (Some 1) None (during 0 (stop_request ?a)) (0, p0) = (Inr (), (3, p))"
    using quiet_start [where p = p0 and a = ?a and q = q and n = 0, OF _ _ _ _ _ _ _ _ _ during_later]
    by (simp add: p0 q during_now q_def [symmetric] p_def numeral_3_eq_3)
  moreover have "watch_processes ?a (0, 1) (Some 1) (during 0 all_exit) (0, p) = (Inr (), (Suc 0, all_exit p))"
    by (rule watch_superseded)
      (use parts(2) in \<open>simp_all add: during_def calm_play_def all_exit_def live_process_def exited_process_def generation_of_def\<close>)
  moreover have "get_state (all_exit p) ?a = PLAYBACK_PLAYING"
    using parts(1) by (simp add: all_exit_def get_state_def)
  ultimately show ?thesis using parts unfolding p0_def by auto
qed

text \<open>
  A \<open>next\<close> or \<open>previous\<close> that is overtaken by a stop (or by a new request) while it waits for the old
  processes raises \<open>IndexError\<close>: the overtaking request has cleared the session it still works on.
\<close>

theorem overtaken_move_raises:
  assumes "operation = QO_next \<or> operation = QO_previous"
    and "stop_processes a sc (n, claim_session (cp_session plan) (cp_generation plan) p) = (Inr (), (n', p'))"
    and "s_items (p_heap p' (cp_session plan)) = []"
  shows "fst (control_replace a operation plan sc (n, p)) = Inl IndexError"
proof -
  let ?oid = "cp_session plan"
  have "fst (and_then (state_op (move_op operation plan)) (\<lambda>_. play_item_or_fail False a ?oid) sc (n', p')) = Inl IndexError"
  proof (cases "operation = QO_next")
    case True
    then show ?thesis using assms(3) by (simp add: and_then_def state_op_def move_op_def move_session_def)
  next
    case False
    then obtain s where "move_session operation (cp_restart plan) (cp_target plan) (p_heap p' ?oid) = Inr s"
      "s_items s = []"
      using assms(3) by (simp add: move_session_def Let_def)
    then show ?thesis
      by (simp add: and_then_def state_op_def move_op_def play_item_or_fail_def try_catch_def play_queue_item_locked_def
        read_def update_session_def throw_def is_media_error_def)
  qed
  then show ?thesis by (simp add: control_replace_def and_then_def modify_def assms(2))
qed

theorem overtaken_move_raises_witness:
  "let a = witness_address;
       plan = \<lparr>cp_session = 0, cp_restart = False, cp_target = 1, cp_generation = Some 2\<rparr>;
       p = silent_player\<lparr>p_sessions := [(a, 0)], p_heap := (\<lambda>_. new_session 1 [65] [witness_track ''a'', witness_track ''b'']), p_next_session := 1,
              p_active := [(a, (0, 1))], p_procs := (\<lambda>_. fresh_process)\<rparr>
   in fst (control_replace a QO_next plan (during 0 (\<lambda>q. snd (invalidate_session a q))) (0, p)) = Inl IndexError"
proof -
  let ?a = witness_address and ?plan = "\<lparr>cp_session = 0, cp_restart = False, cp_target = 1, cp_generation = Some 2\<rparr>"
  let ?p = "silent_player\<lparr>p_sessions := [(?a, 0)], p_heap := (\<lambda>_. new_session 1 [65] [witness_track ''a'', witness_track ''b'']), p_next_session := 1,
      p_active := [(?a, (0, 1))], p_procs := (\<lambda>_. fresh_process)\<rparr>"
  let ?p1 = "claim_session 0 (Some 2) ?p"
  let ?p2 = "each_live terminate_process [0, 1] (each_live continue_process [0, 1] (?p1\<lparr>p_active := dict_del ?a (p_active ?p1)\<rparr>))"
  have live: "list_ex (live_process ?p2) [0, 1]"
    by (simp add: each_live_def live_process_def terminate_process_def continue_process_def update_process_def
      claim_session_def update_session_def fresh_process_def)
  have sess: "dict_get (p_sessions ?p2) ?a = Some 0"
    by (simp add: each_live_def live_process_def terminate_process_def continue_process_def update_process_def
      claim_session_def update_session_def fresh_process_def)
  let ?p' = "track_task (Reap_processes ?a [0, 1]) (snd (invalidate_session ?a ?p2))"
  have act: "dict_get (p_active ?p1) ?a = Some (0, 1)" by (simp add: claim_session_def update_session_def)
  have stop: "stop_processes ?a (during 0 (\<lambda>q. snd (invalidate_session ?a q))) (0, ?p1) = (Inr (), (1, ?p'))"
    unfolding stop_processes_def snd_conv act option.case Let_def pair_list_def prod.case
    using live by (simp add: act_defs wait_for_exits_def awaiting_def during_now)
  have "s_items (p_heap ?p' 0) = []"
    using sess by (simp add: invalidate_session_def next_playback_generation_def Let_def track_task_def update_session_def
      clear_session_def)
  then show ?thesis
    using overtaken_move_raises [where plan = ?plan and operation = QO_next and p = ?p and p' = ?p' and n' = 1
      and a = ?a and sc = "during 0 (\<lambda>q. snd (invalidate_session ?a q))" and n = 0] stop
    by (simp add: Let_def)
qed

text \<open>The timetable whose entry \<open>k\<close> is a cancellation.\<close>

definition cancelled_at :: "nat \<Rightarrow> nat \<Rightarrow> player_pause" where
  "cancelled_at k n = (calm_play n)\<lparr>pp_cancelled := (n = k)\<rparr>"

text \<open>
  A task that is cancelled while it starts the second process of a pair leaves the first one running with
  nobody responsible for it: it is neither the active pair nor handed to the reaper.
\<close>

theorem cancelled_start_leaks_decoder:
  "\<exists>p. open_stream a url g title t (cancelled_at 1) (0, silent_player) = (Inl CancelledError, (2, p)) \<and>
     live_process p 0 \<and> p_next_process p = 1 \<and> p_active p = [] \<and> p_tasks p = []"
  by (simp add: open_stream_def spawn_or_abandon_def act_defs at_now_def report_codec_def observe_healthy_sink_def
    apply_codec_override_def codec_pin_wanted_def configured_codec_def codec_token_def spawn_process_def awaiting_def
    cancelled_at_def calm_play_def silent_player_def new_player_def live_process_def fresh_process_def)

text \<open>
  Setting a volume: every ratio in range is stored without a validation error, is what the speaker is
  reported at, and the startup level written to the settings is the nearest percentage.
\<close>

theorem set_volume_is_stored:
  assumes "p_config p = Some cs" and "config_ok cs" and "0 \<le> v" and "v \<le> 1"
    and "record_volume a v p = (r, p')"
  shows "r = Inr () \<and> get_volume p' a = v \<and>
    (\<exists>cs' s. p_config p' = Some cs' \<and> config_ok cs' \<and> get_speaker cs' a = Some s \<and>
       volume_in_range (ss_default_volume s) \<and> \<bar>v - of_int (ss_default_volume s) / 100\<bar> \<le> 1 / 200)"
proof -
  define n where "n = py_round (v * of_int VOLUME_MAX_PERCENT)"
  let ?u = "no_update\<lparr>up_default_volume := Some n\<rparr>"
  have n: "0 \<le> n \<and> n \<le> 100 \<and> \<bar>v * 100 - of_int n\<bar> \<le> 1 / 2"
    using py_round_bounds [of "v * 100" 100] assms(3,4) unfolding n_def by simp
  obtain r1 cs' where upd: "update_speaker a ?u cs = (r1, cs')" by (cases "update_speaker a ?u cs")
  define s where "s = (case get_speaker cs a of Some s \<Rightarrow> s | None \<Rightarrow> new_speaker (record_key a))"
  have "speaker_ok s"
    using assms(2) unfolding s_def config_ok_def schema_speakers get_speaker_def
    by (auto dest: dict_allD split: option.split)
  then have good: "speaker_ok (merge_update ?u s)" using n by (intro volume_update_ok) (simp_all add: volume_in_range_def)
  note res = update_speaker_result [OF assms(2) upd s_def, of a]
  have r1: "r1 = Inr (merge_update ?u s)" and got: "get_speaker cs' a = Some (merge_update ?u s)"
    using res good by simp_all
  have ok': "config_ok cs'" using update_speaker_ok [OF assms(2), of a ?u] by (simp add: upd)
  have run: "r = Inr ()" "p_config p' = Some cs'" "get_volume p' a = v"
    using assms(1,5) upd r1 by (auto simp: record_volume_def n_def Let_def get_volume_def)
  have "ss_default_volume (merge_update ?u s) = n" by (simp add: merge_update_def no_update_def)
  moreover have "\<bar>v - of_int n / 100\<bar> \<le> 1 / 200" using n by (simp add: abs_le_iff field_simps)
  ultimately show ?thesis using run got ok' n by (auto simp: volume_in_range_def)
qed

theorem set_volume_is_stored_witness:
  "let cs = \<lparr>cs_settings = default_settings, cs_file = NoFile, cs_writable = True\<rparr>;
       p = silent_player\<lparr>p_config := Some cs\<rparr>
   in get_volume (snd (record_volume witness_address (1 / 3) p)) witness_address = 1 / 3"
proof -
  let ?cs = "\<lparr>cs_settings = default_settings, cs_file = NoFile, cs_writable = True\<rparr>"
  let ?p = "silent_player\<lparr>p_config := Some ?cs\<rparr>"
  have ok: "config_ok ?cs" by (simp add: config_ok_def keys_ok_def speakers_of_def) (simp add: default_settings_def)
  obtain r p' where run: "record_volume witness_address (1 / 3) ?p = (r, p')"
    by (cases "record_volume witness_address (1 / 3) ?p")
  have "get_volume p' witness_address = 1 / 3"
    using set_volume_is_stored [OF _ ok _ _ run] by simp
  then show ?thesis by (simp add: Let_def run)
qed

text \<open>
  Starting a queue for a speaker without a sink: the request still succeeds, and the queue is published as
  failed at its first item; the speaker is idle, nothing is playing and the lock is free again.
\<close>

theorem queue_without_sink_fails:
  assumes "normalize_address address = Inr a" and "validate_queue playlist raw = Inr (name, items)"
    and "a \<notin> set (p_locks p)" "a \<notin> set (p_warmups p)" "dict_get (p_active p) a = None" "\<not> p_callback p"
    and "\<not> pp_cancelled (sc n)" "pp_sink (sc n) = Inr None" "su_others (sc n) = (\<lambda>p. p)"
  shows "\<exists>q p'. start_queue address playlist raw sc (n, p) = (Inr (Some q), (Suc n, p')) \<and>
    qv_status q = Session_failed \<and> qv_error q = Some QUEUE_ERROR_PLAYBACK_FAILED \<and> qv_index q = 1 \<and>
    qv_count q = length items \<and> get_state p' a = PLAYBACK_IDLE \<and> dict_get (p_active p') a = None \<and>
    a \<notin> set (p_locks p')"
proof -
  obtain g p1 where inv: "invalidate_session a p = (g, p1)" by (cases "invalidate_session a p")
  have p1: "generation_of p1 a = Some g" "a \<notin> set (p_locks p1)" "a \<notin> set (p_warmups p1)"
    "dict_get (p_active p1) a = None" "\<not> p_callback p1"
    using inv assms(3-6)
    by (auto simp: invalidate_session_def next_playback_generation_def generation_of_def Let_def update_session_def
      split: option.splits)
  have ne: "items \<noteq> []" using assms(2) by (rule validate_queue_nonempty)
  let ?oid = "p_next_session p1"
  obtain p2 where p2: "install_session a g name items (take_lock a p1) = (Inr ?oid, p2)"
    "p_heap p2 ?oid = new_session g name items" "dict_get (p_sessions p2) a = Some ?oid"
    "a \<notin> set (p_warmups p2)" "dict_get (p_active p2) a = None" "\<not> p_callback p2"
    using p1 by (simp add: install_session_def alloc_session_def take_lock_def)
  define p3 where "p3 = update_session ?oid (\<lambda>s. s\<lparr>s_status := Session_playing, s_error := None\<rparr>) p2"
  have p3: "a \<notin> set (p_warmups p3)" "dict_get (p_active p3) a = None" "\<not> p_callback p3"
    "dict_get (p_sessions p3) a = Some ?oid" "s_items (p_heap p3 ?oid) = [0..<length items]" "s_index (p_heap p3 ?oid) = 0"
    using p2 by (simp_all add: p3_def update_session_def new_session_def)
  define p4 where "p4 = fail_session a ?oid (observe_missing_sink a (pp_clock (sc (Suc n))) p3)"
  have part: "p_sessions (observe_missing_sink a now q) = p_sessions q" "p_heap (observe_missing_sink a now q) = p_heap q"
    "p_active (observe_missing_sink a now q) = p_active q" "p_callback (observe_missing_sink a now q) = p_callback q" for now q
    by (simp_all add: observe_missing_sink_def Let_def split: option.split)
  have p4: "dict_get (p_sessions p4) a = Some ?oid" "s_items (p_heap p4 ?oid) = [0..<length items]" "s_index (p_heap p4 ?oid) = 0"
    "s_status (p_heap p4 ?oid) = Session_failed" "s_error (p_heap p4 ?oid) = Some QUEUE_ERROR_PLAYBACK_FAILED"
    "get_state p4 a = PLAYBACK_IDLE" "dict_get (p_active p4) a = None" "\<not> p_callback p4"
    using p3 by (simp_all add: p4_def fail_session_def set_state_def update_session_def get_state_def part)
  have play: "play_url_locked a u (Some g') t sc (n, p3) =
      (Inl sink_unavailable, (Suc n, observe_missing_sink a (pp_clock (sc (Suc n))) p3))" for u g' t
    using p3(1,2) assms(7-9)
    by (simp add: play_url_locked_def act_defs cancel_sink_warmup_def stop_processes_def resolve_sink_def awaiting_def at_now_def)
  have item: "play_item_or_fail False a ?oid sc (n, p2) = (Inr (), (Suc n, p4))"
    using ne p2(2) p4(8)
    by (simp add: play_item_or_fail_def play_queue_item_locked_def act_defs new_session_def Let_def p3_def [symmetric] play
      sink_unavailable_def is_media_error_def at_now_def p4_def [symmetric] notify_state_def)
  have run: "start_queue address playlist raw sc (n, p) =
      published_queue a sc (Suc n, release_lock a p4)"
    using p1(1,2) p2(1) item
    by (simp add: start_queue_def assms(1,2) act_defs state_op_def inv with_address_lock_def acquire_lock_def
      generation_of_def take_lock_def)
  have rel: "p_sessions (release_lock a p4) = p_sessions p4" "p_heap (release_lock a p4) = p_heap p4"
    "get_state (release_lock a p4) a = get_state p4 a" "p_active (release_lock a p4) = p_active p4"
    "a \<notin> set (p_locks (release_lock a p4))"
    by (simp_all add: release_lock_def get_state_def)
  show ?thesis
    unfolding run published_queue_def query_now_def
    using p4 ne rel by (simp add: get_queue_def Let_def)
qed

theorem queue_without_sink_fails_witness:
  "\<exists>q p'. start_queue witness_address (Some [104, 105]) [\<lparr>ri_url = Some (http_url (dotted 8 8 8 8) ''a''), ri_title = None, ri_artist = None\<rparr>]
     (\<lambda>n. (calm_play n)\<lparr>pp_sink := Inr None\<rparr>) (0, silent_player) = (Inr (Some q), (1, p')) \<and> qv_status q = Session_failed"
proof -
  let ?u = "http_url (dotted 8 8 8 8) ''a''"
  let ?raw = "[\<lparr>ri_url = Some ?u, ri_title = None, ri_artist = None\<rparr>]"
  have u: "validate_media_url ?u = Inr ?u"
    using validate_dotted [of 8 8 8 8 "''a''"] by (simp add: url_char_ok_def ord_of_def)
  have byte: "ord_of c < 256" for c by (simp add: ord_of_def)
  have "utf8_length (utext_of s) \<noteq> None" for s
  proof (induction s)
    case (Cons c s)
    then show ?case using byte [of c] by (auto simp: utext_of_def)
  qed (simp add: utext_of_def)
  then obtain k where k: "utf8_length (utext_of ?u) = Some k" by blast
  have le: "utf8_length (utext_of s) = Some j \<Longrightarrow> j \<le> 2 * length s" for s j
  proof (induction s arbitrary: j)
    case (Cons c s)
    then show ?case using byte [of c] by (fastforce simp: utext_of_def split: if_splits)
  qed (simp add: utext_of_def)
  have "length (show_nat 8) \<le> 1" by (rule show_nat_length) simp_all
  then have "length ?u \<le> 20" by (simp add: http_url_def dotted_def)
  then have small: "k \<le> 40" using le [OF k] by simp
  have hi: "display_text [104, 105] = Some [104, 105]" by (rule display_text_hi)
  have q: "validate_queue (Some [104, 105]) ?raw = Inr ([104, 105], [\<lparr>qi_url = ?u, qi_title = None, qi_artist = None\<rparr>])"
    using small by (simp add: validate_queue_def text_of_def hi u k encoded_length_def)
  show ?thesis
    using queue_without_sink_fails [OF witness_address_ok q, where p = silent_player and n = 0
        and sc = "\<lambda>n. (calm_play n)\<lparr>pp_sink := Inr None\<rparr>"]
    by (simp add: silent_player_def new_player_def calm_play_def) blast
qed

end
