(* ===== verification/Player_Audio.thy ===== *)
theory Player_Audio
  imports Player_Queue
begin

text \<open>
  The audio side of \<open>ha/player.py\<close>: what it reads out of the PipeWire graph and of the listings of
  \<open>pactl\<close>, \<open>wpctl\<close> and \<open>ffprobe\<close> (codec, rate, sink, volume, metadata), the read-back of the volume, the
  keep-alive pulse and the warm-up. \<open>repr\<close> stands for Python's rendering of floats and containers, of
  which only the occurrence of an address matters.
\<close>

section \<open>Values of the graph\<close>

definition show_int :: "int \<Rightarrow> string" where
  "show_int n = (if n < 0 then CHR ''-'' # show_nat (nat (- n)) else show_nat (nat n))"

definition py_str :: "(json \<Rightarrow> string) \<Rightarrow> json \<Rightarrow> string" where
  "py_str repr v =
     (case v of
        JString s \<Rightarrow> s
      | JBool b \<Rightarrow> (if b then ''True'' else ''False'')
      | JNull \<Rightarrow> ''None''
      | JInt n \<Rightarrow> show_int n
      | _ \<Rightarrow> repr v)"

definition as_object :: "json option \<Rightarrow> (string \<times> json) list option" where
  "as_object v = (case v of Some (JObject d) \<Rightarrow> Some d | _ \<Rightarrow> None)"

definition as_string :: "json option \<Rightarrow> string option" where
  "as_string v = (case v of Some (JString s) \<Rightarrow> Some s | _ \<Rightarrow> None)"

definition join_spaced :: "string list \<Rightarrow> string" where
  "join_spaced ss = (case ss of [] \<Rightarrow> [] | s # rest \<Rightarrow> s @ concat (map (\<lambda>t. CHR '' '' # t) rest))"

definition lstrip_chars :: "string \<Rightarrow> string \<Rightarrow> string" where
  "lstrip_chars cs s = dropWhile (\<lambda>c. c \<in> set cs) s"

definition BLUEZ_CODEC_PROPERTY :: string where "BLUEZ_CODEC_PROPERTY = ''api.bluez5.codec''"
definition BLUEZ_PROFILE_PROPERTY :: string where "BLUEZ_PROFILE_PROPERTY = ''api.bluez5.profile''"
definition A2DP_SINK_PROFILE_PREFIX :: string where "A2DP_SINK_PROFILE_PREFIX = ''a2dp-sink''"

text \<open>Whether the properties name the speaker, in one of the two spellings of its address.\<close>

definition mentions_speaker :: "(json \<Rightarrow> string) \<Rightarrow> (string \<times> json) list \<Rightarrow> string \<Rightarrow> bool" where
  "mentions_speaker repr ps address \<longleftrightarrow>
     (let address_clean = lower (strip address);
          address_key = replace_char (CHR '':'') (CHR ''_'') address_clean;
          vals = join_spaced (map (\<lambda>(k, v). lower (py_str repr v)) ps)
      in py_in address_clean vals \<or> py_in address_key vals)"

definition profile_codec :: "string \<Rightarrow> string option" where
  "profile_codec name = codec_token (Some (lstrip_chars ''-_'' (drop (length A2DP_SINK_PROFILE_PREFIX) name)))"

definition codec_from_props :: "(json \<Rightarrow> string) \<Rightarrow> (string \<times> json) list \<Rightarrow> string \<Rightarrow> string option" where
  "codec_from_props repr ps address =
     (if \<not> mentions_speaker repr ps address then None
      else (case codec_token (as_string (dict_get ps BLUEZ_CODEC_PROPERTY)) of
              Some c \<Rightarrow> Some c
            | None \<Rightarrow>
                (let profile = lower (strip (case dict_get ps BLUEZ_PROFILE_PROPERTY of
                                               Some v \<Rightarrow> py_str repr v | None \<Rightarrow> []))
                 in if starts_with A2DP_SINK_PROFILE_PREFIX profile then profile_codec profile else None)))"

definition positive_int :: "json \<Rightarrow> py_exc + int option" where
  "positive_int v =
     (case v of
        JBool _ \<Rightarrow> Inr None
      | JInt n \<Rightarrow> Inr (if n > 0 then Some n else None)
      | JFloat x \<Rightarrow> Inr (if x > 0 then Some \<lfloor>x\<rfloor> else None)
      | JString s \<Rightarrow>
          (case py_float (after_last_char (CHR ''/'') (strip s)) of
             None \<Rightarrow> Inr None
           | Some Not_a_number \<Rightarrow> Inr None
           | Some (Infinite _) \<Rightarrow> Inl OverflowError
           | Some (Finite x) \<Rightarrow>
               (let parsed = (if 0 \<le> x then \<lfloor>x\<rfloor> else \<lceil>x\<rceil>) in Inr (if parsed > 0 then Some parsed else None)))
      | _ \<Rightarrow> Inr None)"

fun first_rate :: "json list \<Rightarrow> py_exc + int option" where
  "first_rate [] = Inr None"
| "first_rate (c # cs) =
     (case positive_int c of
        Inl e \<Rightarrow> Inl e
      | Inr (Some r) \<Rightarrow> if r \<noteq> 0 then Inr (Some r) else first_rate cs
      | Inr None \<Rightarrow> first_rate cs)"

definition get_value :: "(string \<times> json) list \<Rightarrow> string \<Rightarrow> json" where
  "get_value d k = (case dict_get d k of Some v \<Rightarrow> v | None \<Rightarrow> JNull)"

definition format_rates :: "json \<Rightarrow> json list" where
  "format_rates entry =
     (case entry of
        JObject d \<Rightarrow> get_value d ''rate'' #
          (case as_object (dict_get d ''format'') of Some fmt \<Rightarrow> [get_value fmt ''rate''] | None \<Rightarrow> [])
      | _ \<Rightarrow> [])"

definition rate_candidates :: "(string \<times> json) list \<Rightarrow> (string \<times> json) list \<Rightarrow> json list" where
  "rate_candidates ps node =
     [get_value ps ''audio.rate'', get_value ps ''node.rate''] @
     (case Option.bind (as_object (dict_get node ''info'')) (\<lambda>info. as_object (dict_get info ''params'')) of
        Some params \<Rightarrow>
          (case dict_get params ''Format'' of
             Some (JList entries) \<Rightarrow> concat (map format_rates entries) | _ \<Rightarrow> [])
      | None \<Rightarrow> [])"

definition node_rate_from_props :: "(string \<times> json) list \<Rightarrow> (string \<times> json) list \<Rightarrow> py_exc + int option" where
  "node_rate_from_props ps node = first_rate (rate_candidates ps node)"

text \<open>
  \<open>{**node.get(\"props\", {}), **node.get(\"info\", {}).get(\"props\", {})}\<close>: anything but mappings there raises.
\<close>

definition merged_props :: "(string \<times> json) list \<Rightarrow> (string \<times> json) list option" where
  "merged_props node =
     (let own = (case dict_get node ''props'' of None \<Rightarrow> Some [] | v \<Rightarrow> as_object v);
          info = (case dict_get node ''info'' of None \<Rightarrow> Some [] | v \<Rightarrow> as_object v);
          inner = Option.bind info (\<lambda>i. case dict_get i ''props'' of None \<Rightarrow> Some [] | v \<Rightarrow> as_object v)
      in case (own, inner) of (Some a, Some b) \<Rightarrow> Some (fold (\<lambda>(k, v). dict_set k v) b a) | _ \<Rightarrow> None)"

fun codec_from_graph :: "(json \<Rightarrow> string) \<Rightarrow> json list \<Rightarrow> string \<Rightarrow> py_exc + string option" where
  "codec_from_graph repr [] address = Inr None"
| "codec_from_graph repr (JObject node # rest) address =
     (case merged_props node of
        None \<Rightarrow> Inl TypeMismatch
      | Some ps \<Rightarrow>
          (case codec_from_props repr ps address of
             Some c \<Rightarrow> Inr (Some c) | None \<Rightarrow> codec_from_graph repr rest address))"
| "codec_from_graph repr (_ # rest) address = codec_from_graph repr rest address"

section \<open>Finding the sink\<close>

text \<open>
  The walk of \<open>_async_resolve_sink\<close> over the parsed graph: the codec of every object that names the speaker
  is remembered, and the first sink among them is the answer. A node that is not a mapping raises.
\<close>

definition is_sink_class :: "json \<Rightarrow> py_exc + bool" where
  "is_sink_class v =
     (case v of JString s \<Rightarrow> Inr (s = ''Audio/Sink'' \<or> py_in ''sink'' (lower s)) | _ \<Rightarrow> Inl TypeMismatch)"

definition node_name :: "(json \<Rightarrow> string) \<Rightarrow> (string \<times> json) list \<Rightarrow> (string \<times> json) list \<Rightarrow> string" where
  "node_name repr ps node =
     (case dict_get ps ''node.name'' of
        Some (JString s) \<Rightarrow> if s \<noteq> [] then s else py_str repr (get_value node ''id'')
      | _ \<Rightarrow> py_str repr (get_value node ''id''))"

fun graph_sink ::
  "(json \<Rightarrow> string) \<Rightarrow> string \<Rightarrow> json list \<Rightarrow> player \<Rightarrow> (py_exc + string option) \<times> player"
where
  "graph_sink repr a [] p = (Inr None, p)"
| "graph_sink repr a (JObject node # rest) p =
     (case merged_props node of
        None \<Rightarrow> (Inl TypeMismatch, p)
      | Some ps \<Rightarrow>
          if \<not> mentions_speaker repr ps a then graph_sink repr a rest p
          else (let p1 = (case codec_from_props repr ps a of
                            Some c \<Rightarrow> p\<lparr>p_last_codec := dict_set a c (p_last_codec p)\<rparr> | None \<Rightarrow> p)
            in case is_sink_class (case dict_get ps ''media.class'' of Some v \<Rightarrow> v | None \<Rightarrow> JString []) of
                 Inl e \<Rightarrow> (Inl e, p1)
               | Inr False \<Rightarrow> graph_sink repr a rest p1
               | Inr True \<Rightarrow>
                   (case node_rate_from_props ps node of
                      Inl e \<Rightarrow> (Inl e, p1)
                    | Inr rate \<Rightarrow>
                        (Inr (Some (node_name repr ps node)),
                         (case rate of
                            Some r \<Rightarrow> p1\<lparr>p_sink_rates := dict_set a r (p_sink_rates p1)\<rparr> | None \<Rightarrow> p1)))))"
| "graph_sink repr a (_ # rest) p = (Inl TypeMismatch, p)"

definition field2 :: "string \<Rightarrow> string option" where
  "field2 line =
     (let rest = dropWhile py_space (dropWhile (\<lambda>c. \<not> py_space c) (dropWhile py_space line));
          f = takeWhile (\<lambda>c. \<not> py_space c) rest
      in if f = [] then None else Some f)"

text \<open>The line of \<open>pactl list sinks short\<close> for the speaker.\<close>

definition pulse_sink :: "string \<Rightarrow> string list \<Rightarrow> string option" where
  "pulse_sink a ls =
     (let expected = ''bluez_sink.'' @ replace_char (CHR '':'') (CHR ''_'') (lower (strip a)) @ ''.a2dp_sink''
      in case filter (\<lambda>l. case field2 l of Some f \<Rightarrow> lower f = expected | None \<Rightarrow> False) ls of
           l # _ \<Rightarrow> map_option (\<lambda>f. ''pulse:'' @ f) (field2 l)
         | [] \<Rightarrow> None)"

definition profile_for_codec :: "string list \<Rightarrow> string \<Rightarrow> string option" where
  "profile_for_codec profiles codec =
     (case filter (\<lambda>name. starts_with A2DP_SINK_PROFILE_PREFIX (lower name) \<and> profile_codec name = Some codec) profiles of
        name # _ \<Rightarrow> Some name
      | [] \<Rightarrow> None)"

section \<open>The client commands\<close>

definition player_command :: "player_settings \<Rightarrow> transport \<Rightarrow> string \<Rightarrow> string list" where
  "player_command ps t sink =
     (let rate = show_int (sample_rate_hz ps); ch = show_int (channels ps);
          latency = show_int (latency_msec ps); quality = show_int (resample_quality ps)
      in case t of
           Pulse \<Rightarrow> [''paplay'', ''--device'', sink, ''--raw'', ''--rate'', rate, ''--channels'', ch, ''--format=s16le'',
             ''--latency-msec='' @ latency, ''--property=resample.quality='' @ quality]
         | Pipewire \<Rightarrow> [''pw-play'', ''--target'', sink, ''--raw'', ''--rate'', rate, ''--channels'', ch,
             ''--latency='' @ latency @ ''ms'', ''--properties'',
             ''{'' @ [CHR 0x22] @ ''resample.quality'' @ [CHR 0x22] @ '': '' @ quality @ ''}'', ''-''])"

section \<open>Volume read-back\<close>

text \<open>\<open>re.findall(r\"(\\d+)%\", output)\<close>: the digit runs directly before a percent sign.\<close>

fun percent_levels :: "string \<Rightarrow> string \<Rightarrow> string list" where
  "percent_levels run [] = []"
| "percent_levels run (c # cs) =
     (if is_digit c then percent_levels (run @ [c]) cs
      else if c = CHR ''%'' \<and> run \<noteq> [] then run # percent_levels [] cs
      else percent_levels [] cs)"

fun all_ints :: "string list \<Rightarrow> nat list option" where
  "all_ints [] = Some []"
| "all_ints (s # ss) =
     (case (unsigned_int s, all_ints ss) of (Some n, Some ns) \<Rightarrow> Some (n # ns) | _ \<Rightarrow> None)"

definition volume_char :: "char \<Rightarrow> bool" where "volume_char c \<longleftrightarrow> is_digit c \<or> c = CHR ''.''"

text \<open>\<open>re.search(r\"Volume:\\s*([0-9.]+)\", output)\<close>.\<close>

fun wpctl_level :: "string \<Rightarrow> string option" where
  "wpctl_level [] = None"
| "wpctl_level (c # cs) =
     (let level = takeWhile volume_char (dropWhile py_space (drop 7 (c # cs)))
      in if starts_with ''Volume:'' (c # cs) \<and> level \<noteq> [] then Some level else wpctl_level cs)"

definition parse_sink_volume :: "transport \<Rightarrow> string \<Rightarrow> py_exc + real option" where
  "parse_sink_volume t output =
     (case t of
        Pulse \<Rightarrow>
          (case all_ints (percent_levels [] output) of
             None \<Rightarrow> Inl (ValueError ''int'')
           | Some [] \<Rightarrow> Inr None
           | Some (l # ls) \<Rightarrow>
               Inr (Some (real_of_int (min (int (foldl max l ls)) VOLUME_MAX_PERCENT) / of_int VOLUME_MAX_PERCENT)))
      | Pipewire \<Rightarrow>
          (case wpctl_level output of
             None \<Rightarrow> Inr None
           | Some s \<Rightarrow>
               (case py_float s of
                  Some (Finite v) \<Rightarrow> Inr (Some (min (max v VOLUME_MIN_RATIO) VOLUME_MAX_RATIO))
                | _ \<Rightarrow> Inr None)))"

definition read_sink_volume :: "transport \<Rightarrow> (real option) play" where
  "read_sink_volume t =
     awaiting (\<lambda>su p. (case pp_output su of None \<Rightarrow> Inr None | Some out \<Rightarrow> parse_sink_volume t out, p))"

definition note_volume :: "string \<Rightarrow> real \<Rightarrow> player \<Rightarrow> (py_exc + bool) \<times> player" where
  "note_volume a v p =
     (let changed = (case dict_get (p_volumes p) a of
            None \<Rightarrow> True | Some previous \<Rightarrow> \<bar>previous - v\<bar> \<ge> volume_readback_tolerance (p_settings p))
      in (Inr changed, if changed then p\<lparr>p_volumes := dict_set a v (p_volumes p)\<rparr> else p))"

definition refresh_volume :: "string \<Rightarrow> string option \<Rightarrow> (real option) play" where
  "refresh_volume address sink =
     and_then (from_sum (normalize_address address)) (\<lambda>a.
     and_then (if sink = None \<or> sink = Some [] then resolve_sink else ret sink) (\<lambda>found.
     (case found of
        None \<Rightarrow> ret None
      | Some s \<Rightarrow>
          if s = [] then ret None
          else (case parse_sink s of
                  Inl _ \<Rightarrow> ret None
                | Inr (t, _) \<Rightarrow>
                    and_then (read_sink_volume t) (\<lambda>volume.
                    (case volume of
                       None \<Rightarrow> ret None
                     | Some v \<Rightarrow>
                         and_then (state_op (note_volume a v)) (\<lambda>changed.
                         if changed then and_then (notify_state a) (\<lambda>_. ret (Some v)) else ret (Some v))))))))"

section \<open>Keep-alive pulse and warm-up\<close>

definition spawn_pulse :: "(nat option) play" where
  "spawn_pulse = try_catch (and_then spawn_process (\<lambda>k. ret (Some k))) (\<lambda>_. ret None)"

text \<open>The children of a pulse are awaited, and killed when they outlive its duration.\<close>

definition collect_process :: "nat \<Rightarrow> unit play" where
  "collect_process k =
     and_then (read (\<lambda>p. live_process p k)) (\<lambda>alive.
     if \<not> alive then ret ()
     else and_then (wait_for_exit k) (\<lambda>gone.
          if gone then ret ()
          else and_then (modify (kill_process k)) (\<lambda>_. awaiting (\<lambda>su p. (Inr (), p)))))"

definition send_keepalive_pulse :: "string \<Rightarrow> bool play" where
  "send_keepalive_pulse address =
     and_then (from_sum (normalize_address address)) (\<lambda>a.
     and_then (read (\<lambda>p. dict_get (p_active p) a)) (\<lambda>active.
     if active \<noteq> None then ret False
     else and_then resolve_sink (\<lambda>found.
       (case found of
          None \<Rightarrow> ret False
        | Some s \<Rightarrow>
            if s = [] then ret False
            else (case parse_sink s of
                    Inl _ \<Rightarrow> ret False
                  | Inr _ \<Rightarrow>
                      and_then spawn_pulse (\<lambda>source.
                      (case source of None \<Rightarrow> ret False
                       | Some k \<Rightarrow>
                          and_then spawn_pulse (\<lambda>sink_player.
                          (case sink_player of None \<Rightarrow> ret False
                           | Some l \<Rightarrow>
                              and_then (modify (\<lambda>p. track_task (Drain_output l) (track_task (Drain_output k) p))) (\<lambda>_.
                              and_then (awaiting (\<lambda>su p. (Inr (), p))) (\<lambda>_.
                              and_then (collect_process k) (\<lambda>_.
                              and_then (collect_process l) (\<lambda>_. ret True)))))))))))))"

definition set_sink_volume :: "string \<Rightarrow> unit play" where
  "set_sink_volume sink =
     (case parse_sink sink of Inl _ \<Rightarrow> ret () | Inr _ \<Rightarrow> awaiting (\<lambda>su p. (Inr (), p)))"

definition apply_startup_volume :: "string \<Rightarrow> unit play" where
  "apply_startup_volume a =
     and_then resolve_sink (\<lambda>found.
       (case found of
          None \<Rightarrow> ret ()
        | Some s \<Rightarrow>
            if s = [] then ret ()
            else and_then (set_sink_volume s) (\<lambda>_. and_then (refresh_volume a (Some s)) (\<lambda>_. ret ()))))"

text \<open>
  The loop over the attempts: \<open>left\<close> of them remain. \<open>retry\<close> and \<open>deadline\<close> are the pause between attempts and
  the end of the budget.
\<close>

primrec warm_attempts :: "string \<Rightarrow> real \<Rightarrow> real \<Rightarrow> nat \<Rightarrow> unit play" where
  "warm_attempts a retry deadline 0 = ret ()"
| "warm_attempts a retry deadline (Suc left) =
     and_then (read (\<lambda>p. dict_get (p_active p) a)) (\<lambda>active.
     if active \<noteq> None then ret ()
     else and_then (send_keepalive_pulse a) (\<lambda>sent.
       if sent then apply_startup_volume a
       else and_then (query_now (\<lambda>now p. Inr now)) (\<lambda>now.
         if now + retry \<ge> deadline then ret ()
         else and_then (awaiting (\<lambda>su p. (Inr (), p))) (\<lambda>_. warm_attempts a retry deadline left))))"

definition SINK_WARMUP_ATTEMPTS :: nat where "SINK_WARMUP_ATTEMPTS = 4"
definition SINK_WARMUP_RETRY_SECONDS :: real where "SINK_WARMUP_RETRY_SECONDS = 1"
definition SINK_WARMUP_BUDGET_SECONDS :: real where "SINK_WARMUP_BUDGET_SECONDS = 8"

definition warm_sink :: "string \<Rightarrow> unit play" where
  "warm_sink a =
     and_then (query_now (\<lambda>now p. Inr now)) (\<lambda>started.
     try_finally
       (try_catch
         (warm_attempts a SINK_WARMUP_RETRY_SECONDS (started + SINK_WARMUP_BUDGET_SECONDS) SINK_WARMUP_ATTEMPTS)
         (\<lambda>_. ret ()))
       (modify (\<lambda>p. p\<lparr>p_warmups := removeAll a (p_warmups p)\<rparr>)))"

section \<open>Stream metadata\<close>

record probe_metadata =
  pm_duration :: "float_value option"
  pm_title :: "string option"
  pm_artist :: "string option"

definition positive_float :: "float_value \<Rightarrow> bool" where
  "positive_float v = (case v of Finite x \<Rightarrow> x > 0 | Infinite negative \<Rightarrow> \<not> negative | Not_a_number \<Rightarrow> False)"

text \<open>\<open>_parse_duration\<close> of one line; the callers never pass more.\<close>

definition parse_duration :: "string \<Rightarrow> float_value option" where
  "parse_duration line =
     (let candidate = after (CHR ''='') line
      in case py_float (if candidate \<noteq> [] then candidate else line) of
           Some v \<Rightarrow> if positive_float v then Some v else None
         | None \<Rightarrow> None)"

definition probe_line :: "string \<Rightarrow> probe_metadata \<Rightarrow> probe_metadata" where
  "probe_line line m =
     (if CHR ''='' \<in> set line then
        (let key = strip (before (CHR ''='') line); value = strip (after (CHR ''='') line)
         in if value = [] then m
            else if key = ''duration'' then m\<lparr>pm_duration := parse_duration value\<rparr>
            else if key = ''title'' then m\<lparr>pm_title := Some value\<rparr>
            else if key = ''artist'' then m\<lparr>pm_artist := Some value\<rparr>
            else m)
      else if pm_duration m = None then m\<lparr>pm_duration := parse_duration line\<rparr>
      else m)"

definition parse_probe_metadata :: "string list \<Rightarrow> probe_metadata" where
  "parse_probe_metadata ls = fold probe_line ls \<lparr>pm_duration = None, pm_title = None, pm_artist = None\<rparr>"

definition finite_part :: "float_value \<Rightarrow> real option" where
  "finite_part v = (case v of Finite x \<Rightarrow> Some x | _ \<Rightarrow> None)"

text \<open>
  What \<open>_async_probe_duration\<close> does with the metadata: only while its stream is the current one. An infinite
  duration is kept out of the model's timeline, where durations are numbers.
\<close>

definition apply_metadata :: "string \<Rightarrow> string \<Rightarrow> nat option \<Rightarrow> probe_metadata \<Rightarrow> player \<Rightarrow> (py_exc + bool) \<times> player" where
  "apply_metadata a url generation m p =
     (if generation \<noteq> None \<and> generation_of p a \<noteq> generation then (Inr False, p)
      else (case dict_get (p_timelines p) a of
              None \<Rightarrow> (Inr False, p)
            | Some t \<Rightarrow>
                if tl_url t \<noteq> url then (Inr False, p)
                else (let t1 = (case Option.bind (pm_duration m) finite_part of
                                  Some d \<Rightarrow> t\<lparr>tl_duration := Some d\<rparr> | None \<Rightarrow> t);
                          t2 = (case pm_title m of
                                  Some s \<Rightarrow> t1\<lparr>tl_title := Some (take TITLE_MAX_LENGTH (utext_of s))\<rparr> | None \<Rightarrow> t1);
                          t3 = (case pm_artist m of
                                  Some s \<Rightarrow> t2\<lparr>tl_artist := Some (take TITLE_MAX_LENGTH (utext_of s))\<rparr> | None \<Rightarrow> t2)
                      in (Inr (pm_duration m \<noteq> None \<or> pm_title m \<noteq> None \<or> pm_artist m \<noteq> None),
                          p\<lparr>p_timelines := dict_set a t3 (p_timelines p)\<rparr>))))"

end
