(* ===== verification/Native_Api.thy ===== *)
theory Native_Api
  imports Player_Queue BT_Device
begin

text \<open>
  The data of the native API (\<open>api/routes.py\<close>): the command a request is validated into, with every check of
  the request models, and the records the API answers with (queue snapshot, timeline, playback envelope,
  speaker record). The parsing of JSON into fields of their declared types is pydantic's; a field that fails
  its type is an error there and does not reach the code modelled here. The several errors pydantic collects
  into one \<open>ValidationError\<close> are the first of them.
\<close>

section \<open>Queue items\<close>

definition request_error :: "string \<Rightarrow> py_exc" where "request_error m = ValueError m"

definition url_bounds_error :: py_exc where "url_bounds_error = ValueError ''string length''"

text \<open>\<open>valid_display_text\<close>, for the title and the artist of an item.\<close>

definition valid_display_text :: "utext option \<Rightarrow> py_exc + utext option" where
  "valid_display_text value =
     (case value of None \<Rightarrow> Inr None
      | Some v \<Rightarrow>
          (let cleaned = u_strip v
           in if cleaned = [] then Inr None
              else if u_in URL_MARK cleaned \<or> list_ex (\<lambda>c. c < 32) cleaned
                then Inl (request_error ''Queue display text is invalid'')
              else Inr (Some cleaned)))"

definition bounded_text :: "nat \<Rightarrow> utext option \<Rightarrow> bool" where
  "bounded_text n value \<longleftrightarrow> (case value of None \<Rightarrow> True | Some v \<Rightarrow> length v \<le> n)"

text \<open>\<open>NativeQueueItemRequest\<close>.\<close>

definition parse_queue_item :: "raw_item \<Rightarrow> py_exc + queue_item" where
  "parse_queue_item e =
     (case ri_url e of
        None \<Rightarrow> Inl url_bounds_error
      | Some u \<Rightarrow>
          if \<not> (1 \<le> length u \<and> length u \<le> MAX_MEDIA_URL_LENGTH) \<or> \<not> bounded_text TITLE_MAX_LENGTH (ri_title e)
             \<or> \<not> bounded_text TITLE_MAX_LENGTH (ri_artist e) then Inl url_bounds_error
          else (case (validate_media_url u, valid_display_text (ri_title e), valid_display_text (ri_artist e)) of
                  (Inr url, Inr title, Inr artist) \<Rightarrow> Inr \<lparr>qi_url = url, qi_title = title, qi_artist = artist\<rparr>
                | (Inl err, _, _) \<Rightarrow> Inl err
                | (_, Inl err, _) \<Rightarrow> Inl err
                | (_, _, Inl err) \<Rightarrow> Inl err))"

fun parse_queue_items :: "raw_item list \<Rightarrow> py_exc + queue_item list" where
  "parse_queue_items [] = Inr []"
| "parse_queue_items (e # es) =
     (case (parse_queue_item e, parse_queue_items es) of
        (Inr i, Inr is) \<Rightarrow> Inr (i # is) | (Inl err, _) \<Rightarrow> Inl err | (_, Inl err) \<Rightarrow> Inl err)"

text \<open>\<open>model_dump(exclude_none=True)\<close>: the item as the player takes it.\<close>

definition dumped_item :: "queue_item \<Rightarrow> raw_item" where
  "dumped_item i = \<lparr>ri_url = Some (qi_url i), ri_title = qi_title i, ri_artist = qi_artist i\<rparr>"

section \<open>Commands\<close>

datatype native_operation =
    NO_play | NO_pause | NO_stop | NO_set_volume | NO_play_media | NO_queue_start
  | NO_next | NO_previous | NO_set_shuffle | NO_set_repeat

definition NATIVE_QUEUE_VERSION :: int where "NATIVE_QUEUE_VERSION = 1"

definition QUEUE_CONTROL_OPERATIONS :: "native_operation list" where
  "QUEUE_CONTROL_OPERATIONS = [NO_next, NO_previous, NO_set_shuffle, NO_set_repeat]"

definition NON_RETRYABLE_QUEUE_OPERATIONS :: "native_operation list" where
  "NON_RETRYABLE_QUEUE_OPERATIONS = NO_queue_start # QUEUE_CONTROL_OPERATIONS"

record native_command =
  nc_operation :: native_operation
  nc_queue_version :: "int option"
  nc_volume :: "real option"
  nc_url :: "string option"
  nc_media_type :: "string option"
  nc_playlist :: "utext option"
  nc_items :: "queue_item list option"
  nc_shuffle :: "bool option"
  nc_repeat :: "repeat_mode option"

text \<open>The bytes of a queue, as \<open>validate_operation_payload\<close> adds them up.\<close>

fun items_bytes :: "queue_item list \<Rightarrow> nat option" where
  "items_bytes [] = Some 0"
| "items_bytes (i # is) =
     (case (utf8_length (utext_of (qi_url i)), encoded_length (qi_title i), encoded_length (qi_artist i), items_bytes is) of
        (Some a, Some b, Some c, Some n) \<Rightarrow> Some (a + b + c + n) | _ \<Rightarrow> None)"

definition queue_bytes :: "utext \<Rightarrow> queue_item list \<Rightarrow> nat option" where
  "queue_bytes playlist items =
     (case (utf8_length playlist, items_bytes items) of (Some n, Some m) \<Rightarrow> Some (n + m) | _ \<Rightarrow> None)"

definition validate_queue_start :: "native_command \<Rightarrow> py_exc + native_command" where
  "validate_queue_start c =
     (case (nc_playlist c, nc_items c) of
        (Some playlist, Some items) \<Rightarrow>
          if nc_shuffle c \<noteq> None \<or> nc_repeat c \<noteq> None
            then Inl (request_error ''Queue start cannot include queue controls'')
          else (case queue_bytes playlist items of
                  None \<Rightarrow> Inl unicode_error
                | Some n \<Rightarrow>
                    if n > MAX_QUEUE_PAYLOAD_BYTES then Inl (request_error ''Queue request is too large'') else Inr c)
      | _ \<Rightarrow> Inl (request_error ''Playlist and queue items are required''))"

definition validate_operation_payload :: "native_command \<Rightarrow> py_exc + native_command" where
  "validate_operation_payload c =
     (if nc_operation c \<in> set NON_RETRYABLE_QUEUE_OPERATIONS then
        if nc_queue_version c \<noteq> Some NATIVE_QUEUE_VERSION
          then Inl (request_error ''Supported queue version is required'')
        else if nc_volume c \<noteq> None \<or> nc_url c \<noteq> None \<or> nc_media_type c \<noteq> None
          then Inl (request_error ''Queue fields cannot be combined with media command fields'')
        else if nc_operation c = NO_queue_start then validate_queue_start c
        else if nc_playlist c \<noteq> None \<or> nc_items c \<noteq> None
          then Inl (request_error ''Queue start fields are only valid for queue_start'')
        else if nc_operation c = NO_set_shuffle then
          (if nc_shuffle c = None \<or> nc_repeat c \<noteq> None then Inl (request_error ''Shuffle value is required'') else Inr c)
        else if nc_operation c = NO_set_repeat then
          (if nc_repeat c = None \<or> nc_shuffle c \<noteq> None then Inl (request_error ''Repeat mode is required'') else Inr c)
        else if nc_shuffle c \<noteq> None \<or> nc_repeat c \<noteq> None
          then Inl (request_error ''Queue mode fields are only valid for their matching operation'')
        else Inr c
      else if nc_queue_version c \<noteq> None \<or> nc_shuffle c \<noteq> None \<or> nc_repeat c \<noteq> None
        then Inl (request_error ''Queue fields are only valid for queue operations'')
      else if nc_operation c = NO_queue_start then Inl (request_error ''Supported queue version is required'')
      else if nc_playlist c \<noteq> None \<or> nc_items c \<noteq> None
        then Inl (request_error ''Queue fields are only valid for queue_start'')
      else if nc_operation c = NO_set_volume \<and> nc_volume c = None then Inl (request_error ''Volume is required'')
      else if nc_operation c = NO_play_media \<and> nc_url c = None then Inl (request_error ''Media URL is required'')
      else if nc_operation c \<noteq> NO_play_media \<and> (nc_url c \<noteq> None \<or> nc_media_type c \<noteq> None)
        then Inl (request_error ''Media fields are only valid for play_media'')
      else Inr c)"

text \<open>The fields as they arrive.\<close>

record raw_command =
  rc_version :: int
  rc_operation :: native_operation
  rc_queue_version :: "int option"
  rc_volume :: "real option"
  rc_url :: "string option"
  rc_media_type :: "string option"
  rc_playlist :: "utext option"
  rc_items :: "raw_item list option"
  rc_shuffle :: "bool option"
  rc_repeat :: "string option"

definition valid_playlist_label :: "utext option \<Rightarrow> py_exc + utext option" where
  "valid_playlist_label value =
     (case value of None \<Rightarrow> Inr None
      | Some v \<Rightarrow>
          (let cleaned = u_strip v
           in if cleaned = [] \<or> u_in URL_MARK cleaned \<or> list_ex (\<lambda>c. c < 32) cleaned
              then Inl (request_error ''Playlist label is invalid'') else Inr (Some cleaned)))"

definition NATIVE_COMMAND_VERSION :: int where "NATIVE_COMMAND_VERSION = 1"

text \<open>The declared bounds of the fields.\<close>

definition command_bounds :: "raw_command \<Rightarrow> bool" where
  "command_bounds r \<longleftrightarrow>
     rc_version r = NATIVE_COMMAND_VERSION \<and> rc_queue_version r \<in> {None, Some NATIVE_QUEUE_VERSION} \<and>
     (case rc_volume r of None \<Rightarrow> True | Some v \<Rightarrow> VOLUME_MIN_RATIO \<le> v \<and> v \<le> VOLUME_MAX_RATIO) \<and>
     (case rc_url r of None \<Rightarrow> True | Some u \<Rightarrow> length u \<le> MAX_MEDIA_URL_LENGTH) \<and>
     (case rc_media_type r of None \<Rightarrow> True | Some m \<Rightarrow> length m \<le> MAX_MEDIA_TYPE_LENGTH) \<and>
     bounded_text TITLE_MAX_LENGTH (rc_playlist r) \<and> rc_playlist r \<noteq> Some [] \<and>
     (case rc_items r of None \<Rightarrow> True | Some is \<Rightarrow> 1 \<le> length is \<and> length is \<le> MAX_QUEUE_ITEMS) \<and>
     (case rc_repeat r of None \<Rightarrow> True | Some m \<Rightarrow> repeat_of m \<noteq> None)"

definition check_opt :: "('a \<Rightarrow> py_exc + 'b) \<Rightarrow> 'a option \<Rightarrow> py_exc + 'b option" where
  "check_opt f x = (case x of None \<Rightarrow> Inr None
     | Some v \<Rightarrow> (case f v of Inl e \<Rightarrow> Inl e | Inr y \<Rightarrow> Inr (Some y)))"

definition validate_command :: "raw_command \<Rightarrow> py_exc + native_command" where
  "validate_command r =
     (if \<not> command_bounds r then Inl validation_error
      else (case (check_opt validate_media_url (rc_url r), validate_media_type (rc_media_type r),
                  valid_playlist_label (rc_playlist r), check_opt parse_queue_items (rc_items r)) of
              (Inr url, Inr media_type, Inr playlist, Inr items) \<Rightarrow>
                validate_operation_payload
                  \<lparr>nc_operation = rc_operation r, nc_queue_version = rc_queue_version r, nc_volume = rc_volume r,
                   nc_url = url, nc_media_type = media_type, nc_playlist = playlist, nc_items = items,
                   nc_shuffle = rc_shuffle r, nc_repeat = Option.bind (rc_repeat r) repeat_of\<rparr>
            | _ \<Rightarrow> Inl validation_error))"

section \<open>What the API answers\<close>

text \<open>\<open>0 \<le> value \<le> maximum\<close>, else nothing: the bounds on the numbers of a snapshot and of a timeline.\<close>

definition TIMESTAMP_MAXIMUM :: real where "TIMESTAMP_MAXIMUM = 4102444800"
definition POSITION_MAXIMUM :: real where "POSITION_MAXIMUM = 315576000"

definition bounded_number :: "real \<Rightarrow> real option \<Rightarrow> real option" where
  "bounded_number maximum value =
     (case value of Some x \<Rightarrow> if 0 \<le> x \<and> x \<le> maximum then Some x else None | None \<Rightarrow> None)"

record queue_snapshot =
  qs_status :: session_status
  qs_playlist :: "utext option"
  qs_title :: "utext option"
  qs_artist :: "utext option"
  qs_error :: "string option"
  qs_position :: "real option"
  qs_duration :: "real option"
  qs_updated_at :: "real option"
  qs_index :: "nat option"
  qs_count :: "nat option"
  qs_shuffle :: bool
  qs_repeat :: repeat_mode

definition bounded_count :: "nat \<Rightarrow> nat option" where
  "bounded_count n = (if 1 \<le> n \<and> n \<le> MAX_QUEUE_ITEMS then Some n else None)"

text \<open>A missing key of the JSON object is \<open>None\<close>; the statuses of a session are all known ones.\<close>

definition project_queue :: "queue_view \<Rightarrow> queue_snapshot" where
  "project_queue v =
     \<lparr>qs_status = qv_status v, qs_playlist = display_text (qv_playlist v), qs_title = text_of (qv_title v),
      qs_artist = text_of (qv_artist v),
      qs_error = (if qv_error v = Some QUEUE_ERROR_PLAYBACK_FAILED then Some QUEUE_ERROR_PLAYBACK_FAILED else None),
      qs_position = bounded_number POSITION_MAXIMUM (qv_position v),
      qs_duration = bounded_number POSITION_MAXIMUM (qv_duration v),
      qs_updated_at = bounded_number TIMESTAMP_MAXIMUM (qv_updated_at v),
      qs_index = bounded_count (qv_index v), qs_count = bounded_count (qv_count v),
      qs_shuffle = qv_shuffle v, qs_repeat = qv_repeat v\<rparr>"

definition native_queue_snapshot :: "real \<Rightarrow> string \<Rightarrow> player \<Rightarrow> py_exc + queue_snapshot option" where
  "native_queue_snapshot now a p = map_sum id (map_option project_queue) (get_queue now a p)"

definition native_playback_timeline :: "real \<Rightarrow> string \<Rightarrow> player \<Rightarrow> timeline_view" where
  "native_playback_timeline now a p =
     (let t = get_timeline now p a
      in \<lparr>tv_position = bounded_number POSITION_MAXIMUM (tv_position t),
          tv_duration = bounded_number POSITION_MAXIMUM (tv_duration t),
          tv_updated_at = bounded_number TIMESTAMP_MAXIMUM (tv_updated_at t),
          tv_title = text_of (tv_title t), tv_artist = text_of (tv_artist t)\<rparr>)"

record envelope =
  pe_state :: playback_state
  pe_volume :: "real option"
  pe_timeline :: "timeline_view option"
  pe_queue :: "queue_snapshot option"

definition playback_envelope :: "real \<Rightarrow> player option \<Rightarrow> string \<Rightarrow> py_exc + envelope" where
  "playback_envelope now bridge address =
     (case bridge of
        None \<Rightarrow> Inr \<lparr>pe_state = PLAYBACK_IDLE, pe_volume = None, pe_timeline = None, pe_queue = None\<rparr>
      | Some p \<Rightarrow>
          (case normalize_address address of
             Inl e \<Rightarrow> Inl e
           | Inr a \<Rightarrow>
               (case native_queue_snapshot now a p of
                  Inl e \<Rightarrow> Inl e
                | Inr q \<Rightarrow>
                    Inr \<lparr>pe_state = get_state p a, pe_volume = Some (get_volume p a),
                         pe_timeline = Some (native_playback_timeline now a p), pe_queue = q\<rparr>)))"

record speaker_record =
  sr_address :: string
  sr_name :: string
  sr_available :: bool
  sr_connected :: bool
  sr_adapter :: string
  sr_trusted :: bool
  sr_is_audio_sink :: bool
  sr_paired :: bool
  sr_detached :: bool
  sr_playback :: envelope
  sr_queue_version :: "int option"

definition folded_address :: "string \<Rightarrow> string" where
  "folded_address a = replace_char (CHR ''-'') (CHR '':'') (lower (strip a))"

definition native_speaker_record :: "real \<Rightarrow> player option \<Rightarrow> device_info \<Rightarrow> py_exc + speaker_record" where
  "native_speaker_record now bridge d =
     (case playback_envelope now bridge (di_address d) of
        Inl e \<Rightarrow> Inl e
      | Inr env \<Rightarrow>
          Inr \<lparr>sr_address = folded_address (di_address d),
               sr_name = (if di_alias d \<noteq> [] then di_alias d
                          else case di_name d of Some n \<Rightarrow> (if n \<noteq> [] then n else di_address d) | None \<Rightarrow> di_address d),
               sr_available = di_connected d, sr_connected = di_connected d, sr_adapter = di_adapter_name d,
               sr_trusted = di_trusted d, sr_is_audio_sink = di_is_audio_sink d, sr_paired = di_paired d,
               sr_detached = di_detached d, sr_playback = env,
               sr_queue_version = (if bridge = None then None else Some NATIVE_QUEUE_VERSION)\<rparr>)"

text \<open>\<open>ui_speaker_record\<close>: the record, and the envelope it is enriched with.\<close>

definition ui_speaker_record :: "real \<Rightarrow> player option \<Rightarrow> device_info \<Rightarrow> py_exc + device_info \<times> envelope option" where
  "ui_speaker_record now bridge d =
     (if bridge = None \<or> \<not> di_is_audio_sink d then Inr (d, None)
      else (case playback_envelope now bridge (di_address d) of
              Inr env \<Rightarrow> Inr (d, Some env)
            | Inl (ValueError m) \<Rightarrow> Inr (d, None)
            | Inl e \<Rightarrow> Inl e))"

end
