(* ===== verification/Native_Spec.thy ===== *)
theory Native_Spec
  imports Native_Api Player_Spec
begin

text \<open>
  What the request validation of the native API guarantees: exactly which fields go with which operation,
  agreement with the validation the player repeats on a queue, and bounded, URL-free snapshots.
\<close>

section \<open>Fields and operations\<close>

datatype command_field =
  CF_queue_version | CF_volume | CF_url | CF_media_type | CF_playlist | CF_items | CF_shuffle | CF_repeat

text \<open>The fields a command carries.\<close>

definition carries :: "native_command \<Rightarrow> command_field \<Rightarrow> bool" where
  "carries c f =
     (case f of CF_queue_version \<Rightarrow> nc_queue_version c \<noteq> None | CF_volume \<Rightarrow> nc_volume c \<noteq> None
      | CF_url \<Rightarrow> nc_url c \<noteq> None | CF_media_type \<Rightarrow> nc_media_type c \<noteq> None | CF_playlist \<Rightarrow> nc_playlist c \<noteq> None
      | CF_items \<Rightarrow> nc_items c \<noteq> None | CF_shuffle \<Rightarrow> nc_shuffle c \<noteq> None | CF_repeat \<Rightarrow> nc_repeat c \<noteq> None)"

fun required_fields :: "native_operation \<Rightarrow> command_field set" where
  "required_fields NO_queue_start = {CF_queue_version, CF_playlist, CF_items}"
| "required_fields NO_next = {CF_queue_version}"
| "required_fields NO_previous = {CF_queue_version}"
| "required_fields NO_set_shuffle = {CF_queue_version, CF_shuffle}"
| "required_fields NO_set_repeat = {CF_queue_version, CF_repeat}"
| "required_fields NO_set_volume = {CF_volume}"
| "required_fields NO_play_media = {CF_url}"
| "required_fields _ = {}"

fun optional_fields :: "native_operation \<Rightarrow> command_field set" where
  "optional_fields NO_play = {CF_volume}"
| "optional_fields NO_pause = {CF_volume}"
| "optional_fields NO_stop = {CF_volume}"
| "optional_fields NO_play_media = {CF_volume, CF_media_type}"
| "optional_fields _ = {}"

definition fields_fit :: "native_command \<Rightarrow> bool" where
  "fields_fit c \<longleftrightarrow>
     (let op = nc_operation c; present = Collect (carries c)
      in required_fields op \<subseteq> present \<and> present \<subseteq> required_fields op \<union> optional_fields op)"

definition size_fits :: "native_command \<Rightarrow> bool" where
  "size_fits c \<longleftrightarrow>
     nc_operation c = NO_queue_start \<longrightarrow>
       (case queue_bytes (the (nc_playlist c)) (the (nc_items c)) of
          Some n \<Rightarrow> n \<le> MAX_QUEUE_PAYLOAD_BYTES | None \<Rightarrow> False)"

lemma all_fields:
  "(\<forall>f. P f) \<longleftrightarrow> P CF_queue_version \<and> P CF_volume \<and> P CF_url \<and> P CF_media_type \<and> P CF_playlist \<and>
     P CF_items \<and> P CF_shuffle \<and> P CF_repeat"
  by (metis command_field.exhaust)

lemma present_between:
  "R \<subseteq> Collect (carries c) \<and> Collect (carries c) \<subseteq> A \<longleftrightarrow> (\<forall>f. (f \<in> R \<longrightarrow> carries c f) \<and> (carries c f \<longrightarrow> f \<in> A))"
  by blast

lemmas operation_lists = NON_RETRYABLE_QUEUE_OPERATIONS_def QUEUE_CONTROL_OPERATIONS_def

text \<open>
  C22. Which commands are accepted: those whose fields are the ones of their operation, as the two tables above
  give them, with a queue version of 1 where there is one, and with a queue whose texts fit the limit.
\<close>

theorem operation_payload_table:
  assumes version: "nc_queue_version c \<in> {None, Some NATIVE_QUEUE_VERSION}"
  shows "validate_operation_payload c = Inr c' \<longleftrightarrow> c' = c \<and> fields_fit c \<and> size_fits c"
proof (cases "nc_operation c")
  case NO_queue_start
  then show ?thesis
    using version
    by (auto simp: validate_operation_payload_def validate_queue_start_def operation_lists fields_fit_def Let_def
      present_between all_fields carries_def size_fits_def split: option.splits)
qed (use version in \<open>auto simp: validate_operation_payload_def operation_lists fields_fit_def Let_def
      present_between all_fields carries_def size_fits_def\<close>)

definition plain_command :: "native_operation \<Rightarrow> native_command" where
  "plain_command operation = \<lparr>nc_operation = operation, nc_queue_version = None, nc_volume = None, nc_url = None,
     nc_media_type = None, nc_playlist = None, nc_items = None, nc_shuffle = None, nc_repeat = None\<rparr>"

theorem operation_payload_table_witness:
  "validate_operation_payload ((plain_command NO_set_volume)\<lparr>nc_volume := Some (1 / 2)\<rparr>)
     = Inr ((plain_command NO_set_volume)\<lparr>nc_volume := Some (1 / 2)\<rparr>) \<and>
   validate_operation_payload (plain_command NO_set_volume) \<noteq> Inr (plain_command NO_set_volume)"
  using operation_payload_table [of "(plain_command NO_set_volume)\<lparr>nc_volume := Some (1 / 2)\<rparr>"]
    operation_payload_table [of "plain_command NO_set_volume"]
  by (simp add: plain_command_def fields_fit_def Let_def present_between all_fields carries_def size_fits_def)

section \<open>The player's own validation\<close>

lemma u_strip_idem: "u_strip (u_strip s) = u_strip s"
proof -
  let ?l = "dropWhile u_space s"
  define t where "t = rev (dropWhile u_space (rev ?l))"
  have l: "?l = [] \<or> \<not> u_space (hd ?l)" by (metis hd_dropWhile)
  have t: "t = [] \<or> \<not> u_space (last t)" unfolding t_def
    by (metis hd_dropWhile last_rev rev_is_Nil_conv)
  obtain k where k: "?l = t @ k" unfolding t_def
    by (metis rev_append rev_rev_ident takeWhile_dropWhile_id)
  have "t = [] \<or> \<not> u_space (hd t)" using l k by (cases t) auto
  then have "dropWhile u_space t = t" by (cases t) auto
  moreover have "dropWhile u_space (rev t) = rev t" using t by (cases "rev t") (auto simp: last_rev)
  ultimately show ?thesis unfolding u_strip_def t_def [symmetric] by simp
qed

lemma u_strip_length: "length (u_strip s) \<le> length s"
  unfolding u_strip_def by (metis dual_order.trans length_dropWhile_le length_rev)

text \<open>A cleaned text within the limit is shown as it is, or not at all.\<close>

lemma display_cleaned:
  assumes "u_strip s = s" and "length s \<le> TITLE_MAX_LENGTH"
  shows "display_text s \<in> {None, Some s}"
  using assms by (auto simp: display_text_def Let_def split: option.splits)

lemma text_cleaned:
  assumes "valid_display_text v = Inr w" and "bounded_text TITLE_MAX_LENGTH v"
  shows "text_of w \<in> {None, w}"
proof (cases w)
  case (Some s)
  then obtain u where "v = Some u" "s = u_strip u"
    using assms(1) by (auto simp: valid_display_text_def Let_def split: option.splits if_splits)
  then have "u_strip s = s" "length s \<le> TITLE_MAX_LENGTH"
    using assms(2) u_strip_length [of u] by (auto simp: u_strip_idem bounded_text_def)
  then show ?thesis using display_cleaned Some by (auto simp: text_of_def)
qed (simp add: text_of_def)

lemma validate_media_url_same: "validate_media_url u = Inr v \<Longrightarrow> v = u"
  by (auto simp: validate_media_url_def Let_def split: if_splits sum.splits)

text \<open>An item as \<open>model_dump(exclude_none=True)\<close> hands it to the player, and what the player keeps of it.\<close>

definition shown_item :: "queue_item \<Rightarrow> queue_item" where
  "shown_item i = i\<lparr>qi_title := text_of (qi_title i), qi_artist := text_of (qi_artist i)\<rparr>"

lemma encoded_None [simp]: "encoded_length None = Some 0" by (simp add: encoded_length_def)

lemma encoded_shown:
  assumes "text_of w \<in> {None, w}" and "encoded_length w = Some n"
  shows "\<exists>m \<le> n. encoded_length (text_of w) = Some m"
  using assms by auto

lemma parsed_item:
  assumes "parse_queue_item e = Inr i"
  shows "validate_media_url (qi_url i) = Inr (qi_url i)" and "text_of (qi_title i) \<in> {None, qi_title i}"
    and "text_of (qi_artist i) \<in> {None, qi_artist i}"
proof -
  obtain u where "ri_url e = Some u" and title: "bounded_text TITLE_MAX_LENGTH (ri_title e)"
    and artist: "bounded_text TITLE_MAX_LENGTH (ri_artist e)"
    and parts: "validate_media_url u = Inr (qi_url i)" "valid_display_text (ri_title e) = Inr (qi_title i)"
      "valid_display_text (ri_artist e) = Inr (qi_artist i)"
    using assms by (auto simp: parse_queue_item_def split: option.splits if_splits sum.splits)
  show "validate_media_url (qi_url i) = Inr (qi_url i)" using parts(1) validate_media_url_same by metis
  show "text_of (qi_title i) \<in> {None, qi_title i}" by (rule text_cleaned [OF parts(2) title])
  show "text_of (qi_artist i) \<in> {None, qi_artist i}" by (rule text_cleaned [OF parts(3) artist])
qed

lemma parsed_items: "parse_queue_items es = Inr is \<Longrightarrow> i \<in> set is \<Longrightarrow> \<exists>e. parse_queue_item e = Inr i"
  by (induction es arbitrary: "is") (auto split: sum.splits)

lemma parsed_items_length: "parse_queue_items es = Inr is \<Longrightarrow> length is = length es"
  by (induction es arbitrary: "is") (auto split: sum.splits)

lemma dumped_items:
  assumes "\<forall>i \<in> set is. validate_media_url (qi_url i) = Inr (qi_url i) \<and> text_of (qi_title i) \<in> {None, qi_title i} \<and>
      text_of (qi_artist i) \<in> {None, qi_artist i}"
    and "items_bytes is = Some n"
  shows "\<exists>m \<le> n. validate_items (map dumped_item is) = Some (map shown_item is, m)"
  using assms
proof (induction "is" arbitrary: n)
  case (Cons i "is")
  obtain a b c k where parts: "utf8_length (utext_of (qi_url i)) = Some a" "encoded_length (qi_title i) = Some b"
    "encoded_length (qi_artist i) = Some c" "items_bytes is = Some k" "n = a + b + c + k"
    using Cons.prems(2) by (auto split: option.splits)
  obtain b' where b': "b' \<le> b" "encoded_length (text_of (qi_title i)) = Some b'"
    using encoded_shown [OF _ parts(2)] Cons.prems(1) by auto
  obtain c' where c': "c' \<le> c" "encoded_length (text_of (qi_artist i)) = Some c'"
    using encoded_shown [OF _ parts(3)] Cons.prems(1) by auto
  obtain m where m: "m \<le> k" "validate_items (map dumped_item is) = Some (map shown_item is, m)"
    using Cons.IH [OF _ parts(4)] Cons.prems(1) by auto
  have "validate_items (map dumped_item (i # is)) = Some (map shown_item (i # is), a + b' + c' + m)"
    using Cons.prems(1) parts(1) b'(2) c'(2) m(2) by (simp add: dumped_item_def shown_item_def Let_def)
  moreover have "a + b' + c' + m \<le> n" using b' c' m parts(5) by simp
  ultimately show ?case by blast
qed simp

text \<open>
  C23. The player repeats the validation of a queue. A request the API has accepted never fails there because of its
  items or its size: what the player refuses is exactly a playlist label it would not display. Titles it
  would not display are dropped.
\<close>

theorem queue_request_agreement:
  assumes "validate_command r = Inr c" and "nc_operation c = NO_queue_start"
  shows "\<exists>playlist items. nc_playlist c = Some playlist \<and> nc_items c = Some items \<and>
    validate_queue (nc_playlist c) (map dumped_item items) =
      (if display_text playlist = None then Inl queue_invalid else Inr (playlist, map shown_item items))"
proof -
  obtain url media where bounds: "command_bounds r"
    and label: "valid_playlist_label (rc_playlist r) = Inr (nc_playlist c)"
    and items: "check_opt parse_queue_items (rc_items r) = Inr (nc_items c)"
    and payload: "validate_operation_payload c = Inr c"
    using assms(1) by (auto simp: validate_command_def validate_operation_payload_def validate_queue_start_def
      split: if_splits sum.splits option.splits)
  obtain playlist "is" n where c: "nc_playlist c = Some playlist" "nc_items c = Some is"
    and bytes: "queue_bytes playlist is = Some n" "n \<le> MAX_QUEUE_PAYLOAD_BYTES"
    using payload assms(2) by (auto simp: validate_operation_payload_def validate_queue_start_def operation_lists
      split: if_splits option.splits)
  obtain es where es: "rc_items r = Some es" "parse_queue_items es = Inr is"
    using items c(2) by (auto simp: check_opt_def split: option.splits sum.splits)
  obtain v where v: "rc_playlist r = Some v" "playlist = u_strip v"
    using label c(1) by (auto simp: valid_playlist_label_def Let_def split: option.splits if_splits)
  have shown: "display_text playlist \<in> {None, Some playlist}"
    using bounds u_strip_length [of v] unfolding v(2)
    by (intro display_cleaned) (auto simp: u_strip_idem command_bounds_def bounded_text_def v(1))
  have count: "1 \<le> length is \<and> length is \<le> MAX_QUEUE_ITEMS"
    using bounds parsed_items_length [OF es(2)] by (simp add: command_bounds_def es(1))
  obtain k m where km: "utf8_length playlist = Some k" "items_bytes is = Some m" "n = k + m"
    using bytes(1) by (auto simp: queue_bytes_def split: option.splits)
  obtain m' where m': "m' \<le> m" "validate_items (map dumped_item is) = Some (map shown_item is, m')"
    using dumped_items [OF _ km(2)] parsed_items [OF es(2)] parsed_item by blast
  have "validate_queue (Some playlist) (map dumped_item is) =
      (if display_text playlist = None then Inl queue_invalid else Inr (playlist, map shown_item is))"
    using shown count km m' bytes(2) by (auto simp: validate_queue_def text_of_def)
  then show ?thesis using c by simp
qed

text \<open>
  C24. What is published of a queue: texts of at most 128 characters that contain no URL at any depth of percent
  decoding, numbers within fixed bounds, and a known error text. Input URLs are not part of it.
\<close>

theorem queue_snapshot_safe:
  assumes "native_queue_snapshot now a p = Inr (Some q)"
  shows "(\<forall>t. Some t \<in> {qs_playlist q, qs_title q, qs_artist q} \<longrightarrow>
      length t \<le> TITLE_MAX_LENGTH \<and> (\<forall>k. \<not> u_in URL_MARK ((unquote ^^ k) t))) \<and>
    qs_error q \<in> {None, Some QUEUE_ERROR_PLAYBACK_FAILED} \<and>
    (\<forall>x. Some x \<in> {qs_position q, qs_duration q, qs_updated_at q} \<longrightarrow> 0 \<le> x \<and> x \<le> TIMESTAMP_MAXIMUM) \<and>
    (\<forall>i. qs_index q = Some i \<longrightarrow> 1 \<le> i \<and> i \<le> MAX_QUEUE_ITEMS)"
proof -
  obtain v where q: "q = project_queue v"
    using assms by (cases "get_queue now a p") (auto simp: native_queue_snapshot_def)
  have texts: "length t \<le> TITLE_MAX_LENGTH \<and> (\<forall>k. \<not> u_in URL_MARK ((unquote ^^ k) t))"
    if "Some t \<in> {qs_playlist q, qs_title q, qs_artist q}" for t
  proof -
    have "\<exists>s. display_text s = Some t"
      using that unfolding q
      by (cases "qv_title v"; cases "qv_artist v") (auto simp: project_queue_def text_of_def dest: sym)
    then show ?thesis using display_text_shape by blast
  qed
  have numbers: "0 \<le> x \<and> x \<le> TIMESTAMP_MAXIMUM" if "Some x \<in> {qs_position q, qs_duration q, qs_updated_at q}" for x
    using that unfolding q
    by (auto simp: project_queue_def bounded_number_def POSITION_MAXIMUM_def TIMESTAMP_MAXIMUM_def
      split: option.splits if_splits)
  show ?thesis
    using texts numbers
    by (auto simp: q project_queue_def bounded_count_def split: if_splits)
qed

section \<open>Witnesses\<close>

definition witness_url :: string where "witness_url = http_url (dotted 8 8 8 8) ''a''"

lemma witness_url_ok: "validate_media_url witness_url = Inr witness_url"
  using validate_dotted [of 8 8 8 8 "''a''"] by (simp add: witness_url_def url_char_ok_def ord_of_def)

lemma hi_clean: "u_strip [104, 105] = [104, 105]" "\<not> u_in URL_MARK [104, 105]"
  by (simp_all add: u_strip_def u_space_def URL_MARK_def)

definition witness_request :: raw_command where
  "witness_request = \<lparr>rc_version = 1, rc_operation = NO_queue_start, rc_queue_version = Some 1, rc_volume = None,
     rc_url = None, rc_media_type = None, rc_playlist = Some [104, 105],
     rc_items = Some [\<lparr>ri_url = Some witness_url, ri_title = None, ri_artist = None\<rparr>], rc_shuffle = None, rc_repeat = None\<rparr>"

definition witness_command :: native_command where
  "witness_command = (plain_command NO_queue_start)\<lparr>nc_queue_version := Some 1, nc_playlist := Some [104, 105],
     nc_items := Some [\<lparr>qi_url = witness_url, qi_title = None, qi_artist = None\<rparr>]\<rparr>"

lemma witness_url_length: "1 \<le> length witness_url \<and> length witness_url \<le> MAX_MEDIA_URL_LENGTH"
  using witness_url_ok by (auto simp: validate_media_url_def Let_def Suc_le_eq split: if_splits)

lemma utf8_length_small: "list_all (\<lambda>c. c < 256) s \<Longrightarrow> \<exists>n \<le> 2 * length s. utf8_length s = Some n"
  by (induction s) (auto simp: le_Suc_eq intro: exI)

lemma witness_url_bytes: "\<exists>n \<le> 2 * MAX_MEDIA_URL_LENGTH. utf8_length (utext_of witness_url) = Some n"
proof -
  have "list_all (\<lambda>c. c < 256) (utext_of witness_url)"
    by (simp add: utext_of_def list_all_iff ord_of_def)
  then obtain n where "n \<le> 2 * length (utext_of witness_url)" "utf8_length (utext_of witness_url) = Some n"
    using utf8_length_small by blast
  then show ?thesis using witness_url_length by (auto simp: utext_of_def)
qed

lemma witness_request_ok: "validate_command witness_request = Inr witness_command"
proof -
  have item: "parse_queue_item \<lparr>ri_url = Some witness_url, ri_title = None, ri_artist = None\<rparr>
      = Inr \<lparr>qi_url = witness_url, qi_title = None, qi_artist = None\<rparr>"
    using witness_url_length by (simp add: parse_queue_item_def witness_url_ok bounded_text_def valid_display_text_def)
  show ?thesis
    using witness_url_bytes
    by (auto simp: validate_command_def witness_request_def witness_command_def command_bounds_def bounded_text_def
      NATIVE_COMMAND_VERSION_def NATIVE_QUEUE_VERSION_def check_opt_def item valid_playlist_label_def hi_clean
      validate_media_type_def validate_operation_payload_def validate_queue_start_def operation_lists plain_command_def
      queue_bytes_def Let_def URL_MARK_def)
qed

theorem queue_request_agreement_witness:
  "\<exists>items. validate_queue (Some [104, 105]) (map dumped_item items) = Inr ([104, 105], map shown_item items) \<and> items \<noteq> []"
proof -
  obtain "is" where "nc_items witness_command = Some is"
    "validate_queue (Some [104, 105]) (map dumped_item is) = Inr ([104, 105], map shown_item is)"
    using queue_request_agreement [OF witness_request_ok] display_text_hi
    by (auto simp: witness_command_def plain_command_def)
  then show ?thesis by (intro exI [of _ "is"]) (auto simp: witness_command_def)
qed

theorem queue_snapshot_safe_witness:
  "\<exists>q. native_queue_snapshot 0 witness_address
       (silent_player\<lparr>p_sessions := [(witness_address, 0)], p_heap := (\<lambda>_. new_session 1 [104, 105] [witness_track ''a''])\<rparr>)
     = Inr (Some q) \<and> qs_playlist q = Some [104, 105] \<and> (\<forall>k. \<not> u_in URL_MARK ((unquote ^^ k) [104, 105]))"
proof -
  let ?p = "silent_player\<lparr>p_sessions := [(witness_address, 0)], p_heap := (\<lambda>_. new_session 1 [104, 105] [witness_track ''a''])\<rparr>"
  obtain q where q: "native_queue_snapshot 0 witness_address ?p = Inr (Some q)" "qs_playlist q = Some [104, 105]"
    by (simp add: native_queue_snapshot_def get_queue_def new_session_def project_queue_def display_text_hi Let_def)
  then show ?thesis using queue_snapshot_safe [OF q(1)] by auto
qed

end
