(* ===== verification/Web_Sockets.thy ===== *)
theory Web_Sockets
  imports Async Validation Config_Store
begin

text \<open>
  The live event bus (\<open>api/ws.py\<close>): \<open>ConnectionManager\<close>, its broadcast, and the two endpoints. Connections are
  numbers. \<open>for conn in self.active_connections\<close> walks over the list while other tasks may change it at every
  awaited send, so the loop keeps the index a Python list iterator keeps. How long it runs is bounded by
  \<open>fuel\<close>; a broadcast that has used it up answers \<open>None\<close>.
\<close>

section \<open>Messages\<close>

definition EVENT_HEALTH :: string where "EVENT_HEALTH = ''health''"
definition WS_HEALTH_DEFAULT_VERSION :: int where "WS_HEALTH_DEFAULT_VERSION = 1"
definition WS_PING :: string where "WS_PING = ''ping''"
definition WS_PONG :: string where "WS_PONG = ''pong''"

record ws_message =
  we_event :: string
  we_data :: json
  we_version :: "json option"

text \<open>A pydantic model arrives as the JSON of its \<open>model_dump\<close>; \<open>None\<close> is sent as its text.\<close>

definition event_message :: "string \<Rightarrow> json \<Rightarrow> ws_message" where
  "event_message event data =
     \<lparr>we_event = event, we_data = (if data = JNull then JString ''None'' else data),
      we_version = (case data of
          JObject d \<Rightarrow>
            if event = EVENT_HEALTH
            then Some (case dict_get d ''version'' of Some v \<Rightarrow> v | None \<Rightarrow> JInt WS_HEALTH_DEFAULT_VERSION) else None
        | _ \<Rightarrow> None)\<rparr>"

section \<open>The connection manager\<close>

datatype ws_text = Event_text ws_message | Plain_text string

record hub =
  hub_active :: "nat list"
  hub_sent :: "(nat \<times> ws_text) list"

definition new_hub :: hub where "new_hub = \<lparr>hub_active = [], hub_sent = []\<rparr>"

record hub_pause = "hub pause" +
  wp_outcome :: "py_exc + unit"

type_synonym 'a hub_action = "(nat \<Rightarrow> hub_pause) \<Rightarrow> nat \<times> hub \<Rightarrow> (py_exc + 'a) \<times> nat \<times> hub"

definition hub_await :: "(hub \<Rightarrow> hub) \<Rightarrow> unit hub_action" where
  "hub_await f = suspend (\<lambda>su h. (case wp_outcome su of Inl e \<Rightarrow> (Inl e, h) | Inr _ \<Rightarrow> (Inr (), f h)))"

definition send_text :: "nat \<Rightarrow> ws_text \<Rightarrow> unit hub_action" where
  "send_text c m = hub_await (\<lambda>h. h\<lparr>hub_sent := hub_sent h @ [(c, m)]\<rparr>)"

definition hub_connect :: "nat \<Rightarrow> unit hub_action" where
  "hub_connect c =
     and_then (hub_await (\<lambda>h. h)) (\<lambda>_. modify (\<lambda>h. h\<lparr>hub_active := hub_active h @ [c]\<rparr>))"

definition hub_disconnect :: "nat \<Rightarrow> hub \<Rightarrow> hub" where
  "hub_disconnect c h = h\<lparr>hub_active := remove1 c (hub_active h)\<rparr>"

text \<open>The loop: \<open>i\<close> is the position of the iterator, \<open>dead\<close> the connections that failed.\<close>

primrec send_rest :: "nat \<Rightarrow> ws_text \<Rightarrow> nat \<Rightarrow> nat list \<Rightarrow> (nat list option) hub_action" where
  "send_rest 0 m i dead =
     and_then (read (\<lambda>h. i < length (hub_active h))) (\<lambda>more. ret (if more then None else Some dead))"
| "send_rest (Suc fuel) m i dead =
     and_then (read (\<lambda>h. if i < length (hub_active h) then Some (hub_active h ! i) else None)) (\<lambda>conn.
     (case conn of
        None \<Rightarrow> ret (Some dead)
      | Some c \<Rightarrow>
          and_then (try_catch (and_then (send_text c m) (\<lambda>_. ret True)) (\<lambda>_. ret False)) (\<lambda>ok.
          send_rest fuel m (Suc i) (if ok then dead else dead @ [c]))))"

definition broadcast :: "nat \<Rightarrow> string \<Rightarrow> json \<Rightarrow> (unit option) hub_action" where
  "broadcast fuel event data =
     and_then (read hub_active) (\<lambda>active.
     if active = [] then ret (Some ())
     else and_then (send_rest fuel (Event_text (event_message event data)) 0 []) (\<lambda>result.
       (case result of
          None \<Rightarrow> ret None
        | Some dead \<Rightarrow> and_then (modify (fold hub_disconnect dead)) (\<lambda>_. ret (Some ())))))"

section \<open>The endpoints\<close>

text \<open>
  The public endpoint on the texts its client sends before it goes away: every one is awaited, a ping is
  answered. \<open>except WebSocketDisconnect\<close> and \<open>except Exception\<close> end the loop; a cancellation goes on.
\<close>

primrec serve_texts :: "nat \<Rightarrow> string list \<Rightarrow> unit hub_action" where
  "serve_texts c [] = hub_await (\<lambda>h. h)"
| "serve_texts c (t # ts) =
     and_then (hub_await (\<lambda>h. h)) (\<lambda>_.
     if t = WS_PING then and_then (send_text c (Plain_text WS_PONG)) (\<lambda>_. serve_texts c ts)
     else serve_texts c ts)"

definition websocket_endpoint :: "nat \<Rightarrow> string list \<Rightarrow> unit hub_action" where
  "websocket_endpoint c texts =
     and_then (hub_connect c) (\<lambda>_.
     try_finally (try_catch (serve_texts c texts) (\<lambda>_. ret ())) (modify (hub_disconnect c)))"

primrec drain_texts :: "string list \<Rightarrow> unit hub_action" where
  "drain_texts [] = hub_await (\<lambda>h. h)"
| "drain_texts (t # ts) = and_then (hub_await (\<lambda>h. h)) (\<lambda>_. drain_texts ts)"

definition native_websocket_endpoint :: "string \<Rightarrow> string option \<Rightarrow> nat \<Rightarrow> string list \<Rightarrow> unit hub_action" where
  "native_websocket_endpoint expected authorization c texts =
     and_then (from_sum (authorized_bearer authorization expected)) (\<lambda>ok.
     if \<not> ok then hub_await (\<lambda>h. h)
     else and_then (hub_connect c) (\<lambda>_.
       try_finally (try_catch (drain_texts texts) (\<lambda>_. ret ())) (modify (hub_disconnect c))))"

section \<open>Broadcasts\<close>

definition sends_ok :: "(nat \<Rightarrow> hub_pause) \<Rightarrow> nat \<Rightarrow> bool" where
  "sends_ok sc k \<longleftrightarrow> wp_outcome (sc k) = Inr ()"

text \<open>Nobody else touches the hub, and the broadcasting task is not cancelled.\<close>

definition hub_calm :: "(nat \<Rightarrow> hub_pause) \<Rightarrow> bool" where
  "hub_calm sc \<longleftrightarrow> (\<forall>k h. su_others (sc k) h = h) \<and> (\<forall>k. wp_outcome (sc k) \<noteq> Inl CancelledError)"

lemma send_text_calm:
  assumes "hub_calm sc"
  shows "try_catch (and_then (send_text c m) (\<lambda>_. ret True)) (\<lambda>_. ret False) sc (n, h) =
    (Inr (sends_ok sc n), (Suc n, if sends_ok sc n then h\<lparr>hub_sent := hub_sent h @ [(c, m)]\<rparr> else h))"
  using assms by (cases "wp_outcome (sc n)")
    (auto simp: act_defs send_text_def hub_await_def sends_ok_def hub_calm_def)

lemma send_rest_calm:
  assumes calm: "hub_calm sc" and "i \<le> length A" and "length A \<le> fuel + i" and "hub_active h = A"
  shows "send_rest fuel m i dead sc (n, h) =
    (Inr (Some (dead @ map (\<lambda>k. A ! k) (filter (\<lambda>k. \<not> sends_ok sc (n + k - i)) [i..<length A]))),
     (n + (length A - i),
      h\<lparr>hub_sent := hub_sent h @ map (\<lambda>k. (A ! k, m)) (filter (\<lambda>k. sends_ok sc (n + k - i)) [i..<length A])\<rparr>))"
  using assms(2-4)
proof (induction fuel arbitrary: i dead n h)
  case 0
  then show ?case by (simp add: act_defs)
next
  case (Suc fuel)
  show ?case
  proof (cases "i < length A")
    case True
    have shift: "n + k - i = Suc n + k - Suc i" for k by simp
    let ?h = "if sends_ok sc n then h\<lparr>hub_sent := hub_sent h @ [(A ! i, m)]\<rparr> else h"
    let ?dead = "if sends_ok sc n then dead else dead @ [A ! i]"
    have "send_rest (Suc fuel) m i dead sc (n, h) = send_rest fuel m (Suc i) ?dead sc (Suc n, ?h)"
      using True Suc.prems(3) send_text_calm [OF calm, of "A ! i" m n h]
      by (simp add: and_then_def read_def)
    also have "\<dots> = (Inr (Some (?dead @ map (\<lambda>k. A ! k) (filter (\<lambda>k. \<not> sends_ok sc (Suc n + k - Suc i)) [Suc i..<length A]))),
       (Suc n + (length A - Suc i),
        ?h\<lparr>hub_sent := hub_sent ?h @ map (\<lambda>k. (A ! k, m)) (filter (\<lambda>k. sends_ok sc (Suc n + k - Suc i)) [Suc i..<length A])\<rparr>))"
      using True Suc.prems by (intro Suc.IH) auto
    finally show ?thesis using True by (simp add: upt_conv_Cons)
  qed (use Suc.prems in \<open>simp add: act_defs\<close>)
qed

lemma disconnect_each:
  "distinct (hub_active g) \<Longrightarrow> hub_active (fold hub_disconnect cs g) = filter (\<lambda>c. c \<notin> set cs) (hub_active g)"
proof (induction cs arbitrary: g)
  case (Cons c cs)
  have "hub_active (hub_disconnect c g) = filter (\<lambda>d. d \<noteq> c) (hub_active g)"
    using Cons.prems by (simp add: hub_disconnect_def distinct_remove1_removeAll removeAll_filter_not_eq eq_commute)
  then show ?case using Cons by (auto simp: conj_commute intro: filter_cong)
qed simp

lemma disconnect_sent: "hub_sent (fold hub_disconnect cs h) = hub_sent h"
  by (induction cs arbitrary: h) (simp_all add: hub_disconnect_def)

text \<open>
  C27. An undisturbed broadcast sends the message to every connected client, once and in order, and drops exactly
  the clients the sending failed for.
\<close>

theorem broadcast_reaches_everyone:
  assumes "hub_calm sc" and "distinct (hub_active h)" and "length (hub_active h) \<le> fuel"
  shows "\<exists>h'. broadcast fuel event data sc (n, h) = (Inr (Some ()), (n + length (hub_active h), h')) \<and>
    (let ok = \<lambda>k. sends_ok sc (n + k); A = hub_active h; m = Event_text (event_message event data)
     in hub_sent h' = hub_sent h @ map (\<lambda>k. (A ! k, m)) (filter ok [0..<length A]) \<and>
        set (hub_active h') = {A ! k | k. k < length A \<and> ok k} \<and> distinct (hub_active h'))"
proof (cases "hub_active h = []")
  case True
  then show ?thesis by (simp add: broadcast_def act_defs Let_def)
next
  case False
  let ?A = "hub_active h" and ?m = "Event_text (event_message event data)"
  let ?dead = "map (\<lambda>k. ?A ! k) (filter (\<lambda>k. \<not> sends_ok sc (n + k)) [0..<length ?A])"
  let ?h1 = "h\<lparr>hub_sent := hub_sent h @ map (\<lambda>k. (?A ! k, ?m)) (filter (\<lambda>k. sends_ok sc (n + k)) [0..<length ?A])\<rparr>"
  have loop: "send_rest fuel ?m 0 [] sc (n, h) = (Inr (Some ?dead), (n + length ?A, ?h1))"
    using send_rest_calm [OF assms(1) _ _ refl, of 0 h fuel ?m "[]" n] assms(3) by simp
  let ?h' = "fold hub_disconnect ?dead ?h1"
  have run: "broadcast fuel event data sc (n, h) = (Inr (Some ()), (n + length ?A, ?h'))"
    using False loop by (simp add: broadcast_def and_then_def read_def modify_def ret_def)
  have active: "hub_active ?h' = filter (\<lambda>c. c \<notin> set ?dead) ?A"
    using disconnect_each [of ?h1 ?dead] assms(2) by simp
  have dead: "?A ! k \<in> set ?dead \<longleftrightarrow> \<not> sends_ok sc (n + k)" if "k < length ?A" for k
    using that assms(2) by (auto simp: nth_eq_iff_index_eq)
  have "set (hub_active ?h') = {?A ! k | k. k < length ?A \<and> sends_ok sc (n + k)}"
    unfolding active using dead by (fastforce simp: in_set_conv_nth)
  then show ?thesis using run assms(2) by (simp add: Let_def disconnect_sent active)
qed

text \<open>
  The list is walked while clients come and go: when the client a message is being sent to disconnects
  during that send, the client behind it moves to its position and gets no message.
\<close>

theorem broadcast_skips_a_client:
  assumes "a \<noteq> b" and "su_others (sc n) = hub_disconnect a" and "wp_outcome (sc n) = Inr ()"
  shows "broadcast (Suc fuel) event data sc (n, \<lparr>hub_active = [a, b], hub_sent = sent\<rparr>) =
    (Inr (Some ()), (Suc n, \<lparr>hub_active = [b], hub_sent = sent @ [(a, Event_text (event_message event data))]\<rparr>))"
  using assms
  by (cases fuel) (simp_all add: broadcast_def act_defs send_text_def hub_await_def hub_disconnect_def)

section \<open>Endpoints\<close>

text \<open>The other tasks do not register this client.\<close>

definition others_spare :: "nat \<Rightarrow> (nat \<Rightarrow> hub_pause) \<Rightarrow> bool" where
  "others_spare c sc \<longleftrightarrow>
     (\<forall>n h. count_list (hub_active (su_others (sc n) h)) c \<le> count_list (hub_active h) c)"

definition held :: "nat \<Rightarrow> nat \<Rightarrow> hub \<Rightarrow> bool" where
  "held c k h \<longleftrightarrow> count_list (hub_active h) c \<le> k"

lemma others_spare_keep: "others_spare c sc \<Longrightarrow> others_keep (held c k) sc"
  unfolding others_spare_def others_keep_def held_def by (meson order_trans)

lemma held_await [keeps]: "(\<And>h. held c k h \<Longrightarrow> held c k (f h)) \<Longrightarrow> preserves (held c k) (hub_await f)"
  unfolding hub_await_def by (rule preserves_suspend) (auto split: sum.splits)

lemma held_send [keeps]: "preserves (held c k) (send_text d m)"
  unfolding send_text_def by (intro keeps) (simp add: held_def)

lemma held_serve [keeps]: "preserves (held c k) (serve_texts d ts)" "preserves (held c k) (drain_texts ts)"
  by (induction ts) (simp_all, (intro keeps conjI impI; simp)+)

lemma held_0: "held c 0 h \<longleftrightarrow> c \<notin> set (hub_active h)"
  by (simp add: held_def count_list_0_iff)

lemma held_disconnect: "held c 1 h \<Longrightarrow> held c 0 (hub_disconnect c h)"
proof -
  have "count_list (remove1 c xs) c = count_list xs c - 1" for xs by (induction xs) auto
  then show "held c 1 h \<Longrightarrow> held c 0 (hub_disconnect c h)" by (simp add: held_def hub_disconnect_def)
qed

lemma session_cleans_up:
  assumes body: "preserves (held c 1) body" and spare: "others_spare c sc" and start: "held c 0 h"
  shows "held c 0 (snd (snd (and_then (hub_connect c) (\<lambda>_. try_finally body (modify (hub_disconnect c))) sc (n, h))))"
proof (cases "wp_outcome (sc n)")
  case (Inl e)
  then show ?thesis
    using others_spare_keep [OF spare, of 0] start
    by (simp add: act_defs hub_connect_def hub_await_def others_keep_def)
next
  case (Inr u)
  let ?h1 = "(su_others (sc n) h)\<lparr>hub_active := hub_active (su_others (sc n) h) @ [c]\<rparr>"
  have "held c 0 (su_others (sc n) h)" using others_spare_keep [OF spare, of 0] start by (simp add: others_keep_def)
  then have joined: "held c 1 ?h1" by (simp add: held_def)
  obtain r n2 h2 where run: "body sc (Suc n, ?h1) = (r, (n2, h2))" by (metis prod.exhaust)
  have "held c 1 h2" using preservesD [OF body others_spare_keep [OF spare] _ run] joined by simp
  then have "held c 0 (hub_disconnect c h2)" by (rule held_disconnect)
  then show ?thesis
    using Inr run by (simp add: act_defs hub_connect_def hub_await_def)
qed

text \<open>
  C28. However a session ends -- by a disconnect, an error of the socket or a cancellation at any point -- its
  client is no longer among the active connections.
\<close>

theorem endpoint_leaves_no_connection:
  assumes "others_spare c sc" and "c \<notin> set (hub_active h)"
  shows "c \<notin> set (hub_active (snd (snd (websocket_endpoint c texts sc (n, h))))) \<and>
    c \<notin> set (hub_active (snd (snd (native_websocket_endpoint expected authorization c texts sc (n, h)))))"
proof -
  have public: "preserves (held c 1) (try_catch (serve_texts c texts) (\<lambda>_. ret ()))"
    and native: "preserves (held c 1) (try_catch (drain_texts texts) (\<lambda>_. ret ()))"
    by (intro keeps)+
  have refused: "held c 0 (snd (snd (hub_await (\<lambda>h. h) sc (n, h))))"
    using preserves_run [OF held_await [of c 0 "\<lambda>h. h"] others_spare_keep [OF assms(1)], of "(n, h)"] assms(2)
    by (simp add: held_0)
  show ?thesis
    using session_cleans_up [OF public assms(1), of h n] session_cleans_up [OF native assms(1), of h n] refused assms(2)
    by (auto simp: held_0 websocket_endpoint_def native_websocket_endpoint_def act_defs split: sum.splits)
qed

text \<open>
  A client without the token of the installation never joins the native hub and is sent nothing: its request
  leaves the hub to the other tasks.
\<close>

theorem native_socket_needs_token:
  assumes "authorized_bearer authorization expected \<noteq> Inr True"
  shows "snd (snd (native_websocket_endpoint expected authorization c texts sc (n, h))) \<in> {h, su_others (sc n) h}"
  using assms
  by (cases "authorized_bearer authorization expected")
    (auto simp: native_websocket_endpoint_def act_defs hub_await_def split: sum.splits)

section \<open>Witnesses\<close>

definition calm_hub :: "nat \<Rightarrow> hub_pause" where
  "calm_hub n = \<lparr>su_others = (\<lambda>h. h), su_now = 0, wp_outcome = (if n = 1 then Inl (RuntimeError ''closed'') else Inr ())\<rparr>"

theorem broadcast_reaches_everyone_witness:
  "\<exists>h'. broadcast 3 ''telemetry'' JNull calm_hub (0, \<lparr>hub_active = [7, 8, 9], hub_sent = []\<rparr>) = (Inr (Some ()), (3, h')) \<and>
     set (hub_active h') = {7, 9}"
proof -
  have "{[7, 8, 9 :: nat] ! k | k. k < length [7, 8, 9 :: nat] \<and> sends_ok calm_hub (0 + k)} = {7, 9}"
    by (auto simp: sends_ok_def calm_hub_def less_Suc_eq numeral_3_eq_3 nth_Cons' intro: exI [of _ 0] exI [of _ 2])
  moreover have "hub_calm calm_hub" by (simp add: hub_calm_def calm_hub_def)
  ultimately show ?thesis
    using broadcast_reaches_everyone [of calm_hub "\<lparr>hub_active = [7, 8, 9], hub_sent = []\<rparr>" 3 "''telemetry''" JNull 0]
    by (auto simp: Let_def numeral_3_eq_3)
qed

theorem broadcast_skips_a_client_witness:
  "hub_sent (snd (snd (broadcast 2 ''telemetry'' JNull (\<lambda>n. (calm_hub n)\<lparr>su_others := hub_disconnect 7\<rparr>)
     (0, \<lparr>hub_active = [7, 8], hub_sent = []\<rparr>)))) = [(7, Event_text (event_message ''telemetry'' JNull))]"
  using broadcast_skips_a_client [of 7 8 "\<lambda>n. (calm_hub n)\<lparr>su_others := hub_disconnect 7\<rparr>" 0 1 "''telemetry''" JNull "[]"]
  by (simp add: calm_hub_def numeral_2_eq_2)

theorem endpoint_leaves_no_connection_witness:
  "7 \<notin> set (hub_active (snd (snd (websocket_endpoint 7 [WS_PING] calm_hub (0, new_hub)))))"
  using endpoint_leaves_no_connection [of 7 calm_hub new_hub "[WS_PING]" 0]
  by (simp add: others_spare_def calm_hub_def new_hub_def)

theorem native_socket_needs_token_witness:
  "snd (snd (native_websocket_endpoint ''secret'' (Some ''Bearer guess'') 7 [] calm_hub (0, new_hub))) = new_hub"
  using native_socket_needs_token [of "Some ''Bearer guess''" "''secret''" 7 "[]" calm_hub 0 new_hub]
  by (simp add: authorized_bearer_def compare_digest_def is_ascii_def remove_prefix_def starts_with_def calm_hub_def ord_of_def)

end
