(* ===== verification/Bridge_App.thy ===== *)
theory Bridge_App
  imports Native_Api BT_Connect Reconnect
begin

text \<open>
  The application (\<open>main.py\<close>, \<open>api/routes.py\<close>): the manager, the player and the reconnect engine of one
  process, with the configuration store and the health registry they share. \<open>app_config\<close> and
  \<open>app_health\<close> are the shared objects; the copies inside the components are set from them whenever a
  component runs. While a coroutine of one component is suspended, the timetable entry says what the
  other tasks do to each of the components.
\<close>

section \<open>State\<close>

datatype app_task = Broadcast_event bt_event | Stop_playback string | Publish_speaker string

record app =
  app_manager :: manager
  app_player :: player
  app_engine :: engine
  app_config :: config_store
  app_health :: registry
  app_tasks :: "app_task list"
  app_published :: "speaker_record list"

definition shared_manager :: "app \<Rightarrow> manager" where
  "shared_manager a = (app_manager a)\<lparr>m_health := Some (app_health a)\<rparr>"

definition shared_player :: "app \<Rightarrow> player" where
  "shared_player a = (app_player a)\<lparr>p_config := Some (app_config a), p_health := Some (app_health a)\<rparr>"

definition shared_engine :: "app \<Rightarrow> engine" where
  "shared_engine a = (app_engine a)\<lparr>e_health := Some (app_health a)\<rparr>"

definition or_else :: "'a \<Rightarrow> 'a option \<Rightarrow> 'a" where
  "or_else x v = (case v of Some y \<Rightarrow> y | None \<Rightarrow> x)"

section \<open>Pauses and the components' coroutines\<close>

record app_pause = "app pause" +
  au_manager :: suspension
  au_player :: player_pause
  au_engine :: "engine \<Rightarrow> engine"
  au_expired :: bool
  au_cancelled :: bool

type_synonym 'a app_action = "(nat \<Rightarrow> app_pause) \<Rightarrow> nat \<times> app \<Rightarrow> (py_exc + 'a) \<times> nat \<times> app"

text \<open>What the other tasks did to a component during the pauses \<open>n\<close> to \<open>n' - 1\<close>.\<close>

definition elapsed :: "(nat \<Rightarrow> 'b \<Rightarrow> 'b) \<Rightarrow> nat \<Rightarrow> nat \<Rightarrow> 'b \<Rightarrow> 'b" where
  "elapsed f n n' x = fold f [n..<n'] x"

definition on_manager :: "'a act \<Rightarrow> 'a app_action" where
  "on_manager f sc s =
     (case f (\<lambda>i. au_manager (sc i)) (fst s, shared_manager (snd s)) of
        (r, (n, m)) \<Rightarrow>
          (let p = elapsed (\<lambda>i. su_others (au_player (sc i))) (fst s) n (shared_player (snd s));
               e = elapsed (\<lambda>i. au_engine (sc i)) (fst s) n (shared_engine (snd s))
           in (r, (n, (snd s)\<lparr>app_manager := m, app_player := p, app_engine := e,
                     app_config := or_else (app_config (snd s)) (p_config p),
                     app_health := or_else (app_health (snd s)) (m_health m)\<rparr>))))"

definition on_player :: "'a play \<Rightarrow> 'a app_action" where
  "on_player f sc s =
     (case f (\<lambda>i. au_player (sc i)) (fst s, shared_player (snd s)) of
        (r, (n, p)) \<Rightarrow>
          (let m = elapsed (\<lambda>i. su_others (au_manager (sc i))) (fst s) n (shared_manager (snd s));
               e = elapsed (\<lambda>i. au_engine (sc i)) (fst s) n (shared_engine (snd s))
           in (r, (n, (snd s)\<lparr>app_manager := m, app_player := p, app_engine := e,
                     app_config := or_else (app_config (snd s)) (p_config p),
                     app_health := or_else (app_health (snd s)) (p_health p)\<rparr>))))"

definition on_engine :: "(engine \<Rightarrow> py_exc + engine) \<Rightarrow> unit app_action" where
  "on_engine f sc s =
     (case f (shared_engine (snd s)) of
        Inl e \<Rightarrow> (Inl e, s)
      | Inr e \<Rightarrow> (Inr (), (fst s, (snd s)\<lparr>app_engine := e,
                    app_health := or_else (app_health (snd s)) (e_health e)\<rparr>)))"

text \<open>An operation of the store, or any other synchronous one; and an await between the components.\<close>

definition on_app :: "(app \<Rightarrow> (py_exc + 'a) \<times> app) \<Rightarrow> 'a app_action" where
  "on_app f sc s = (case f (snd s) of (r, a) \<Rightarrow> (r, (fst s, a)))"

definition app_await :: "(app \<Rightarrow> app) \<Rightarrow> unit app_action" where
  "app_await f = suspend (\<lambda>su a. if au_cancelled su then (Inl CancelledError, a) else (Inr (), f a))"

definition at_clock :: "(real \<Rightarrow> 'a app_action) \<Rightarrow> 'a app_action" where
  "at_clock f sc s = f (su_now (sc (fst s))) sc s"

definition connect_now :: "string \<Rightarrow> bool app_action" where
  "connect_now address sc s =
     on_manager (connect_device (au_expired (sc (fst s))) (su_now (sc (fst s))) address True) sc s"

section \<open>Authentication\<close>

definition unauthorized :: py_exc where
  "unauthorized = HTTPException 401 ''Native bridge authentication required''"

definition require_native_auth :: "string option \<Rightarrow> app \<Rightarrow> py_exc + unit" where
  "require_native_auth authorization a =
     (let expected = native_token (cs_settings (app_config a));
          supplied = (case authorization of Some h \<Rightarrow> remove_prefix BEARER_PREFIX h | None \<Rightarrow> [])
      in if expected = [] then Inl unauthorized
         else (case compare_digest supplied expected of
                 Inl e \<Rightarrow> Inl e
               | Inr equal \<Rightarrow> if equal then Inr () else Inl unauthorized))"

definition with_auth :: "string option \<Rightarrow> 'a app_action \<Rightarrow> 'a app_action" where
  "with_auth authorization body = and_then (query (require_native_auth authorization)) (\<lambda>_. body)"

definition invalid_address :: py_exc where "invalid_address = HTTPException 422 ''Invalid Bluetooth address''"

text \<open>\<open>try: address = normalize_address(address) except ValueError: raise HTTPException(422, ...)\<close>.\<close>

definition route_address :: "string \<Rightarrow> py_exc + string" where
  "route_address address = (case normalize_address address of Inl _ \<Rightarrow> Inl invalid_address | Inr a \<Rightarrow> Inr a)"

section \<open>Publishing a speaker\<close>

definition any_spelling :: "string \<Rightarrow> string" where
  "any_spelling a = replace_char (CHR ''_'') (CHR '':'') (folded_address a)"

text \<open>The record \<open>_publish_native_speaker\<close> broadcasts: only of a speaker the operator trusts.\<close>

definition published_record :: "real \<Rightarrow> string \<Rightarrow> app \<Rightarrow> py_exc + speaker_record option" where
  "published_record now address a =
     (case find (\<lambda>d. any_spelling (di_address d) = any_spelling address) (get_devices True (shared_manager a)) of
        None \<Rightarrow> Inr None
      | Some d \<Rightarrow>
          if di_trusted d \<and> di_is_audio_sink d
          then map_sum id Some (native_speaker_record now (Some (shared_player a)) d) else Inr None)"

definition publish_native_speaker :: "string \<Rightarrow> unit app_action" where
  "publish_native_speaker address =
     at_clock (\<lambda>now. and_then (query (published_record now address)) (\<lambda>r.
       (case r of None \<Rightarrow> ret ()
        | Some record \<Rightarrow> app_await (\<lambda>a. a\<lparr>app_published := app_published a @ [record]\<rparr>))))"

section \<open>Commands\<close>

fun queue_operation_of :: "native_operation \<Rightarrow> queue_operation" where
  "queue_operation_of NO_next = QO_next"
| "queue_operation_of NO_previous = QO_previous"
| "queue_operation_of NO_set_shuffle = QO_set_shuffle"
| "queue_operation_of NO_set_repeat = QO_set_repeat"
| "queue_operation_of NO_play = QO_play"
| "queue_operation_of NO_pause = QO_pause"
| "queue_operation_of NO_stop = QO_stop"
| "queue_operation_of _ = QO_other"

definition player_operation_of :: "native_command \<Rightarrow> player_operation" where
  "player_operation_of c =
     (case nc_operation c of NO_play \<Rightarrow> PO_play | NO_pause \<Rightarrow> PO_pause | NO_stop \<Rightarrow> PO_stop
      | NO_set_volume \<Rightarrow> PO_set_volume (nc_volume c) | NO_play_media \<Rightarrow> PO_play_media (nc_url c) | _ \<Rightarrow> PO_other)"

definition repeat_name :: "repeat_mode \<Rightarrow> string" where
  "repeat_name r = (case r of Repeat_off \<Rightarrow> ''off'' | Repeat_one \<Rightarrow> ''one'' | Repeat_all \<Rightarrow> ''all'')"

definition issue_command :: "native_command \<Rightarrow> string \<Rightarrow> unit app_action" where
  "issue_command c a =
     (if nc_operation c = NO_queue_start then
        and_then (on_player (start_queue a (nc_playlist c) (map dumped_item (or_else [] (nc_items c))))) (\<lambda>_. ret ())
      else if nc_operation c \<in> set QUEUE_CONTROL_OPERATIONS then
        and_then (on_player (control_queue a (queue_operation_of (nc_operation c)) (nc_shuffle c)
                    (map_option repeat_name (nc_repeat c)))) (\<lambda>_. ret ())
      else on_player (execute a (player_operation_of c)))"

definition SAFE_QUEUE_CONTROL_REASONS :: "string list" where
  "SAFE_QUEUE_CONTROL_REASONS =
     [''No active queue'', ''No next item in queue'', ''No active playback to pause'', ''No active playback to resume'',
      ''No failed queue item to retry'', ''Shuffle value is invalid'', ''Repeat mode is invalid'']"

definition command_failed :: py_exc where "command_failed = HTTPException 409 ''Native playback command failed''"
definition reconnect_failed :: py_exc where
  "reconnect_failed = HTTPException 409 ''Auto-reconnect failed: could not re-establish the Bluetooth connection''"
definition no_sink_after_reconnect :: py_exc where
  "no_sink_after_reconnect =
     HTTPException 409 ''Auto-reconnect failed: Bluetooth reconnected but no audio sink appeared''"

definition A2DP_SINK_RETRY_ATTEMPTS :: nat where "A2DP_SINK_RETRY_ATTEMPTS = 20"

text \<open>The three tests on the text of the error, as the code spells them.\<close>

definition sink_is_unavailable :: "py_exc \<Rightarrow> bool" where
  "sink_is_unavailable e \<longleftrightarrow>
     py_in ''Connected PipeWire A2DP sink is unavailable'' (exc_text e) \<or>
     py_in ''Connected Bluetooth audio sink is unavailable'' (exc_text e) \<or>
     py_in ''audio sink is unavailable'' (lower (exc_text e))"

definition detailed_failure :: "native_command \<Rightarrow> py_exc \<Rightarrow> py_exc" where
  "detailed_failure c e =
     (if nc_operation c = NO_play_media then command_failed
      else (case safe_detail (Some (exc_text e)) of
              Some d \<Rightarrow> if d \<noteq> [] then HTTPException 409 d else command_failed
            | None \<Rightarrow> command_failed))"

primrec retry_command :: "nat \<Rightarrow> native_command \<Rightarrow> string \<Rightarrow> unit app_action" where
  "retry_command 0 c a = ret ()"
| "retry_command (Suc left) c a =
     and_then (app_await (\<lambda>x. x)) (\<lambda>_.
     and_then (try_catch (and_then (on_player (execute a (player_operation_of c))) (\<lambda>_. ret True)) (\<lambda>e.
         if \<not> is_media_error e then throw command_failed
         else if \<not> sink_is_unavailable e then throw (detailed_failure c e)
         else if left = 0 then throw no_sink_after_reconnect
         else ret False)) (\<lambda>done.
     if done then ret () else retry_command left c a))"

definition reconnect_speaker :: "string \<Rightarrow> unit app_action" where
  "reconnect_speaker a =
     and_then (try_catch (connect_now a) (\<lambda>_. throw reconnect_failed)) (\<lambda>reconnected.
     if reconnected then ret () else throw reconnect_failed)"

definition handle_command_failure :: "native_command \<Rightarrow> string \<Rightarrow> py_exc \<Rightarrow> unit app_action" where
  "handle_command_failure c a e =
     (if is_media_error e then
        if nc_operation c \<in> set NON_RETRYABLE_QUEUE_OPERATIONS then
          throw (if nc_operation c \<in> set QUEUE_CONTROL_OPERATIONS \<and> exc_text e \<in> set SAFE_QUEUE_CONTROL_REASONS
                 then HTTPException 409 (exc_text e) else command_failed)
        else if sink_is_unavailable e then
          and_then (reconnect_speaker a) (\<lambda>_. retry_command A2DP_SINK_RETRY_ATTEMPTS c a)
        else throw (detailed_failure c e)
      else if nc_operation c \<notin> set (NO_play_media # NON_RETRYABLE_QUEUE_OPERATIONS) then throw e
      else throw command_failed)"

definition run_command :: "native_command \<Rightarrow> string \<Rightarrow> unit app_action" where
  "run_command c a = try_catch (issue_command c a) (handle_command_failure c a)"

definition speaker_not_found :: py_exc where
  "speaker_not_found = HTTPException 404 ''Native speaker was not found''"
definition speaker_not_trusted :: py_exc where
  "speaker_not_trusted = HTTPException 409 ''Native speaker is not trusted or not an audio sink''"

definition command_device :: "string \<Rightarrow> app \<Rightarrow> py_exc + device_info" where
  "command_device address a =
     (case find (\<lambda>d. folded_address (di_address d) = address) (get_devices True (shared_manager a)) of
        None \<Rightarrow> Inl speaker_not_found
      | Some d \<Rightarrow> if di_trusted d \<and> di_is_audio_sink d then Inr d else Inl speaker_not_trusted)"

definition command_native_speaker :: "string \<Rightarrow> native_command \<Rightarrow> string option \<Rightarrow> speaker_record app_action" where
  "command_native_speaker address c authorization =
     with_auth authorization
       (and_then (from_sum (route_address address)) (\<lambda>a.
        and_then (query (command_device a)) (\<lambda>device.
        and_then (run_command c a) (\<lambda>_.
        and_then (publish_native_speaker a) (\<lambda>_.
        at_clock (\<lambda>now. query (\<lambda>x. native_speaker_record now (Some (shared_player x)) device)))))))"

end
