(* ===== verification/Bridge_Routes.thy ===== *)
theory Bridge_Routes
  imports Bridge_App
begin

text \<open>
  The management routes of \<open>api/routes.py\<close>: their request models, their handlers on the shared
  application, and the readiness reports. A handler that answers with a status other than 200 raises
  \<open>HTTPException\<close>. The dictionaries a handler returns are tuples of their entries.
\<close>

section \<open>Helpers of the handlers\<close>

definition on_config :: "(config_store \<Rightarrow> (py_exc + 'a) \<times> config_store) \<Rightarrow> 'a app_action" where
  "on_config f = on_app (\<lambda>a. case f (app_config a) of (r, c) \<Rightarrow> (r, a\<lparr>app_config := c\<rparr>))"

text \<open>\<open>[f(x) for x in xs]\<close> where \<open>f\<close> may raise.\<close>

fun collect :: "('a \<Rightarrow> py_exc + 'b) \<Rightarrow> 'a list \<Rightarrow> py_exc + 'b list" where
  "collect f [] = Inr []"
| "collect f (x # xs) =
     (case f x of Inl e \<Rightarrow> Inl e
      | Inr y \<Rightarrow> (case collect f xs of Inl e \<Rightarrow> Inl e | Inr ys \<Rightarrow> Inr (y # ys)))"

definition SAFE_DEVICE_MANAGEMENT_REASONS :: "string list" where
  "SAFE_DEVICE_MANAGEMENT_REASONS =
     [''Bluetooth pairing is already in progress'', ''Bluetooth connection is already in progress'',
      ''Pairing failed'', ''Connection failed'', ''Disconnection failed'', ''Device removal failed'',
      ''Bluetooth scan failed'', ''Bluetooth adapter was not found'', ''Bluetooth adapter update failed'',
      ''Bluetooth adapter list is unavailable'', ''Bluetooth device list is unavailable'',
      ''Speaker settings update failed'', ''System settings update failed'', ''Invalid Bluetooth address'',
      ''Invalid Bluetooth adapter'', ''Speaker alias is invalid'', ''Codec override is invalid'',
      ''System settings are invalid'']"

definition native_management_failure :: "string \<Rightarrow> py_exc" where
  "native_management_failure reason =
     HTTPException 400 (if reason \<in> set SAFE_DEVICE_MANAGEMENT_REASONS then reason else ''Bluetooth action failed'')"

text \<open>\<open>except Exception as error: raise _native_management_failure(error, reason)\<close>, and its variant with a
  clause for an operation that is already running.\<close>

definition managed :: "string \<Rightarrow> 'a app_action \<Rightarrow> 'a app_action" where
  "managed reason body = try_catch body (\<lambda>_. throw (native_management_failure reason))"

definition managed_busy :: "string \<Rightarrow> string \<Rightarrow> 'a app_action \<Rightarrow> 'a app_action" where
  "managed_busy busy reason body =
     try_catch body (\<lambda>e. case e of OperationInProgress _ \<Rightarrow> throw (HTTPException 409 busy)
                         | _ \<Rightarrow> throw (native_management_failure reason))"

section \<open>Request models\<close>

text \<open>\<open>PairRequest\<close>: a PIN that is not given is the default one, which is not validated.\<close>

definition parse_pair_request :: "string \<Rightarrow> string option option \<Rightarrow> py_exc + string \<times> string option" where
  "parse_pair_request address pin =
     (if length address \<noteq> MAX_ADDRESS_LENGTH then Inl url_bounds_error
      else (case normalize_address address of
              Inl e \<Rightarrow> Inl e
            | Inr a \<Rightarrow> (case pin of None \<Rightarrow> Inr (a, Some DEFAULT_PIN)
                       | Some p \<Rightarrow> map_sum id (\<lambda>p'. (a, p')) (validate_pin p))))"

definition parse_scan_request :: "string option \<Rightarrow> py_exc + string option" where
  "parse_scan_request adapter_name = check_opt validate_adapter_name adapter_name"

text \<open>\<open>SpeakerUpdateRequest\<close>.\<close>

definition parse_speaker_update :: "speaker_update \<Rightarrow> py_exc + speaker_update" where
  "parse_speaker_update u =
     (case (valid_alias (up_custom_alias u), check_opt validate_adapter_name (up_preferred_adapter u),
            valid_codec (up_codec_override u)) of
        (Inr alias, Inr adapter, Inr codec) \<Rightarrow>
          if \<exists>v. up_default_volume u = Some v \<and> \<not> volume_in_range v then Inl (ValueError ''volume'')
          else Inr (u\<lparr>up_custom_alias := alias, up_preferred_adapter := adapter, up_codec_override := codec\<rparr>)
      | (Inl e, _, _) \<Rightarrow> Inl e | (_, Inl e, _) \<Rightarrow> Inl e | (_, _, Inl e) \<Rightarrow> Inl e)"

text \<open>\<open>NativeSystemSettingsUpdate\<close>: \<open>None\<close> is a field that is not set.\<close>

record system_update =
  su_log_level :: "string option"
  su_default_codec :: "string option"
  su_auto_reconnect :: "bool option"

definition LOG_LEVELS :: "string list" where
  "LOG_LEVELS = [''trace'', ''debug'', ''info'', ''notice'', ''warning'', ''error'', ''fatal'']"
definition SYSTEM_CODECS :: "string list" where
  "SYSTEM_CODECS = [''auto'', ''sbc'', ''sbc_xq'', ''aac'', ''aptx'', ''aptx_hd'', ''ldac'']"

definition parse_system_update :: "system_update \<Rightarrow> py_exc + system_update" where
  "parse_system_update u =
     (if (case su_log_level u of None \<Rightarrow> False | Some l \<Rightarrow> l \<notin> set LOG_LEVELS) \<or>
         (case su_default_codec u of None \<Rightarrow> False | Some c \<Rightarrow> c \<notin> set SYSTEM_CODECS)
      then Inl (ValueError ''literal'')
      else if su_log_level u = None \<and> su_default_codec u = None \<and> su_auto_reconnect u = None
      then Inl (ValueError ''At least one system setting must be provided'') else Inr u)"

section \<open>Reports\<close>

definition NATIVE_BRIDGE_VERSION :: int where "NATIVE_BRIDGE_VERSION = 1"

record diagnostics_report =
  dg_bridge_version :: int
  dg_native_transport_ready :: bool
  dg_native_client_count :: nat
  dg_trusted_speaker_count :: nat
  dg_connected_trusted_speaker_count :: nat
  dg_health_status :: health_state
  dg_pairing_authorized_address :: "string option"

text \<open>\<open>clients\<close> is the number of open native connections.\<close>

definition native_diagnostics :: "nat \<Rightarrow> real \<Rightarrow> app \<Rightarrow> diagnostics_report \<times> app" where
  "native_diagnostics clients now a =
     (let trusted = filter (\<lambda>d. di_trusted d \<and> di_is_audio_sink d) (get_devices True (shared_manager a))
      in case current_pairing_address now (shared_manager a) of (pairing, m) \<Rightarrow>
        (\<lparr>dg_bridge_version = NATIVE_BRIDGE_VERSION, dg_native_transport_ready = True, dg_native_client_count = clients,
          dg_trusted_speaker_count = length trusted,
          dg_connected_trusted_speaker_count = length (filter di_connected trusted),
          dg_health_status = hs_status (snapshot (app_health a) now),
          dg_pairing_authorized_address = pairing\<rparr>, a\<lparr>app_manager := m\<rparr>))"

definition get_native_diagnostics :: "nat \<Rightarrow> diagnostics_report app_action" where
  "get_native_diagnostics clients = at_clock (\<lambda>now. on_app (\<lambda>a. case native_diagnostics clients now a of (d, a') \<Rightarrow> (Inr d, a')))"

record health_report =
  hr_status :: "health_state option"
  hr_dbus_connected :: bool
  hr_adapters_count :: nat
  hr_devices_count :: nat
  hr_health :: health_snapshot
  hr_diagnostics :: diagnostics_report

text \<open>\<open>None\<close> in the status stands for the text \<open>ok\<close>.\<close>

definition get_health :: "nat \<Rightarrow> health_report app_action" where
  "get_health clients = at_clock (\<lambda>now. on_app (\<lambda>a.
     case native_diagnostics clients now a of (d, a') \<Rightarrow>
       (let s = snapshot (app_health a') now; m = shared_manager a'
        in (Inr \<lparr>hr_status = (if hs_status s = HS_HEALTHY then None else Some (hs_status s)),
             hr_dbus_connected = has_bus m, hr_adapters_count = length (get_adapters m),
             hr_devices_count = length (get_devices False m), hr_health = s, hr_diagnostics = d\<rparr>, a'))))"

definition TOKEN_FINGERPRINT_CHARS :: nat where "TOKEN_FINGERPRINT_CHARS = 8"
definition NATIVE_BRIDGE_ID :: string where "NATIVE_BRIDGE_ID = ''bl_haos_native_bridge''"
definition VERSION :: string where "VERSION = ''0.2.71''"
definition MINIMUM_INTEGRATION_VERSION :: string where "MINIMUM_INTEGRATION_VERSION = ''0.2.22''"

definition token_fingerprint :: "(string \<Rightarrow> string) \<Rightarrow> string \<Rightarrow> string" where
  "token_fingerprint sha256 token = (if token = [] then [] else take TOKEN_FINGERPRINT_CHARS (sha256 token))"

text \<open>\<open>sha256\<close> is the hexadecimal digest of the UTF-8 encoding. The queue version is present: the bridge has
  \<open>get_queue\<close>.\<close>

record identity_report =
  id_bridge_id :: string
  id_version :: int
  id_addon_version :: string
  id_min_integration_version :: string
  id_credential_fingerprint :: string
  id_queue_version :: int

definition get_native_identity :: "(string \<Rightarrow> string) \<Rightarrow> string option \<Rightarrow> identity_report app_action" where
  "get_native_identity sha256 authorization =
     with_auth authorization (read (\<lambda>a.
       \<lparr>id_bridge_id = NATIVE_BRIDGE_ID, id_version = NATIVE_BRIDGE_VERSION, id_addon_version = VERSION,
        id_min_integration_version = MINIMUM_INTEGRATION_VERSION,
        id_credential_fingerprint = token_fingerprint sha256 (native_token (cs_settings (app_config a))),
        id_queue_version = NATIVE_QUEUE_VERSION\<rparr>))"

definition list_native_speakers :: "string option \<Rightarrow> speaker_record dict app_action" where
  "list_native_speakers authorization =
     with_auth authorization (at_clock (\<lambda>now. query (\<lambda>a.
       map_sum id (\<lambda>records. fold (\<lambda>r d. dict_set (sr_address r) r d) records [])
         (collect (native_speaker_record now (Some (shared_player a)))
            (filter di_trusted (get_devices True (shared_manager a)))))))"

section \<open>Devices\<close>

definition native_start_scan :: "string option \<Rightarrow> string option \<Rightarrow> (bool \<times> string) app_action" where
  "native_start_scan adapter_name authorization =
     with_auth authorization
       (and_then (managed ''Bluetooth scan failed'' (on_manager (start_scan adapter_name))) (\<lambda>_.
        ret (True, (case adapter_name of Some n \<Rightarrow> if n = [] then ''all'' else n | None \<Rightarrow> ''all''))))"

definition native_stop_scan :: "string option \<Rightarrow> string option \<Rightarrow> (bool \<times> string) app_action" where
  "native_stop_scan adapter_name authorization =
     with_auth authorization
       (and_then (managed ''Bluetooth scan failed'' (on_manager (stop_scan adapter_name))) (\<lambda>_.
        ret (False, (case adapter_name of Some n \<Rightarrow> if n = [] then ''all'' else n | None \<Rightarrow> ''all''))))"

definition native_list_devices :: "string option \<Rightarrow> (device_info \<times> envelope option) list app_action" where
  "native_list_devices authorization =
     with_auth authorization (managed ''Bluetooth device list is unavailable'' (at_clock (\<lambda>now. query (\<lambda>a.
       collect (ui_speaker_record now (Some (shared_player a))) (get_devices False (shared_manager a))))))"

definition native_pair_device :: "string \<Rightarrow> string option \<Rightarrow> string option \<Rightarrow> (bool \<times> string) app_action" where
  "native_pair_device address pin authorization =
     with_auth authorization
       (managed_busy ''Bluetooth pairing is already in progress'' ''Pairing failed''
         (and_then (at_clock (\<lambda>now. on_manager (pair_and_trust now address pin))) (\<lambda>paired.
          and_then (on_engine (register_speaker address True None)) (\<lambda>_.
          and_then (publish_native_speaker address) (\<lambda>_. ret (paired, address))))))"

definition native_connect_device :: "string \<Rightarrow> string option \<Rightarrow> (bool \<times> string) app_action" where
  "native_connect_device address authorization =
     with_auth authorization (and_then (from_sum (route_address address)) (\<lambda>a.
       managed_busy ''Bluetooth connection is already in progress'' ''Connection failed''
         (and_then (connect_now a) (\<lambda>linked.
          and_then (publish_native_speaker a) (\<lambda>_. ret (linked, a))))))"

definition native_disconnect_device :: "string \<Rightarrow> string option \<Rightarrow> (bool \<times> string) app_action" where
  "native_disconnect_device address authorization =
     with_auth authorization (and_then (from_sum (route_address address)) (\<lambda>a.
       managed ''Disconnection failed''
         (and_then (on_manager (disconnect_device a)) (\<lambda>_. ret (False, a)))))"

definition native_remove_device :: "string \<Rightarrow> string option \<Rightarrow> (bool \<times> string) app_action" where
  "native_remove_device address authorization =
     with_auth authorization (and_then (from_sum (route_address address)) (\<lambda>a.
       managed ''Device removal failed''
         (and_then (on_manager (remove_device a)) (\<lambda>removed.
          and_then (on_engine (unregister_speaker a)) (\<lambda>_.
          and_then (on_config (\<lambda>c. map_prod Inr id (remove_speaker a c))) (\<lambda>_.
          and_then (publish_native_speaker a) (\<lambda>_. ret (removed, a))))))))"

section \<open>Adapters\<close>

definition native_list_adapters :: "string option \<Rightarrow> adapter_info list app_action" where
  "native_list_adapters authorization =
     with_auth authorization (managed ''Bluetooth adapter list is unavailable''
       (read (\<lambda>a. get_adapters (shared_manager a))))"

definition power_adapter :: "string \<Rightarrow> bool \<Rightarrow> unit act" where
  "power_adapter name powered =
     and_then (from_sum (validate_adapter_name name)) (\<lambda>name.
     and_then (query (\<lambda>m. get_adapter_by_name m name)) (\<lambda>adapter.
     case adapter of None \<Rightarrow> throw (HTTPException 404 ''Bluetooth adapter was not found'')
     | Some a \<Rightarrow> on_adapter (a_path a) (\<lambda>su. adapter_set_power (su_call su) powered) a))"

definition power_failure :: "py_exc \<Rightarrow> py_exc" where
  "power_failure e =
     (case e of HTTPException status detail \<Rightarrow> e
      | ValueError _ \<Rightarrow> HTTPException 422 ''Invalid Bluetooth adapter''
      | _ \<Rightarrow> native_management_failure ''Bluetooth adapter update failed'')"

text \<open>\<open>validate_adapter_name\<close> returns the name it was given.\<close>

definition native_set_adapter_power :: "string \<Rightarrow> bool \<Rightarrow> string option \<Rightarrow> (string \<times> bool) app_action" where
  "native_set_adapter_power adapter_name powered authorization =
     with_auth authorization
       (try_catch (and_then (on_manager (power_adapter adapter_name powered)) (\<lambda>_. ret (adapter_name, powered)))
         (\<lambda>e. throw (power_failure e)))"

section \<open>Settings\<close>

definition native_get_settings :: "string option \<Rightarrow> (string \<times> string \<times> bool \<times> speaker_settings dict) app_action" where
  "native_get_settings authorization =
     with_auth authorization (read (\<lambda>a. let s = cs_settings (app_config a)
       in (log_level s, default_codec s, auto_reconnect_enabled s, speaker_records s)))"

definition apply_system_update :: "system_update \<Rightarrow> system_settings \<Rightarrow> system_settings" where
  "apply_system_update u s =
     s\<lparr>log_level := or_else (log_level s) (su_log_level u), default_codec := or_else (default_codec s) (su_default_codec u),
       auto_reconnect_enabled := or_else (auto_reconnect_enabled s) (su_auto_reconnect u)\<rparr>"

text \<open>Registrations one after the other; an address that is not one raises.\<close>

primrec register_each :: "(string \<times> bool \<times> string option) list \<Rightarrow> unit app_action" where
  "register_each [] = ret ()"
| "register_each (r # rs) =
     (case r of (address, enabled, adapter) \<Rightarrow>
        and_then (on_engine (register_speaker address enabled adapter)) (\<lambda>_. register_each rs))"

primrec apply_each :: "(string \<times> speaker_settings) list \<Rightarrow> unit app_action" where
  "apply_each [] = ret ()"
| "apply_each (r # rs) =
     and_then (if ss_auto_reconnect (snd r)
               then on_engine (register_speaker (fst r) True (ss_preferred_adapter (snd r)))
               else on_engine (unregister_speaker (fst r))) (\<lambda>_. apply_each rs)"

definition trusted_registrations :: "app \<Rightarrow> (string \<times> bool \<times> string option) list" where
  "trusted_registrations a =
     map (\<lambda>d. case get_speaker (app_config a) (di_address d) of
            Some s \<Rightarrow> (di_address d, ss_auto_reconnect s, ss_preferred_adapter s)
          | None \<Rightarrow> (di_address d, True, None))
       (filter di_trusted (get_devices True (shared_manager a)))"

definition enable_reconnects :: "bool \<Rightarrow> unit app_action" where
  "enable_reconnects enabled =
     and_then (on_engine (\<lambda>e. Inr (set_global_enabled enabled e))) (\<lambda>_.
     if enabled
     then and_then (read trusted_registrations) (\<lambda>devices.
          and_then (register_each devices) (\<lambda>_.
          and_then (read (\<lambda>a. speakers_of (app_config a))) apply_each))
     else ret ())"

definition native_update_system_settings ::
  "system_update \<Rightarrow> string option \<Rightarrow> (string \<times> string \<times> bool) app_action"
where
  "native_update_system_settings payload authorization =
     with_auth authorization
       (and_then (on_config (\<lambda>c. (Inr (), save (with_settings (apply_system_update payload (cs_settings c)) c)))) (\<lambda>_.
        and_then (case su_auto_reconnect payload of None \<Rightarrow> ret () | Some b \<Rightarrow> enable_reconnects b) (\<lambda>_.
        read (\<lambda>a. let s = cs_settings (app_config a) in (log_level s, default_codec s, auto_reconnect_enabled s)))))"

definition native_update_speaker_settings ::
  "string \<Rightarrow> speaker_update \<Rightarrow> string option \<Rightarrow> speaker_settings app_action"
where
  "native_update_speaker_settings address payload authorization =
     with_auth authorization (and_then (from_sum (route_address address)) (\<lambda>a.
       managed ''Speaker settings update failed''
         (and_then (on_config (update_speaker a payload)) (\<lambda>updated.
          and_then (case up_auto_reconnect payload of None \<Rightarrow> ret ()
              | Some True \<Rightarrow> on_engine (register_speaker a True (up_preferred_adapter payload))
              | Some False \<Rightarrow> on_engine (unregister_speaker a)) (\<lambda>_.
          and_then (case up_default_volume payload of None \<Rightarrow> ret ()
              | Some v \<Rightarrow> try_catch (on_player (execute a (PO_set_volume (Some (of_int v / of_int VOLUME_MAX_PERCENT)))))
                            (\<lambda>_. ret ())) (\<lambda>_.
          and_then (publish_native_speaker a) (\<lambda>_. ret updated)))))))"

section \<open>The requests of the native API\<close>

datatype native_request =
    Req_identity | Req_speakers | Req_command string native_command
  | Req_start_scan "string option" | Req_stop_scan "string option" | Req_devices
  | Req_pair string "string option" | Req_connect string | Req_disconnect string | Req_remove string
  | Req_adapters | Req_power string bool | Req_settings
  | Req_system system_update | Req_speaker string speaker_update

text \<open>A request that was parsed, served for its effect and its failure.\<close>

definition outcome :: "'a app_action \<Rightarrow> unit app_action" where
  "outcome f = and_then f (\<lambda>_. ret ())"

fun serve :: "(string \<Rightarrow> string) \<Rightarrow> native_request \<Rightarrow> string option \<Rightarrow> unit app_action" where
  "serve sha Req_identity h = outcome (get_native_identity sha h)"
| "serve sha Req_speakers h = outcome (list_native_speakers h)"
| "serve sha (Req_command a c) h = outcome (command_native_speaker a c h)"
| "serve sha (Req_start_scan n) h = outcome (native_start_scan n h)"
| "serve sha (Req_stop_scan n) h = outcome (native_stop_scan n h)"
| "serve sha Req_devices h = outcome (native_list_devices h)"
| "serve sha (Req_pair a p) h = outcome (native_pair_device a p h)"
| "serve sha (Req_connect a) h = outcome (native_connect_device a h)"
| "serve sha (Req_disconnect a) h = outcome (native_disconnect_device a h)"
| "serve sha (Req_remove a) h = outcome (native_remove_device a h)"
| "serve sha Req_adapters h = outcome (native_list_adapters h)"
| "serve sha (Req_power n b) h = outcome (native_set_adapter_power n b h)"
| "serve sha Req_settings h = outcome (native_get_settings h)"
| "serve sha (Req_system u) h = outcome (native_update_system_settings u h)"
| "serve sha (Req_speaker a u) h = outcome (native_update_speaker_settings a u h)"

end
