(* ===== verification/Bridge_Events.thy ===== *)
theory Bridge_Events
  imports Bridge_Routes
begin

text \<open>
  The wiring of \<open>main.py\<close>: what a Bluetooth event does to the player and to the reconnect engine, the
  background tasks it leaves, what startup registers, and the order of the shutdown. The manager calls its
  listeners inside the step that changed its cache; none of them touches the manager, so an event is
  dispatched here as a step of the other components.
\<close>

section \<open>Background tasks\<close>

text \<open>\<open>_spawn\<close>: without a running event loop the coroutine is closed and the task is dropped.\<close>

definition spawn_task :: "bool \<Rightarrow> app_task \<Rightarrow> app \<Rightarrow> app" where
  "spawn_task running t a = (if running then a\<lparr>app_tasks := app_tasks a @ [t]\<rparr> else a)"

definition invalidate_and_schedule_playback_stop :: "bool \<Rightarrow> string \<Rightarrow> unit app_action" where
  "invalidate_and_schedule_playback_stop running address =
     and_then (on_player (state_op (invalidate_playback_session address))) (\<lambda>_.
     modify (spawn_task running (Stop_playback address)))"

section \<open>Bluetooth events\<close>

definition on_device_info :: "bool \<Rightarrow> device_info \<Rightarrow> unit app_action" where
  "on_device_info running d =
     and_then
       (if di_is_audio_sink d \<and> \<not> di_connected d \<and> (di_trusted d \<or> di_paired d)
        then and_then (invalidate_and_schedule_playback_stop running (di_address d)) (\<lambda>_.
             on_player (state_op (unregister_keepalive (di_address d))))
        else ret ()) (\<lambda>_.
     if di_is_audio_sink d \<and> di_trusted d
     then and_then (modify (spawn_task running (Publish_speaker (di_address d)))) (\<lambda>_.
          and_then (on_engine (register_speaker (di_address d) True None)) (\<lambda>_.
          if di_connected d then on_player (state_op (register_keepalive (di_address d))) else ret ()))
     else ret ())"

definition on_bt_event :: "bool \<Rightarrow> bt_event \<Rightarrow> unit app_action" where
  "on_bt_event running ev =
     and_then (modify (spawn_task running (Broadcast_event ev))) (\<lambda>_.
     case ev of DeviceUpdated d \<Rightarrow> on_device_info running d
     | DeviceDiscovered d \<Rightarrow> on_device_info running d
     | _ \<Rightarrow> ret ())"

text \<open>\<open>_notify\<close> with its two listeners, in the order they were added; an error of one is logged.\<close>

definition dispatch_event :: "bool \<Rightarrow> bt_event \<Rightarrow> unit app_action" where
  "dispatch_event running ev =
     and_then (try_catch (on_bt_event running ev) (\<lambda>_. ret ())) (\<lambda>_.
     try_catch (at_clock (\<lambda>now. on_engine (handle_bluetooth_event ev now))) (\<lambda>_. ret ()))"

section \<open>Playback changes\<close>

text \<open>\<open>_publish_playback_state\<close>: the callback of the player. The payload of the second broadcast.\<close>

definition playback_updated_payload :: "real \<Rightarrow> string \<Rightarrow> app \<Rightarrow> py_exc + (string \<times> envelope) option" where
  "playback_updated_payload now address a =
     (case find (\<lambda>d. any_spelling (di_address d) = any_spelling address) (get_devices True (shared_manager a)) of
        None \<Rightarrow> Inr None
      | Some d \<Rightarrow> map_sum id (\<lambda>env. Some (di_address d, env))
                    (playback_envelope now (Some (shared_player a)) (di_address d)))"

definition publish_playback_state :: "string \<Rightarrow> (string \<times> envelope) option app_action" where
  "publish_playback_state address =
     and_then (publish_native_speaker address) (\<lambda>_.
     at_clock (\<lambda>now. and_then (query (playback_updated_payload now address)) (\<lambda>payload.
       case payload of None \<Rightarrow> ret None
       | Some _ \<Rightarrow> and_then (app_await (\<lambda>a. a)) (\<lambda>_. ret payload))))"

text \<open>A background task when it runs; a broadcast changes nothing of the application.\<close>

fun run_task :: "app_task \<Rightarrow> unit app_action" where
  "run_task (Broadcast_event ev) = app_await (\<lambda>a. a)"
| "run_task (Stop_playback address) = on_player (execute address PO_stop)"
| "run_task (Publish_speaker address) = publish_native_speaker address"

section \<open>Startup\<close>

definition COMPONENT_NATIVE_BRIDGE :: string where "COMPONENT_NATIVE_BRIDGE = ''native_bridge''"
definition SOURCE_STARTUP :: string where "SOURCE_STARTUP = ''startup''"

text \<open>The components as the lifespan creates them, around the manager \<open>initialize\<close> left.\<close>

definition startup_health :: "manager \<Rightarrow> real \<Rightarrow> registry \<Rightarrow> registry" where
  "startup_health m now h =
     (let h1 = observe_component h COMPONENT_BLUETOOTH (if has_bus m then HS_HEALTHY else HS_UNAVAILABLE) True
                 (if has_bus m then None else Some FC_DBUS_UNAVAILABLE)
                 (if has_bus m then None else Some ''System D-Bus unavailable'') (Some SOURCE_BLUEZ) now now;
          h2 = observe_component h1 COMPONENT_NATIVE_BRIDGE HS_HEALTHY False None None (Some SOURCE_STARTUP) now now
      in observe_component h2 COMPONENT_PIPEWIRE HS_UNKNOWN False None None (Some SOURCE_STARTUP) now now)"

definition create_app :: "manager \<Rightarrow> config_store \<Rightarrow> registry \<Rightarrow> real \<Rightarrow> py_exc + app" where
  "create_app m store h now =
     (let h' = startup_health m now h
      in case new_engine default_policy (Some h') of
           Inl e \<Rightarrow> Inl e
         | Inr e \<Rightarrow> Inr \<lparr>app_manager = m, app_player = new_player (Some store) (Some h') True,
             app_engine = set_global_enabled (auto_reconnect_enabled (cs_settings store)) e,
             app_config = store, app_health = h', app_tasks = [], app_published = []\<rparr>)"

text \<open>The devices BlueZ reported, then the speakers of the configuration.\<close>

primrec register_devices :: "device_info list \<Rightarrow> unit app_action" where
  "register_devices [] = ret ()"
| "register_devices (d # ds) =
     and_then
       (if di_trusted d
        then and_then (on_engine (register_speaker (di_address d) True None)) (\<lambda>_.
             if di_connected d \<and> di_is_audio_sink d
             then on_player (state_op (register_keepalive (di_address d))) else ret ())
        else ret ()) (\<lambda>_. register_devices ds)"

primrec register_configured :: "(string \<times> speaker_settings) list \<Rightarrow> unit app_action" where
  "register_configured [] = ret ()"
| "register_configured (r # rs) =
     and_then
       (if ss_auto_reconnect (snd r)
        then try_catch (on_engine (register_speaker (fst r) True (ss_preferred_adapter (snd r))))
               (\<lambda>e. case e of ValueError _ \<Rightarrow> ret () | _ \<Rightarrow> throw e)
        else ret ()) (\<lambda>_. register_configured rs)"

definition note_lifecycle :: "health_state \<Rightarrow> unit app_action" where
  "note_lifecycle state = at_clock (\<lambda>now. modify (\<lambda>a.
     a\<lparr>app_health := set_lifecycle (app_health a) state None None now now\<rparr>))"

definition register_known :: "unit app_action" where
  "register_known =
     and_then (read (\<lambda>a. get_devices True (shared_manager a))) (\<lambda>devices.
     and_then (register_devices devices) (\<lambda>_.
     and_then (read (\<lambda>a. speakers_of (app_config a))) register_configured))"

text \<open>From the registrations on; \<open>publish\<close> awaits the broadcast of the snapshot.\<close>

definition startup :: "unit app_action" where
  "startup =
     and_then register_known (\<lambda>_.
     and_then (on_engine (\<lambda>e. Inr (engine_start e))) (\<lambda>_.
     and_then (on_player (modify (\<lambda>p. start_volume_watch (start_keepalive p)))) (\<lambda>_.
     and_then (note_lifecycle HS_HEALTHY) (\<lambda>_. app_await (\<lambda>a. a)))))"

section \<open>Shutdown\<close>

definition stop_engine :: "unit app_action" where
  "stop_engine =
     and_then (on_engine (\<lambda>e. Inr (engine_stop e))) (\<lambda>_.
     and_then (read (\<lambda>a. e_inflight (app_engine a) \<noteq> [])) (\<lambda>workers.
     and_then (if workers then app_await (\<lambda>a. a) else ret ()) (\<lambda>_.
     and_then (on_engine (\<lambda>e. Inr (engine_stopped e))) (\<lambda>_. app_await (\<lambda>a. a)))))"

definition shutdown :: "unit app_action" where
  "shutdown =
     and_then (note_lifecycle HS_STOPPING) (\<lambda>_.
     and_then (app_await (\<lambda>a. a)) (\<lambda>_.
     and_then stop_engine (\<lambda>_.
     and_then (on_player async_shutdown) (\<lambda>_.
     and_then (note_lifecycle HS_STOPPED) (\<lambda>_. app_await (\<lambda>a. a))))))"

end
