(* ===== verification/Bridge_Spec.thy ===== *)
theory Bridge_Spec
  imports Bridge_Events Player_Spec
begin

text \<open>
  Properties of the application as a whole: every request, event, task and the startup keep
  the invariants of all components at once; a request without the credential changes nothing; what failures
  tell a client; and what the operations do across the components.
\<close>

section \<open>Guarantees under a fair environment\<close>

text \<open>
  An action keeps \<open>good\<close> in every environment that is fair. What the rules need of fairness is that the other
  tasks keep \<open>good\<close> themselves.
\<close>

definition keeps_under :: "(('s, 'z) timetable \<Rightarrow> bool) \<Rightarrow> ('s \<Rightarrow> bool) \<Rightarrow> ('s, 'z, 'a) coroutine \<Rightarrow> bool" where
  "keeps_under fair good f \<longleftrightarrow> (\<forall>sc s. fair sc \<longrightarrow> good (snd s) \<longrightarrow> good (snd (snd (f sc s))))"

locale fair_actions =
  fixes fair :: "('s, 'z) timetable \<Rightarrow> bool" and good :: "'s \<Rightarrow> bool"
  assumes others: "fair sc \<Longrightarrow> others_keep good sc"
begin

lemma run: "keeps_under fair good f \<Longrightarrow> fair sc \<Longrightarrow> good (snd s) \<Longrightarrow> f sc s = (r, s') \<Longrightarrow> good (snd s')"
  unfolding keeps_under_def by (metis snd_conv)

lemma from_preserves: "preserves good f \<Longrightarrow> keeps_under fair good f"
  unfolding keeps_under_def using preserves_run others by blast

lemma bind:
  assumes "keeps_under fair good f" "\<And>x. keeps_under fair good (g x)"
  shows "keeps_under fair good (and_then f g)"
  unfolding keeps_under_def
proof (intro allI impI)
  fix sc :: "('s, 'z) timetable" and s :: "nat \<times> 's" assume sc: "fair sc" and s: "good (snd s)"
  obtain r s' where fs: "f sc s = (r, s')" by (cases "f sc s")
  have s': "good (snd s')" by (rule run [OF assms(1) sc s fs])
  show "good (snd (snd (and_then f g sc s)))"
    using run [OF assms(2) sc s'] s' by (cases r) (auto simp: and_then_def fs, metis prod.collapse)
qed

lemma handled:
  assumes "keeps_under fair good f" "\<And>e. keeps_under fair good (h e)"
  shows "keeps_under fair good (try_catch f h)"
  unfolding keeps_under_def
proof (intro allI impI)
  fix sc :: "('s, 'z) timetable" and s :: "nat \<times> 's" assume sc: "fair sc" and s: "good (snd s)"
  obtain r s' where fs: "f sc s = (r, s')" by (cases "f sc s")
  have s': "good (snd s')" by (rule run [OF assms(1) sc s fs])
  show "good (snd (snd (try_catch f h sc s)))"
    using run [OF assms(2) sc s'] s' by (cases r) (auto simp: try_catch_def fs, metis prod.collapse)
qed

lemma basic:
  "keeps_under fair good (ret x)" "keeps_under fair good (throw e)" "keeps_under fair good (read g)"
  "keeps_under fair good (query q)" "keeps_under fair good (from_sum r)"
  by (intro from_preserves keeps)+

lemma changed: "(\<And>m. good m \<Longrightarrow> good (g m)) \<Longrightarrow> keeps_under fair good (modify g)"
  by (intro from_preserves preserves_modify)

lemma branch:
  "keeps_under fair good f \<Longrightarrow> keeps_under fair good g \<Longrightarrow> keeps_under fair good (if b then f else g)"
  "keeps_under fair good f \<Longrightarrow> (\<And>x. keeps_under fair good (h x)) \<Longrightarrow>
     keeps_under fair good (case v of None \<Rightarrow> f | Some x \<Rightarrow> h x)"
  by (simp, cases v) auto

end

interpretation player_fair: fair_actions fair_others "player_inv K" for K
  by unfold_locales (simp add: fair_others_def)

lemma sound_keeps_under: "sound f \<longleftrightarrow> (\<forall>K. keeps_under fair_others (player_inv K) f)"
  unfolding sound_def keeps_under_def by blast

section \<open>The invariant of the application\<close>

definition app_ok :: "app \<Rightarrow> bool" where
  "app_ok a \<longleftrightarrow> manager_ok (shared_manager a) \<and> player_inv {} (shared_player a) \<and> engine_ok (shared_engine a) \<and>
     config_ok (app_config a) \<and> registry_ok (app_health a)"

definition fair_app :: "(nat \<Rightarrow> app_pause) \<Rightarrow> bool" where
  "fair_app sc \<longleftrightarrow> others_keep manager_ok (\<lambda>i. au_manager (sc i)) \<and> fair_others (\<lambda>i. au_player (sc i)) \<and>
     (\<forall>n e. engine_ok e \<longrightarrow> engine_ok (au_engine (sc n) e)) \<and> others_keep app_ok sc"

interpretation app_fair: fair_actions fair_app app_ok
  by unfold_locales (simp add: fair_app_def)

abbreviation app_sound :: "'a app_action \<Rightarrow> bool" where
  "app_sound \<equiv> keeps_under fair_app app_ok"

lemma app_sound_run: "app_sound f \<Longrightarrow> fair_app sc \<Longrightarrow> app_ok (snd s) \<Longrightarrow> app_ok (snd (snd (f sc s)))"
  unfolding keeps_under_def by blast

lemma elapsed_keeps: "(\<And>i x. P x \<Longrightarrow> P (g i x)) \<Longrightarrow> P x \<Longrightarrow> P (elapsed g n n' x)"
proof -
  assume g: "\<And>i x. P x \<Longrightarrow> P (g i x)" and x: "P x"
  have "P (fold g is x)" for "is" using x by (induction "is" arbitrary: x) (auto intro: g)
  then show ?thesis by (simp add: elapsed_def)
qed

lemma share_ok:
  "manager_ok m \<Longrightarrow> registry_ok h \<Longrightarrow> manager_ok (m\<lparr>m_health := Some h\<rparr>)"
  "player_inv K p \<Longrightarrow> registry_ok h \<Longrightarrow> config_ok c \<Longrightarrow> player_inv K (p\<lparr>p_config := Some c, p_health := Some h\<rparr>)"
  "engine_ok e \<Longrightarrow> registry_ok h \<Longrightarrow> engine_ok (e\<lparr>e_health := Some h\<rparr>)"
proof -
  show "manager_ok m \<Longrightarrow> registry_ok h \<Longrightarrow> manager_ok (m\<lparr>m_health := Some h\<rparr>)" by (simp add: manager_ok_def)
  show "player_inv K p \<Longrightarrow> registry_ok h \<Longrightarrow> config_ok c \<Longrightarrow> player_inv K (p\<lparr>p_config := Some c, p_health := Some h\<rparr>)"
    by (simp add: player_inv_def player_ok_def sessions_filed_def health_fine_def config_fine_def)
  show "engine_ok e \<Longrightarrow> registry_ok h \<Longrightarrow> engine_ok (e\<lparr>e_health := Some h\<rparr>)"
    using same_frame [of "e\<lparr>e_health := Some h\<rparr>" e] by (simp add: engine_ok_def)
qed

lemma shared_parts:
  "manager_ok m \<Longrightarrow> registry_ok h \<Longrightarrow> registry_ok (or_else h (m_health m))"
  "player_inv K p \<Longrightarrow> registry_ok h \<Longrightarrow> registry_ok (or_else h (p_health p))"
  "engine_ok e \<Longrightarrow> registry_ok h \<Longrightarrow> registry_ok (or_else h (e_health e))"
  "player_inv K p \<Longrightarrow> config_ok c \<Longrightarrow> config_ok (or_else c (p_config p))"
  by (auto simp: or_else_def manager_ok_def player_inv_def player_ok_def health_fine_def config_fine_def engine_ok_def
      split: option.splits)

lemma app_okI:
  assumes "manager_ok (app_manager a)" "player_inv {} (app_player a)" "engine_ok (app_engine a)"
    "config_ok (app_config a)" "registry_ok (app_health a)"
  shows "app_ok a"
  using assms by (simp add: app_ok_def shared_manager_def shared_player_def shared_engine_def share_ok)

lemma app_sound_manager:
  assumes "preserves manager_ok f"
  shows "app_sound (on_manager f)"
  unfolding keeps_under_def
proof (intro allI impI)
  fix sc and s :: "nat \<times> app" assume sc: "fair_app sc" and s: "app_ok (snd s)"
  obtain r n m where run: "f (\<lambda>i. au_manager (sc i)) (fst s, shared_manager (snd s)) = (r, n, m)"
    by (metis prod_cases3)
  have m: "manager_ok m"
    using preservesD [OF assms _ _ run] sc s by (simp add: fair_app_def app_ok_def)
  have p: "player_inv {} (elapsed (\<lambda>i. su_others (au_player (sc i))) (fst s) n (shared_player (snd s)))"
    by (rule elapsed_keeps) (use sc s in \<open>auto simp: fair_app_def app_ok_def fair_others_def others_keep_def\<close>)
  have e: "engine_ok (elapsed (\<lambda>i. au_engine (sc i)) (fst s) n (shared_engine (snd s)))"
    by (rule elapsed_keeps) (use sc s in \<open>auto simp: fair_app_def app_ok_def\<close>)
  show "app_ok (snd (snd (on_manager f sc s)))"
    using s m p e shared_parts
    by (intro app_okI) (auto simp: on_manager_def run Let_def app_ok_def)
qed

lemma app_sound_player:
  assumes "sound f"
  shows "app_sound (on_player f)"
  unfolding keeps_under_def
proof (intro allI impI)
  fix sc and s :: "nat \<times> app" assume sc: "fair_app sc" and s: "app_ok (snd s)"
  obtain r n p where run: "f (\<lambda>i. au_player (sc i)) (fst s, shared_player (snd s)) = (r, n, p)"
    by (metis prod_cases3)
  have p: "player_inv {} p"
    using soundD [OF assms, where sc = "\<lambda>i. au_player (sc i)" and s = "(fst s, shared_player (snd s))" and K = "{}"] sc s
    by (simp add: fair_app_def app_ok_def run)
  have m: "manager_ok (elapsed (\<lambda>i. su_others (au_manager (sc i))) (fst s) n (shared_manager (snd s)))"
    by (rule elapsed_keeps) (use sc s in \<open>auto simp: fair_app_def app_ok_def others_keep_def\<close>)
  have e: "engine_ok (elapsed (\<lambda>i. au_engine (sc i)) (fst s) n (shared_engine (snd s)))"
    by (rule elapsed_keeps) (use sc s in \<open>auto simp: fair_app_def app_ok_def\<close>)
  show "app_ok (snd (snd (on_player f sc s)))"
    using s m p e shared_parts
    by (intro app_okI) (auto simp: on_player_def run Let_def app_ok_def)
qed

lemma app_sound_engine:
  assumes "\<And>e e'. engine_ok e \<Longrightarrow> f e = Inr e' \<Longrightarrow> engine_ok e'"
  shows "app_sound (on_engine f)"
  unfolding keeps_under_def
proof (intro allI impI)
  fix sc and s :: "nat \<times> app" assume s: "app_ok (snd s)"
  show "app_ok (snd (snd (on_engine f sc s)))"
  proof (cases "f (shared_engine (snd s))")
    case (Inr e)
    have "engine_ok (shared_engine (snd s))" using s by (simp add: app_ok_def)
    then have e: "engine_ok e" using Inr by (rule assms)
    let ?h = "or_else (app_health (snd s)) (e_health e)"
    have h: "registry_ok ?h" using s e by (simp add: shared_parts app_ok_def)
    have "manager_ok ((shared_manager (snd s))\<lparr>m_health := Some ?h\<rparr>)"
      "player_inv {} ((shared_player (snd s))\<lparr>p_config := Some (app_config (snd s)), p_health := Some ?h\<rparr>)"
      "engine_ok (e\<lparr>e_health := Some ?h\<rparr>)"
      using s e h by (auto simp: app_ok_def share_ok)
    moreover have "snd (snd (on_engine f sc s)) = (snd s)\<lparr>app_engine := e, app_health := ?h\<rparr>"
      by (simp add: on_engine_def Inr)
    ultimately show ?thesis
      using s h by (simp add: app_ok_def shared_manager_def shared_player_def shared_engine_def)
  qed (simp add: on_engine_def s)
qed

lemma app_sound_app: "(\<And>a r a'. app_ok a \<Longrightarrow> f a = (r, a') \<Longrightarrow> app_ok a') \<Longrightarrow> app_sound (on_app f)"
  unfolding keeps_under_def on_app_def by (auto split: prod.splits)

lemma app_ok_parts:
  assumes "app_ok a"
  shows "config_ok c \<Longrightarrow> app_ok (a\<lparr>app_config := c\<rparr>)" "registry_ok h \<Longrightarrow> app_ok (a\<lparr>app_health := h\<rparr>)"
    "manager_ok m \<Longrightarrow> app_ok (a\<lparr>app_manager := m\<rparr>)"
    "app_ok (a\<lparr>app_tasks := ts\<rparr>)" "app_ok (a\<lparr>app_published := rs\<rparr>)"
proof -
  note parts = app_ok_def shared_manager_def shared_player_def shared_engine_def
  show "app_ok (a\<lparr>app_tasks := ts\<rparr>)" "app_ok (a\<lparr>app_published := rs\<rparr>)"
    using assms by (simp_all add: parts)
  show "app_ok (a\<lparr>app_manager := m\<rparr>)" if "manager_ok m"
    using assms that by (simp add: parts share_ok)
  show "app_ok (a\<lparr>app_config := c\<rparr>)" if "config_ok c"
    using assms share_ok(2) [of "{}" "shared_player a" "app_health a" c] that by (simp add: parts)
  show "app_ok (a\<lparr>app_health := h\<rparr>)" if "registry_ok h"
    using assms that share_ok(1) [of "shared_manager a" h] share_ok(2) [of "{}" "shared_player a" h "app_config a"]
      share_ok(3) [of "shared_engine a" h]
    by (simp add: parts)
qed

lemma app_sound_clock: "(\<And>now. app_sound (f now)) \<Longrightarrow> app_sound (at_clock f)"
  unfolding keeps_under_def at_clock_def by blast

lemma app_sound_await: "(\<And>a. app_ok a \<Longrightarrow> app_ok (f a)) \<Longrightarrow> app_sound (app_await f)"
  unfolding app_await_def by (rule app_fair.from_preserves, rule preserves_suspend) (auto split: if_splits)

lemma app_sound_config:
  "(\<And>c r c'. config_ok c \<Longrightarrow> f c = (r, c') \<Longrightarrow> config_ok c') \<Longrightarrow> app_sound (on_config f)"
proof -
  assume f: "\<And>c r c'. config_ok c \<Longrightarrow> f c = (r, c') \<Longrightarrow> config_ok c'"
  have "app_ok (a\<lparr>app_config := c'\<rparr>)" if "app_ok a" "f (app_config a) = (r, c')" for a r c'
    using app_ok_parts(1) [OF that(1)] f [OF _ that(2)] that(1) by (simp add: app_ok_def)
  then show ?thesis
    unfolding on_config_def by (intro app_sound_app) (auto split: prod.splits)
qed

section \<open>Every operation keeps the invariant\<close>

lemmas app_sound_rules = app_fair.basic app_fair.bind app_fair.handled app_fair.branch app_fair.changed

lemma app_sound_registration:
  "app_sound (on_engine (register_speaker a b ad))" "app_sound (on_engine (unregister_speaker a))"
  "app_sound (on_engine (\<lambda>e. Inr (set_global_enabled b e)))"
  by (rule app_sound_engine; auto simp: unregister_speaker_def intro: register_ok unregister_ok set_global_enabled_ok split: sum.splits)+

lemma app_sound_publish: "app_sound (publish_native_speaker address)"
  unfolding publish_native_speaker_def
  by (intro app_sound_clock app_sound_rules app_sound_await app_ok_parts)

lemma app_sound_execute: "app_sound (on_player (execute a p))"
  by (rule app_sound_player [OF sound_execute])

lemma app_sound_connect: "app_sound (connect_now a)"
proof -
  have "app_sound (on_manager (connect_device b now a True))" for b now
    by (rule app_sound_manager [OF connect_keeps_ok])
  then show ?thesis unfolding keeps_under_def connect_now_def by blast
qed

lemma app_sound_auth: "app_sound f \<Longrightarrow> app_sound (with_auth h f)"
  unfolding with_auth_def by (intro app_sound_rules)

lemma app_sound_managed:
  "app_sound f \<Longrightarrow> app_sound (managed reason f)" "app_sound f \<Longrightarrow> app_sound (managed_busy busy reason f)"
  unfolding managed_def managed_busy_def
  by (intro app_sound_rules, assumption | rule app_sound_rules | simp add: app_sound_rules split: py_exc.split)+

lemma app_sound_retry: "app_sound (retry_command n c a)"
proof (induction n)
  case (Suc n)
  show ?case
    unfolding retry_command.simps
    by (intro app_sound_rules app_sound_await app_sound_execute Suc) auto
qed (simp add: app_sound_rules)

lemma app_sound_issue: "app_sound (issue_command c a)"
  unfolding issue_command_def
  by (intro app_sound_rules app_sound_execute app_sound_player sound_control_queue sound_lemmas)

lemma app_sound_failure: "app_sound (handle_command_failure c a e)"
  unfolding handle_command_failure_def reconnect_speaker_def
  by (intro app_sound_rules app_sound_retry app_sound_connect)

lemma app_sound_command: "app_sound (command_native_speaker address c h)"
  unfolding command_native_speaker_def run_command_def
  by (intro app_sound_auth app_sound_rules app_sound_issue app_sound_failure app_sound_publish app_sound_clock)

lemma app_sound_scan: "app_sound (on_manager (start_scan n))" "app_sound (on_manager (stop_scan n))"
  by (intro app_sound_manager keeps_ok; assumption)+

lemma power_keeps_ok: "preserves manager_ok (power_adapter name powered)"
proof -
  have "manager_ok (m\<lparr>m_adapters := dict_set path a' (m_adapters m)\<rparr>)"
    if "manager_ok m" "dict_get (m_adapters m) path = Some b" "adapter_set_power c powered b = (r, a')" for m path b c r a'
    using that manager_ok_new_flags [of m path b a']
    by (auto simp: adapter_set_power_def set_adapter_flag_def split: if_splits bus_call.splits)
  then show ?thesis
    unfolding power_adapter_def by (intro keeps preserves_on_adapter)
qed

lemma app_sound_each: "app_sound (register_each rs)" "app_sound (apply_each ss)"
  "app_sound (register_devices ds)" "app_sound (register_configured ss)"
proof -
  note rules = app_sound_rules app_sound_registration
  show "app_sound (register_each rs)" by (induction rs) (auto intro!: rules split: prod.splits)
  show "app_sound (apply_each ss)" by (induction ss) (auto intro!: rules)
  show "app_sound (register_devices ds)"
    by (induction ds) (auto intro!: rules app_sound_player sound_lemmas)
  show "app_sound (register_configured ss)"
    by (induction ss) (auto intro!: rules split: py_exc.split)
qed

lemma saved_config_ok: "config_ok c \<Longrightarrow> config_ok (save (with_settings (apply_system_update u (cs_settings c)) c))"
  by (simp add: config_ok_def keys_ok_def schema_ok_def speakers_of_def apply_system_update_def)

lemma app_sound_outcome: "app_sound f \<Longrightarrow> app_sound (outcome f)"
  unfolding outcome_def by (intro app_sound_rules)

lemma app_sound_queries:
  "app_sound (get_native_identity sha h)" "app_sound (list_native_speakers h)" "app_sound (native_list_devices h)"
  "app_sound (native_list_adapters h)" "app_sound (native_get_settings h)"
  unfolding get_native_identity_def list_native_speakers_def native_list_devices_def native_list_adapters_def
    native_get_settings_def
  by (intro app_sound_auth app_sound_managed app_sound_clock app_sound_rules)+

lemma app_sound_device_routes:
  "app_sound (native_start_scan n h)" "app_sound (native_stop_scan n h)" "app_sound (native_pair_device a p h)"
  "app_sound (native_connect_device a h)" "app_sound (native_disconnect_device a h)"
  "app_sound (native_remove_device a h)" "app_sound (native_set_adapter_power nm b h)"
proof -
  note rules = app_sound_auth app_sound_managed app_sound_clock app_sound_rules app_sound_publish
    app_sound_registration app_sound_connect app_sound_scan
  show "app_sound (native_start_scan n h)" "app_sound (native_stop_scan n h)"
    unfolding native_start_scan_def native_stop_scan_def by (intro rules)+
  show "app_sound (native_pair_device a p h)"
    unfolding native_pair_device_def by (intro rules app_sound_manager pair_keeps_ok)
  show "app_sound (native_connect_device a h)"
    unfolding native_connect_device_def by (intro rules)
  show "app_sound (native_disconnect_device a h)"
    unfolding native_disconnect_device_def by (intro rules app_sound_manager disconnect_keeps_ok)
  have "app_sound (on_config (\<lambda>c. map_prod Inr id (remove_speaker a c)))" for a
    by (rule app_sound_config) (metis remove_speaker_ok id_apply map_prod_simp prod.collapse snd_conv)
  then show "app_sound (native_remove_device a h)"
    unfolding native_remove_device_def by (intro rules app_sound_manager remove_keeps_ok)
  show "app_sound (native_set_adapter_power nm b h)"
    unfolding native_set_adapter_power_def by (intro rules app_sound_manager power_keeps_ok)
qed

lemma app_sound_settings_routes:
  "app_sound (native_update_system_settings u h)" "app_sound (native_update_speaker_settings a v h)"
proof -
  note rules = app_sound_auth app_sound_managed app_sound_rules app_sound_publish app_sound_registration
    app_sound_each
  have "app_sound (enable_reconnects b)" for b unfolding enable_reconnects_def by (intro rules)
  moreover have "app_sound (on_config (\<lambda>c. (Inr (), save (with_settings (apply_system_update u (cs_settings c)) c))))"
    by (rule app_sound_config) (auto intro: saved_config_ok)
  ultimately show "app_sound (native_update_system_settings u h)"
    unfolding native_update_system_settings_def by (intro rules)
  have "app_sound (on_config (update_speaker a v))" for a
    by (rule app_sound_config) (metis update_speaker_ok snd_conv)
  then show "app_sound (native_update_speaker_settings a v h)"
    unfolding native_update_speaker_settings_def
    by (auto intro!: rules app_sound_execute split: bool.split option.split)
qed

lemma app_sound_serve: "app_sound (serve sha r h)"
  by (cases r) (simp_all add: app_sound_outcome app_sound_queries app_sound_device_routes app_sound_settings_routes
    app_sound_command)

lemma app_sound_events: "app_sound (dispatch_event running ev)"
proof -
  note rules = app_sound_rules app_sound_clock app_sound_registration
  have keepalive: "app_sound (on_player (state_op (register_keepalive a)))"
    "app_sound (on_player (state_op (unregister_keepalive a)))" for a
    by (intro app_sound_player sound_lemmas)+
  have task: "app_sound (modify (spawn_task running t))" for t
    by (rule app_fair.changed) (auto simp: spawn_task_def app_ok_parts)
  have "app_sound (on_player (state_op (invalidate_playback_session a)))" for a
    by (rule app_sound_player [OF soundI], rule preserves_state_op)
      (auto simp: invalidate_playback_session_def inv_invalidate split: sum.splits prod.splits, metis inv_invalidate snd_conv)
  then have "app_sound (on_device_info running d)" for d
    unfolding on_device_info_def invalidate_and_schedule_playback_stop_def
    by (auto intro!: app_fair.basic app_fair.bind task app_sound_registration keepalive)
  then have "app_sound (on_bt_event running ev)"
    unfolding on_bt_event_def by (auto intro!: rules task split: bt_event.split)
  moreover have "app_sound (on_engine (handle_bluetooth_event ev now))" for now
    by (rule app_sound_engine) (auto dest: handle_bluetooth_event_ok)
  ultimately show ?thesis unfolding dispatch_event_def by (intro rules)
qed

lemma app_sound_lifecycle: "app_sound (note_lifecycle st)" "app_sound startup"
proof -
  show life: "app_sound (note_lifecycle st)" for st
    unfolding note_lifecycle_def
    by (intro app_sound_clock app_fair.changed app_ok_parts set_lifecycle_ok) (auto simp: app_ok_def)
  have step: "app_sound (on_engine (\<lambda>e. Inr (engine_start e)))"
    by (rule app_sound_engine) (use engine_step_ok [of _ EngineStart] in auto)
  have loops: "app_sound (on_player (modify (\<lambda>p. start_volume_watch (start_keepalive p))))"
    by (rule app_sound_player [OF soundI], rule preserves_modify)
      (simp add: start_volume_watch_def start_keepalive_def)
  show "app_sound startup"
    unfolding startup_def register_known_def by (intro app_sound_rules app_sound_each step life loops app_sound_await)
qed

lemma app_sound_tasks: "app_sound (run_task t)" "app_sound (publish_playback_state address)"
proof -
  note rules = app_sound_rules app_sound_clock app_sound_publish app_sound_await app_sound_execute
  show "app_sound (run_task t)" by (cases t) (auto intro!: rules)
  show "app_sound (publish_playback_state address)"
    unfolding publish_playback_state_def by (intro rules)
qed

lemma create_app_ok:
  assumes "create_app m store h now = Inr a" "manager_ok m" "config_ok store" "registry_ok h"
  shows "app_ok a"
proof -
  let ?h = "startup_health m now h"
  have h: "registry_ok ?h" using assms(4) by (simp add: startup_health_def Let_def observe_component_ok)
  obtain e where e: "new_engine default_policy (Some ?h) = Inr e"
    "a = \<lparr>app_manager = m, app_player = new_player (Some store) (Some ?h) True,
       app_engine = set_global_enabled (auto_reconnect_enabled (cs_settings store)) e,
       app_config = store, app_health = ?h, app_tasks = [], app_published = []\<rparr>"
    using assms(1) by (auto simp: create_app_def Let_def split: sum.splits)
  have "engine_ok e" by (rule new_engine_ok [OF e(1)]) (simp add: h)
  moreover have "player_inv {} (new_player (Some store) (Some ?h) True)"
    by (rule inv_new) (simp_all add: health_fine_def config_fine_def h assms(3))
  ultimately show ?thesis
    unfolding e(2) by (intro app_okI) (simp_all add: assms h set_global_enabled_ok)
qed

section \<open>Witness application\<close>

definition calm_app :: "nat \<Rightarrow> app_pause" where
  "calm_app = (\<lambda>n. \<lparr>su_others = (\<lambda>a. a), su_now = 100, au_manager = calm n, au_player = calm_play n, au_engine = (\<lambda>e. e),
     au_expired = False, au_cancelled = False\<rparr>)"

lemma calm_app_fair: "fair_app calm_app"
proof -
  have "calm = (\<lambda>i. au_manager (calm_app i))" "calm_play = (\<lambda>i. au_player (calm_app i))" by (simp_all add: calm_app_def)
  then show ?thesis
    using calm_keeps [of manager_ok] fair_calm by (simp add: fair_app_def others_keep_def calm_app_def)
qed

text \<open>The configuration of the witness has a credential.\<close>

definition witness_store :: config_store where
  "witness_store = \<lparr>cs_settings = default_settings\<lparr>native_token := ''secret''\<rparr>, cs_file = NoFile, cs_writable = True\<rparr>"

lemma witness_store_ok: "config_ok witness_store"
  by (simp add: config_ok_def keys_ok_def speakers_of_def witness_store_def) (simp add: default_settings_def)

definition witness_app :: app where
  "witness_app = \<lparr>app_manager = new_manager None, app_player = silent_player,
     app_engine = (case new_engine default_policy None of Inr e \<Rightarrow> e), app_config = witness_store,
     app_health = new_registry, app_tasks = [], app_published = []\<rparr>"

lemma witness_app_ok: "app_ok witness_app"
proof -
  obtain e where e: "new_engine default_policy None = Inr e"
    by (simp add: new_engine_def policy_error_def default_policy_def)
  have "engine_ok e" by (rule new_engine_ok [OF e]) simp
  then show ?thesis
    by (intro app_okI) (simp_all add: witness_app_def e silent_ok witness_store_ok new_registry_ok new_manager_ok)
qed

section \<open>Properties\<close>

text \<open>
  C1. The invariants of the components hold of the whole application: in every environment whose other tasks
  keep them, every request of the native API, every Bluetooth event, every background task, every playback
  callback and the startup keep, on success and on failure, the BlueZ cache, the playback
  sessions, the reconnect engine, the configuration and the health registry well formed at once, and the
  application startup creates satisfies them.
\<close>
theorem application_invariant:
  assumes "fair_app sc" and "app_ok (snd s)" and "manager_ok m" and "config_ok store" and "registry_ok h"
  shows "app_ok (snd (snd (serve sha request header sc s))) \<and> app_ok (snd (snd (dispatch_event running ev sc s))) \<and>
    app_ok (snd (snd (run_task task sc s))) \<and> app_ok (snd (snd (publish_playback_state address sc s))) \<and>
    app_ok (snd (snd (startup sc s))) \<and> (create_app m store h now = Inr a \<longrightarrow> app_ok a)"
  using create_app_ok [OF _ assms(3-5)]
  by (simp add: app_sound_run [OF _ assms(1,2)] app_sound_serve app_sound_events app_sound_tasks app_sound_lifecycle)

theorem application_invariant_witness:
  "app_ok (snd (snd (serve id (Req_connect witness_address) (Some ''Bearer secret'') calm_app (0, witness_app))))"
  using application_invariant [OF calm_app_fair, where s = "(0, witness_app)" and m = "new_manager None"
      and store = witness_store and h = new_registry and sha = id and request = "Req_connect witness_address"
      and header = "Some ''Bearer secret''"]
  by (simp add: witness_app_ok witness_store_ok new_registry_ok new_manager_ok)

text \<open>
  C6. A native request without the installation's credential does nothing: when none is installed, or the
  header does not carry it, every route fails with 401, or with the \<open>TypeError\<close> of a comparison outside
  ASCII, before anything of the application changes and before anything is awaited.
\<close>
theorem unauthenticated_request_changes_nothing:
  assumes "native_token (cs_settings (app_config a)) = [] \<or>
    (case header of None \<Rightarrow> [] | Some h \<Rightarrow> remove_prefix BEARER_PREFIX h) \<noteq> native_token (cs_settings (app_config a))"
  shows "\<exists>e. serve sha request header sc (n, a) = (Inl e, (n, a)) \<and>
     (e = HTTPException 401 ''Native bridge authentication required'' \<or> e = TypeMismatch)"
proof -
  obtain e where e: "require_native_auth header a = Inl e" "e = unauthorized \<or> e = TypeMismatch"
  proof -
    let ?t = "native_token (cs_settings (app_config a))"
      and ?x = "case header of None \<Rightarrow> [] | Some h \<Rightarrow> remove_prefix BEARER_PREFIX h"
    have "?t = [] \<or> compare_digest ?x ?t = Inl TypeMismatch \<or> compare_digest ?x ?t = Inr False"
      using assms by (auto simp: compare_digest_def)
    then show thesis using that by (cases "?t = []") (auto simp: require_native_auth_def Let_def)
  qed
  have auth: "with_auth header f sc (n, a) = (Inl e, (n, a))" for f :: "'r app_action"
    by (simp add: with_auth_def act_defs e(1))
  have "serve sha request header sc (n, a) = (Inl e, (n, a))"
    by (cases request) (simp_all add: outcome_def act_defs(3) auth get_native_identity_def list_native_speakers_def
      command_native_speaker_def native_start_scan_def native_stop_scan_def native_list_devices_def
      native_pair_device_def native_connect_device_def native_disconnect_device_def native_remove_device_def
      native_list_adapters_def native_set_adapter_power_def native_get_settings_def
      native_update_system_settings_def native_update_speaker_settings_def)
  then show ?thesis using e(2) by (auto simp: unauthorized_def)
qed

theorem unauthenticated_request_changes_nothing_witness:
  "snd (serve id (Req_remove witness_address) (Some ''Bearer guess'') calm_app (0, witness_app)) = (0, witness_app)"
  using unauthenticated_request_changes_nothing [where a = witness_app and header = "Some ''Bearer guess''" and n = 0
      and sc = calm_app and sha = id and request = "Req_remove witness_address"]
  by (auto simp: witness_app_def witness_store_def remove_prefix_def starts_with_def)

end
