(* ===== verification/Bridge_Effects.thy ===== *)
theory Bridge_Effects
  imports Bridge_Spec Native_Spec
begin

text \<open>
  What the operations of the application do and do not do across its components: the failures a client
  can see, who may be commanded and published, what a removal forgets, and what becomes of a speaker whose
  reconnection was switched off.
\<close>

section \<open>Failures\<close>

text \<open>\<open>fails_with F f\<close>: whatever error the action ends with satisfies \<open>F\<close>.\<close>

definition fails_with :: "(py_exc \<Rightarrow> bool) \<Rightarrow> ('s, 'z, 'a) coroutine \<Rightarrow> bool" where
  "fails_with F f \<longleftrightarrow> (\<forall>sc s e s'. f sc s = (Inl e, s') \<longrightarrow> F e)"

lemma fails_basic: "fails_with F (ret x)" "F e \<Longrightarrow> fails_with F (throw e)" "fails_with F (read g)"
  "(\<And>m e. q m = Inl e \<Longrightarrow> F e) \<Longrightarrow> fails_with F (query q)" "(\<And>e. r = Inl e \<Longrightarrow> F e) \<Longrightarrow> fails_with F (from_sum r)"
  by (auto simp: fails_with_def act_defs)

lemma fails_bind: "fails_with F f \<Longrightarrow> (\<And>x. fails_with F (g x)) \<Longrightarrow> fails_with F (and_then f g)"
  unfolding fails_with_def and_then_def by (fastforce split: prod.splits sum.splits)

lemma fails_handled:
  "F CancelledError \<Longrightarrow> (\<And>e. fails_with F (h e)) \<Longrightarrow> fails_with F (try_catch f h)"
  unfolding fails_with_def try_catch_def by (fastforce split: prod.splits sum.splits if_splits)

lemma fails_branch: "fails_with F f \<Longrightarrow> fails_with F g \<Longrightarrow> fails_with F (if b then f else g)"
  by simp

lemma fails_weaken: "fails_with F f \<Longrightarrow> (\<And>e. F e \<Longrightarrow> G e) \<Longrightarrow> fails_with G f"
  unfolding fails_with_def by blast

definition fixed_failure :: "py_exc \<Rightarrow> bool" where
  "fixed_failure e \<longleftrightarrow> e = CancelledError \<or> e = TypeMismatch \<or>
     (\<exists>status detail. e = HTTPException status detail \<and> status \<in> {400, 401, 404, 409, 422} \<and>
        detail \<in> set (''Native bridge authentication required'' # SAFE_DEVICE_MANAGEMENT_REASONS))"

lemma fixed_management: "r \<in> set SAFE_DEVICE_MANAGEMENT_REASONS \<Longrightarrow> fixed_failure (native_management_failure r)"
  by (simp add: fixed_failure_def native_management_failure_def)

lemma auth_failure: "require_native_auth h a = Inl e \<Longrightarrow> e = unauthorized \<or> e = TypeMismatch"
  unfolding require_native_auth_def Let_def compare_digest_def
  by (simp split: if_split_asm sum.split_asm)

lemma fails_auth: "fails_with fixed_failure f \<Longrightarrow> fails_with fixed_failure (with_auth h f)"
  unfolding with_auth_def
  by (intro fails_bind fails_basic) (auto simp: fixed_failure_def unauthorized_def dest: auth_failure)

lemma safe_reasons:
  "''Bluetooth pairing is already in progress'' \<in> set SAFE_DEVICE_MANAGEMENT_REASONS"
  "''Bluetooth connection is already in progress'' \<in> set SAFE_DEVICE_MANAGEMENT_REASONS"
  "''Pairing failed'' \<in> set SAFE_DEVICE_MANAGEMENT_REASONS" "''Connection failed'' \<in> set SAFE_DEVICE_MANAGEMENT_REASONS"
  "''Disconnection failed'' \<in> set SAFE_DEVICE_MANAGEMENT_REASONS"
  "''Device removal failed'' \<in> set SAFE_DEVICE_MANAGEMENT_REASONS"
  "''Bluetooth scan failed'' \<in> set SAFE_DEVICE_MANAGEMENT_REASONS"
  "''Bluetooth adapter was not found'' \<in> set SAFE_DEVICE_MANAGEMENT_REASONS"
  "''Bluetooth adapter update failed'' \<in> set SAFE_DEVICE_MANAGEMENT_REASONS"
  "''Bluetooth adapter list is unavailable'' \<in> set SAFE_DEVICE_MANAGEMENT_REASONS"
  "''Bluetooth device list is unavailable'' \<in> set SAFE_DEVICE_MANAGEMENT_REASONS"
  "''Speaker settings update failed'' \<in> set SAFE_DEVICE_MANAGEMENT_REASONS"
  "''Invalid Bluetooth address'' \<in> set SAFE_DEVICE_MANAGEMENT_REASONS"
  "''Invalid Bluetooth adapter'' \<in> set SAFE_DEVICE_MANAGEMENT_REASONS"
  by (simp_all add: SAFE_DEVICE_MANAGEMENT_REASONS_def)

lemma fails_route_address: "fails_with fixed_failure (from_sum (route_address a))"
proof -
  have "fixed_failure invalid_address"
    by (simp add: invalid_address_def fixed_failure_def safe_reasons)
  then show ?thesis by (intro fails_basic(5)) (simp add: route_address_def split: sum.split_asm)
qed

lemma fails_managed:
  "r \<in> set SAFE_DEVICE_MANAGEMENT_REASONS \<Longrightarrow> fails_with fixed_failure (managed r f)"
  "r \<in> set SAFE_DEVICE_MANAGEMENT_REASONS \<Longrightarrow> b \<in> set SAFE_DEVICE_MANAGEMENT_REASONS \<Longrightarrow>
     fails_with fixed_failure (managed_busy b r f)"
proof -
  assume r: "r \<in> set SAFE_DEVICE_MANAGEMENT_REASONS"
  show "fails_with fixed_failure (managed r f)"
    unfolding managed_def by (intro fails_handled fails_basic fixed_management r) (simp add: fixed_failure_def)
  assume b: "b \<in> set SAFE_DEVICE_MANAGEMENT_REASONS"
  have "fails_with fixed_failure (throw (HTTPException 409 b))"
    by (rule fails_basic) (simp add: fixed_failure_def b)
  then show "fails_with fixed_failure (managed_busy b r f)"
    unfolding managed_busy_def
    by (intro fails_handled) (auto simp: fixed_failure_def intro: fails_basic fixed_management r split: py_exc.split)
qed

lemma fails_caught:
  assumes "fails_with G f" "F CancelledError" "\<And>e. G e \<Longrightarrow> fails_with F (h e)"
  shows "fails_with F (try_catch f h)"
  using assms unfolding fails_with_def try_catch_def by (fastforce split: prod.splits sum.splits if_splits)

lemma fails_on_manager: "fails_with F f \<Longrightarrow> fails_with F (on_manager f)"
  unfolding fails_with_def on_manager_def by (fastforce simp: Let_def split: prod.splits)

definition adapter_failure :: "py_exc \<Rightarrow> bool" where
  "adapter_failure e \<longleftrightarrow> e = CancelledError \<or> (\<exists>m. e = ValueError m) \<or> (\<exists>m. e = DBusFailure m) \<or>
     e = HTTPException 404 ''Bluetooth adapter was not found''"

lemma fails_set_power: "fails_with adapter_failure (on_adapter path (\<lambda>su. adapter_set_power (su_call su) b) a)"
proof -
  have "adapter_set_power c b x = (Inl e, y) \<Longrightarrow> adapter_failure e" for c x e y
    by (auto simp: adapter_set_power_def adapter_failure_def split: if_splits bus_call.splits)
  then show ?thesis
    unfolding fails_with_def on_adapter_def Let_def suspend_def
    by (auto split: if_splits prod.splits option.splits dest: prod.expand; metis prod.collapse)
qed

lemma fails_power_adapter: "fails_with adapter_failure (power_adapter n b)"
proof -
  have name: "validate_adapter_name n = Inl e \<Longrightarrow> adapter_failure e" for n e
    by (auto simp: validate_adapter_name_def adapter_failure_def split: if_splits)
  then have "get_adapter_by_name m n = Inl e \<Longrightarrow> adapter_failure e" for m n e
    by (auto simp: get_adapter_by_name_def split: sum.splits)
  moreover have "fails_with adapter_failure (throw (HTTPException 404 ''Bluetooth adapter was not found''))"
    by (rule fails_basic) (simp add: adapter_failure_def)
  ultimately show ?thesis
    unfolding power_adapter_def
    by (intro fails_bind fails_basic) (auto intro: name fails_set_power split: option.split)
qed

lemma power_failure_fixed: "adapter_failure e \<Longrightarrow> fixed_failure (power_failure e)"
  by (auto simp: adapter_failure_def power_failure_def safe_reasons fixed_failure_def native_management_failure_def)

lemma fails_power:
  "fails_with fixed_failure
     (try_catch (and_then (on_manager (power_adapter n b)) (\<lambda>_. ret x)) (\<lambda>e. throw (power_failure e)))"
  by (rule fails_caught [OF fails_bind [OF fails_on_manager [OF fails_power_adapter]]])
    (auto intro!: fails_basic power_failure_fixed simp: fixed_failure_def)

text \<open>The failures of a command: fixed texts for a queue operation and for \<open>play_media\<close>.\<close>

definition COMMAND_TEXTS :: "string list" where
  "COMMAND_TEXTS = [''Native playback command failed'',
     ''Auto-reconnect failed: could not re-establish the Bluetooth connection'',
     ''Auto-reconnect failed: Bluetooth reconnected but no audio sink appeared''] @ SAFE_QUEUE_CONTROL_REASONS"

definition guarded_operation :: "native_command \<Rightarrow> bool" where
  "guarded_operation c \<longleftrightarrow> nc_operation c \<in> set (NO_play_media # NON_RETRYABLE_QUEUE_OPERATIONS)"

text \<open>The detail of a player's error, as \<open>safe_detail\<close> leaves it.\<close>

definition redacted_report :: "py_exc \<Rightarrow> bool" where
  "redacted_report e \<longleftrightarrow>
     (\<exists>d reason. e = HTTPException 409 d \<and> safe_detail (Some (exc_text (MediaPlayerError reason))) = Some d)"

definition command_failure :: "native_command \<Rightarrow> py_exc \<Rightarrow> bool" where
  "command_failure c e \<longleftrightarrow> e = CancelledError \<or> (\<exists>d. e = HTTPException 409 d \<and> d \<in> set COMMAND_TEXTS) \<or>
     (\<not> guarded_operation c \<and> redacted_report e)"

lemma command_texts:
  "''Native playback command failed'' \<in> set COMMAND_TEXTS"
  "''Auto-reconnect failed: could not re-establish the Bluetooth connection'' \<in> set COMMAND_TEXTS"
  "''Auto-reconnect failed: Bluetooth reconnected but no audio sink appeared'' \<in> set COMMAND_TEXTS"
  "d \<in> set SAFE_QUEUE_CONTROL_REASONS \<Longrightarrow> d \<in> set COMMAND_TEXTS"
  by (simp_all add: COMMAND_TEXTS_def)

lemma command_failure_basic:
  "command_failure c CancelledError" "command_failure c command_failed" "command_failure c reconnect_failed"
  "command_failure c no_sink_after_reconnect"
  "d \<in> set SAFE_QUEUE_CONTROL_REASONS \<Longrightarrow> command_failure c (HTTPException 409 d)"
  by (simp_all add: command_failure_def command_failed_def reconnect_failed_def no_sink_after_reconnect_def command_texts)

lemma detailed_failure_ok:
  assumes c: "\<not> (nc_operation c \<in> set NON_RETRYABLE_QUEUE_OPERATIONS)" and e: "is_media_error e"
  shows "command_failure c (detailed_failure c e)"
proof -
  obtain reason where reason: "e = MediaPlayerError reason" using e by (cases e) (simp_all add: is_media_error_def)
  show ?thesis
  proof (cases "nc_operation c = NO_play_media")
    case False
    then have g: "\<not> guarded_operation c" using c by (simp add: guarded_operation_def)
    show ?thesis
      using False g unfolding reason
      by (cases "safe_detail (Some (exc_text (MediaPlayerError reason)))")
        (auto simp: detailed_failure_def command_failed_def command_texts command_failure_def redacted_report_def)
  qed (simp add: detailed_failure_def command_failure_basic)
qed

lemma fails_retry:
  assumes "\<not> (nc_operation c \<in> set NON_RETRYABLE_QUEUE_OPERATIONS)"
  shows "fails_with (command_failure c) (retry_command n c a)"
proof (induction n)
  case (Suc n)
  have wait: "fails_with (command_failure c) (app_await (\<lambda>x. x))"
    by (auto simp: fails_with_def app_await_def suspend_def command_failure_basic split: if_splits)
  show ?case
    unfolding retry_command.simps
    by (intro fails_bind wait fails_handled)
      (auto intro!: fails_basic Suc command_failure_basic detailed_failure_ok assms)
qed (simp add: fails_basic)

lemma fails_handler:
  assumes "is_media_error e"
  shows "fails_with (command_failure c) (handle_command_failure c a e)"
proof -
  have rec: "fails_with (command_failure c) (reconnect_speaker a)"
    unfolding reconnect_speaker_def
    by (intro fails_bind fails_handled) (auto intro!: fails_basic command_failure_basic)
  show ?thesis
    unfolding handle_command_failure_def
    using assms by (auto intro!: fails_basic fails_bind rec fails_retry command_failure_basic detailed_failure_ok)
qed

text \<open>
  A command that fails fails with an error of its handler, or with an error the player did not classify, which
  is passed on as it was raised.
\<close>

lemma command_failure_cases:
  assumes run: "run_command c a sc s = (Inl e, s')" and "e \<noteq> CancelledError"
  shows "command_failure c e \<or>
    \<not> guarded_operation c \<and> \<not> is_media_error e \<and> issue_command c a sc s = (Inl e, s')"
proof -
  obtain r s1 where issue: "issue_command c a sc s = (r, s1)" by (cases "issue_command c a sc s")
  then obtain e0 where e0: "r = Inl e0" "e0 \<noteq> CancelledError" "handle_command_failure c a e0 sc s1 = (Inl e, s')"
    using assms by (cases r) (auto simp: run_command_def try_catch_def split: if_splits)
  show ?thesis
  proof (cases "is_media_error e0")
    case True
    then show ?thesis using fails_handler e0(3) unfolding fails_with_def by blast
  next
    case False
    then show ?thesis
      using e0 issue command_failure_basic(2) [of c]
      by (auto simp: handle_command_failure_def throw_def guarded_operation_def split: if_splits)
  qed
qed

section \<open>Properties\<close>

lemma witness_auth: "require_native_auth (Some ''Bearer secret'') witness_app = Inr ()"
  by (simp add: require_native_auth_def witness_app_def witness_store_def remove_prefix_def starts_with_def
      compare_digest_def is_ascii_def ord_of_def)

fun management_request :: "native_request \<Rightarrow> bool" where
  "management_request Req_speakers = False"
| "management_request (Req_command a c) = False"
| "management_request _ = True"

text \<open>The system settings have no handler of their own around the registrations.\<close>

lemma fails_registrations:
  "fails_with (\<lambda>e. e = address_error) (register_each rs)" "fails_with (\<lambda>e. e = address_error) (apply_each ss)"
proof -
  have reg: "fails_with (\<lambda>e. e = address_error) (on_engine (register_speaker a b ad))"
    "fails_with (\<lambda>e. e = address_error) (on_engine (unregister_speaker a))" for a b ad
    by (auto simp: fails_with_def on_engine_def register_speaker_def unregister_speaker_def Let_def dest: normalize_errors
        split: sum.splits if_splits option.splits prod.splits)
  show "fails_with (\<lambda>e. e = address_error) (register_each rs)"
    by (induction rs) (auto intro!: fails_basic fails_bind reg split: prod.split)
  show "fails_with (\<lambda>e. e = address_error) (apply_each ss)"
    by (induction ss) (auto intro!: fails_basic fails_bind reg)
qed

definition system_failure :: "system_update \<Rightarrow> py_exc \<Rightarrow> bool" where
  "system_failure u e \<longleftrightarrow> e = unauthorized \<or> e = TypeMismatch \<or> su_auto_reconnect u = Some True \<and> e = address_error"

lemma fails_system: "fails_with (system_failure u) (native_update_system_settings u h)"
proof -
  have never: "fails_with F (on_config (\<lambda>c. (Inr (), g c)))" "fails_with F (on_engine (\<lambda>e. Inr (g' e)))" for F g g'
    by (auto simp: fails_with_def on_config_def on_engine_def on_app_def)
  have enable: "fails_with (\<lambda>e. b \<and> e = address_error) (enable_reconnects b)" for b
    unfolding enable_reconnects_def
    by (auto intro!: fails_bind fails_basic never fails_registrations)
  have "fails_with (system_failure u) (enable_reconnects b)" if "su_auto_reconnect u = Some b" for b
    by (rule fails_weaken [OF enable]) (simp add: system_failure_def that)
  then show ?thesis
    unfolding native_update_system_settings_def with_auth_def
    by (auto intro!: fails_bind fails_basic never simp: system_failure_def dest: auth_failure split: option.split)
qed

text \<open>
  C13. What a management route tells a client about a failure is one of fixed texts: whatever BlueZ, the
  player or the configuration raised, and whatever the other tasks did, the answer is a status 400, 401,
  404, 409 or 422 with a detail of the published list, unless the task is cancelled or the credential
  cannot be compared; no text of an exception reaches the client. One route, the update of the system
  settings, catches nothing: when it switches the reconnection on and the address of a device or of a stored
  record is malformed, the \<open>ValueError\<close> of the normalisation leaves the route.
\<close>
theorem management_failures_are_fixed:
  assumes "management_request request" and "serve sha request header sc s = (Inl e, s')"
  shows "e = CancelledError \<or> e = TypeMismatch \<or>
    (\<exists>status detail. e = HTTPException status detail \<and> status \<in> {400, 401, 404, 409, 422} \<and>
       detail \<in> set (''Native bridge authentication required'' # SAFE_DEVICE_MANAGEMENT_REASONS)) \<or>
    (\<exists>u. request = Req_system u \<and> su_auto_reconnect u = Some True \<and> e = address_error)"
proof (cases "\<exists>u. request = Req_system u")
  case True
  then obtain u where u: "request = Req_system u" by blast
  have "fails_with (system_failure u) (serve sha request header)"
    unfolding u serve.simps outcome_def by (intro fails_bind fails_basic fails_system)
  then have "system_failure u e" using assms(2) unfolding fails_with_def by blast
  then show ?thesis using u by (auto simp: system_failure_def unauthorized_def)
next
  case False
  note rules = fails_auth fails_route_address fails_managed fails_bind fails_basic(1,3) fails_power
  note unfolds = get_native_identity_def native_start_scan_def native_stop_scan_def native_list_devices_def
    native_pair_device_def native_connect_device_def native_disconnect_device_def native_remove_device_def
    native_list_adapters_def native_set_adapter_power_def native_get_settings_def
    native_update_speaker_settings_def
  have "fails_with fixed_failure (serve sha request header)"
    using assms(1) False
    by (cases request; simp only: serve.simps management_request.simps outcome_def unfolds;
        (intro rules safe_reasons)?; simp)
  then show ?thesis using assms(2) unfolding fails_with_def fixed_failure_def by blast
qed

theorem management_failures_are_fixed_witness:
  "serve id (Req_connect ''x'') (Some ''Bearer secret'') calm_app (0, witness_app)
     = (Inl (HTTPException 422 ''Invalid Bluetooth address''), (0, witness_app)) \<and>
   (\<exists>status. HTTPException 422 ''Invalid Bluetooth address'' = HTTPException status ''Invalid Bluetooth address'' \<and>
     status \<in> {400, 401, 404, 409, 422})"
proof -
  have "normalize_address ''x'' = Inl address_error"
    by (simp add: address_eval)
  then have run: "serve id (Req_connect ''x'') (Some ''Bearer secret'') calm_app (0, witness_app)
     = (Inl (HTTPException 422 ''Invalid Bluetooth address''), (0, witness_app))"
    by (simp add: outcome_def native_connect_device_def with_auth_def witness_auth act_defs route_address_def
        invalid_address_def)
  then show ?thesis
    using management_failures_are_fixed [OF _ run] by auto
qed

text \<open>
  C25. What a command tells a client about a failure. Of a queue operation and of \<open>play_media\<close>, whose errors
  could name the media, the answer is 409 with one of the published texts, whatever the player, the reconnection
  or the retries raised. Of the other operations it is one of these texts too, or the player's reason after the
  redaction of \<open>safe_detail\<close>, without any URL and of at most 256 characters; an error the player did not
  classify is not answered by the command at all: it leaves the route exactly as the first call raised it.
\<close>
theorem command_failures_name_no_media:
  assumes "run_command c a sc s = (Inl e, s')" and "e \<noteq> CancelledError"
  shows "(\<exists>d. e = HTTPException 409 d \<and> d \<in> set COMMAND_TEXTS) \<or>
     nc_operation c \<notin> set (NO_play_media # NON_RETRYABLE_QUEUE_OPERATIONS) \<and>
       ((\<exists>d reason. e = HTTPException 409 d \<and> safe_detail (Some (exc_text (MediaPlayerError reason))) = Some d \<and>
           (\<forall>k. url_match (drop k d) = None) \<and> length d \<le> MAX_DETAIL_LENGTH) \<or>
        (\<not> is_media_error e \<and> issue_command c a sc s = (Inl e, s')))"
proof -
  have "url_free d \<and> length d \<le> MAX_DETAIL_LENGTH" if "safe_detail t = Some d" for t d
    using safe_detail_url_free safe_detail_length that by blast
  then show ?thesis
    using command_failure_cases [OF assms] assms(2)
    unfolding command_failure_def redacted_report_def guarded_operation_def url_free_def by blast
qed

theorem command_failures_name_no_media_witness:
  "fst (run_command (plain_command NO_next) witness_address calm_app (0, witness_app))
     = Inl (HTTPException 409 ''No active queue'') \<and> ''No active queue'' \<in> set COMMAND_TEXTS"
proof -
  have "\<exists>s'. issue_command (plain_command NO_next) witness_address calm_app (0, witness_app) = (Inl no_queue, s')"
    by (simp add: issue_command_def plain_command_def QUEUE_CONTROL_OPERATIONS_def control_queue_def act_defs
        witness_address_ok on_player_def plan_now_def plan_control_def shared_player_def witness_app_def
        silent_player_def new_player_def Let_def)
  then obtain s' where "issue_command (plain_command NO_next) witness_address calm_app (0, witness_app) = (Inl no_queue, s')"
    by blast
  then have "fst (run_command (plain_command NO_next) witness_address calm_app (0, witness_app))
     = Inl (HTTPException 409 ''No active queue'')"
    by (simp add: run_command_def try_catch_def no_queue_def handle_command_failure_def is_media_error_def plain_command_def
        NON_RETRYABLE_QUEUE_OPERATIONS_def QUEUE_CONTROL_OPERATIONS_def SAFE_QUEUE_CONTROL_REASONS_def throw_def)
  then show ?thesis
    using command_failures_name_no_media [of "plain_command NO_next" witness_address calm_app "(0, witness_app)"
        "HTTPException 409 ''No active queue''"]
    by (cases "run_command (plain_command NO_next) witness_address calm_app (0, witness_app)")
      (auto simp: plain_command_def NON_RETRYABLE_QUEUE_OPERATIONS_def QUEUE_CONTROL_OPERATIONS_def)
qed

section \<open>Who is commanded and published\<close>

text \<open>
  Only a speaker the operator trusts takes a command: with the right credential and a well-formed
  address, a command for an address BlueZ does not report is answered 404, and one for a device that is not
  trusted or no audio sink 409, before anything changes or is awaited.
\<close>
theorem untrusted_speaker_takes_no_command:
  assumes "require_native_auth header a = Inr ()" and "normalize_address address = Inr x"
    and "\<forall>d \<in> set (get_devices True (shared_manager a)). folded_address (di_address d) = x \<longrightarrow> \<not> di_trusted d"
  shows "\<exists>e. command_native_speaker address c header sc (n, a) = (Inl e, (n, a)) \<and>
     (e = HTTPException 404 ''Native speaker was not found'' \<or>
      e = HTTPException 409 ''Native speaker is not trusted or not an audio sink'')"
proof -
  have "command_device x a = Inl speaker_not_found \<or> command_device x a = Inl speaker_not_trusted"
    using assms(3) by (auto simp: command_device_def find_Some_iff split: option.splits)
  moreover have "command_native_speaker address c header sc (n, a) = (Inl e, (n, a))" if "command_device x a = Inl e" for e
    using assms(1,2) that by (simp add: command_native_speaker_def with_auth_def act_defs route_address_def)
  ultimately show ?thesis by (auto simp: speaker_not_found_def speaker_not_trusted_def)
qed

theorem untrusted_speaker_takes_no_command_witness:
  "snd (command_native_speaker witness_address (plain_command NO_play) (Some ''Bearer secret'') calm_app (0, witness_app))
     = (0, witness_app)"
  using untrusted_speaker_takes_no_command [OF witness_auth witness_address_ok, of "plain_command NO_play" calm_app 0]
  by (auto simp: get_devices_def shared_manager_def witness_app_def new_manager_def)

text \<open>
  Only a trusted audio sink is published to Home Assistant: publishing an address appends at most one
  record to what was broadcast, and only the record of a device BlueZ reports under that address, in any
  spelling, which the operator trusts and which is an audio sink.
\<close>
theorem only_trusted_speakers_are_published:
  assumes "\<forall>k b. app_published (su_others (sc k) b) = app_published b"
    and "publish_native_speaker address sc (n, a) = (r, s')"
  shows "app_published (snd s') = app_published a \<or>
     (\<exists>d sent. app_published (snd s') = app_published a @ [sent] \<and> d \<in> set (get_devices True (shared_manager a)) \<and>
        any_spelling (di_address d) = any_spelling address \<and> di_trusted d \<and> di_is_audio_sink d \<and>
        native_speaker_record (su_now (sc n)) (Some (shared_player a)) d = Inr sent)"
proof (cases "published_record (su_now (sc n)) address a")
  case (Inl e)
  then show ?thesis using assms(2) by (auto simp: publish_native_speaker_def at_clock_def act_defs)
next
  case (Inr found)
  show ?thesis
  proof (cases found)
    case None
    then show ?thesis using assms(2) Inr by (auto simp: publish_native_speaker_def at_clock_def act_defs)
  next
    case (Some sent)
    then have "\<exists>d. find (\<lambda>d. any_spelling (di_address d) = any_spelling address) (get_devices True (shared_manager a)) = Some d \<and>
        di_trusted d \<and> di_is_audio_sink d \<and> native_speaker_record (su_now (sc n)) (Some (shared_player a)) d = Inr sent"
      using Inr by (auto simp: published_record_def map_sum_def split: option.splits if_splits sum.splits)
    moreover have "app_published (snd s') = app_published a @ [sent] \<or> app_published (snd s') = app_published a"
      using assms Inr Some by (auto simp: publish_native_speaker_def at_clock_def act_defs app_await_def split: if_splits)
    ultimately show ?thesis unfolding find_Some_iff using nth_mem by blast
  qed
qed

lemma elapsed_idle: "(\<And>i x. g i x = x) \<Longrightarrow> elapsed g n n' x = x"
proof -
  assume g: "\<And>i x. g i x = x"
  have "fold g ks x = x" for ks by (induction ks) (simp_all add: g)
  then show ?thesis by (simp add: elapsed_def)
qed

text \<open>
  A queue command is never retried and never touches Bluetooth: when no other task changes the manager,
  the cache, the links, the agent's window and the events of the manager are afterwards what they were,
  whether the command succeeded or not.
\<close>
theorem queue_commands_leave_bluetooth_alone:
  assumes "nc_operation c \<in> set NON_RETRYABLE_QUEUE_OPERATIONS"
    and "\<forall>k m. su_others (au_manager (sc k)) m = m"
  shows "(app_manager (snd (snd (run_command c a sc s))))\<lparr>m_health := None\<rparr> = (app_manager (snd s))\<lparr>m_health := None\<rparr>"
proof -
  have idle: "elapsed (\<lambda>i. su_others (au_manager (sc i))) k k' m = m" for k k' m
    by (rule elapsed_idle) (simp add: assms(2))
  have player: "(app_manager (snd (snd (on_player f sc s))))\<lparr>m_health := None\<rparr> = (app_manager (snd s))\<lparr>m_health := None\<rparr>"
    for f :: "queue_view option play"
    by (auto simp: on_player_def Let_def idle shared_manager_def split: prod.splits)
  have failed: "snd (handle_command_failure c a e sc t) = t" for e t
    using assms(1) by (auto simp: handle_command_failure_def throw_def)
  have "\<exists>f :: queue_view option play. snd (issue_command c a sc s) = snd (on_player f sc s)"
  proof (cases "nc_operation c = NO_queue_start")
    case True
    have "snd (issue_command c a sc s) =
        snd (on_player (start_queue a (nc_playlist c) (map dumped_item (or_else [] (nc_items c)))) sc s)"
      by (simp add: issue_command_def True and_then_def ret_def split: prod.split sum.split)
    then show ?thesis by blast
  next
    case False
    then have "nc_operation c \<in> set QUEUE_CONTROL_OPERATIONS" using assms(1) by (simp add: NON_RETRYABLE_QUEUE_OPERATIONS_def)
    then have "snd (issue_command c a sc s) = snd (on_player (control_queue a (queue_operation_of (nc_operation c))
        (nc_shuffle c) (map_option repeat_name (nc_repeat c))) sc s)"
      using False by (simp add: issue_command_def and_then_def ret_def split: prod.split sum.split)
    then show ?thesis by blast
  qed
  moreover have "snd (run_command c a sc s) = snd (issue_command c a sc s)"
    using failed by (auto simp: run_command_def try_catch_def split: prod.splits sum.splits)
  ultimately show ?thesis using player by metis
qed

theorem queue_commands_leave_bluetooth_alone_witness:
  "(app_manager (snd (snd (run_command (plain_command NO_next) witness_address calm_app (0, witness_app)))))\<lparr>m_health := None\<rparr>
     = (app_manager witness_app)\<lparr>m_health := None\<rparr>"
  using queue_commands_leave_bluetooth_alone [of "plain_command NO_next" calm_app witness_address "(0, witness_app)"]
  by (simp add: plain_command_def NON_RETRYABLE_QUEUE_OPERATIONS_def QUEUE_CONTROL_OPERATIONS_def calm_app_def calm_def)

theorem only_trusted_speakers_are_published_witness:
  "app_published (snd (snd (publish_native_speaker witness_address calm_app (0, witness_app)))) = []"
proof -
  obtain r s' where run: "publish_native_speaker witness_address calm_app (0, witness_app) = (r, s')"
    by (cases "publish_native_speaker witness_address calm_app (0, witness_app)")
  have calm: "\<forall>k b. app_published (su_others (calm_app k) b) = app_published b" by (simp add: calm_app_def)
  have "get_devices True (shared_manager witness_app) = []" "app_published witness_app = []"
    by (simp_all add: get_devices_def shared_manager_def witness_app_def new_manager_def)
  then show ?thesis
    using only_trusted_speakers_are_published [OF calm run] by (simp add: run)
qed

section \<open>Forgetting a speaker\<close>

text \<open>Successful runs, taken apart.\<close>

lemma and_then_success:
  assumes "and_then f g sc s = (Inr y, s')"
  obtains x s1 where "f sc s = (Inr x, s1)" "g x sc s1 = (Inr y, s')"
  using assms unfolding and_then_def by (auto split: prod.splits sum.splits)

lemma managed_success: "managed reason f sc s = (Inr y, s') \<Longrightarrow> f sc s = (Inr y, s')"
  unfolding managed_def try_catch_def by (auto simp: throw_def split: prod.splits sum.splits if_splits)

lemma with_auth_success: "with_auth h f sc s = (Inr y, s') \<Longrightarrow> f sc s = (Inr y, s')"
  unfolding with_auth_def and_then_def query_def by (auto split: sum.splits)

lemma routed_success:
  assumes "and_then (from_sum (route_address address)) f sc s = (Inr y, s')"
  obtains x where "normalize_address address = Inr x" "f x sc s = (Inr y, s')"
  using assms unfolding and_then_def from_sum_def route_address_def by (auto split: sum.splits)

definition app_alone :: "(nat \<Rightarrow> app_pause) \<Rightarrow> bool" where
  "app_alone sc \<longleftrightarrow> (\<forall>k. su_others (sc k) = (\<lambda>b. b) \<and> (\<forall>e. au_engine (sc k) e = e) \<and>
     (\<forall>p. su_others (au_player (sc k)) p = p) \<and> (\<forall>m. su_others (au_manager (sc k)) m = m))"

lemma alone_elapsed:
  assumes "app_alone sc"
  shows "elapsed (\<lambda>i. au_engine (sc i)) k k' e = e" "elapsed (\<lambda>i. su_others (au_player (sc i))) k k' p = p"
    "elapsed (\<lambda>i. su_others (au_manager (sc i))) k k' m = m"
  using assms by (simp_all add: app_alone_def elapsed_idle)

lemma alone_publish:
  assumes "app_alone sc" "publish_native_speaker address sc (n, a) = (r, s')"
  shows "\<exists>ps. snd s' = a\<lparr>app_published := ps\<rparr>"
proof -
  have same: "\<exists>ps. a = a\<lparr>app_published := ps\<rparr>" by (rule exI [of _ "app_published a"]) simp
  show ?thesis
    using assms same
    by (auto simp: publish_native_speaker_def at_clock_def act_defs app_await_def app_alone_def
        split: sum.splits option.splits if_splits)
qed

lemma alone_manager:
  assumes "app_alone sc" "on_manager f sc (n, a) = (r, n1, a1)"
  shows "app_engine a1 = shared_engine a" "app_config a1 = app_config a" "app_player a1 = shared_player a"
  using assms(2) by (auto simp: on_manager_def Let_def alone_elapsed [OF assms(1)] or_else_def shared_player_def split: prod.splits)

lemma unregistered:
  "profile_of (unregister_address x e) x = None" "dict_get (e_inflight (unregister_address x e)) x = None"
  by (auto simp: unregister_address_def Let_def profile_of_def cancel_task_def split: option.splits)

text \<open>
  C20. Removing a speaker forgets it everywhere: when the request succeeds and no other task changes the
  application meanwhile, no reconnect profile, no reconnect attempt and no configuration record of the
  address are left, and of the configuration nothing else changed.
\<close>
theorem removal_forgets_the_speaker:
  assumes "app_alone sc" and "native_remove_device address header sc (n, a) = (Inr (removed, x), s')"
  shows "normalize_address address = Inr x \<and> profile_of (app_engine (snd s')) x = None \<and>
    dict_get (e_inflight (app_engine (snd s'))) x = None \<and> get_speaker (app_config (snd s')) x = None \<and>
    (\<forall>k. k \<noteq> record_key x \<longrightarrow> dict_get (speakers_of (app_config (snd s'))) k = dict_get (speakers_of (app_config a)) k)"
proof -
  obtain y where y: "normalize_address address = Inr y"
    and managed: "managed ''Device removal failed'' (and_then (on_manager (remove_device y)) (\<lambda>removed.
          and_then (on_engine (unregister_speaker y)) (\<lambda>_.
          and_then (on_config (\<lambda>c. map_prod Inr id (remove_speaker y c))) (\<lambda>_.
          and_then (publish_native_speaker y) (\<lambda>_. ret (removed, y)))))) sc (n, a) = (Inr (removed, x), s')"
    using with_auth_success [OF assms(2) [unfolded native_remove_device_def]] by (rule routed_success)
  note run = managed_success [OF managed]
  obtain r1 t1 where first: "on_manager (remove_device y) sc (n, a) = (Inr r1, t1)"
    and then1: "and_then (on_engine (unregister_speaker y)) (\<lambda>_.
          and_then (on_config (\<lambda>c. map_prod Inr id (remove_speaker y c))) (\<lambda>_.
          and_then (publish_native_speaker y) (\<lambda>_. ret (r1, y)))) sc t1 = (Inr (removed, x), s')"
    by (rule and_then_success [OF run])
  obtain n1 a1 where t1: "t1 = (n1, a1)" by (cases t1)
  note s1 = first [unfolded t1] and run1 = then1 [unfolded t1]
  have stable: "normalize_address y = Inr y" by (rule address.canon_stable [OF y])
  define e where "e = unregister_address y (shared_engine a1)"
  define a2 where "a2 = a1\<lparr>app_engine := e, app_health := or_else (app_health a1) (e_health e)\<rparr>"
  define c where "c = snd (remove_speaker y (app_config a1))"
  have "on_engine (unregister_speaker y) sc (n1, a1) = (Inr (), n1, a2)"
    by (simp add: on_engine_def unregister_speaker_def stable a2_def e_def)
  moreover have "on_config (\<lambda>c. map_prod Inr id (remove_speaker y c)) sc (n1, a2) =
      (Inr (fst (remove_speaker y (app_config a1))), n1, a2\<lparr>app_config := c\<rparr>)"
    by (cases "remove_speaker y (app_config a1)") (simp add: on_config_def on_app_def a2_def c_def)
  ultimately obtain r3 s3 where s3: "publish_native_speaker y sc (n1, a2\<lparr>app_config := c\<rparr>) = (Inr r3, s3)"
    and last: "ret (r1, y) sc s3 = (Inr (removed, x), s')"
    using run1 by (auto simp: and_then_def split: prod.splits sum.splits)
  have x: "x = y" "s' = s3" using last by (simp_all add: ret_def)
  obtain ps where "snd s' = a2\<lparr>app_config := c, app_published := ps\<rparr>"
    using alone_publish [OF assms(1) s3] x(2) by blast
  then have parts: "app_engine (snd s') = e" "app_config (snd s') = c" by (simp_all add: a2_def)
  have cfg: "app_config a1 = app_config a" by (rule alone_manager [OF assms(1) s1])
  have "record_key y = record_key y" ..
  have c: "dict_get (speakers_of c) (record_key y) = None"
    "k \<noteq> record_key y \<Longrightarrow> dict_get (speakers_of c) k = dict_get (speakers_of (app_config a)) k" for k
    by (auto simp: c_def cfg remove_speaker_def Let_def)
  show ?thesis
    using y c parts unregistered [of y "shared_engine a1"] by (simp add: x(1) e_def get_speaker_def)
qed

lemma witness_alone: "app_alone calm_app"
  by (simp add: app_alone_def calm_app_def calm_def calm_play_def)

theorem removal_forgets_the_speaker_witness:
  "\<exists>removed s'. native_remove_device witness_address (Some ''Bearer secret'') calm_app (0, witness_app)
      = (Inr (removed, witness_address), s') \<and> get_speaker (app_config (snd s')) witness_address = None"
proof -
  have parts: "m_devices (shared_manager witness_app) = []" "m_bus (shared_manager witness_app) = None"
    by (simp_all add: shared_manager_def witness_app_def new_manager_def)
  have "\<exists>a1. on_manager (remove_device witness_address) calm_app (0, witness_app) = (Inr False, 0, a1) \<and>
      m_devices (app_manager a1) = []"
    by (simp add: on_manager_def remove_device_def get_device_by_address_def ensure_device_def act_defs witness_address_ok
        parts live_object_def has_bus_def Let_def)
  then obtain a1 where a1: "on_manager (remove_device witness_address) calm_app (0, witness_app) = (Inr False, 0, a1)"
    "m_devices (app_manager a1) = []" by blast
  have "\<exists>s'. native_remove_device witness_address (Some ''Bearer secret'') calm_app (0, witness_app)
      = (Inr (False, witness_address), s')"
    by (cases "remove_speaker witness_address (app_config a1)")
      (simp add: native_remove_device_def with_auth_def witness_auth act_defs route_address_def witness_address_ok
        managed_def a1 on_engine_def unregister_speaker_def on_config_def on_app_def publish_native_speaker_def
        at_clock_def published_record_def get_devices_def shared_manager_def)
  then show ?thesis using removal_forgets_the_speaker [OF witness_alone] by blast
qed

section \<open>A speaker whose reconnection was switched off\<close>

text \<open>The engine runs, and the profile of the address is absent or enabled.\<close>

definition unarmed :: "string \<Rightarrow> config_store \<Rightarrow> app \<Rightarrow> bool" where
  "unarmed x c a \<longleftrightarrow> e_running (app_engine a) \<and> e_enabled (app_engine a) \<and>
     (\<forall>p. profile_of (app_engine a) x = Some p \<longrightarrow> p_enabled p) \<and> app_config a = c"

interpretation alone: fair_actions app_alone "unarmed x c" for x c
  by unfold_locales (simp add: app_alone_def others_keep_def)

lemma shared_engine_simps [simp]:
  "e_running (shared_engine a) = e_running (app_engine a)" "e_enabled (shared_engine a) = e_enabled (app_engine a)"
  "profile_of (shared_engine a) x = profile_of (app_engine a) x"
  by (simp_all add: shared_engine_def profile_of_def)

lemma unarmed_player:
  assumes "\<And>p. p_config (snd (f p)) = p_config p"
  shows "keeps_under app_alone (unarmed x c) (on_player (state_op f))"
  unfolding keeps_under_def
proof (intro allI impI)
  fix sc and s :: "nat \<times> app" assume sc: "app_alone sc" and s: "unarmed x c (snd s)"
  have "p_config (snd (f (shared_player (snd s)))) = Some (app_config (snd s))"
    by (simp add: assms shared_player_def)
  then show "unarmed x c (snd (snd (on_player (state_op f) sc s)))"
    using s by (cases "f (shared_player (snd s))")
      (simp add: on_player_def state_op_def Let_def alone_elapsed [OF sc] unarmed_def or_else_def)
qed

lemma player_ops_config:
  "p_config (snd (invalidate_playback_session a p)) = p_config p" "p_config (snd (register_keepalive a p)) = p_config p"
  "p_config (snd (unregister_keepalive a p)) = p_config p"
proof -
  have inv: "p_config (snd (invalidate_session b q)) = p_config q" for b q
    by (auto simp: invalidate_session_def next_playback_generation_def Let_def update_session_def split: option.splits)
  show "p_config (snd (invalidate_playback_session a p)) = p_config p"
    using inv by (auto simp: invalidate_playback_session_def split: sum.splits prod.splits) (metis snd_conv)
  show "p_config (snd (register_keepalive a p)) = p_config p"
    by (auto simp: register_keepalive_def start_sink_warmup_def track_task_def split: sum.splits)
  show "p_config (snd (unregister_keepalive a p)) = p_config p"
    using inv by (auto simp: unregister_keepalive_def Let_def split: sum.splits)
qed

lemma registered_enabled:
  assumes "register_speaker address True ad e = Inr e'" "normalize_address address = Inr x" "e_enabled e"
  shows "\<exists>p. profile_of e' x = Some p \<and> p_enabled p" "e_running e' = e_running e" "e_enabled e' = e_enabled e"
  using assms by (auto simp: register_speaker_def profile_of_def new_profile_def Let_def split: option.splits)

lemma unarmed_register:
  assumes "normalize_address address = Inr x"
  shows "keeps_under app_alone (unarmed x c) (on_engine (register_speaker address True None))"
  unfolding keeps_under_def on_engine_def
  using registered_enabled [OF _ assms]
  by (fastforce simp: unarmed_def split: sum.splits)

lemma unarmed_event:
  assumes "normalize_address (di_address d) = Inr x"
  shows "keeps_under app_alone (unarmed x c) (on_device_info running d)"
proof -
  have task: "keeps_under app_alone (unarmed x c) (modify (spawn_task running t))" for t
    by (rule alone.changed) (simp add: spawn_task_def unarmed_def)
  show ?thesis
    unfolding on_device_info_def invalidate_and_schedule_playback_stop_def
    by (intro alone.bind alone.branch alone.basic task unarmed_player unarmed_register [OF assms] player_ops_config)
qed

lemma event_arms:
  assumes "normalize_address (di_address d) = Inr x" "e_enabled e" "\<And>p. profile_of e x = Some p \<Longrightarrow> p_enabled p"
    "di_is_audio_sink d" "di_trusted d \<or> di_paired d \<or> di_connected d"
  shows "\<exists>f p. on_device_event d now e = Inr f \<and> profile_of f x = Some p \<and> p_enabled p"
proof -
  let ?e = "if dict_get (e_profiles e) x = None then keep_on_error e (register_speaker x True None e) else e"
  have stable: "normalize_address x = Inr x" by (rule address.canon_stable [OF assms(1)])
  obtain e' where e': "register_speaker x True None e = Inr e'"
    using stable assms(2) by (cases "dict_get (e_profiles e) x") (simp_all add: register_speaker_def Let_def)
  have "\<exists>p. profile_of ?e x = Some p \<and> p_enabled p"
    using registered_enabled(1) [OF e' stable assms(2)] assms(3) e' by (auto simp: profile_of_def)
  then obtain pid where pid: "dict_get (e_profiles ?e) x = Some pid" "p_enabled (e_heap ?e pid)"
    by (auto simp: profile_of_def)
  have "on_device_event d now e = Inr (on_known_device x pid (di_connected d) now ?e)"
    using assms(1,4,5) pid(1) e' by (auto simp: on_device_event_def on_registered_device_def)
  moreover have "profile_of (on_known_device x pid up now f) x = Some (if up then link_up now (e_heap f pid) else link_down now (e_heap f pid))"
    if "dict_get (e_profiles f) x = Some pid" "p_enabled (e_heap f pid)" for up f
    using that by (auto simp: on_known_device_def Let_def profile_of_def observe_state_def observe_flap_def)
  moreover have "p_enabled (link_up now p) = p_enabled p" "p_enabled (link_down now p) = p_enabled p" for p
    by (simp_all add: link_up_def link_down_def Let_def)
  ultimately show ?thesis using pid by simp
qed

lemma fails_on_player:
  assumes "\<And>p e p'. f p = (Inl e, p') \<Longrightarrow> F e"
  shows "fails_with F (on_player (state_op f))"
  unfolding fails_with_def on_player_def state_op_def
  using assms by (fastforce simp: Let_def split: prod.splits)

lemma fails_event: "fails_with (\<lambda>e. e \<noteq> CancelledError) (on_bt_event running ev)"
proof -
  have addr: "normalize_address a = Inl e \<Longrightarrow> e \<noteq> CancelledError" for a e
    by (auto simp: normalize_address_def address_error_def Let_def split: if_splits)
  have reg: "fails_with (\<lambda>e. e \<noteq> CancelledError) (on_engine (register_speaker a True None))" for a
    by (auto simp: fails_with_def on_engine_def register_speaker_def Let_def dest: addr split: sum.splits if_splits option.splits)
  have ops: "fails_with (\<lambda>e. e \<noteq> CancelledError) (on_player (state_op (invalidate_playback_session a)))"
    "fails_with (\<lambda>e. e \<noteq> CancelledError) (on_player (state_op (register_keepalive a)))"
    "fails_with (\<lambda>e. e \<noteq> CancelledError) (on_player (state_op (unregister_keepalive a)))" for a
    by (rule fails_on_player; auto simp: invalidate_playback_session_def register_keepalive_def unregister_keepalive_def
        Let_def dest: addr split: sum.splits prod.splits)+
  have task: "fails_with (\<lambda>e. e \<noteq> CancelledError) (modify f)" for f :: "app \<Rightarrow> app"
    by (simp add: fails_with_def modify_def)
  have "fails_with (\<lambda>e. e \<noteq> CancelledError) (on_device_info running d)" for d
    unfolding on_device_info_def invalidate_and_schedule_playback_stop_def
    by (intro fails_bind fails_branch reg ops task fails_basic)
  then show ?thesis
    unfolding on_bt_event_def by (auto intro!: fails_bind task fails_basic split: bt_event.split)
qed

text \<open>
  C21. While the engine runs and the global switch for reconnection is on, an event arms reconnection for a
  speaker whatever was decided for this speaker: the update of an audio device that is trusted, paired or
  connected leaves an enabled reconnect profile for it, though its record in the configuration says that it is
  not to be reconnected and the request that said so had removed the profile, and though the operator never
  trusted it. The configuration is not consulted and not changed. The comment in \<open>main.py\<close> that arming is never a
  consequence of a device that merely paired or connected is not true of the engine's own listener.
\<close>
theorem events_arm_reconnection:
  assumes "app_alone sc" and "normalize_address (di_address d) = Inr x"
    and "e_running (app_engine a)" and "e_enabled (app_engine a)" and "profile_of (app_engine a) x = None"
    and "di_is_audio_sink d" and "di_trusted d \<or> di_paired d \<or> di_connected d"
  shows "\<exists>s' p. dispatch_event running (DeviceUpdated d) sc (n, a) = (Inr (), s') \<and>
     profile_of (app_engine (snd s')) x = Some p \<and> p_enabled p \<and> app_config (snd s') = app_config a"
proof -
  have task: "keeps_under app_alone (unarmed x c) (modify (spawn_task running t))" for t c
    by (rule alone.changed) (simp add: spawn_task_def unarmed_def)
  have "keeps_under app_alone (unarmed x c) (try_catch (on_bt_event running (DeviceUpdated d)) (\<lambda>_. ret ()))" for c
    unfolding on_bt_event_def
    by (auto intro!: alone.handled alone.bind alone.basic task unarmed_event [OF assms(2)])
  moreover have "unarmed x (app_config a) a" using assms(3-5) by (simp add: unarmed_def)
  moreover obtain r s1 where s1: "try_catch (on_bt_event running (DeviceUpdated d)) (\<lambda>_. ret ()) sc (n, a) = (r, s1)"
    by (cases "try_catch (on_bt_event running (DeviceUpdated d)) (\<lambda>_. ret ()) sc (n, a)")
  ultimately have un: "unarmed x (app_config a) (snd s1)"
    unfolding keeps_under_def using assms(1) by (metis snd_conv)
  have r: "r = Inr ()"
  proof -
    have "on_bt_event running (DeviceUpdated d) sc (n, a) \<noteq> (Inl CancelledError, t)" for t
      using fails_event unfolding fails_with_def by blast
    then show ?thesis
      using s1 by (auto simp: try_catch_def ret_def split: prod.splits sum.splits if_splits)
  qed
  have "\<exists>f p. on_device_event d (su_now (sc (fst s1))) (shared_engine (snd s1)) = Inr f \<and>
      profile_of f x = Some p \<and> p_enabled p"
    by (rule event_arms [OF assms(2) _ _ assms(6,7)]) (use un in \<open>simp_all add: unarmed_def\<close>)
  then obtain f p where "on_device_event d (su_now (sc (fst s1))) (shared_engine (snd s1)) = Inr f"
    "profile_of f x = Some p" "p_enabled p" by blast
  then have "\<exists>s'. try_catch (at_clock (\<lambda>now. on_engine (handle_bluetooth_event (DeviceUpdated d) now))) (\<lambda>_. ret ()) sc s1 =
      (Inr (), s') \<and> profile_of (app_engine (snd s')) x = Some p \<and> p_enabled p \<and> app_config (snd s') = app_config a"
    using un by (simp add: at_clock_def on_engine_def handle_bluetooth_event_def unarmed_def try_catch_def)
  then show ?thesis by (auto simp: dispatch_event_def and_then_def s1 r)
qed

definition armed_app :: app where
  "armed_app = witness_app\<lparr>app_engine := (app_engine witness_app)\<lparr>e_running := True\<rparr>\<rparr>"

definition unknown_sink :: device_info where
  "unknown_sink = (device_to_info witness_device)\<lparr>di_address := witness_address, di_is_audio_sink := True,
     di_connected := True, di_trusted := False\<rparr>"

theorem events_arm_reconnection_witness:
  "\<exists>s' p. dispatch_event True (DeviceUpdated unknown_sink) calm_app (0, armed_app) = (Inr (), s') \<and>
     profile_of (app_engine (snd s')) witness_address = Some p \<and> p_enabled p"
proof -
  have "e_running (app_engine armed_app)" "e_enabled (app_engine armed_app)"
    "profile_of (app_engine armed_app) witness_address = None"
    by (simp_all add: armed_app_def witness_app_def new_engine_def policy_error_def default_policy_def profile_of_def)
  moreover have "normalize_address (di_address unknown_sink) = Inr witness_address" "di_is_audio_sink unknown_sink"
    "di_connected unknown_sink"
    by (simp_all add: unknown_sink_def witness_address_ok)
  ultimately show ?thesis
    using events_arm_reconnection [OF witness_alone, where d = unknown_sink and x = witness_address and a = armed_app
        and running = True and n = 0] by blast
qed

end
