(* ===== verification/Body_Limit.thy ===== *)
theory Body_Limit
  imports Py_Numbers
begin

text \<open>
  \<open>NativeCommandBodyLimitMiddleware\<close> of \<open>main.py\<close>: the body of a native command is read before the
  application parses it, and refused when it is too large. The application behind it is given by the
  messages it can receive; bytes are characters. \<open>Waiting\<close> is the middleware still awaiting a message
  when no more of them come.
\<close>

section \<open>The middleware\<close>

definition MAX_NATIVE_COMMAND_BODY_BYTES :: nat where "MAX_NATIVE_COMMAND_BODY_BYTES = 2 * 1024 * 1024"
definition API_PREFIX :: string where "API_PREFIX = ''/api''"

record http_scope =
  sc_type :: string
  sc_method :: string
  sc_path :: string
  sc_headers :: "(string \<times> string) list"

datatype http_message = Http_disconnect | Http_request string bool | Http_other string

datatype limit_result = Forwarded "http_message list" | Rejected | Gone | Waiting

definition limits_body :: "http_scope \<Rightarrow> bool" where
  "limits_body sc \<longleftrightarrow>
     sc_type sc = ''http'' \<and> sc_method sc = ''POST'' \<and>
     starts_with (API_PREFIX @ ''/native/speakers/'') (sc_path sc) \<and> ends_with ''/command'' (sc_path sc)"

text \<open>\<open>int(content_length)\<close> of bytes, which strips only ASCII white space.\<close>

definition ascii_space :: "char \<Rightarrow> bool" where
  "ascii_space c \<longleftrightarrow> ord_of c = 32 \<or> (9 \<le> ord_of c \<and> ord_of c \<le> 13)"

definition bytes_int :: "string \<Rightarrow> int option" where
  "bytes_int b = py_int (rev (dropWhile ascii_space (rev (dropWhile ascii_space b))))"

text \<open>\<open>dict(headers)\<close> keeps the last value of a name; a length that is not a number is ignored.\<close>

definition declared_too_large :: "http_scope \<Rightarrow> bool" where
  "declared_too_large sc \<longleftrightarrow>
     (case map_of (rev (sc_headers sc)) ''content-length'' of
        None \<Rightarrow> False
      | Some v \<Rightarrow> (case bytes_int v of None \<Rightarrow> False | Some n \<Rightarrow> n > int MAX_NATIVE_COMMAND_BODY_BYTES))"

fun collect_body :: "string \<Rightarrow> http_message list \<Rightarrow> limit_result" where
  "collect_body body [] = Waiting"
| "collect_body body (Http_disconnect # ms) = Gone"
| "collect_body body (Http_other t # ms) = collect_body body ms"
| "collect_body body (Http_request chunk more_body # ms) =
     (if length body + length chunk > MAX_NATIVE_COMMAND_BODY_BYTES then Rejected
      else if more_body then collect_body (body @ chunk) ms
      else Forwarded (Http_request (body @ chunk) False # ms))"

definition limit_command_body :: "http_scope \<Rightarrow> http_message list \<Rightarrow> limit_result" where
  "limit_command_body sc ms =
     (if \<not> limits_body sc then Forwarded ms
      else if declared_too_large sc then Rejected else collect_body [] ms)"

section \<open>The limit is on the whole body\<close>

text \<open>A body sent in the given chunks, then whatever else the connection delivers.\<close>

fun chunked :: "string list \<Rightarrow> http_message list \<Rightarrow> http_message list" where
  "chunked [] rest = rest"
| "chunked [c] rest = Http_request c False # rest"
| "chunked (c # d # cs) rest = Http_request c True # chunked (d # cs) rest"

lemma collect_chunked:
  assumes "cs \<noteq> []" "length body \<le> MAX_NATIVE_COMMAND_BODY_BYTES"
  shows "collect_body body (chunked cs rest) =
     (if length (body @ concat cs) \<le> MAX_NATIVE_COMMAND_BODY_BYTES
      then Forwarded (Http_request (body @ concat cs) False # rest) else Rejected)"
  using assms
proof (induction cs rest arbitrary: body rule: chunked.induct)
  case (3 c d cs rest)
  show ?case
  proof (cases "length (body @ c) \<le> MAX_NATIVE_COMMAND_BODY_BYTES")
    case True
    then show ?thesis using "3.IH" [of "body @ c"] by simp
  qed simp
qed auto

lemma collect_bounded:
  assumes "collect_body body ms = Forwarded out"
  shows "\<exists>b rest. out = Http_request b False # rest \<and> length b \<le> MAX_NATIVE_COMMAND_BODY_BYTES"
  using assms by (induction body ms rule: collect_body.induct) (auto split: if_splits)

text \<open>
  C26. The body limit is a limit on the whole body: however a command's body is split into messages, the
  application receives it in one piece exactly when the declared length and the sum of the chunks are
  within 2 MiB, with the rest of the connection untouched, and the request is refused otherwise; whatever
  else the connection delivers, what is handed on of a command never exceeds the limit. Every other
  request passes through unchanged.
\<close>
theorem body_limit_on_whole_body:
  assumes "cs \<noteq> []"
  shows "(limits_body sc \<longrightarrow> limit_command_body sc (chunked cs rest) =
      (if \<not> declared_too_large sc \<and> length (concat cs) \<le> MAX_NATIVE_COMMAND_BODY_BYTES
       then Forwarded (Http_request (concat cs) False # rest) else Rejected)) \<and>
    (limits_body sc \<longrightarrow> limit_command_body sc ms = Forwarded out \<longrightarrow>
       (\<exists>b tail. out = Http_request b False # tail \<and> length b \<le> MAX_NATIVE_COMMAND_BODY_BYTES)) \<and>
    (\<not> limits_body sc \<longrightarrow> limit_command_body sc ms = Forwarded ms)"
  using collect_chunked [OF assms, where body = "[]" and rest = rest] collect_bounded
  by (auto simp: limit_command_body_def)

definition witness_scope :: http_scope where
  "witness_scope = \<lparr>sc_type = ''http'', sc_method = ''POST'', sc_path = ''/api/native/speakers/x/command'',
     sc_headers = [(''content-length'', ''3'')]\<rparr>"

theorem body_limit_on_whole_body_witness:
  "limit_command_body witness_scope (chunked [''a'', ''bc''] [Http_disconnect]) =
     Forwarded [Http_request ''abc'' False, Http_disconnect]"
proof -
  have "limits_body witness_scope"
    by (simp add: limits_body_def witness_scope_def starts_with_def ends_with_def API_PREFIX_def)
  moreover have "bytes_int ''3'' = Some 3"
    by (simp add: bytes_int_def ascii_space_def py_int_def unsigned_int_def is_digit_def ord_of_def)
  then have "\<not> declared_too_large witness_scope"
    by (simp add: declared_too_large_def witness_scope_def MAX_NATIVE_COMMAND_BODY_BYTES_def)
  ultimately show ?thesis
    using body_limit_on_whole_body [where cs = "[''a'', ''bc'']" and sc = witness_scope and rest = "[Http_disconnect]"
      and ms = "[]" and out = "[]"]
    by (simp add: MAX_NATIVE_COMMAND_BODY_BYTES_def)
qed

end
