(* ===== verification/Json_Text.thy ===== *)
theory Json_Text
  imports Config_Store Py_Numbers "HOL-Library.Multiset" "HOL-Library.Char_ord" "HOL-Library.List_Lexorder"
begin

text \<open>
  The text \<open>json.dumps(value, sort_keys=True, separators=(",", ":"))\<close> writes: keys in order, no blanks, every
  character outside printable ASCII escaped. \<open>float_text\<close> is \<open>repr\<close> of a float. Used by the diagnostics,
  which bound the length of the text, and by the incident recorder, which stores it line by line.
\<close>

section \<open>Texts\<close>

definition hex_digit_of :: "nat \<Rightarrow> char" where
  "hex_digit_of n = (if n < 10 then char_of (48 + n) else char_of (87 + n))"

definition escaped_char :: "char \<Rightarrow> string" where
  "escaped_char c =
     (let n = ord_of c
      in if n = 34 then [CHR 0x5C, CHR 0x22] else if n = 92 then [CHR 0x5C, CHR 0x5C]
         else if n = 10 then [CHR 0x5C, CHR ''n''] else if n = 13 then [CHR 0x5C, CHR ''r'']
         else if n = 9 then [CHR 0x5C, CHR ''t''] else if n = 12 then [CHR 0x5C, CHR ''f'']
         else if n = 8 then [CHR 0x5C, CHR ''b'']
         else if n < 32 \<or> 126 < n
           then [CHR 0x5C, CHR ''u'', CHR ''0'', CHR ''0'', hex_digit_of (n div 16), hex_digit_of (n mod 16)]
         else [c])"

definition json_string :: "string \<Rightarrow> string" where
  "json_string s = CHR 0x22 # concat (map escaped_char s) @ [CHR 0x22]"

definition int_text :: "int \<Rightarrow> string" where
  "int_text n = (if n < 0 then CHR ''-'' # show_nat (nat (- n)) else show_nat (nat n))"

fun comma_separated :: "string list \<Rightarrow> string" where
  "comma_separated [] = []"
| "comma_separated [s] = s"
| "comma_separated (s # t # ts) = s @ CHR '','' # comma_separated (t # ts)"

fun json_text :: "(real \<Rightarrow> string) \<Rightarrow> json \<Rightarrow> string" where
  "json_text fl JNull = ''null''"
| "json_text fl (JBool b) = (if b then ''true'' else ''false'')"
| "json_text fl (JInt n) = int_text n"
| "json_text fl (JFloat x) = fl x"
| "json_text fl (JString s) = json_string s"
| "json_text fl (JList xs) = CHR ''['' # comma_separated (map (json_text fl) xs) @ '']''"
| "json_text fl (JObject fs) =
     CHR ''{'' # comma_separated
       (map (\<lambda>(k, t). json_string k @ CHR '':'' # t) (sort_key fst (map (\<lambda>(k, v). (k, json_text fl v)) fs))) @ ''}''"

section \<open>Lengths\<close>

lemma escaped_length: "length (escaped_char c) \<le> 6"
  by (simp add: escaped_char_def Let_def)

lemma json_string_length: "length (json_string s) \<le> 6 * length s + 2"
proof -
  have "length (concat (map escaped_char s)) \<le> 6 * length s"
  proof (induction s)
    case (Cons c s)
    then show ?case using escaped_length [of c] by simp
  qed simp
  then show ?thesis by (simp add: json_string_def)
qed

lemma comma_length: "length (comma_separated ts) \<le> sum_list (map (\<lambda>t. length t + 1) ts)"
  by (induction ts rule: comma_separated.induct) auto

lemma object_length:
  "length (json_text fl (JObject fs)) \<le>
     2 + sum_list (map (\<lambda>(k, v). length (json_string k) + length (json_text fl v) + 2) fs)"
proof -
  let ?ts = "map (\<lambda>(k, v). (k, json_text fl v)) fs"
  let ?size = "\<lambda>(k, t). length (json_string k) + length t + 2"
  have "length (comma_separated (map (\<lambda>(k, t). json_string k @ CHR '':'' # t) (sort_key fst ?ts)))
      \<le> sum_list (map ?size (sort_key fst ?ts))"
    using comma_length [of "map (\<lambda>(k, t). json_string k @ CHR '':'' # t) (sort_key fst ?ts)"]
    by (simp add: comp_def case_prod_unfold)
  also have "sum_list (map ?size (sort_key fst ?ts)) = sum_list (map ?size ?ts)"
  proof -
    have "sum_mset (mset (map ?size (sort_key fst ?ts))) = sum_mset (mset (map ?size ?ts))"
      unfolding mset_map mset_sort by simp
    then show ?thesis unfolding sum_mset_sum_list .
  qed
  also have "\<dots> = sum_list (map (\<lambda>(k, v). length (json_string k) + length (json_text fl v) + 2) fs)"
    by (simp add: comp_def case_prod_unfold)
  finally show ?thesis by simp
qed

lemma escaped_nonempty: "1 \<le> length (escaped_char c)"
  by (simp add: escaped_char_def Let_def)

lemma json_string_contains: "length s \<le> length (json_string s)"
proof -
  have "length s \<le> length (concat (map escaped_char s))"
  proof (induction s)
    case (Cons c s)
    then show ?case using escaped_nonempty [of c] by simp
  qed simp
  then show ?thesis by (simp add: json_string_def)
qed

lemma comma_contains: "t \<in> set ts \<Longrightarrow> length t \<le> length (comma_separated ts)"
  by (induction ts rule: comma_separated.induct) auto

lemma object_contains:
  assumes "(k, v) \<in> set fs"
  shows "length (json_text fl v) \<le> length (json_text fl (JObject fs))"
proof -
  let ?ts = "map (\<lambda>(k, v). (k, json_text fl v)) fs"
  have "(k, json_text fl v) \<in> set (sort_key fst ?ts)" using assms by force
  then have "json_string k @ CHR '':'' # json_text fl v \<in> set (map (\<lambda>(k, t). json_string k @ CHR '':'' # t) (sort_key fst ?ts))"
    by force
  from comma_contains [OF this] show ?thesis by simp
qed

section \<open>One line\<close>

text \<open>The text holds no line break, so it is one line of a file.\<close>

definition line_free :: "string \<Rightarrow> bool" where
  "line_free s \<longleftrightarrow> (\<forall>c \<in> set s. ord_of c \<noteq> 10 \<and> ord_of c \<noteq> 13)"

lemma line_free_simps [simp]:
  "line_free []" "line_free (c # s) \<longleftrightarrow> ord_of c \<noteq> 10 \<and> ord_of c \<noteq> 13 \<and> line_free s"
  "line_free (s @ t) \<longleftrightarrow> line_free s \<and> line_free t"
  by (auto simp: line_free_def)

lemma line_free_show: "line_free (show_nat n)"
  using show_nat_digits [of n] by (auto simp: line_free_def list_all_iff is_digit_def)

lemma line_free_escaped: "line_free (escaped_char c)"
proof -
  have "ord_of (hex_digit_of n) \<noteq> 10 \<and> ord_of (hex_digit_of n) \<noteq> 13" if "n < 16" for n
    using that by (simp add: hex_digit_of_def ord_of_def)
  moreover have "ord_of c div 16 < 16" "ord_of c mod 16 < 16"
    by (simp_all add: ord_of_def less_mult_imp_div_less)
  ultimately show ?thesis
    by (auto simp: escaped_char_def Let_def ord_of_def)
qed

lemma line_free_string: "line_free (json_string s)"
proof -
  have "line_free (concat (map escaped_char s))" by (induction s) (auto simp: line_free_escaped)
  then show ?thesis by (simp add: json_string_def ord_of_def)
qed

lemma line_free_comma: "(\<And>t. t \<in> set ts \<Longrightarrow> line_free t) \<Longrightarrow> line_free (comma_separated ts)"
  by (induction ts rule: comma_separated.induct) (auto simp: ord_of_def)

lemma line_free_json:
  assumes "\<And>x. line_free (fl x)"
  shows "line_free (json_text fl v)"
proof (induction v)
  case (JInt n)
  show ?case by (simp add: int_text_def line_free_show ord_of_def)
next
  case (JList xs)
  then show ?case by (auto simp: ord_of_def intro!: line_free_comma)
next
  case (JObject fs)
  then show ?case
    by (fastforce simp: ord_of_def line_free_string intro!: line_free_comma)
qed (auto simp: assms line_free_string ord_of_def)

end
