(* ===== verification/Diagnostics.thy ===== *)
theory Diagnostics
  imports Health Json_Text
begin

text \<open>
  \<open>diagnostics.py\<close> with \<open>redact_value\<close> of \<open>health.py\<close>: support-facing values are cut to a bounded depth,
  width and text length, events are bounded and kept in a ring of fifty, and the snapshot projects the
  health registry. Python values of any type are \<open>any_value\<close>; what comes out is \<open>json\<close>. A mapping has
  the texts of its keys, in iteration order. Texts are Latin-1: the size of an event is exact for these, whose
  characters are written in at most six bytes; outside them one can take twelve, which only makes an event lose
  its detail sooner.
\<close>

section \<open>Values\<close>

datatype any_value =
    AV_none | AV_bool bool | AV_int int | AV_float real
  | AV_text string
  | AV_list "any_value list"
  | AV_map "(string \<times> any_value) list"
  | AV_object string

definition sensitive_key :: "string \<Rightarrow> bool" where
  "sensitive_key k \<longleftrightarrow> list_ex (\<lambda>t. py_in t (lower k)) (SECRET_TOKENS @ [''key''])"

text \<open>\<open>_SENSITIVE_QUERY_KEYS\<close> has \<open>api[_-]?key\<close> too, which contains \<open>key\<close>.\<close>

definition redact_text :: "string \<Rightarrow> string" where
  "redact_text s = (if py_in ''://'' s then redact_urls s else s)"

fun redact_value :: "any_value \<Rightarrow> any_value" where
  "redact_value (AV_map fs) =
     AV_map (fold (\<lambda>(k, v) d. dict_set k v d)
       (map (\<lambda>(k, v). (k, if sensitive_key k then AV_text REDACTED_PLACEHOLDER else redact_value v)) fs) [])"
| "redact_value (AV_list vs) = AV_list (map redact_value vs)"
| "redact_value (AV_text s) = AV_text (redact_text s)"
| "redact_value v = v"

section \<open>Bounding\<close>

definition MAX_DIAGNOSTICS_DEPTH :: nat where "MAX_DIAGNOSTICS_DEPTH = 4"
definition BOUNDED_STRING_LENGTH :: nat where "BOUNDED_STRING_LENGTH = 256"
definition OMITTED_PLACEHOLDER :: string where "OMITTED_PLACEHOLDER = ''[omitted]''"
definition MAX_EVENTS :: nat where "MAX_EVENTS = 50"
definition MAX_EVENT_AGE :: real where "MAX_EVENT_AGE = 24 * 60 * 60"
definition MAX_EVENT_BYTES :: nat where "MAX_EVENT_BYTES = 4096"
definition MAX_COLLECTION_ITEMS :: nat where "MAX_COLLECTION_ITEMS = 100"

definition OMITTED_KEYS :: "string list" where
  "OMITTED_KEYS = [''dbus_payload'', ''raw_dbus'', ''raw_output'', ''media'', ''media_url'', ''output'']"

definition omitted_key :: "string \<Rightarrow> bool" where
  "omitted_key name \<longleftrightarrow> name \<in> set OMITTED_KEYS \<or>
     list_ex (\<lambda>t. py_in t (lower name)) [''token'', ''password'', ''secret'', ''authorization'', ''credential'']"

text \<open>The loop over the sorted keys, with its \<open>continue\<close> and its \<open>break\<close>.\<close>

fun fill_result :: "(string \<times> json) list \<Rightarrow> json dict \<Rightarrow> json dict" where
  "fill_result [] result = result"
| "fill_result ((name, v) # rest) result =
     (if omitted_key name then fill_result rest result
      else (let result = dict_set name v result
            in if length result \<ge> MAX_COLLECTION_ITEMS then result else fill_result rest result))"

function bounded :: "nat \<Rightarrow> any_value \<Rightarrow> json" where
  "bounded depth value =
     (if depth > MAX_DIAGNOSTICS_DEPTH then JString OMITTED_PLACEHOLDER
      else (case value of
        AV_map fs \<Rightarrow> JObject (fill_result (map (\<lambda>(k, v). (k, bounded (Suc depth) v)) (sort_key fst fs)) [])
      | AV_list vs \<Rightarrow> JList (map (bounded (Suc depth)) (take MAX_COLLECTION_ITEMS vs))
      | AV_text s \<Rightarrow> JString (take BOUNDED_STRING_LENGTH (redact_text s))
      | AV_int n \<Rightarrow> JInt n | AV_float x \<Rightarrow> JFloat x | AV_bool b \<Rightarrow> JBool b | AV_none \<Rightarrow> JNull
      | AV_object t \<Rightarrow> JString (case safe_detail (Some t) of Some d \<Rightarrow> d | None \<Rightarrow> [])))"
  by pat_completeness auto
termination
  by (relation "measure (\<lambda>(depth, value). Suc MAX_DIAGNOSTICS_DEPTH - depth)") (auto simp: MAX_DIAGNOSTICS_DEPTH_def)

declare bounded.simps [simp del]

section \<open>Events\<close>

record diag_event =
  ev_name :: string
  ev_timestamp :: real
  ev_correlation_id :: string
  ev_component :: string
  ev_speaker :: "string option"
  ev_adapter :: "string option"
  ev_detail :: "json option"
  ev_failure_class :: "string option"
  ev_transition_reason :: "string option"
  ev_recovery :: "string option"

definition DIAGNOSTICS_EVENT_VERSION :: int where "DIAGNOSTICS_EVENT_VERSION = 1"

definition optional_field :: "string \<Rightarrow> json option \<Rightarrow> (string \<times> json) list" where
  "optional_field name v = (case v of None \<Rightarrow> [] | Some j \<Rightarrow> [(name, j)])"

definition event_fields :: "diag_event \<Rightarrow> (string \<times> json) list" where
  "event_fields e =
      [(''version'', JInt DIAGNOSTICS_EVENT_VERSION), (''name'', JString (ev_name e)), (''timestamp'', JFloat (ev_timestamp e)),
       (''correlation_id'', JString (ev_correlation_id e)), (''component'', JString (ev_component e))] @
      optional_field ''speaker'' (map_option JString (ev_speaker e)) @
      optional_field ''adapter'' (map_option JString (ev_adapter e)) @
      optional_field ''detail'' (ev_detail e) @
      optional_field ''failure_class'' (map_option JString (ev_failure_class e)) @
      optional_field ''transition_reason'' (map_option JString (ev_transition_reason e)) @
      optional_field ''recovery'' (map_option JString (ev_recovery e))"

definition event_size :: "(real \<Rightarrow> string) \<Rightarrow> diag_event \<Rightarrow> nat" where
  "event_size fl e = length (json_text fl (JObject (event_fields e)))"

text \<open>A text that is empty or absent is not recorded; one that is is cut.\<close>

definition cut_text :: "nat \<Rightarrow> string option \<Rightarrow> string option" where
  "cut_text n v = (case v of None \<Rightarrow> None | Some s \<Rightarrow> if s = [] then None else Some (take n s))"

text \<open>The arguments of \<open>record_event\<close> by their texts; \<open>fresh\<close> is the identifier \<open>uuid4\<close> would give.\<close>

record event_request =
  er_name :: string
  er_component :: string
  er_speaker :: "string option"
  er_adapter :: "string option"
  er_detail :: "any_value option"
  er_failure_class :: "string option"
  er_transition_reason :: "string option"
  er_recovery :: "string option"
  er_correlation_id :: "string option"

definition new_event :: "real \<Rightarrow> string \<Rightarrow> event_request \<Rightarrow> diag_event" where
  "new_event now fresh r =
     \<lparr>ev_name = take MAX_IDENTIFIER_LENGTH (er_name r), ev_timestamp = now,
      ev_correlation_id = (case er_correlation_id r of Some c \<Rightarrow> if c = [] then fresh else c | None \<Rightarrow> fresh),
      ev_component = take MAX_IDENTIFIER_LENGTH (er_component r),
      ev_speaker = cut_text MAX_IDENTIFIER_LENGTH (er_speaker r), ev_adapter = cut_text MAX_IDENTIFIER_LENGTH (er_adapter r),
      ev_detail = (case er_detail r of None \<Rightarrow> None | Some AV_none \<Rightarrow> None | Some v \<Rightarrow> Some (bounded 0 v)),
      ev_failure_class = er_failure_class r,
      ev_transition_reason = cut_text MAX_DETAIL_LENGTH (er_transition_reason r),
      ev_recovery = cut_text MAX_IDENTIFIER_LENGTH (er_recovery r)\<rparr>"

definition fit_event :: "(real \<Rightarrow> string) \<Rightarrow> diag_event \<Rightarrow> diag_event" where
  "fit_event fl e =
     (if event_size fl e > MAX_EVENT_BYTES then e\<lparr>ev_detail := Some (JString OMITTED_PLACEHOLDER)\<rparr> else e)"

text \<open>The deque of \<open>maxlen\<close> fifty forgets from the left.\<close>

definition push_event :: "diag_event \<Rightarrow> diag_event list \<Rightarrow> diag_event list" where
  "push_event e events = drop (Suc (length events) - MAX_EVENTS) (events @ [e])"

definition record_event ::
  "(real \<Rightarrow> string) \<Rightarrow> real \<Rightarrow> string \<Rightarrow> event_request \<Rightarrow> diag_event list \<Rightarrow> diag_event \<times> diag_event list"
where
  "record_event fl now fresh r events =
     (let e = fit_event fl (new_event now fresh r) in (e, push_event e events))"

definition recent_events :: "real \<Rightarrow> diag_event list \<Rightarrow> diag_event list" where
  "recent_events now events = filter (\<lambda>e. ev_timestamp e \<ge> now - MAX_EVENT_AGE) events"

section \<open>The snapshot\<close>

record failure_record =
  fr_component :: string
  fr_speaker :: "string option"
  fr_classification :: failure_class
  fr_detail :: "string option"
  fr_observed_at :: real

definition component_failures :: "health_snapshot \<Rightarrow> failure_record list" where
  "component_failures s = concat (map (\<lambda>(_, c). case ch_failure c of None \<Rightarrow> []
     | Some f \<Rightarrow> [\<lparr>fr_component = ch_name c, fr_speaker = None, fr_classification = classification f,
                  fr_detail = fo_detail f, fr_observed_at = fo_observed_at f\<rparr>]) (hs_components s))"

definition speaker_failures :: "health_snapshot \<Rightarrow> failure_record list" where
  "speaker_failures s = concat (map (\<lambda>(_, k). case sh_failure k of None \<Rightarrow> []
     | Some f \<Rightarrow> [\<lparr>fr_component = ''speaker'', fr_speaker = Some (sh_address k), fr_classification = classification f,
                  fr_detail = fo_detail f, fr_observed_at = fo_observed_at f\<rparr>]) (hs_speakers s))"

text \<open>\<open>sorted(..., reverse=True)\<close> keeps the order of equal keys.\<close>

definition failure_records :: "health_snapshot \<Rightarrow> failure_record list" where
  "failure_records s =
     take MAX_COLLECTION_ITEMS (sort_key (\<lambda>f. - fr_observed_at f) (component_failures s @ speaker_failures s))"

record component_line =
  cl_state :: health_state
  cl_required :: bool
  cl_source :: "string option"
  cl_failure_class :: "failure_class option"

record speaker_line =
  sl_address :: string
  sl_state :: speaker_state
  sl_transition :: "string option"
  sl_attempt :: int
  sl_failure_class :: "failure_class option"
  sl_observed_at :: real

record diag_snapshot =
  ds_contract_version :: int
  ds_health_version :: nat
  ds_status :: health_state
  ds_lifecycle :: health_state
  ds_timestamp :: real
  ds_components :: "(string \<times> component_line) list"
  ds_adapters :: json
  ds_speakers :: "speaker_line list"
  ds_sink_availability :: json
  ds_last_failure :: "failure_record option"
  ds_recent_failures :: "failure_record list"
  ds_event_count :: nat

definition DIAGNOSTICS_CONTRACT_VERSION :: int where "DIAGNOSTICS_CONTRACT_VERSION = 1"

definition component_line_of :: "component_health \<Rightarrow> component_line" where
  "component_line_of c = \<lparr>cl_state = ch_state c, cl_required = ch_required c, cl_source = ch_source c,
     cl_failure_class = map_option classification (ch_failure c)\<rparr>"

definition speaker_line_of :: "speaker_health \<Rightarrow> speaker_line" where
  "speaker_line_of k = \<lparr>sl_address = sh_address k, sl_state = sh_state k, sl_transition = sh_transition k,
     sl_attempt = sh_attempt k, sl_failure_class = map_option classification (sh_failure k), sl_observed_at = sh_observed_at k\<rparr>"

text \<open>\<open>adapters or []\<close> and \<open>sinks or {...}\<close>: \<open>None\<close> is a falsy argument.\<close>

definition diagnostics_snapshot ::
  "registry \<Rightarrow> diag_event list \<Rightarrow> real \<Rightarrow> any_value option \<Rightarrow> any_value option \<Rightarrow> diag_snapshot"
where
  "diagnostics_snapshot reg events now adapters sinks =
     (let health = snapshot reg now; failures = failure_records health
      in \<lparr>ds_contract_version = DIAGNOSTICS_CONTRACT_VERSION, ds_health_version = hs_version health,
          ds_status = hs_status health, ds_lifecycle = hs_lifecycle health, ds_timestamp = now,
          ds_components = map (\<lambda>(n, c). (n, component_line_of c)) (sort_key fst (hs_components health)),
          ds_adapters = bounded 0 (case adapters of Some v \<Rightarrow> v | None \<Rightarrow> AV_list []),
          ds_speakers = map speaker_line_of
            (take MAX_COLLECTION_ITEMS (sort_key sh_address (map snd (hs_speakers health)))),
          ds_sink_availability = bounded 0 (case sinks of Some v \<Rightarrow> v
             | None \<Rightarrow> AV_map [(''available'', AV_bool False), (''count'', AV_int 0)]),
          ds_last_failure = (case failures of [] \<Rightarrow> None | f # _ \<Rightarrow> Some f),
          ds_recent_failures = failures, ds_event_count = length (recent_events now events)\<rparr>)"

section \<open>What is recorded is bounded and holds no credential\<close>

fun shape_ok :: "nat \<Rightarrow> json \<Rightarrow> bool" where
  "shape_ok d (JObject fs) \<longleftrightarrow> d \<le> MAX_DIAGNOSTICS_DEPTH \<and> length fs \<le> MAX_COLLECTION_ITEMS \<and> distinct (map fst fs) \<and>
     list_all (\<lambda>(k, v). \<not> omitted_key k \<and> shape_ok (Suc d) v) fs"
| "shape_ok d (JList vs) \<longleftrightarrow> d \<le> MAX_DIAGNOSTICS_DEPTH \<and> length vs \<le> MAX_COLLECTION_ITEMS \<and> list_all (shape_ok (Suc d)) vs"
| "shape_ok d (JString s) \<longleftrightarrow> length s \<le> BOUNDED_STRING_LENGTH \<and> url_free s"
| "shape_ok d v \<longleftrightarrow> True"

lemma url_free_redact_text: "url_free (redact_text s)"
  using url_free_redact_urls url_free_no_separator by (simp add: redact_text_def)

lemma url_free_omitted: "url_free OMITTED_PLACEHOLDER"
  by (rule url_free_no_separator) (simp add: OMITTED_PLACEHOLDER_def starts_with_def)

lemma length_dict_set: "length (dict_set k v d) \<le> Suc (length d)"
  by (induction d) auto

lemma fill_result_ok:
  assumes "length d < MAX_COLLECTION_ITEMS" "distinct (map fst d)"
    "list_all (\<lambda>(k, v). \<not> omitted_key k \<and> P v) d" "list_all (\<lambda>(k, v). P v) fs"
  shows "length (fill_result fs d) \<le> MAX_COLLECTION_ITEMS \<and> distinct (map fst (fill_result fs d)) \<and>
     list_all (\<lambda>(k, v). \<not> omitted_key k \<and> P v) (fill_result fs d)"
  using assms
proof (induction fs d rule: fill_result.induct)
  case (2 name v rest result)
  have upd: "list_all (\<lambda>(k, v). \<not> omitted_key k \<and> P v) (dict_set name v d)"
    if "list_all (\<lambda>(k, v). \<not> omitted_key k \<and> P v) d" "\<not> omitted_key name" "P v" for d
    using that by (induction d) auto
  have len: "length (dict_set name v result) \<le> MAX_COLLECTION_ITEMS"
    using length_dict_set [of name v result] "2.prems"(1) by simp
  show ?case
    using "2.prems" "2.IH" upd [of result] len distinct_update [of result name v] by (auto simp: Let_def)
qed simp

lemma bounded_shape: "shape_ok depth (bounded depth v)"
proof (induction depth v rule: bounded.induct)
  case (1 depth v)
  show ?case
  proof (cases "depth > MAX_DIAGNOSTICS_DEPTH")
    case True
    then show ?thesis by (simp add: bounded.simps [of depth] url_free_omitted) (simp add: OMITTED_PLACEHOLDER_def BOUNDED_STRING_LENGTH_def)
  next
    case False
    show ?thesis
    proof (cases v)
      case (AV_map fs)
      have "list_all (\<lambda>(k, v). shape_ok (Suc depth) v) (map (\<lambda>(k, v). (k, bounded (Suc depth) v)) (sort_key fst fs))"
        using "1.IH"(2) [OF False AV_map] by (auto simp: list_all_iff)
      then show ?thesis
        using fill_result_ok [of "[]" "shape_ok (Suc depth)"] False AV_map
        by (simp add: bounded.simps [of depth] MAX_COLLECTION_ITEMS_def)
    next
      case (AV_list vs)
      then show ?thesis
        using "1.IH"(1) [OF False AV_list] False by (auto simp: bounded.simps [of depth] list_all_iff)
    next
      case (AV_text s)
      then show ?thesis
        using False url_free_take [OF url_free_redact_text] by (simp add: bounded.simps [of depth])
    next
      case (AV_object t)
      then show ?thesis
        using False safe_detail_length [of "Some t"] safe_detail_url_free [of "Some t"]
        by (cases "safe_detail (Some t)") (auto simp: bounded.simps [of depth] BOUNDED_STRING_LENGTH_def)
    qed (use False in \<open>simp_all add: bounded.simps [of depth]\<close>)
  qed
qed

text \<open>
  Whatever value goes in, what the diagnostics keep of it is nested at most five deep, every mapping and
  list has at most a hundred entries, every text is at most 256 characters and holds no URL, and no key of
  any mapping at any depth names a token, password, secret, authorization or credential, or raw payload.
\<close>
theorem bounded_value_is_safe: "shape_ok 0 (bounded 0 value)"
  by (rule bounded_shape)

fun redacted :: "any_value \<Rightarrow> bool" where
  "redacted (AV_map fs) \<longleftrightarrow> distinct (map fst fs) \<and>
     list_all (\<lambda>(k, v). (sensitive_key k \<longrightarrow> v = AV_text REDACTED_PLACEHOLDER) \<and> redacted v) fs"
| "redacted (AV_list vs) \<longleftrightarrow> list_all redacted vs"
| "redacted (AV_text s) \<longleftrightarrow> url_free s"
| "redacted v \<longleftrightarrow> True"

lemma url_free_placeholder: "url_free REDACTED_PLACEHOLDER"
  by (rule url_free_no_separator) (simp add: REDACTED_PLACEHOLDER_def starts_with_def)

lemma dict_built_keeps:
  assumes "list_all P fs" "list_all P d" "distinct (map fst d)"
  shows "list_all P (fold (\<lambda>(k, v) d. dict_set k v d) fs d) \<and> distinct (map fst (fold (\<lambda>(k, v) d. dict_set k v d) fs d))"
  using assms
proof (induction fs arbitrary: d)
  case (Cons f fs)
  obtain k v where f: "f = (k, v)" by (cases f)
  have upd: "list_all P (dict_set k v d)" if "list_all P d" for d
    using that Cons.prems(1) by (induction d) (auto simp: f)
  show ?case
    using Cons.IH [of "dict_set k v d"] Cons.prems upd [of d] distinct_update [of d k v] by (simp add: f)
qed simp

lemma redact_value_redacted: "redacted (redact_value v)"
proof (induction v)
  case (AV_map fs)
  let ?P = "\<lambda>(k, v). (sensitive_key k \<longrightarrow> v = AV_text REDACTED_PLACEHOLDER) \<and> redacted v"
  have "list_all ?P (map (\<lambda>(k, v). (k, if sensitive_key k then AV_text REDACTED_PLACEHOLDER else redact_value v)) fs)"
    using AV_map url_free_placeholder by (fastforce simp: list_all_iff)
  then show ?case
    using dict_built_keeps [where P = ?P and d = "[]"] by simp
qed (auto simp: list_all_iff url_free_redact_text)

text \<open>
  Whatever is redacted, at any depth, every mapping entry whose key names a token, a password, a secret,
  an authorization, a bearer or a key holds the placeholder instead of its value, and no text holds a URL.
\<close>
theorem redaction_reaches_every_value: "redacted (redact_value v)"
  by (rule redact_value_redacted)

section \<open>The ring of events\<close>

text \<open>What holds of every event, whatever its texts: the fields that are cut, the detail, and the limit.\<close>

definition event_bounded :: "(real \<Rightarrow> string) \<Rightarrow> diag_event \<Rightarrow> bool" where
  "event_bounded fl e \<longleftrightarrow>
     length (ev_name e) \<le> MAX_IDENTIFIER_LENGTH \<and> length (ev_component e) \<le> MAX_IDENTIFIER_LENGTH \<and>
     pred_option (\<lambda>s. length s \<le> MAX_IDENTIFIER_LENGTH) (ev_speaker e) \<and>
     pred_option (\<lambda>s. length s \<le> MAX_IDENTIFIER_LENGTH) (ev_adapter e) \<and>
     pred_option (\<lambda>s. length s \<le> MAX_DETAIL_LENGTH) (ev_transition_reason e) \<and>
     pred_option (\<lambda>s. length s \<le> MAX_IDENTIFIER_LENGTH) (ev_recovery e) \<and>
     pred_option (shape_ok 0) (ev_detail e) \<and>
     (ev_detail e = Some (JString OMITTED_PLACEHOLDER) \<or> event_size fl e \<le> MAX_EVENT_BYTES)"

text \<open>What happens over time: each event with the clock and the fresh identifier at that moment.\<close>

type_synonym recording = "real \<times> string \<times> event_request"

definition record_all :: "(real \<Rightarrow> string) \<Rightarrow> recording list \<Rightarrow> diag_event list" where
  "record_all fl rs = foldl (\<lambda>events (now, fresh, r). snd (record_event fl now fresh r events)) [] rs"

definition event_of :: "(real \<Rightarrow> string) \<Rightarrow> recording \<Rightarrow> diag_event" where
  "event_of fl = (\<lambda>(now, fresh, r). fit_event fl (new_event now fresh r))"

lemma push_is_suffix: "push_event e (drop (length es - MAX_EVENTS) es) = drop (length (es @ [e]) - MAX_EVENTS) (es @ [e])"
  by (cases "length es \<le> MAX_EVENTS") (auto simp: push_event_def MAX_EVENTS_def Suc_diff_le [symmetric])

lemma record_all_is_suffix: "record_all fl rs = drop (length rs - MAX_EVENTS) (map (event_of fl) rs)"
proof (induction rs rule: rev_induct)
  case (snoc x rs)
  obtain now fresh r where "x = (now, fresh, r)" by (cases x) auto
  then show ?case
    using snoc push_is_suffix [of "event_of fl x" "map (event_of fl) rs"]
    by (simp add: record_all_def record_event_def event_of_def Let_def)
qed (simp add: record_all_def)

lemma cut_bounded: "pred_option (\<lambda>s. length s \<le> n) (cut_text n v)"
  by (simp add: cut_text_def split: option.split)

lemma event_of_bounded: "event_bounded fl (event_of fl x)"
proof -
  obtain now fresh r where x: "x = (now, fresh, r)" by (cases x) auto
  have fits: "event_bounded fl (fit_event fl e)"
    if "pred_option (shape_ok 0) (ev_detail e)" "length (ev_name e) \<le> MAX_IDENTIFIER_LENGTH"
      "length (ev_component e) \<le> MAX_IDENTIFIER_LENGTH" "pred_option (\<lambda>s. length s \<le> MAX_IDENTIFIER_LENGTH) (ev_speaker e)"
      "pred_option (\<lambda>s. length s \<le> MAX_IDENTIFIER_LENGTH) (ev_adapter e)"
      "pred_option (\<lambda>s. length s \<le> MAX_DETAIL_LENGTH) (ev_transition_reason e)"
      "pred_option (\<lambda>s. length s \<le> MAX_IDENTIFIER_LENGTH) (ev_recovery e)" for e
    using that url_free_omitted
    by (simp add: fit_event_def event_bounded_def del: MAX_IDENTIFIER_LENGTH_def MAX_DETAIL_LENGTH_def)
      (simp add: OMITTED_PLACEHOLDER_def BOUNDED_STRING_LENGTH_def)
  show ?thesis
    unfolding x event_of_def prod.case
    by (rule fits)
      (auto simp: new_event_def bounded_shape intro: cut_bounded split: option.split any_value.split
        simp del: MAX_IDENTIFIER_LENGTH_def MAX_DETAIL_LENGTH_def)
qed

text \<open>The identifier of an event is not cut, and the size is not looked at again.\<close>

definition endless_identifier :: "event_request \<Rightarrow> event_request" where
  "endless_identifier r = r\<lparr>er_correlation_id := Some (replicate (Suc MAX_EVENT_BYTES) (CHR ''0''))\<rparr>"

lemma endless_identifier_too_long: "event_size fl (event_of fl (now, fresh, endless_identifier r)) > MAX_EVENT_BYTES"
proof -
  let ?e = "event_of fl (now, fresh, endless_identifier r)" and ?c = "replicate (Suc MAX_EVENT_BYTES) (CHR ''0'')"
  have "ev_correlation_id ?e = ?c"
    by (simp add: event_of_def fit_event_def new_event_def endless_identifier_def)
  then have "(''correlation_id'', JString ?c) \<in> set (event_fields ?e)" by (simp add: event_fields_def)
  then have "length (json_text fl (JString ?c)) \<le> event_size fl ?e"
    unfolding event_size_def by (rule object_contains)
  moreover have "Suc MAX_EVENT_BYTES \<le> length (json_text fl (JString ?c))"
    using json_string_contains [of ?c] by simp
  ultimately show ?thesis by linarith
qed

text \<open>
  C40. However many events are recorded, and whatever is in them, the ring holds the last fifty of them in
  order; their names, components, addresses, adapters, reasons and recoveries are cut, and the detail of each is
  within the bounds of depth, width, text length and secrecy. An event that is written in more than 4096 bytes
  has lost its detail. That is all the limit does: an event with a long correlation identifier is recorded with
  more than 4096 bytes.
\<close>
theorem event_ring_is_bounded:
  "length (record_all fl rs) = min MAX_EVENTS (length rs) \<and>
   record_all fl rs = drop (length rs - MAX_EVENTS) (map (event_of fl) rs) \<and>
   list_all (event_bounded fl) (record_all fl rs) \<and>
   event_size fl (fst (record_event fl now fresh (endless_identifier r) es)) > MAX_EVENT_BYTES"
proof -
  have "event_bounded fl e" if "e \<in> set (map (event_of fl) rs)" for e using that event_of_bounded by auto
  then show ?thesis
    using in_set_dropD endless_identifier_too_long [of fl now fresh r]
    by (fastforce simp: record_all_is_suffix list_all_iff record_event_def event_of_def Let_def)
qed

section \<open>What the snapshot shows\<close>

lemma failures_sorted: "sorted (map (\<lambda>f. - fr_observed_at f) (failure_records s))"
  unfolding failure_records_def by (simp add: take_map [symmetric] sorted_wrt_take)

text \<open>
  The snapshot shows at most a hundred failures, each one that a component or a speaker of the health
  registry carries, the newest first; the failure it names as the last is the newest of them all; and its
  adapters and sinks are bounded values.
\<close>
theorem snapshot_shows_latest_failures:
  "let d = diagnostics_snapshot reg events now adapters sinks;
       all = component_failures (snapshot reg now) @ speaker_failures (snapshot reg now)
   in length (ds_recent_failures d) \<le> MAX_COLLECTION_ITEMS \<and> set (ds_recent_failures d) \<subseteq> set all \<and>
      sorted_wrt (\<lambda>f g. fr_observed_at g \<le> fr_observed_at f) (ds_recent_failures d) \<and>
      (ds_last_failure d = None \<longleftrightarrow> all = []) \<and>
      pred_option (\<lambda>f. list_all (\<lambda>g. fr_observed_at g \<le> fr_observed_at f) all) (ds_last_failure d) \<and>
      shape_ok 0 (ds_adapters d) \<and> shape_ok 0 (ds_sink_availability d)"
proof -
  let ?all = "component_failures (snapshot reg now) @ speaker_failures (snapshot reg now)"
  let ?sorted = "sort_key (\<lambda>f. - fr_observed_at f) ?all"
  have recent: "failure_records (snapshot reg now) = take MAX_COLLECTION_ITEMS ?sorted" by (simp add: failure_records_def)
  have sorted: "sorted (map (\<lambda>f. - fr_observed_at f) ?sorted)" by simp
  have sub: "set (take MAX_COLLECTION_ITEMS ?sorted) \<subseteq> set ?all" using set_take_subset by fastforce
  have order: "sorted_wrt (\<lambda>f g. fr_observed_at g \<le> fr_observed_at f) (failure_records (snapshot reg now))"
    using failures_sorted [of "snapshot reg now"] by (simp add: sorted_map)
  have newest: "pred_option (\<lambda>f. list_all (\<lambda>g. fr_observed_at g \<le> fr_observed_at f) ?all)
      (case failure_records (snapshot reg now) of [] \<Rightarrow> None | f # _ \<Rightarrow> Some f)"
  proof (cases ?sorted)
    case (Cons f fs)
    have "fr_observed_at g \<le> fr_observed_at f" if "g \<in> set ?all" for g
    proof -
      have "g \<in> set (f # fs)" using that Cons by (metis set_sort)
      then show ?thesis using sorted unfolding Cons by auto
    qed
    then show ?thesis by (simp only: recent Cons) (simp add: MAX_COLLECTION_ITEMS_def list_all_iff)
  qed (simp add: recent)
  have none: "(case failure_records (snapshot reg now) of [] \<Rightarrow> None | f # _ \<Rightarrow> Some f) = None \<longleftrightarrow> ?all = []"
  proof -
    have "failure_records (snapshot reg now) = [] \<longleftrightarrow> length ?sorted = 0"
      unfolding recent by (simp only: take_eq_Nil length_0_conv) (simp add: MAX_COLLECTION_ITEMS_def)
    then have "failure_records (snapshot reg now) = [] \<longleftrightarrow> ?all = []"
      by (simp only: length_sort length_0_conv)
    then show ?thesis by (cases "failure_records (snapshot reg now)") simp_all
  qed
  show ?thesis
    using sub order newest none bounded_shape recent
    by (simp add: diagnostics_snapshot_def Let_def)
qed

end
