(* ===== verification/Incidents.thy ===== *)
theory Incidents
  imports Health Json_Text
begin

text \<open>
  The incident recorder of \<open>incidents.py\<close>: warnings are counted by category, a sample of the health registry
  is written to a file of the day when something changed, files older than thirty days are deleted, a day's
  file is bounded. The directory is a map from file names to contents; each operation on it can fail with an
  \<open>OSError\<close>, named by its class. The lock, the monitor task and the thread that writes are a step relation.
  Days are counted from 1970; \<open>digest\<close> is \<open>sha256\<close> in hexadecimal and \<open>loads\<close> is \<open>json.loads\<close>.
\<close>

section \<open>Dates\<close>

type_synonym date = "nat \<times> nat \<times> nat"

definition is_leap :: "nat \<Rightarrow> bool" where
  "is_leap y \<longleftrightarrow> y mod 4 = 0 \<and> (y mod 100 \<noteq> 0 \<or> y mod 400 = 0)"

definition month_days :: "nat \<Rightarrow> nat \<Rightarrow> nat" where
  "month_days y m = (if m = 2 then (if is_leap y then 29 else 28) else if m \<in> {4, 6, 9, 11} then 30 else 31)"

definition next_day :: "date \<Rightarrow> date" where
  "next_day = (\<lambda>(y, m, d). if d < month_days y m then (y, m, d + 1) else if m < 12 then (y, m + 1, 1) else (y + 1, 1, 1))"

definition date_of_day :: "nat \<Rightarrow> date" where
  "date_of_day n = (next_day ^^ n) (1970, 1, 1)"

text \<open>Dates compare by year, then month, then day.\<close>

definition date_key :: "date \<Rightarrow> nat" where
  "date_key = (\<lambda>(y, m, d). (y * 100 + m) * 100 + d)"

fun pad :: "nat \<Rightarrow> nat \<Rightarrow> string" where
  "pad 0 n = []"
| "pad (Suc k) n = char_of (48 + (n div 10 ^ k) mod 10) # pad k n"

definition isoformat :: "date \<Rightarrow> string" where
  "isoformat = (\<lambda>(y, m, d). pad 4 y @ ''-'' @ pad 2 m @ ''-'' @ pad 2 d)"

text \<open>\<open>datetime.fromtimestamp\<close> rounds to microseconds, halves to even.\<close>

definition microseconds :: "real \<Rightarrow> nat" where
  "microseconds now =
     (let x = now * 1000000; f = \<lfloor>x\<rfloor>; rest = x - of_int f
      in nat (if rest < 1 / 2 \<or> rest = 1 / 2 \<and> even f then f else f + 1))"

definition day_number :: "real \<Rightarrow> nat" where
  "day_number now = microseconds now div 86400000000"

definition iso_time :: "real \<Rightarrow> string" where
  "iso_time now =
     (let us = microseconds now mod 86400000000; s = us div 1000000; f = us mod 1000000
      in isoformat (date_of_day (day_number now)) @ ''T'' @ pad 2 (s div 3600) @ '':'' @ pad 2 (s div 60 mod 60) @ '':'' @
         pad 2 (s mod 60) @ (if f = 0 then [] else ''.'' @ pad 6 f) @ ''+00:00'')"

text \<open>\<open>strptime\<close> of exactly ten characters with \<open>%Y-%m-%d\<close>; a day may be written with a leading blank.\<close>

definition two_digits :: "char \<Rightarrow> char \<Rightarrow> nat option" where
  "two_digits a b = (if is_digit a \<and> is_digit b then Some ((ord_of a - 48) * 10 + (ord_of b - 48)) else None)"

definition parse_date :: "string \<Rightarrow> date option" where
  "parse_date s = (case s of
     [y1, y2, y3, y4, h1, m1, m2, h2, d1, d2] \<Rightarrow>
       if h1 \<noteq> CHR ''-'' \<or> h2 \<noteq> CHR ''-'' then None
       else (case (two_digits y1 y2, two_digits y3 y4, two_digits m1 m2, two_digits (if d1 = CHR '' '' then CHR ''0'' else d1) d2) of
         (Some a, Some b, Some m, Some d) \<Rightarrow>
           (let y = a * 100 + b
            in if 1 \<le> y \<and> 1 \<le> m \<and> m \<le> 12 \<and> 1 \<le> d \<and> d \<le> month_days y m then Some (y, m, d) else None)
       | _ \<Rightarrow> None)
   | _ \<Rightarrow> None)"

section \<open>Categories\<close>

definition PATTERNS :: "(string \<times> string) list" where
  "PATTERNS = [(''reconnect_exhausted'', ''tripping circuit breaker''), (''connection_busy'', ''in progress''),
     (''link_unreachable'', ''br-connection''), (''sink_missing'', ''sink''), (''playback_failure'', ''playback'')]"

definition category_of :: "string \<Rightarrow> string" where
  "category_of message =
     (case find (\<lambda>(key, marker). py_in marker (lower message)) PATTERNS of Some (key, _) \<Rightarrow> key | None \<Rightarrow> ''backend_warning'')"

definition count_up :: "string \<Rightarrow> nat dict \<Rightarrow> nat dict" where
  "count_up c counts = dict_set c (Suc (case dict_get counts c of Some n \<Rightarrow> n | None \<Rightarrow> 0)) counts"

section \<open>What is observed\<close>

fun health_state_value :: "health_state \<Rightarrow> string" where
  "health_state_value HS_STARTING = ''starting''"
| "health_state_value HS_HEALTHY = ''healthy''"
| "health_state_value HS_DEGRADED = ''degraded''"
| "health_state_value HS_UNAVAILABLE = ''unavailable''"
| "health_state_value HS_STOPPING = ''stopping''"
| "health_state_value HS_STOPPED = ''stopped''"
| "health_state_value HS_UNKNOWN = ''unknown''"

fun failure_value :: "failure_class \<Rightarrow> string" where
  "failure_value FC_PAIRING_FAILED = ''pairing_failed''"
| "failure_value FC_NATIVE_INTEGRATION_UNAVAILABLE = ''native_integration_unavailable''"
| "failure_value FC_DBUS_UNAVAILABLE = ''dbus_unavailable''"
| "failure_value FC_DBUS_DISCONNECTED = ''dbus_disconnected''"
| "failure_value FC_STALE_BLUEZ_OBJECT = ''stale_bluez_object''"
| "failure_value FC_PIPEWIRE_UNAVAILABLE = ''pipewire_unavailable''"
| "failure_value FC_SINK_MISSING = ''sink_missing''"
| "failure_value FC_SINK_UNAVAILABLE_TRANSPORT_HELD = ''sink_unavailable_transport_held''"
| "failure_value FC_RECONNECT_EXHAUSTED = ''reconnect_exhausted''"
| "failure_value FC_STARTUP_FAILED = ''startup_failed''"
| "failure_value FC_SHUTDOWN_INCOMPLETE = ''shutdown_incomplete''"

record component_context =
  cc_state :: health_state
  cc_failure :: "failure_class option"

record speaker_context =
  sc_state :: speaker_state
  sc_disconnects :: nat
  sc_connects :: nat
  sc_suppressed_flaps :: nat
  sc_failure :: "failure_class option"

record context_of_sample =
  cx_health :: health_state
  cx_native_clients :: int
  cx_components :: "component_context dict"
  cx_speakers :: "speaker_context dict"

definition take_context :: "(string \<Rightarrow> string) \<Rightarrow> registry \<Rightarrow> int \<Rightarrow> context_of_sample" where
  "take_context digest reg clients =
     (let s = snapshot reg 0
      in \<lparr>cx_health = hs_status s, cx_native_clients = clients,
          cx_components = map (\<lambda>(n, c). (n, \<lparr>cc_state = ch_state c, cc_failure = map_option classification (ch_failure c)\<rparr>))
            (hs_components s),
          cx_speakers = fold (\<lambda>(a, k). dict_set (take 12 (digest a))
              \<lparr>sc_state = sh_state k, sc_disconnects = sh_disconnects k, sc_connects = sh_connects k,
               sc_suppressed_flaps = sh_suppressed_flaps k, sc_failure = map_option classification (sh_failure k)\<rparr>)
            (hs_speakers s) []\<rparr>)"

text \<open>Equality of dictionaries does not see the order of their entries.\<close>

definition same_dict :: "'v dict \<Rightarrow> 'v dict \<Rightarrow> bool" where
  "same_dict d e \<longleftrightarrow> length d = length e \<and> list_all (\<lambda>(k, v). dict_get e k = Some v) d"

definition same_context :: "context_of_sample \<Rightarrow> context_of_sample \<Rightarrow> bool" where
  "same_context a b \<longleftrightarrow> cx_health a = cx_health b \<and> cx_native_clients a = cx_native_clients b \<and>
     same_dict (cx_components a) (cx_components b) \<and> same_dict (cx_speakers a) (cx_speakers b)"

definition findings_of :: "context_of_sample option \<Rightarrow> context_of_sample \<Rightarrow> nat dict \<Rightarrow> string list" where
  "findings_of previous context counts =
     map fst counts @
     (if cx_native_clients context = 0 then [''native_client_absent''] else []) @
     (if list_ex (\<lambda>(_, k). sc_state k \<noteq> SP_CONNECTED) (cx_speakers context) then [''speaker_not_connected''] else []) @
     (if list_ex (\<lambda>(_, c). cc_failure c \<noteq> None) (cx_components context) then [''component_failure_observed''] else []) @
     (case previous of Some p \<Rightarrow> if same_context context p then [] else [''health_or_connection_changed''] | None \<Rightarrow> [])"

definition failure_json :: "failure_class option \<Rightarrow> json" where
  "failure_json f = (case f of None \<Rightarrow> JNull | Some c \<Rightarrow> JString (failure_value c))"

definition context_json :: "context_of_sample \<Rightarrow> json" where
  "context_json c = JObject
     [(''health'', JString (health_state_value (cx_health c))), (''native_clients'', JInt (cx_native_clients c)),
      (''components'', JObject (map (\<lambda>(n, k). (n, JObject [(''state'', JString (health_state_value (cc_state k))),
          (''failure'', failure_json (cc_failure k))])) (cx_components c))),
      (''speakers'', JObject (map (\<lambda>(n, k). (n, JObject [(''state'', JString (speaker_state_value (sc_state k))),
          (''disconnects'', JInt (int (sc_disconnects k))), (''connects'', JInt (int (sc_connects k))),
          (''suppressed_flaps'', JInt (int (sc_suppressed_flaps k))), (''failure'', failure_json (sc_failure k))]))
        (cx_speakers c)))]"

record incident_entry =
  en_timestamp :: real
  en_first :: bool
  en_patterns :: "nat dict"
  en_context :: context_of_sample
  en_dropped :: nat
  en_findings :: "string list"

definition entry_json :: "incident_entry \<Rightarrow> json" where
  "entry_json e = JObject
     [(''version'', JInt 1), (''timestamp'', JString (iso_time (en_timestamp e))),
      (''kind'', JString (if en_first e then ''monitor_started'' else ''observation'')),
      (''patterns'', JObject (map (\<lambda>(c, n). (c, JInt (int n))) (en_patterns e))), (''context'', context_json (en_context e)),
      (''dropped_observations'', JInt (int (en_dropped e))), (''findings'', JList (map JString (en_findings e)))]"

section \<open>The files\<close>

definition RETENTION_DAYS :: nat where "RETENTION_DAYS = 30"
definition DAILY_BYTES :: nat where "DAILY_BYTES = 2 * 1024 * 1024"
definition SAMPLE_SECONDS :: real where "SAMPLE_SECONDS = 5"
definition TAIL_BYTES :: nat where "TAIL_BYTES = 128 * 1024"

definition NL :: char where "NL = char_of (10 :: nat)"

definition file_of_day :: "date \<Rightarrow> string" where
  "file_of_day d = ''incidents-'' @ isoformat d @ ''.jsonl''"

text \<open>\<open>glob("incidents-????-??-??.jsonl")\<close> and the date in such a name.\<close>

definition glob_name :: "string \<Rightarrow> bool" where
  "glob_name name \<longleftrightarrow> length name = 26 \<and> starts_with ''incidents-'' name \<and> ends_with ''.jsonl'' name \<and>
     name ! 14 = CHR ''-'' \<and> name ! 17 = CHR ''-''"

definition date_in :: "string \<Rightarrow> date option" where
  "date_in name = parse_date (take 10 (drop 10 name))"

definition expired :: "date \<Rightarrow> string \<Rightarrow> bool" where
  "expired cutoff name \<longleftrightarrow> glob_name name \<and> (case date_in name of Some d \<Rightarrow> date_key d < date_key cutoff | None \<Rightarrow> False)"

type_synonym directory = "string dict"

definition entry_line :: "incident_entry \<Rightarrow> string" where
  "entry_line e = json_text (\<lambda>_. []) (entry_json e) @ [NL]"

text \<open>
  What can fail: making the directory or listing it, deleting after \<open>k\<close> files were deleted, looking at the
  file, opening it, writing after \<open>k\<close> bytes reached it, changing its mode.
\<close>

datatype storage_fault =
  Mkdir_fails | Unlink_fails nat | Stat_fails | Open_fails | Write_fails nat | Chmod_fails

definition delete_files :: "string list \<Rightarrow> directory \<Rightarrow> directory" where
  "delete_files names files = filter (\<lambda>(n, _). n \<notin> set names) files"

definition append_bytes :: "string \<Rightarrow> string \<Rightarrow> directory \<Rightarrow> directory" where
  "append_bytes target bytes files =
     dict_set target ((case dict_get files target of Some c \<Rightarrow> c | None \<Rightarrow> []) @ bytes) files"

text \<open>The result is whether the line was written, or \<open>None\<close> for an \<open>OSError\<close>.\<close>

definition append_entry :: "real \<Rightarrow> incident_entry \<Rightarrow> storage_fault option \<Rightarrow> directory \<Rightarrow> bool option \<times> directory" where
  "append_entry now e fault files =
     (if fault = Some Mkdir_fails then (None, files)
      else
        let today = day_number now;
            cutoff = date_of_day (today - (RETENTION_DAYS - 1));
            old = filter (expired cutoff) (map fst files);
            failing = (case fault of Some (Unlink_fails k) \<Rightarrow> k < length old | _ \<Rightarrow> False)
        in if failing
           then (None, delete_files (take (case fault of Some (Unlink_fails k) \<Rightarrow> k | _ \<Rightarrow> 0) old) files)
           else
             let files = delete_files old files;
                 target = file_of_day (date_of_day today);
                 line = entry_line e;
                 size = (case dict_get files target of Some c \<Rightarrow> length c | None \<Rightarrow> 0)
             in if fault = Some Stat_fails then (None, files)
                else if size + length line > DAILY_BYTES then (Some False, files)
                else (case fault of
                    Some Open_fails \<Rightarrow> (None, files)
                  | Some (Write_fails k) \<Rightarrow> (None, append_bytes target (take k line) files)
                  | Some Chmod_fails \<Rightarrow> (None, append_bytes target line files)
                  | _ \<Rightarrow> (Some True, append_bytes target line files)))"

text \<open>\<open>bytes.splitlines\<close>: a line ends at a line feed, a carriage return, or both.\<close>

definition CR :: char where "CR = char_of (13 :: nat)"

fun line_ends :: "bool \<Rightarrow> string \<Rightarrow> string" where
  "line_ends after_cr [] = []"
| "line_ends after_cr (c # s) =
     (if c = NL \<and> after_cr then line_ends False s
      else if c = CR then NL # line_ends True s else c # line_ends False s)"

fun split_at_feeds :: "string \<Rightarrow> string list" where
  "split_at_feeds [] = []"
| "split_at_feeds (c # s) =
     (if c = NL then [] # split_at_feeds s
      else (case split_at_feeds s of [] \<Rightarrow> [[c]] | l # ls \<Rightarrow> (c # l) # ls))"

definition split_lines :: "string \<Rightarrow> string list" where
  "split_lines s = split_at_feeds (line_ends False s)"

definition skip_line :: "string \<Rightarrow> string" where
  "skip_line s = drop 1 (dropWhile (\<lambda>c. c \<noteq> NL) s)"

definition tail_lines :: "string \<Rightarrow> string list" where
  "tail_lines bytes =
     (let start = length bytes - TAIL_BYTES; text = drop start bytes;
          ls = split_lines (if start > 0 then skip_line text else text)
      in drop (length ls - 100) ls)"

definition latest_file :: "directory \<Rightarrow> string option" where
  "latest_file files = (let ns = filter glob_name (map fst files) in if ns = [] then None else Some (last (sort ns)))"

definition read_recent :: "(string \<Rightarrow> 'j option) \<Rightarrow> directory \<Rightarrow> py_exc + 'j list" where
  "read_recent loads files =
     (case latest_file files of None \<Rightarrow> Inr []
      | Some name \<Rightarrow>
        let ls = tail_lines (case dict_get files name of Some c \<Rightarrow> c | None \<Rightarrow> [])
        in if list_all (\<lambda>l. loads l \<noteq> None) ls then Inr (map (\<lambda>l. the (loads l)) ls)
           else Inl (ValueError ''invalid JSON''))"

section \<open>The recorder\<close>

text \<open>Who is in \<open>sample\<close>: \<open>start\<close>, the monitor task, or \<open>stop\<close>. The first of the queue holds the storage lock.\<close>

datatype sampler = By_start | By_monitor | By_stop

datatype monitor_task = No_task | Task_running | Task_done

record pending_write =
  pw_entry :: incident_entry
  pw_context :: context_of_sample
  pw_now :: real

record recorder =
  r_counts :: "nat dict"
  r_previous :: "context_of_sample option"
  r_last_write :: real
  r_dropped :: nat
  r_task :: monitor_task
  r_storage_error :: "string option"
  r_stopping :: bool
  r_attached :: bool
  r_queue :: "sampler list"
  r_pending :: "pending_write option"
  r_stop_waits :: bool
  r_files :: directory

definition new_recorder :: "directory \<Rightarrow> recorder" where
  "new_recorder files =
     \<lparr>r_counts = [], r_previous = None, r_last_write = 0, r_dropped = 0, r_task = No_task, r_storage_error = None,
      r_stopping = False, r_attached = False, r_queue = [], r_pending = None, r_stop_waits = False, r_files = files\<rparr>"

definition emit :: "string \<Rightarrow> string \<Rightarrow> recorder \<Rightarrow> recorder" where
  "emit logger_name message r =
     (if starts_with ''bl_haos.incidents'' logger_name then r
      else r\<lparr>r_counts := count_up (category_of message) (r_counts r)\<rparr>)"

text \<open>The part of \<open>sample\<close> before the write: \<open>None\<close> when there is nothing to record.\<close>

definition observe_sample ::
  "(string \<Rightarrow> string) \<Rightarrow> bool \<Rightarrow> registry \<Rightarrow> int \<Rightarrow> real \<Rightarrow> recorder \<Rightarrow> pending_write option \<times> recorder"
where
  "observe_sample digest force reg clients now r =
     (let context = take_context digest reg clients; counts = r_counts r; r = r\<lparr>r_counts := []\<rparr>;
          unchanged = (case r_previous r of Some p \<Rightarrow> same_context context p | None \<Rightarrow> False)
      in if \<not> force \<and> counts = [] \<and> unchanged \<and> now - r_last_write r < 3600 then (None, r)
         else (Some \<lparr>pw_entry = \<lparr>en_timestamp = now, en_first = (r_previous r = None), en_patterns = counts,
                      en_context = context, en_dropped = r_dropped r,
                      en_findings = findings_of (r_previous r) context counts\<rparr>,
                   pw_context = context, pw_now = now\<rparr>, r))"

text \<open>The part after the write; \<open>name\<close> is the class of the error, when there was one.\<close>

definition settle :: "pending_write \<Rightarrow> bool option \<Rightarrow> string \<Rightarrow> recorder \<Rightarrow> recorder" where
  "settle p outcome name r =
     (case outcome of
        None \<Rightarrow> r\<lparr>r_storage_error := Some name, r_dropped := Suc (r_dropped r)\<rparr>
      | Some False \<Rightarrow> r\<lparr>r_dropped := Suc (r_dropped r)\<rparr>
      | Some True \<Rightarrow> r\<lparr>r_storage_error := None, r_previous := Some (pw_context p), r_last_write := pw_now p\<rparr>)"

text \<open>A finished sample gives the lock to the next and its caller goes on.\<close>

definition sampled :: "sampler \<Rightarrow> recorder \<Rightarrow> recorder" where
  "sampled who r =
     (let r = r\<lparr>r_queue := drop 1 (r_queue r)\<rparr>
      in case who of By_start \<Rightarrow> r\<lparr>r_attached := True, r_task := Task_running\<rparr> | _ \<Rightarrow> r)"

definition begin_sample :: "(string \<Rightarrow> string) \<Rightarrow> registry \<Rightarrow> int \<Rightarrow> real \<Rightarrow> sampler \<Rightarrow> recorder \<Rightarrow> recorder" where
  "begin_sample digest reg clients now who r =
     (case observe_sample digest (who \<noteq> By_monitor) reg clients now r of
        (None, r) \<Rightarrow> sampled who r
      | (Some p, r) \<Rightarrow> r\<lparr>r_pending := Some p\<rparr>)"

definition finish_sample :: "real \<Rightarrow> storage_fault option \<Rightarrow> string \<Rightarrow> sampler \<Rightarrow> pending_write \<Rightarrow> recorder \<Rightarrow> recorder" where
  "finish_sample now fault name who p r =
     (case append_entry now (pw_entry p) fault (r_files r) of
        (outcome, files) \<Rightarrow> sampled who (settle p outcome name (r\<lparr>r_files := files, r_pending := None\<rparr>)))"

definition start_monitor :: "recorder \<Rightarrow> recorder" where
  "start_monitor r = (if r_task r \<noteq> No_task then r else r\<lparr>r_stopping := False, r_queue := r_queue r @ [By_start]\<rparr>)"

definition timer_fires :: "recorder \<Rightarrow> recorder" where
  "timer_fires r = r\<lparr>r_queue := r_queue r @ [By_monitor]\<rparr>"

definition monitor_ends :: "recorder \<Rightarrow> recorder" where
  "monitor_ends r = r\<lparr>r_task := Task_done\<rparr>"

definition stop_monitor :: "recorder \<Rightarrow> recorder" where
  "stop_monitor r =
     (let r = r\<lparr>r_attached := False\<rparr>
      in if r_task r \<noteq> No_task then r\<lparr>r_stopping := True, r_stop_waits := True\<rparr>
         else r\<lparr>r_queue := r_queue r @ [By_stop]\<rparr>)"

definition stop_resumes :: "recorder \<Rightarrow> recorder" where
  "stop_resumes r = r\<lparr>r_stop_waits := False, r_task := No_task, r_queue := r_queue r @ [By_stop]\<rparr>"

record recorder_status =
  rs_running :: bool
  rs_retention_days :: nat
  rs_daily_byte_limit :: nat
  rs_sample_seconds :: real
  rs_storage_error :: "string option"
  rs_dropped_observations :: nat

definition status_of :: "recorder \<Rightarrow> recorder_status" where
  "status_of r = \<lparr>rs_running = (r_task r = Task_running), rs_retention_days = RETENTION_DAYS, rs_daily_byte_limit = DAILY_BYTES,
     rs_sample_seconds = SAMPLE_SECONDS, rs_storage_error = r_storage_error r, rs_dropped_observations = r_dropped r\<rparr>"

text \<open>The route \<open>/incidents\<close>, for a bridge with a recorder.\<close>

definition incident_observations ::
  "(string \<Rightarrow> 'j option) \<Rightarrow> recorder option \<Rightarrow> py_exc + bool \<times> recorder_status option \<times> 'j list"
where
  "incident_observations loads recorder =
     (case recorder of None \<Rightarrow> Inr (False, None, [])
      | Some r \<Rightarrow> (case read_recent loads (r_files r) of
          Inl _ \<Rightarrow> Inl (HTTPException 503 ''Incident history could not be read'')
        | Inr js \<Rightarrow> Inr (True, Some (status_of r), js)))"

section \<open>How it runs\<close>

text \<open>
  What can happen to the recorder: a warning reaches its handler, \<open>start\<close> and \<open>stop\<close> are called, the timer of
  the monitor fires, the holder of the lock observes or its write ends, the monitor ends after \<open>stop\<close>. The
  label names the event. The application calls \<open>stop\<close> once, so no call comes while one waits for the task.
\<close>

datatype incident_event =
    Warned string string
  | Started | Stopped | Timer | Monitor_ends | Stop_resumes
  | Observed registry int real
  | Written real "storage_fault option" string

inductive incident_step :: "(string \<Rightarrow> string) \<Rightarrow> recorder \<Rightarrow> incident_event \<Rightarrow> recorder \<Rightarrow> bool"
  for digest
where
  warned: "r_attached r \<Longrightarrow> incident_step digest r (Warned n m) (emit n m r)"
| started: "incident_step digest r Started (start_monitor r)"
| stopped: "\<not> r_stop_waits r \<Longrightarrow> incident_step digest r Stopped (stop_monitor r)"
| timer: "\<lbrakk>r_task r = Task_running; \<not> r_stopping r; By_monitor \<notin> set (r_queue r)\<rbrakk>
    \<Longrightarrow> incident_step digest r Timer (timer_fires r)"
| monitor_ends: "\<lbrakk>r_task r = Task_running; r_stopping r; By_monitor \<notin> set (r_queue r)\<rbrakk>
    \<Longrightarrow> incident_step digest r Monitor_ends (monitor_ends r)"
| stop_resumes: "\<lbrakk>r_stop_waits r; r_task r = Task_done\<rbrakk> \<Longrightarrow> incident_step digest r Stop_resumes (stop_resumes r)"
| observed: "\<lbrakk>r_queue r = who # rest; r_pending r = None\<rbrakk>
    \<Longrightarrow> incident_step digest r (Observed reg clients now) (begin_sample digest reg clients now who r)"
| written: "\<lbrakk>r_queue r = who # rest; r_pending r = Some p\<rbrakk>
    \<Longrightarrow> incident_step digest r (Written now fault name) (finish_sample now fault name who p r)"

text \<open>The writes an event attempts, with their results.\<close>

fun writes_of :: "recorder \<Rightarrow> incident_event \<Rightarrow> (incident_entry \<times> bool option) list" where
  "writes_of r (Written now fault name) =
     (case r_pending r of Some p \<Rightarrow> [(pw_entry p, fst (append_entry now (pw_entry p) fault (r_files r)))] | None \<Rightarrow> [])"
| "writes_of r e = []"

inductive incident_run ::
  "(string \<Rightarrow> string) \<Rightarrow> recorder \<Rightarrow> incident_event list \<Rightarrow> (incident_entry \<times> bool option) list \<Rightarrow> recorder \<Rightarrow> bool"
  for digest r0
where
  no_event: "incident_run digest r0 [] [] r0"
| next_event: "\<lbrakk>incident_run digest r0 es written r; incident_step digest r e r'\<rbrakk>
    \<Longrightarrow> incident_run digest r0 (es @ [e]) (written @ writes_of r e) r'"

inductive_cases incident_stepE: "incident_step digest r e r'"

end
