(* ===== verification/Incidents_Spec.thy ===== *)
theory Incidents_Spec
  imports Incidents
begin

text \<open>
  What the incident recorder keeps: the names of its files sort and parse as dates, the directory stays within
  thirty files of two mebibytes, every warning is counted in exactly one sample, and what is read back are
  whole lines, the last ones written.
\<close>

section \<open>Dates and file names\<close>

definition valid_date :: "date \<Rightarrow> bool" where
  "valid_date = (\<lambda>(y, m, d). 1 \<le> y \<and> 1 \<le> m \<and> m \<le> 12 \<and> 1 \<le> d \<and> d \<le> month_days y m)"

lemma month_days_range: "28 \<le> month_days y m" "month_days y m \<le> 31"
  by (auto simp: month_days_def)

lemma valid_next: "valid_date d \<Longrightarrow> valid_date (next_day d)"
proof -
  assume v: "valid_date d"
  have "1 \<le> month_days y m" for y m using month_days_range(1) [of y m] by simp
  then show ?thesis using v by (cases d) (simp add: valid_date_def next_day_def)
qed

lemma key_next: "valid_date d \<Longrightarrow> date_key d < date_key (next_day d)"
proof -
  assume "valid_date d"
  moreover obtain y m k where "d = (y, m, k)" by (cases d) auto
  ultimately show ?thesis
    using month_days_range(2) [of y m] by (auto simp: valid_date_def next_day_def date_key_def)
qed

lemma valid_day: "valid_date (date_of_day n)"
proof (induction n)
  case (Suc n)
  then show ?case using valid_next by (simp add: date_of_day_def)
qed (simp add: date_of_day_def valid_date_def month_days_def)

lemma key_day_less: "n < n' \<Longrightarrow> date_key (date_of_day n) < date_key (date_of_day n')"
proof (induction n')
  case (Suc k)
  have "date_key (date_of_day k) < date_key (date_of_day (Suc k))"
    using key_next [OF valid_day [of k]] by (simp add: date_of_day_def)
  then show ?case using Suc by (cases "n = k") auto
qed simp

lemma key_day: "date_key (date_of_day n) < date_key (date_of_day n') \<longleftrightarrow> n < n'"
  using key_day_less by (metis linorder_neqE_nat not_less_iff_gr_or_eq)

lemma day_inj: "date_of_day n = date_of_day n' \<Longrightarrow> n = n'"
  using key_day_less by (metis linorder_neqE_nat less_irrefl)

lemma length_pad [simp]: "length (pad k n) = k"
  by (induction k) simp_all

lemma pad_two: "pad 2 n = [char_of (48 + n div 10 mod 10), char_of (48 + n mod 10)]"
  by (subst numeral_2_eq_2) simp

lemma pad_four:
  "pad 4 n = [char_of (48 + n div 1000 mod 10), char_of (48 + n div 100 mod 10), char_of (48 + n div 10 mod 10), char_of (48 + n mod 10)]"
proof -
  have four: "(4 :: nat) = Suc (Suc (Suc (Suc 0)))" by simp
  show ?thesis by (subst four) simp
qed

lemmas pad_digits = pad_two pad_four

lemma two_digits_pad: "two_digits (char_of (48 + n div 10 mod 10)) (char_of (48 + n mod 10)) = Some (n mod 100)"
proof -
  have "n mod (10 * 10) = 10 * (n div 10 mod 10) + n mod 10" by (rule mod_mult2_eq)
  then have "n mod 100 = (n div 10 mod 10) * 10 + n mod 10" by simp
  then show ?thesis using digit_char [of "n div 10 mod 10"] digit_char [of "n mod 10"] by (simp add: two_digits_def)
qed

lemma digit_no_blank: "char_of (48 + n mod 10 :: nat) \<noteq> CHR '' ''"
proof
  assume "char_of (48 + n mod 10) = CHR '' ''"
  then have "is_digit CHR '' ''" using digit_char [of "n mod 10"] by simp
  then show False by (simp add: is_digit_def ord_of_def)
qed

lemma parse_padded:
  "parse_date (pad 4 y @ ''-'' @ pad 2 m @ ''-'' @ pad 2 d) =
     (let z = y div 100 mod 100 * 100 + y mod 100
      in if 1 \<le> z \<and> 1 \<le> m mod 100 \<and> m mod 100 \<le> 12 \<and> 1 \<le> d mod 100 \<and> d mod 100 \<le> month_days z (m mod 100)
         then Some (z, m mod 100, d mod 100) else None)"
proof -
  have "two_digits (char_of (48 + y div 1000 mod 10)) (char_of (48 + y div 100 mod 10)) = Some (y div 100 mod 100)"
    using two_digits_pad [of "y div 100"] by (simp add: div_mult2_eq [symmetric])
  then show ?thesis
    using digit_no_blank [of "d div 10"] by (simp add: parse_date_def pad_digits two_digits_pad)
qed

lemma parse_isoformat:
  assumes "valid_date (y, m, d)" "y \<le> 9999"
  shows "parse_date (isoformat (y, m, d)) = Some (y, m, d)"
proof -
  have "d \<le> 31" "m \<le> 12" using assms month_days_range(2) [of y m] by (auto simp: valid_date_def)
  then have small: "d mod 100 = d" "m mod 100 = m" by simp_all
  have "y div 100 < 100" using assms(2) by (simp add: less_mult_imp_div_less)
  then have "y div 100 mod 100 * 100 + y mod 100 = y" by (simp add: div_mult_mod_eq)
  note small = small this
  show ?thesis
    using assms(1) small parse_padded [of y m d] by (simp add: isoformat_def valid_date_def Let_def)
qed

definition in_calendar :: "nat \<Rightarrow> bool" where
  "in_calendar n \<longleftrightarrow> fst (date_of_day n) \<le> 9999"

definition day_file :: "nat \<Rightarrow> string" where
  "day_file n = file_of_day (date_of_day n)"

lemma length_isoformat [simp]: "length (isoformat d) = 10"
  by (cases d) (simp add: isoformat_def)

lemma date_in_file: "in_calendar n \<Longrightarrow> date_in (day_file n) = Some (date_of_day n)"
proof -
  assume "in_calendar n"
  moreover obtain y m d where ymd: "date_of_day n = (y, m, d)" by (cases "date_of_day n") auto
  ultimately have "parse_date (isoformat (date_of_day n)) = Some (date_of_day n)"
    using parse_isoformat valid_day [of n] by (simp add: in_calendar_def)
  then show ?thesis by (simp add: date_in_def day_file_def file_of_day_def)
qed

lemma glob_day_file: "glob_name (day_file n)"
proof -
  obtain y m d where ymd: "date_of_day n = (y, m, d)" by (cases "date_of_day n") auto
  show ?thesis
    by (simp add: glob_name_def day_file_def file_of_day_def ymd isoformat_def pad_digits starts_with_def ends_with_def)
qed

lemma expired_day_file: "in_calendar n \<Longrightarrow> expired (date_of_day c) (day_file n) \<longleftrightarrow> n < c"
  by (simp add: expired_def glob_day_file date_in_file key_day)

lemma day_file_inj: "in_calendar n \<Longrightarrow> in_calendar n' \<Longrightarrow> day_file n = day_file n' \<Longrightarrow> n = n'"
  using date_in_file day_inj by (metis option.inject)

section \<open>The directory is bounded\<close>

text \<open>Every file of the recorder is of one of the thirty days up to \<open>w\<close>, and within the limit of a day.\<close>

definition file_ok :: "nat \<Rightarrow> string \<times> string \<Rightarrow> bool" where
  "file_ok w = (\<lambda>(name, content). glob_name name \<longrightarrow>
     length content \<le> DAILY_BYTES \<and> (\<exists>n. n \<le> w \<and> w < n + RETENTION_DAYS \<and> in_calendar n \<and> name = day_file n))"

definition dir_ok :: "nat \<Rightarrow> directory \<Rightarrow> bool" where
  "dir_ok w files \<longleftrightarrow> wf_dict files \<and> (\<forall>f \<in> set files. file_ok w f)"

definition stored_bytes :: "directory \<Rightarrow> nat" where
  "stored_bytes files = sum_list (map (\<lambda>(_, c). length c) (filter (\<lambda>(n, _). glob_name n) files))"

definition stored_files :: "directory \<Rightarrow> nat" where
  "stored_files files = length (filter (\<lambda>(n, _). glob_name n) files)"

lemma dir_files_bounded: "dir_ok w files \<Longrightarrow> stored_files files \<le> RETENTION_DAYS"
proof -
  assume ok: "dir_ok w files"
  let ?own = "filter (\<lambda>(n, _). glob_name n) files"
  have "distinct (map fst ?own)"
    using ok by (auto simp: dir_ok_def wf_dict_def intro: distinct_map_filter)
  then have "length ?own = card (set (map fst ?own))" using distinct_card by fastforce
  also have "set (map fst ?own) \<subseteq> day_file ` {w + 1 - RETENTION_DAYS ..< w + 1}"
    using ok by (fastforce simp: dir_ok_def file_ok_def)
  then have "card (set (map fst ?own)) \<le> card (day_file ` {w + 1 - RETENTION_DAYS ..< w + 1})"
    by (intro card_mono) simp_all
  also have "\<dots> \<le> RETENTION_DAYS" by (rule order_trans [OF card_image_le]) simp_all
  finally show ?thesis by (simp add: stored_files_def)
qed

lemma dir_bytes_bounded: "dir_ok w files \<Longrightarrow> stored_bytes files \<le> RETENTION_DAYS * DAILY_BYTES"
proof -
  assume ok: "dir_ok w files"
  have "sum_list (map (\<lambda>(_, c). length c) fs) \<le> length fs * DAILY_BYTES"
    if "\<forall>f \<in> set fs. length (snd f) \<le> DAILY_BYTES" for fs :: directory
    using that by (induction fs) auto
  moreover have "\<forall>f \<in> set (filter (\<lambda>(n, _). glob_name n) files). length (snd f) \<le> DAILY_BYTES"
    using ok by (auto simp: dir_ok_def file_ok_def)
  ultimately have "stored_bytes files \<le> stored_files files * DAILY_BYTES"
    by (simp add: stored_bytes_def stored_files_def)
  also have "\<dots> \<le> RETENTION_DAYS * DAILY_BYTES" using dir_files_bounded [OF ok] by simp
  finally show ?thesis .
qed

lemma wf_delete: "wf_dict files \<Longrightarrow> wf_dict (delete_files ns files)"
  by (auto simp: delete_files_def wf_dict_def intro: distinct_map_filter)

lemma dir_ok_delete: "dir_ok w files \<Longrightarrow> dir_ok w (delete_files ns files)"
  by (auto simp: dir_ok_def wf_delete) (simp add: delete_files_def)

text \<open>Deleting what expired moves the window to today.\<close>

lemma dir_ok_today:
  assumes "dir_ok w files" "w \<le> today"
  shows "dir_ok today (delete_files (filter (expired (date_of_day (today - (RETENTION_DAYS - 1)))) (map fst files)) files)"
    (is "dir_ok today (delete_files ?old files)")
proof -
  have "file_ok today f" if "f \<in> set (delete_files ?old files)" for f
  proof -
    obtain name content where f: "f = (name, content)" by (cases f)
    have mem: "f \<in> set files" "\<not> expired (date_of_day (today - (RETENTION_DAYS - 1))) name"
      using that by (auto simp: f delete_files_def) force
    moreover have "\<exists>n \<le> today. today < n + RETENTION_DAYS \<and> in_calendar n \<and> name = day_file n"
      if "n \<le> w" "in_calendar n" "name = day_file n" for n
      using that mem(2) assms(2) by (intro exI [of _ n]) (auto simp: expired_day_file RETENTION_DAYS_def)
    moreover have "file_ok w f" using assms(1) mem(1) by (simp add: dir_ok_def)
    ultimately show ?thesis unfolding f file_ok_def by blast
  qed
  then show ?thesis using assms(1) by (simp add: dir_ok_def wf_delete)
qed

lemma dir_ok_append:
  assumes "dir_ok today files" "in_calendar today"
    "(case dict_get files (day_file today) of Some c \<Rightarrow> length c | None \<Rightarrow> 0) + length bytes \<le> DAILY_BYTES"
  shows "dir_ok today (append_bytes (day_file today) bytes files)"
proof -
  have "wf_dict files" using assms(1) by (simp add: dir_ok_def)
  moreover have "file_ok today (day_file today, (case dict_get files (day_file today) of Some c \<Rightarrow> c | None \<Rightarrow> []) @ bytes)"
    using assms(2,3) by (auto simp: file_ok_def RETENTION_DAYS_def split: option.splits)
  ultimately show ?thesis
    using assms(1) by (auto simp: dir_ok_def append_bytes_def dict_set_pairs)
qed

lemma dir_ok_append_entry:
  assumes ok: "dir_ok w files" "w \<le> day_number now" "in_calendar (day_number now)"
  shows "\<exists>w' \<le> day_number now. dir_ok w' (snd (append_entry now e fault files))"
proof -
  let ?today = "day_number now"
  let ?old = "filter (expired (date_of_day (?today - (RETENTION_DAYS - 1)))) (map fst files)"
  let ?kept = "delete_files ?old files"
  have kept: "dir_ok ?today ?kept" using dir_ok_today [OF ok(1,2)] .
  have appended: "dir_ok ?today (append_bytes (day_file ?today) bytes ?kept)"
    if "(case dict_get ?kept (day_file ?today) of Some c \<Rightarrow> length c | None \<Rightarrow> 0) + length bytes \<le> DAILY_BYTES" for bytes
    using dir_ok_append [OF kept ok(3) that] .
  have "snd (append_entry now e fault files) = files \<or>
      (\<exists>k. snd (append_entry now e fault files) = delete_files (take k ?old) files) \<or>
      dir_ok ?today (snd (append_entry now e fault files))"
    using kept appended [of "entry_line e"] appended [of "take k (entry_line e)" for k]
    by (auto simp: append_entry_def Let_def day_file_def split: option.splits storage_fault.splits if_splits)
  then show ?thesis
    using ok(1,2) dir_ok_delete [OF ok(1)] by (metis order_refl)
qed

text \<open>The clock of the events of a run: no write is dated before an earlier one, nor after the year 9999.\<close>

fun write_day :: "incident_event \<Rightarrow> nat option" where
  "write_day (Written now fault name) = Some (day_number now)"
| "write_day e = None"

definition write_days :: "incident_event list \<Rightarrow> nat list" where
  "write_days es = List.map_filter write_day es"

definition clock_ok :: "nat \<Rightarrow> incident_event list \<Rightarrow> bool" where
  "clock_ok w es \<longleftrightarrow> sorted (w # write_days es) \<and> list_all in_calendar (write_days es)"

lemma write_days_snoc: "write_days (es @ [e]) = write_days es @ (case write_day e of Some d \<Rightarrow> [d] | None \<Rightarrow> [])"
  by (simp add: write_days_def map_filter_def split: option.split)

lemmas recorder_changes = emit_def start_monitor_def timer_fires_def monitor_ends_def stop_monitor_def stop_resumes_def
  begin_sample_def observe_sample_def sampled_def finish_sample_def settle_def

lemma finish_files: "r_files (finish_sample now fault name who p r) = snd (append_entry now (pw_entry p) fault (r_files r))"
  by (simp add: finish_sample_def sampled_def settle_def Let_def split: prod.split option.split bool.split sampler.split)

lemma begin_files: "r_files (begin_sample digest reg clients now who r) = r_files r"
  by (simp add: begin_sample_def observe_sample_def sampled_def Let_def split: sampler.split)

lemma other_files: "r_files (emit n m r) = r_files r" "r_files (start_monitor r) = r_files r"
  "r_files (timer_fires r) = r_files r" "r_files (monitor_ends r) = r_files r"
  "r_files (stop_monitor r) = r_files r" "r_files (stop_resumes r) = r_files r"
  by (simp_all add: emit_def start_monitor_def timer_fires_def monitor_ends_def stop_monitor_def stop_resumes_def Let_def)

lemma step_files:
  assumes "incident_step digest r e r'"
  shows "r_files r' = r_files r \<or>
    (\<exists>now fault name (p :: pending_write). e = Written now fault name \<and> r_files r' = snd (append_entry now (pw_entry p) fault (r_files r)))"
  using assms
proof (cases rule: incident_step.cases)
  case (written who rest p now fault name)
  have "r_files r' = snd (append_entry now (pw_entry p) fault (r_files r))"
    unfolding written(2) by (rule finish_files)
  then show ?thesis using written(1) by blast
qed (simp_all add: begin_files other_files)

lemma clock_snoc:
  assumes "clock_ok w (es @ [e])"
  shows "clock_ok w es \<and> last (w # write_days es) \<le> last (w # write_days (es @ [e])) \<and>
    (\<forall>d. write_day e = Some d \<longrightarrow> in_calendar d \<and> last (w # write_days (es @ [e])) = d)"
proof (cases "write_day e")
  case None
  then show ?thesis using assms by (simp add: clock_ok_def write_days_snoc)
next
  case (Some d)
  have "sorted ((w # write_days es) @ [d])" using assms by (simp add: clock_ok_def write_days_snoc Some)
  then have "sorted (w # write_days es)" "\<forall>x \<in> set (w # write_days es). x \<le> d" unfolding sorted_append by auto
  moreover from this(2) have "last (w # write_days es) \<le> d" using last_in_set [of "w # write_days es"] by blast
  ultimately show ?thesis using assms by (simp add: clock_ok_def write_days_snoc Some)
qed

lemma run_dir_ok:
  assumes "incident_run digest r0 es log_of_run r" "dir_ok w (r_files r0)" "clock_ok w es"
  shows "\<exists>w' \<le> last (w # write_days es). dir_ok w' (r_files r)"
  using assms
proof induction
  case no_event
  then show ?case by (auto simp: write_days_def map_filter_def)
next
  case (next_event es l r e r')
  have clock: "clock_ok w es" and le: "last (w # write_days es) \<le> last (w # write_days (es @ [e]))"
    and cal: "\<And>d. write_day e = Some d \<Longrightarrow> in_calendar d \<and> last (w # write_days (es @ [e])) = d"
    using clock_snoc [OF next_event.prems(2)] by blast+
  obtain w' where w': "w' \<le> last (w # write_days es)" "dir_ok w' (r_files r)"
    using next_event.IH [OF next_event.prems(1) clock] by blast
  from step_files [OF next_event.hyps(2)] show ?case
  proof
    assume "r_files r' = r_files r"
    then show ?thesis using w' le by (metis order_trans)
  next
    assume "\<exists>now fault name (p :: pending_write). e = Written now fault name \<and> r_files r' = snd (append_entry now (pw_entry p) fault (r_files r))"
    then obtain now fault name and p :: pending_write where e: "e = Written now fault name"
      and files: "r_files r' = snd (append_entry now (pw_entry p) fault (r_files r))" by blast
    have today: "in_calendar (day_number now)" "last (w # write_days (es @ [e])) = day_number now"
      using cal [of "day_number now"] e by (metis write_day.simps(1))+
    have "w' \<le> day_number now" using order_trans [OF w'(1) le] unfolding today(2) .
    from dir_ok_append_entry [OF w'(2) this today(1)] show ?thesis unfolding today(2) files .
  qed
qed

text \<open>
  C37. However long the bridge runs, whatever is observed, whatever write fails and at whatever point, the
  incident directory never holds more than thirty files of its own nor more than thirty times two mebibytes,
  as long as the clock is not set back by a day and the directory started within those bounds.
\<close>
theorem incident_storage_is_bounded:
  assumes "incident_run digest (new_recorder files) es attempted r" "dir_ok w files" "clock_ok w es"
  shows "stored_files (r_files r) \<le> RETENTION_DAYS \<and> stored_bytes (r_files r) \<le> RETENTION_DAYS * DAILY_BYTES"
proof -
  obtain w' where "dir_ok w' (r_files r)"
    using run_dir_ok [OF assms(1) _ assms(3)] assms(2) by (auto simp: new_recorder_def)
  then show ?thesis using dir_files_bounded dir_bytes_bounded by blast
qed

text \<open>A first sample, written on the second of January 1970, and a warning after it.\<close>

definition witness_events :: "incident_event list" where
  "witness_events =
     [Started, Observed new_registry 0 0, Written 90000 None [], Warned ''bl_haos.ha.player'' ''No sink for the speaker'']"

lemma witness_run: "\<exists>attempted r. incident_run (\<lambda>a. a) (new_recorder []) witness_events attempted r"
proof -
  let ?r1 = "start_monitor (new_recorder [])"
  let ?r2 = "begin_sample (\<lambda>a. a) new_registry 0 0 By_start ?r1"
  have queue: "r_queue ?r1 = [By_start]" "r_pending ?r1 = None"
    by (simp_all add: start_monitor_def new_recorder_def)
  obtain p :: pending_write where r2: "r_queue ?r2 = [By_start]" "r_pending ?r2 = Some p"
    by (auto simp: begin_sample_def observe_sample_def Let_def start_monitor_def new_recorder_def)
  let ?r3 = "finish_sample 90000 None [] By_start p ?r2"
  have "incident_step (\<lambda>a. a) (new_recorder []) Started ?r1" by (rule started)
  moreover have "incident_step (\<lambda>a. a) ?r1 (Observed new_registry 0 0) ?r2" by (rule observed [OF queue])
  moreover have "incident_step (\<lambda>a. a) ?r2 (Written 90000 None []) ?r3"
    by (rule written [OF r2])
  moreover have "incident_step (\<lambda>a. a) ?r3 (Warned ''bl_haos.ha.player'' ''No sink for the speaker'')
      (emit ''bl_haos.ha.player'' ''No sink for the speaker'' ?r3)"
    by (rule warned) (simp add: finish_sample_def sampled_def Let_def split: prod.split)
  ultimately show ?thesis
    using next_event [OF next_event [OF next_event [OF next_event [OF no_event]]]] unfolding witness_events_def by fastforce
qed

lemma witness_day: "day_number 90000 = 1"
  by (simp add: day_number_def microseconds_def Let_def)

lemma witness_clock: "clock_ok 0 witness_events"
  by (simp add: clock_ok_def write_days_def map_filter_def witness_events_def witness_day in_calendar_def date_of_day_def
      next_day_def month_days_def)

theorem incident_storage_is_bounded_witness:
  "\<exists>attempted r. incident_run (\<lambda>a. a) (new_recorder []) witness_events attempted r \<and> stored_files (r_files r) \<le> 30"
proof -
  obtain attempted r where run: "incident_run (\<lambda>a. a) (new_recorder []) witness_events attempted r"
    using witness_run by blast
  have "dir_ok 0 []" by (simp add: dir_ok_def wf_dict_def)
  then show ?thesis
    using incident_storage_is_bounded [OF run _ witness_clock] run by (auto simp: RETENTION_DAYS_def)
qed

section \<open>No warning is lost or counted twice\<close>

definition amount :: "string \<Rightarrow> nat dict \<Rightarrow> nat" where
  "amount c counts = (case dict_get counts c of Some n \<Rightarrow> n | None \<Rightarrow> 0)"

lemma amount_count_up: "amount c (count_up c' counts) = amount c counts + (if c = c' then 1 else 0)"
  by (simp add: amount_def count_up_def)

lemma amount_nil [simp]: "amount c [] = 0"
  by (simp add: amount_def)

fun warned_of :: "string \<Rightarrow> incident_event \<Rightarrow> nat" where
  "warned_of c (Warned n m) = (if \<not> starts_with ''bl_haos.incidents'' n \<and> category_of m = c then 1 else 0)"
| "warned_of c e = 0"

definition in_write :: "string \<Rightarrow> recorder \<Rightarrow> nat" where
  "in_write c r = (case r_pending r of Some p \<Rightarrow> amount c (en_patterns (pw_entry p)) | None \<Rightarrow> 0)"

definition attempted_amount :: "string \<Rightarrow> (incident_entry \<times> bool option) list \<Rightarrow> nat" where
  "attempted_amount c attempts = sum_list (map (\<lambda>(e, _). amount c (en_patterns e)) attempts)"

definition unconfirmed :: "(incident_entry \<times> bool option) list \<Rightarrow> nat" where
  "unconfirmed attempts = length (filter (\<lambda>(_, result). result \<noteq> Some True) attempts)"

lemma begin_counts:
  assumes "r_pending r = None"
  shows "in_write c (begin_sample digest reg clients now who r) + amount c (r_counts (begin_sample digest reg clients now who r))
      = amount c (r_counts r) \<and> r_dropped (begin_sample digest reg clients now who r) = r_dropped r"
  using assms by (simp add: begin_sample_def observe_sample_def sampled_def in_write_def Let_def split: sampler.split)

lemma finish_counts:
  assumes "r_pending r = Some p"
  shows "in_write c (finish_sample now fault name who p r) = 0 \<and>
    r_counts (finish_sample now fault name who p r) = r_counts r \<and>
    r_dropped (finish_sample now fault name who p r) = r_dropped r + unconfirmed (writes_of r (Written now fault name))"
  using assms
  by (simp add: finish_sample_def sampled_def settle_def in_write_def unconfirmed_def Let_def
      split: prod.split option.split bool.split sampler.split)

lemma step_counts:
  assumes "incident_step digest r e r'"
  shows "attempted_amount c (writes_of r e) + in_write c r' + amount c (r_counts r')
      = in_write c r + amount c (r_counts r) + warned_of c e \<and>
    r_dropped r' = r_dropped r + unconfirmed (writes_of r e)"
  using assms
proof (cases rule: incident_step.cases)
  case (warned n m)
  then show ?thesis by (simp add: emit_def amount_count_up in_write_def attempted_amount_def unconfirmed_def)
next
  case (observed who rest reg clients now)
  then show ?thesis
    using begin_counts [OF observed(4), of c digest reg clients now who]
    by (simp add: attempted_amount_def unconfirmed_def in_write_def [of c r])
next
  case (written who rest p now fault name)
  then show ?thesis
    using finish_counts [OF written(4), of c now fault name who]
    by (simp add: attempted_amount_def in_write_def [of c r])
qed (simp_all add: start_monitor_def timer_fires_def monitor_ends_def stop_monitor_def stop_resumes_def in_write_def
    attempted_amount_def unconfirmed_def Let_def)

text \<open>
  C39. In every run of the recorder, for every category, the warnings its handler was given are all accounted
  for exactly once: in a sample a write was attempted for, in the one being written, or in the counters. The
  number of dropped observations is that of the samples whose write was refused or failed.
\<close>
theorem every_warning_is_counted_once:
  assumes "incident_run digest (new_recorder files) es attempted r"
  shows "attempted_amount c attempted + in_write c r + amount c (r_counts r) = sum_list (map (warned_of c) es) \<and>
    r_dropped r = unconfirmed attempted"
  using assms
proof induction
  case no_event
  then show ?case by (simp add: new_recorder_def attempted_amount_def in_write_def unconfirmed_def)
next
  case (next_event es attempted r e r')
  then show ?case
    using step_counts [OF next_event.hyps(2), of c] by (simp add: attempted_amount_def unconfirmed_def)
qed

theorem every_warning_is_counted_once_witness:
  "\<exists>attempted r. incident_run (\<lambda>a. a) (new_recorder []) witness_events attempted r \<and> r_dropped r = unconfirmed attempted \<and>
     attempted_amount ''sink_missing'' attempted + in_write ''sink_missing'' r + amount ''sink_missing'' (r_counts r) = 1"
proof -
  obtain attempted r where run: "incident_run (\<lambda>a. a) (new_recorder []) witness_events attempted r"
    using witness_run by blast
  have "category_of ''No sink for the speaker'' = ''sink_missing''"
    by (simp add: category_of_def PATTERNS_def lower_def lower_char_def is_upper_def ord_of_def starts_with_def)
  then have "sum_list (map (warned_of ''sink_missing'') witness_events) = 1"
    by (simp add: witness_events_def starts_with_def)
  then show ?thesis using every_warning_is_counted_once [OF run] run by metis
qed

section \<open>What is read back\<close>

definition lines_text :: "string list \<Rightarrow> string" where
  "lines_text ls = concat (map (\<lambda>l. l @ [NL]) ls)"

lemma lines_text_simps [simp]: "lines_text [] = []" "lines_text (l # ls) = l @ NL # lines_text ls"
  by (simp_all add: lines_text_def)

lemma NL_CR: "ord_of NL = 10" "ord_of CR = 13" "NL \<noteq> CR"
proof -
  show "ord_of NL = 10" "ord_of CR = 13" by (simp_all add: NL_def CR_def ord_of_def)
  then show "NL \<noteq> CR" by auto
qed

lemma line_ends_plain: "list_all (\<lambda>c. c \<noteq> CR) s \<Longrightarrow> line_ends False s = s"
  by (induction s) auto

lemma split_line: "list_all (\<lambda>c. c \<noteq> NL) l \<Longrightarrow> split_at_feeds (l @ NL # s) = l # split_at_feeds s"
  by (induction l) auto

lemma line_free_plain: "line_free l \<Longrightarrow> list_all (\<lambda>c. c \<noteq> NL) l \<and> list_all (\<lambda>c. c \<noteq> CR) l"
  using NL_CR by (induction l) auto

lemma split_lines_text: "list_all line_free ls \<Longrightarrow> split_lines (lines_text ls) = ls"
proof -
  assume free: "list_all line_free ls"
  have "list_all (\<lambda>c. c \<noteq> CR) (lines_text ls)"
    using free NL_CR(3) line_free_plain by (induction ls) auto
  moreover have "split_at_feeds (lines_text ls) = ls"
    using free line_free_plain by (induction ls) (simp_all add: split_line)
  ultimately show ?thesis by (simp add: split_lines_def line_ends_plain)
qed

lemma skip_at: "list_all (\<lambda>c. c \<noteq> NL) l \<Longrightarrow> skip_line (l @ NL # s) = s"
  by (induction l) (auto simp: skip_line_def)

text \<open>From any byte on, the text continues with whole lines after at most one that is cut.\<close>

lemma skip_line_text:
  assumes "list_all line_free ls" "n < length (lines_text ls)"
  shows "\<exists>j < length ls. skip_line (drop n (lines_text ls)) = lines_text (drop (Suc j) ls) \<and>
    length (lines_text ls) - n \<le> length (lines_text (drop j ls))"
  using assms
proof (induction ls arbitrary: n)
  case (Cons l ls)
  show ?case
  proof (cases "n \<le> length l")
    case True
    have "list_all (\<lambda>c. c \<noteq> NL) (drop n l)"
      using Cons.prems(1) line_free_plain in_set_dropD by (fastforce simp: list_all_iff)
    then show ?thesis using True skip_at by (intro exI [of _ 0]) simp
  next
    case False
    define k where "k = n - length l - 1"
    have n: "n = Suc (length l + k)" using False by (simp add: k_def)
    obtain j where "j < length ls" "skip_line (drop k (lines_text ls)) = lines_text (drop (Suc j) ls)"
      "length (lines_text ls) - k \<le> length (lines_text (drop j ls))"
      using Cons.IH [of k] Cons.prems by (auto simp: n)
    then show ?thesis by (intro exI [of _ "Suc j"]) (simp add: n)
  qed
qed simp

lemma tail_lines_text:
  assumes "list_all line_free ls"
  shows "\<exists>j \<le> length ls. tail_lines (lines_text ls) = drop j ls \<and> length ls - j \<le> 100 \<and>
    (j = 0 \<or> length ls - j = 100 \<or> TAIL_BYTES \<le> length (lines_text (drop (j - 1) ls)))"
proof (cases "length (lines_text ls) \<le> TAIL_BYTES")
  case True
  then show ?thesis
    by (intro exI [of _ "length ls - 100"]) (auto simp: tail_lines_def Let_def split_lines_text assms)
next
  case False
  define n where "n = length (lines_text ls) - TAIL_BYTES"
  have pos: "n > 0" "n < length (lines_text ls)" using False by (auto simp: n_def TAIL_BYTES_def)
  obtain j where j: "j < length ls" "skip_line (drop n (lines_text ls)) = lines_text (drop (Suc j) ls)"
    "length (lines_text ls) - n \<le> length (lines_text (drop j ls))"
    using skip_line_text [OF assms pos(2)] by blast
  have tail: "TAIL_BYTES \<le> length (lines_text (drop j ls))" using j(3) False by (simp add: n_def)
  have free: "list_all line_free (drop (Suc j) ls)" using assms in_set_dropD by (fastforce simp: list_all_iff)
  have result: "tail_lines (lines_text ls) = drop (length ls - Suc j - 100) (drop (Suc j) ls)"
    using pos(1) j(2) split_lines_text [OF free] by (simp add: tail_lines_def Let_def n_def)
  show ?thesis
  proof (cases "length ls - Suc j \<le> 100")
    case True
    then show ?thesis using result j(1) tail by (intro exI [of _ "Suc j"]) simp
  next
    case False
    then have "length ls - Suc j - 100 + Suc j = length ls - 100" by simp
    then have "tail_lines (lines_text ls) = drop (length ls - 100) ls" using result by (simp only: drop_drop)
    then show ?thesis using False by (intro exI [of _ "length ls - 100"]) auto
  qed
qed

text \<open>The names of the files sort as their days.\<close>

lemma char_of_less: "m < n \<Longrightarrow> n < 256 \<Longrightarrow> (char_of m :: char) < char_of (n :: nat)"
  by (simp add: less_char_def)

lemma pad_less: "n mod 10 ^ k < n' mod 10 ^ k \<Longrightarrow> pad k n @ xs < pad k n' @ ys"
proof (induction k)
  case (Suc k)
  define a where "a = n div 10 ^ k mod 10"
  define b where "b = n' div 10 ^ k mod 10"
  have split: "x mod 10 ^ Suc k = 10 ^ k * (x div 10 ^ k mod 10) + x mod 10 ^ k" for x :: nat
    using mod_mult2_eq [of x "10 ^ k" 10] by (simp add: mult.commute)
  have ab: "a < 10" "b < 10" by (simp_all add: a_def b_def)
  have le: "10 ^ k * a + n mod 10 ^ k < 10 ^ k * b + n' mod 10 ^ k"
    using Suc.prems split by (simp add: a_def b_def)
  show ?case
  proof (cases "a < b")
    case True
    then show ?thesis using ab char_of_less [of "48 + a" "48 + b"] by (simp add: a_def b_def)
  next
    case False
    have "a = b"
    proof (rule ccontr)
      assume "a \<noteq> b"
      then have "10 ^ k * Suc b \<le> 10 ^ k * a" using False by (intro mult_le_mono2) simp
      moreover have "n' mod 10 ^ k < 10 ^ k" by simp
      ultimately show False using le by simp
    qed
    then have "pad k n @ xs < pad k n' @ ys" using Suc.IH le by simp
    then show ?thesis using \<open>a = b\<close> by (simp add: a_def b_def)
  qed
qed simp

lemma same_prefix_less: "p @ xs < p @ ys \<longleftrightarrow> xs < (ys :: string)"
  by (induction p) simp_all

lemma isoformat_less:
  assumes "valid_date d" "valid_date d'" "fst d' \<le> 9999" "date_key d < date_key d'"
  shows "isoformat d @ xs < isoformat d' @ ys"
proof -
  obtain y m k y' m' k' where d: "d = (y, m, k)" "d' = (y', m', k')" by (cases d, cases d') auto
  have small: "k \<le> 31" "k' \<le> 31" "m \<le> 12" "m' \<le> 12" "y' \<le> 9999"
    using assms(1-3) month_days_range(2) le_trans by (fastforce simp: d valid_date_def)+
  have key: "y * 10000 + m * 100 + k < y' * 10000 + m' * 100 + k'" using assms(4) by (simp add: d date_key_def algebra_simps)
  have "\<not> y' < y" using key small by linarith
  moreover have "y = y' \<Longrightarrow> \<not> m' < m" using key small by linarith
  moreover have "y = y' \<Longrightarrow> m = m' \<Longrightarrow> k < k'" using key by simp
  ultimately have "y < y' \<or> y = y' \<and> (m < m' \<or> m = m' \<and> k < k')" by (metis linorder_neqE_nat)
  then consider "y < y'" | "y = y'" "m < m'" | "y = y'" "m = m'" "k < k'" by blast
  then show ?thesis
  proof cases
    case 1
    then have "pad 4 y @ u < pad 4 y' @ v" for u v using small(5) by (intro pad_less) simp
    then show ?thesis by (simp add: d isoformat_def)
  next
    case 2
    then have "pad 2 m @ u < pad 2 m' @ v" for u v using small by (intro pad_less) simp
    then show ?thesis using 2 by (simp add: d isoformat_def same_prefix_less)
  next
    case 3
    then have "pad 2 k @ u < pad 2 k' @ v" for u v using small by (intro pad_less) simp
    then show ?thesis using 3 by (simp add: d isoformat_def same_prefix_less)
  qed
qed

lemma day_file_less:
  assumes "n < n'" "in_calendar n'"
  shows "day_file n < day_file n'"
  using isoformat_less [OF valid_day valid_day _ key_day_less [OF assms(1)], of "''.jsonl''" "''.jsonl''"] assms(2)
  by (simp add: day_file_def file_of_day_def in_calendar_def)

lemma latest_is_today:
  assumes "dir_ok today files" "dict_get files (day_file today) \<noteq> None" "in_calendar today"
  shows "latest_file files = Some (day_file today)"
proof -
  let ?names = "filter glob_name (map fst files)"
  have mem: "day_file today \<in> set ?names" using assms(2) by (auto simp: map_of_eq_None_iff glob_day_file)
  have le: "name \<le> day_file today" if "name \<in> set ?names" for name
  proof -
    obtain n where "n \<le> today" "name = day_file n"
      using assms(1) \<open>name \<in> set ?names\<close> by (fastforce simp: dir_ok_def file_ok_def)
    then show ?thesis using day_file_less [OF _ assms(3), of n] by (cases "n = today") auto
  qed
  have ne: "sort ?names \<noteq> []" using mem by (metis length_greater_0_conv length_pos_if_in_set length_sort)
  have "last (sort ?names) = day_file today"
  proof (rule antisym)
    show "last (sort ?names) \<le> day_file today" using le last_in_set [OF ne] by simp
    obtain i where i: "i < length (sort ?names)" "sort ?names ! i = day_file today" using mem by (metis in_set_conv_nth set_sort)
    have "sort ?names ! i \<le> sort ?names ! (length (sort ?names) - 1)"
      using i(1) by (intro sorted_nth_mono) simp_all
    then show "day_file today \<le> last (sort ?names)" using i ne by (simp add: last_conv_nth)
  qed
  moreover have "?names \<noteq> []" using ne by auto
  ultimately show ?thesis by (simp add: latest_file_def Let_def)
qed

lemma entry_line_text: "concat (map entry_line es) = lines_text (map (\<lambda>e. json_text (\<lambda>_. []) (entry_json e)) es)"
  by (induction es) (simp_all add: entry_line_def)

lemma dict_get_delete: "k \<notin> set ns \<Longrightarrow> dict_get (delete_files ns files) k = dict_get files k"
  unfolding delete_files_def by (induction files) auto

text \<open>
  C38. A sample that was written is what \<open>recent\<close> returns last: from a directory within its bounds, where the
  file of the day holds the lines of earlier samples, the reading after the write succeeds and gives the
  newest of all those samples in the order they were written, the new one included if its line is shorter than
  128 KiB; it leaves out only what does not fit into a hundred lines or into those 128 KiB. \<open>loads\<close> is assumed
  to read each line that was written.
\<close>
theorem written_sample_is_read_back:
  assumes "dir_ok w files" "w \<le> day_number now" "in_calendar (day_number now)"
    and "append_entry now e None files = (Some True, files')"
    and "case dict_get files (day_file (day_number now)) of Some c \<Rightarrow> c = concat (map entry_line es) | None \<Rightarrow> es = []"
    and "list_all (\<lambda>x. loads (json_text (\<lambda>_. []) (entry_json x)) = Some (view x)) (es @ [e])"
  shows "\<exists>j \<le> length (es @ [e]). read_recent loads files' = Inr (map view (drop j (es @ [e]))) \<and>
    length (es @ [e]) - j \<le> 100 \<and>
    (j = 0 \<or> length (es @ [e]) - j = 100 \<or> TAIL_BYTES \<le> length (concat (map entry_line (drop (j - 1) (es @ [e])))))"
proof -
  let ?today = "day_number now"
  let ?old = "filter (expired (date_of_day (?today - (RETENTION_DAYS - 1)))) (map fst files)"
  let ?kept = "delete_files ?old files"
  let ?text = "\<lambda>x. json_text (\<lambda>_. []) (entry_json x)"
  have files': "files' = append_bytes (day_file ?today) (entry_line e) ?kept"
    using assms(4) by (auto simp: append_entry_def day_file_def Let_def split: if_splits)
  have ok: "dir_ok ?today files'"
  proof -
    have "(case dict_get ?kept (day_file ?today) of Some c \<Rightarrow> length c | None \<Rightarrow> 0) + length (entry_line e) \<le> DAILY_BYTES"
      using assms(4) by (auto simp: append_entry_def day_file_def Let_def split: if_splits)
    then show ?thesis unfolding files' by (intro dir_ok_append dir_ok_today [OF assms(1,2)] assms(3))
  qed
  have "\<not> expired (date_of_day (?today - (RETENTION_DAYS - 1))) (day_file ?today)"
    using assms(3) by (simp add: expired_day_file)
  then have kept: "dict_get ?kept (day_file ?today) = dict_get files (day_file ?today)"
    by (intro dict_get_delete) simp
  have content: "dict_get files' (day_file ?today) = Some (concat (map entry_line (es @ [e])))"
    using assms(5) unfolding files' append_bytes_def kept by (auto split: option.splits)
  have latest: "latest_file files' = Some (day_file ?today)"
    using latest_is_today [OF ok _ assms(3)] content by simp
  obtain j where j: "j \<le> length (map ?text (es @ [e]))"
    "tail_lines (lines_text (map ?text (es @ [e]))) = drop j (map ?text (es @ [e]))"
    "length (map ?text (es @ [e])) - j \<le> 100"
    "j = 0 \<or> length (map ?text (es @ [e])) - j = 100 \<or> TAIL_BYTES \<le> length (lines_text (drop (j - 1) (map ?text (es @ [e]))))"
    using tail_lines_text [of "map ?text (es @ [e])"] line_free_json [of "\<lambda>_. []"] by (auto simp: list_all_iff)
  have tail: "tail_lines (concat (map entry_line (es @ [e]))) = map ?text (drop j (es @ [e]))"
    using j(2) by (simp only: entry_line_text drop_map)
  have loads: "list_all (\<lambda>x. loads (?text x) = Some (view x)) (drop j (es @ [e]))"
    using assms(6) in_set_dropD by (fastforce simp: list_all_iff)
  have "read_recent loads files' = Inr (map view (drop j (es @ [e])))"
    unfolding read_recent_def latest option.case content Let_def tail using loads
    by (auto simp: list_all_iff)
  moreover have "j = 0 \<or> length (es @ [e]) - j = 100 \<or> TAIL_BYTES \<le> length (concat (map entry_line (drop (j - 1) (es @ [e]))))"
    using j(4) unfolding entry_line_text drop_map by simp
  ultimately show ?thesis using j(1,3) by auto
qed

text \<open>The first sample of a new directory.\<close>

definition witness_entry :: incident_entry where
  "witness_entry = \<lparr>en_timestamp = 90000, en_first = True, en_patterns = [], en_context = take_context (\<lambda>a. a) new_registry 0,
     en_dropped = 0, en_findings = []\<rparr>"

lemma iso_time_length: "length (json_string (iso_time now)) \<le> 200"
  using json_string_length [of "iso_time now"] by (simp add: iso_time_def Let_def split: if_splits)

lemma int_text_length: "length (int_text 0) = 1" "length (int_text 1) = 1"
  by (simp_all add: int_text_def) (simp_all add: show_nat.simps)

lemma witness_line_short: "length (entry_line witness_entry) \<le> 1001"
proof -
  let ?fl = "\<lambda>_ :: real. []"
  have inner: "length (json_text ?fl (context_json (en_context witness_entry))) \<le> 200"
    unfolding context_json_def
    by (rule order_trans [OF object_length])
      (simp add: witness_entry_def take_context_def snapshot_def new_registry_def snapshot_status_def required_states_def
        json_string_def escaped_char_def ord_of_def Let_def int_text_length)
  have "length (json_text ?fl (entry_json witness_entry)) \<le> 1000"
    unfolding entry_json_def
    by (rule order_trans [OF object_length])
      (use inner iso_time_length [of 90000] in \<open>simp add: json_string_def [of "''version''"]
         json_string_def [of "''timestamp''"] json_string_def [of "''kind''"] json_string_def [of "''patterns''"]
         json_string_def [of "''context''"] json_string_def [of "''dropped_observations''"] json_string_def [of "''findings''"]
         json_string_def [of "''monitor_started''"] escaped_char_def ord_of_def Let_def int_text_length witness_entry_def\<close>)
  then show ?thesis by (simp add: entry_line_def)
qed

theorem written_sample_is_read_back_witness:
  "\<exists>j \<le> 1. read_recent (\<lambda>_. Some True) (snd (append_entry 90000 witness_entry None [])) = Inr (map (\<lambda>_. True) (drop j [witness_entry]))"
proof -
  have ok: "dir_ok 0 []" by (simp add: dir_ok_def wf_dict_def)
  have cal: "in_calendar (day_number 90000)"
    by (simp add: witness_day in_calendar_def date_of_day_def next_day_def month_days_def)
  have "append_entry 90000 witness_entry None [] = (Some True, snd (append_entry 90000 witness_entry None []))"
    using witness_line_short by (simp add: append_entry_def delete_files_def Let_def DAILY_BYTES_def)
  from written_sample_is_read_back [OF ok _ cal this, of "[]" "\<lambda>_. Some True" "\<lambda>_. True"]
  show ?thesis by auto
qed

lemma line_free_take: "line_free s \<Longrightarrow> line_free (take k s)"
  by (auto simp: line_free_def dest: in_set_takeD)

text \<open>
  C30. A write that fails part of the way leaves a torn line, and the next sample of the day is appended to it:
  from then on the line is no JSON and every request for the incidents of that day is refused with 503, for as
  long as the line is within the last hundred and the last 128 KiB.
\<close>
theorem torn_write_hides_the_day:
  assumes "k \<le> length (json_text (\<lambda>_. []) (entry_json e1))" "in_calendar (day_number now)"
    "length (entry_line e1) + length (entry_line e2) \<le> TAIL_BYTES"
    "loads (take k (json_text (\<lambda>_. []) (entry_json e1)) @ json_text (\<lambda>_. []) (entry_json e2)) = None"
    "r_files r = snd (append_entry now e2 None (snd (append_entry now e1 (Some (Write_fails k)) [])))"
  shows "incident_observations loads (Some r) = Inl (HTTPException 503 ''Incident history could not be read'')"
proof -
  let ?name = "day_file (day_number now)"
  let ?t1 = "json_text (\<lambda>_. []) (entry_json e1)" and ?t2 = "json_text (\<lambda>_. []) (entry_json e2)"
  let ?line = "take k ?t1 @ ?t2"
  have tail: "TAIL_BYTES \<le> DAILY_BYTES" by (simp add: TAIL_BYTES_def DAILY_BYTES_def)
  have size: "length (lines_text [?line]) \<le> TAIL_BYTES" using assms(3) by (simp add: entry_line_def)
  have first: "snd (append_entry now e1 (Some (Write_fails k)) []) = [(?name, take k ?t1)]"
    using assms(1,3) tail by (simp add: append_entry_def delete_files_def append_bytes_def day_file_def entry_line_def Let_def)
  have fresh: "\<not> expired (date_of_day (day_number now - (RETENTION_DAYS - 1))) ?name"
    using assms(2) by (simp add: expired_day_file)
  have "snd (append_entry now e2 None [(?name, take k ?t1)]) = [(?name, lines_text [?line])]"
    using assms(1,3) tail fresh
    by (simp add: append_entry_def delete_files_def append_bytes_def day_file_def [symmetric] entry_line_def Let_def)
  then have files: "r_files r = [(?name, lines_text [?line])]" unfolding assms(5) first .
  have latest: "latest_file (r_files r) = Some ?name"
    by (simp add: files latest_file_def glob_day_file Let_def)
  have free: "line_free ?line"
    using line_free_take [OF line_free_json [of "\<lambda>_. []" "entry_json e1"]] line_free_json [of "\<lambda>_. []" "entry_json e2"]
    by (simp only: line_free_simps)
  have "tail_lines (lines_text [?line]) = [?line]"
    using size free split_lines_text [of "[?line]"] by (simp add: tail_lines_def Let_def)
  then show ?thesis
    using assms(4) by (simp add: incident_observations_def read_recent_def latest) (simp add: files)
qed

theorem torn_write_hides_the_day_witness:
  "let files = snd (append_entry 90000 witness_entry None (snd (append_entry 90000 witness_entry (Some (Write_fails 1)) [])));
       text = json_text (\<lambda>_. []) (entry_json witness_entry)
   in incident_observations (\<lambda>s. if s = text then Some s else None) (Some (new_recorder files)) =
        Inl (HTTPException 503 ''Incident history could not be read'')"
proof -
  have cal: "in_calendar (day_number 90000)"
    by (simp add: witness_day in_calendar_def date_of_day_def next_day_def month_days_def)
  have size: "length (entry_line witness_entry) + length (entry_line witness_entry) \<le> TAIL_BYTES"
    using witness_line_short by (simp add: TAIL_BYTES_def)
  have one: "1 \<le> length (json_text (\<lambda>_. []) (entry_json witness_entry))" by (simp add: entry_json_def)
  show ?thesis
    unfolding Let_def
    by (rule torn_write_hides_the_day [OF one cal size]) (use one in \<open>auto simp: new_recorder_def\<close>)
qed

end
