(* ===== verification/Demo.thy ===== *)
theory Demo
  imports Diagnostics
begin

text \<open>
  The offline runtime of \<open>demo.py\<close>: it stands in for the Bluetooth manager and the media player in demo mode,
  on four fixed speakers and one adapter, and reports through the health registry and the diagnostics. Of a
  device's record it has the fields the runtime sets; the others keep their defaults. \<open>t\<close> is the time on the
  clock of the registry. The operations of the player and the manager the demo ignores do nothing.
\<close>

section \<open>Scenarios\<close>

definition DEMO_PRIMARY_SPEAKER :: string where "DEMO_PRIMARY_SPEAKER = ''aa:bb:cc:11:22:33''"

definition DEMO_SCENARIOS :: "(string \<times> (failure_class \<times> health_state) option) list" where
  "DEMO_SCENARIOS =
     [(''healthy'', None), (''pairing_failure'', Some (FC_PAIRING_FAILED, HS_DEGRADED)),
      (''sink_missing'', Some (FC_SINK_MISSING, HS_DEGRADED)),
      (''reconnect_exhausted'', Some (FC_RECONNECT_EXHAUSTED, HS_UNAVAILABLE)),
      (''native_integration_unavailable'', Some (FC_NATIVE_INTEGRATION_UNAVAILABLE, HS_DEGRADED)),
      (''restart_degraded'', Some (FC_STARTUP_FAILED, HS_DEGRADED))]"

definition DEMO_CLOCK :: real where "DEMO_CLOCK = 1700000000"

definition COMPONENT_DEMO :: string where "COMPONENT_DEMO = ''demo''"
definition SOURCE_DEMO :: string where "SOURCE_DEMO = ''demo''"
definition EVENT_DEMO_SCENARIO :: string where "EVENT_DEMO_SCENARIO = ''demo_scenario''"

section \<open>State\<close>

record demo_device =
  dd_path :: string
  dd_address :: string
  dd_name :: string
  dd_paired :: bool
  dd_trusted :: bool
  dd_connected :: bool
  dd_is_audio_sink :: bool
  dd_device_type :: string
  dd_rssi :: "int option"

record demo_adapter =
  da_path :: string
  da_interface :: string
  da_address :: string
  da_name :: string
  da_powered :: bool
  da_discovering :: bool

record demo =
  dm_scenario :: string
  dm_health :: registry
  dm_events :: "diag_event list"
  dm_adapter :: demo_adapter
  dm_devices :: "demo_device dict"
  dm_states :: "string dict"
  dm_volumes :: "real dict"

definition demo_adapter_info :: demo_adapter where
  "demo_adapter_info = \<lparr>da_path = ''/demo/hci0'', da_interface = ''hci0'', da_address = ''00:11:22:33:44:55'',
     da_name = ''Demo Adapter'', da_powered = True, da_discovering = False\<rparr>"

definition idle_device :: "string \<Rightarrow> string \<Rightarrow> string \<Rightarrow> string \<Rightarrow> int \<Rightarrow> demo_device" where
  "idle_device path address name type rssi =
     \<lparr>dd_path = path, dd_address = address, dd_name = name, dd_paired = False, dd_trusted = False, dd_connected = False,
      dd_is_audio_sink = True, dd_device_type = type, dd_rssi = Some rssi\<rparr>"

definition demo_devices :: "string \<Rightarrow> demo_device dict" where
  "demo_devices scenario =
     [(''aa:bb:cc:11:22:33'',
        \<lparr>dd_path = ''/demo/hci0/dev_AA_BB_CC_11_22_33'', dd_address = ''aa:bb:cc:11:22:33'', dd_name = ''Demo Speaker'',
         dd_paired = True, dd_trusted = True, dd_connected = (scenario = ''healthy''),
         dd_is_audio_sink = (scenario \<noteq> ''sink_missing''), dd_device_type = ''Speaker'', dd_rssi = None\<rparr>),
      (''fc:58:fa:91:a2:b3'', idle_device ''/demo/hci0/dev_FC_58_FA_91_A2_B3'' ''fc:58:fa:91:a2:b3'' ''Sony WH-1000XM4'' ''Headphones'' (-58)),
      (''08:eb:ed:44:55:66'', idle_device ''/demo/hci0/dev_08_EB_ED_44_55_66'' ''08:eb:ed:44:55:66'' ''JBL Flip 6'' ''Speaker'' (-65)),
      (''e4:58:b8:77:88:99'', idle_device ''/demo/hci0/dev_E4_58_B8_77_88_99'' ''e4:58:b8:77:88:99'' ''Bose SoundLink Revolve'' ''Speaker'' (-72))]"

definition scenario_request :: "string \<Rightarrow> event_request" where
  "scenario_request scenario =
     \<lparr>er_name = EVENT_DEMO_SCENARIO, er_component = COMPONENT_DEMO, er_speaker = None, er_adapter = None,
      er_detail = Some (AV_map [(''scenario'', AV_text scenario), (''event_order'', AV_int 1)]), er_failure_class = None,
      er_transition_reason = None, er_recovery = None, er_correlation_id = Some ''demo-event-0001''\<rparr>"

definition prepare_components :: "string \<Rightarrow> real \<Rightarrow> registry \<Rightarrow> registry" where
  "prepare_components scenario t h =
     (let h = observe_component h COMPONENT_BLUETOOTH HS_HEALTHY True None None (Some SOURCE_DEMO) t t;
          h = observe_component h ''pipewire'' (if scenario = ''sink_missing'' then HS_UNAVAILABLE else HS_HEALTHY) True
                None None (Some SOURCE_DEMO) t t
      in if scenario = ''native_integration_unavailable''
         then observe_component h ''native_bridge'' HS_UNAVAILABLE False (Some FC_NATIVE_INTEGRATION_UNAVAILABLE) None
                (Some SOURCE_DEMO) t t
         else h)"

definition prepare_health :: "string \<Rightarrow> (failure_class \<times> health_state) option \<Rightarrow> real \<Rightarrow> registry \<Rightarrow> py_exc + registry" where
  "prepare_health scenario failure t h =
     (let h = prepare_components scenario t h
      in case (case failure of
           Some (f, state) \<Rightarrow>
             (case observe_speaker h DEMO_PRIMARY_SPEAKER SP_UNAVAILABLE (Some f) (Some ''Deterministic demo failure'') 2 None t t of
                Inl e \<Rightarrow> Inl e
              | Inr h \<Rightarrow> Inr (if f = FC_SINK_MISSING
                  then observe_component h ''pipewire'' state True (Some f) None (Some SOURCE_DEMO) t t else h))
         | None \<Rightarrow> observe_speaker h DEMO_PRIMARY_SPEAKER SP_CONNECTED None None 0 None t t) of
           Inl e \<Rightarrow> Inl e
         | Inr h \<Rightarrow> Inr (set_lifecycle h (if scenario = ''healthy'' then HS_HEALTHY else HS_DEGRADED) None None t t))"

definition new_demo :: "(real \<Rightarrow> string) \<Rightarrow> string \<Rightarrow> real \<Rightarrow> registry \<Rightarrow> py_exc + demo" where
  "new_demo fl scenario t h =
     (case map_of DEMO_SCENARIOS scenario of
        None \<Rightarrow> Inl (ValueError ''Unknown demo scenario'')
      | Some failure \<Rightarrow>
        (case prepare_health scenario failure t h of
           Inl e \<Rightarrow> Inl e
         | Inr h \<Rightarrow> Inr \<lparr>dm_scenario = scenario, dm_health = h,
             dm_events = snd (record_event fl DEMO_CLOCK [] (scenario_request scenario) []),
             dm_adapter = demo_adapter_info, dm_devices = demo_devices scenario,
             dm_states = [(DEMO_PRIMARY_SPEAKER, ''idle'')], dm_volumes = [(DEMO_PRIMARY_SPEAKER, DEFAULT_VOLUME_RATIO)]\<rparr>))"

section \<open>The manager's operations\<close>

definition demo_key :: "string \<Rightarrow> string" where
  "demo_key address = replace_char CHR ''-'' CHR '':'' (lower address)"

definition demo_get_adapters :: "demo \<Rightarrow> demo_adapter list" where
  "demo_get_adapters dm = [dm_adapter dm]"

text \<open>The wrapper \<open>get_adapter_by_name\<close> returns reads and writes the runtime's own adapter.\<close>

definition demo_get_adapter_by_name :: "string \<Rightarrow> demo \<Rightarrow> demo_adapter option" where
  "demo_get_adapter_by_name name dm =
     (if name \<in> {da_interface (dm_adapter dm), da_name (dm_adapter dm)} then Some (dm_adapter dm) else None)"

definition demo_set_power :: "bool \<Rightarrow> demo \<Rightarrow> demo" where
  "demo_set_power powered dm = dm\<lparr>dm_adapter := (dm_adapter dm)\<lparr>da_powered := powered\<rparr>\<rparr>"

definition demo_start_scan :: "demo \<Rightarrow> demo" where
  "demo_start_scan dm = dm\<lparr>dm_adapter := (dm_adapter dm)\<lparr>da_discovering := True\<rparr>\<rparr>"

definition demo_stop_scan :: "demo \<Rightarrow> demo" where
  "demo_stop_scan dm = dm\<lparr>dm_adapter := (dm_adapter dm)\<lparr>da_discovering := False\<rparr>\<rparr>"

definition demo_get_devices :: "bool \<Rightarrow> demo \<Rightarrow> demo_device list" where
  "demo_get_devices audio_only dm =
     (let results = map snd (dm_devices dm) in if audio_only then filter dd_is_audio_sink results else results)"

definition demo_get_device_by_address :: "string \<Rightarrow> demo \<Rightarrow> demo_device option" where
  "demo_get_device_by_address address dm = dict_get (dm_devices dm) (demo_key address)"

definition demo_observe :: "string \<Rightarrow> speaker_state \<Rightarrow> real \<Rightarrow> demo \<Rightarrow> (py_exc + bool) \<times> demo" where
  "demo_observe k state t dm =
     (case observe_speaker (dm_health dm) k state None None 0 None t t of
        Inl e \<Rightarrow> (Inl e, dm)
      | Inr h \<Rightarrow> (Inr True, dm\<lparr>dm_health := h\<rparr>))"

definition demo_set_default :: "string \<Rightarrow> 'v \<Rightarrow> 'v dict \<Rightarrow> 'v dict" where
  "demo_set_default k v d = (case dict_get d k of Some _ \<Rightarrow> d | None \<Rightarrow> dict_set k v d)"

definition demo_pair_and_trust :: "string \<Rightarrow> real \<Rightarrow> demo \<Rightarrow> (py_exc + bool) \<times> demo" where
  "demo_pair_and_trust address t dm =
     (let k = demo_key address
      in case dict_get (dm_devices dm) k of
           None \<Rightarrow> (Inr False, dm)
         | Some d \<Rightarrow> demo_observe k SP_CONNECTED t
             (dm\<lparr>dm_devices := dict_set k (d\<lparr>dd_paired := True, dd_trusted := True, dd_connected := True\<rparr>) (dm_devices dm),
                 dm_states := dict_set k ''idle'' (dm_states dm),
                 dm_volumes := demo_set_default k DEFAULT_VOLUME_RATIO (dm_volumes dm)\<rparr>))"

definition demo_connect_device :: "string \<Rightarrow> real \<Rightarrow> demo \<Rightarrow> (py_exc + bool) \<times> demo" where
  "demo_connect_device address t dm =
     (let k = demo_key address
      in case dict_get (dm_devices dm) k of
           None \<Rightarrow> (Inr False, dm)
         | Some d \<Rightarrow> demo_observe k SP_CONNECTED t
             (dm\<lparr>dm_devices := dict_set k (d\<lparr>dd_connected := True\<rparr>) (dm_devices dm)\<rparr>))"

definition demo_disconnect_device :: "string \<Rightarrow> real \<Rightarrow> demo \<Rightarrow> (py_exc + bool) \<times> demo" where
  "demo_disconnect_device address t dm =
     (let k = demo_key address
      in case dict_get (dm_devices dm) k of
           None \<Rightarrow> (Inr False, dm)
         | Some d \<Rightarrow> demo_observe k SP_DISCONNECTED t
             (dm\<lparr>dm_devices := dict_set k (d\<lparr>dd_connected := False\<rparr>) (dm_devices dm)\<rparr>))"

definition demo_remove_device :: "string \<Rightarrow> demo \<Rightarrow> (py_exc + bool) \<times> demo" where
  "demo_remove_device address dm =
     (let k = demo_key address
      in case dict_get (dm_devices dm) k of
           None \<Rightarrow> (Inr False, dm)
         | Some d \<Rightarrow> (Inr True,
             dm\<lparr>dm_devices := dict_set k (d\<lparr>dd_paired := False, dd_trusted := False, dd_connected := False\<rparr>) (dm_devices dm)\<rparr>))"

section \<open>The player's operations\<close>

definition demo_get_state :: "string \<Rightarrow> demo \<Rightarrow> string" where
  "demo_get_state address dm = (case dict_get (dm_states dm) (demo_key address) of Some s \<Rightarrow> s | None \<Rightarrow> ''idle'')"

definition demo_get_volume :: "string \<Rightarrow> demo \<Rightarrow> real" where
  "demo_get_volume address dm =
     (case dict_get (dm_volumes dm) (demo_key address) of Some v \<Rightarrow> v | None \<Rightarrow> DEFAULT_VOLUME_RATIO)"

definition demo_execute :: "string \<Rightarrow> string \<Rightarrow> real option \<Rightarrow> demo \<Rightarrow> demo" where
  "demo_execute address operation volume dm =
     (let k = demo_key address
      in if operation = ''set_volume''
         then (case volume of Some v \<Rightarrow> dm\<lparr>dm_volumes := dict_set k v (dm_volumes dm)\<rparr> | None \<Rightarrow> dm)
         else if operation = ''play'' then dm\<lparr>dm_states := dict_set k ''playing'' (dm_states dm)\<rparr>
         else if operation \<in> {''pause'', ''stop''} then dm\<lparr>dm_states := dict_set k ''idle'' (dm_states dm)\<rparr>
         else dm)"

section \<open>Reports\<close>

record demo_report =
  dr_snapshot :: diag_snapshot
  dr_scenario :: string
  dr_events :: "diag_event list"

definition primary_ready :: "demo \<Rightarrow> bool" where
  "primary_ready dm = (case dict_get (dm_devices dm) DEMO_PRIMARY_SPEAKER of
     Some d \<Rightarrow> dd_connected d \<and> dd_is_audio_sink d | None \<Rightarrow> False)"

definition demo_snapshot :: "demo \<Rightarrow> diag_snapshot" where
  "demo_snapshot dm = diagnostics_snapshot (dm_health dm) (dm_events dm) DEMO_CLOCK
     (Some (AV_list [AV_map [(''name'', AV_text (da_interface (dm_adapter dm))), (''powered'', AV_bool (da_powered (dm_adapter dm))),
        (''discovering'', AV_bool (da_discovering (dm_adapter dm)))]]))
     (Some (AV_map [(''available'', AV_bool (primary_ready dm)), (''count'', AV_int (if primary_ready dm then 1 else 0))]))"

definition demo_export :: "demo \<Rightarrow> demo_report" where
  "demo_export dm = \<lparr>dr_snapshot = demo_snapshot dm, dr_scenario = dm_scenario dm, dr_events = recent_events DEMO_CLOCK (dm_events dm)\<rparr>"

section \<open>Any sequence of operations\<close>

datatype demo_op =
    Demo_pair string real | Demo_connect string real | Demo_disconnect string real | Demo_remove string
  | Demo_power bool | Demo_scan bool | Demo_execute string string "real option"

fun demo_step :: "demo \<Rightarrow> demo_op \<Rightarrow> demo" where
  "demo_step dm (Demo_pair a t) = snd (demo_pair_and_trust a t dm)"
| "demo_step dm (Demo_connect a t) = snd (demo_connect_device a t dm)"
| "demo_step dm (Demo_disconnect a t) = snd (demo_disconnect_device a t dm)"
| "demo_step dm (Demo_remove a) = snd (demo_remove_device a dm)"
| "demo_step dm (Demo_power b) = demo_set_power b dm"
| "demo_step dm (Demo_scan b) = (if b then demo_start_scan dm else demo_stop_scan dm)"
| "demo_step dm (Demo_execute a operation v) = demo_execute a operation v dm"

section \<open>The demo agrees with the health it reports\<close>

definition DEMO_ADDRESSES :: "string list" where
  "DEMO_ADDRESSES = [''aa:bb:cc:11:22:33'', ''fc:58:fa:91:a2:b3'', ''08:eb:ed:44:55:66'', ''e4:58:b8:77:88:99'']"

definition seen_connected :: "registry \<Rightarrow> string \<Rightarrow> bool" where
  "seen_connected h k \<longleftrightarrow> (case dict_get (speakers h) k of Some s \<Rightarrow> sh_state s = SP_CONNECTED | None \<Rightarrow> False)"

definition device_fits :: "registry \<Rightarrow> string \<times> demo_device \<Rightarrow> bool" where
  "device_fits h = (\<lambda>(k, d). dd_address d = k \<and> (dd_connected d \<longrightarrow> seen_connected h k))"

definition demo_ok :: "demo \<Rightarrow> bool" where
  "demo_ok dm \<longleftrightarrow> registry_ok (dm_health dm) \<and> map fst (dm_devices dm) = DEMO_ADDRESSES \<and>
     list_all (device_fits (dm_health dm)) (dm_devices dm)"

lemma demo_addresses_normal:
  "normalize_address ''aa:bb:cc:11:22:33'' = Inr ''aa:bb:cc:11:22:33''"
  "normalize_address ''fc:58:fa:91:a2:b3'' = Inr ''fc:58:fa:91:a2:b3''"
  "normalize_address ''08:eb:ed:44:55:66'' = Inr ''08:eb:ed:44:55:66''"
  "normalize_address ''e4:58:b8:77:88:99'' = Inr ''e4:58:b8:77:88:99''"
  by (simp_all add: address_eval)

lemma demo_address: "k \<in> set DEMO_ADDRESSES \<Longrightarrow> normalize_address k = Inr k"
  by (auto simp: DEMO_ADDRESSES_def demo_addresses_normal)

lemma demo_devices_addresses: "map fst (demo_devices s) = DEMO_ADDRESSES"
  by (simp add: demo_devices_def DEMO_ADDRESSES_def)

text \<open>Observing a speaker of the demo succeeds, and changes what is known of that speaker only.\<close>

lemma observed_speaker:
  assumes "registry_ok h" "normalize_address k = Inr k" "0 \<le> att"
  obtains h' where "observe_speaker h k st f d att None t t = Inr h'" "registry_ok h'"
    "seen_connected h' k \<longleftrightarrow> st = SP_CONNECTED" "\<And>k'. k' \<noteq> k \<Longrightarrow> seen_connected h' k' = seen_connected h k'"
proof -
  obtain h' where h': "observe_speaker h k st f d att None t t = Inr h'"
    using observe_speaker_accepts [OF assms(1,2), of st f d att None t t] assms(3) by auto
  have "registry_ok h'" by (rule observe_speaker_ok [OF assms(1) h'])
  moreover have "seen_connected h' k \<longleftrightarrow> st = SP_CONNECTED"
    using h' by (auto simp: observe_speaker_def assms(2) Let_def seen_connected_def split: if_splits)
  moreover have "seen_connected h' k' = seen_connected h k'" if "k' \<noteq> k" for k'
    using observe_speaker_other [OF h', of k'] assms(2) that by (simp add: seen_connected_def)
  ultimately show thesis using that h' by blast
qed

lemma demo_update:
  assumes "demo_ok dm" "dict_get (dm_devices dm) k = Some d" "dd_address d' = k" "dd_connected d' \<longrightarrow> seen_connected h k"
    "registry_ok h" "\<And>k'. k' \<noteq> k \<Longrightarrow> seen_connected h k' = seen_connected (dm_health dm) k'"
  shows "demo_ok (dm\<lparr>dm_health := h, dm_devices := dict_set k d' (dm_devices dm)\<rparr>)"
proof -
  have keys: "map fst (dict_set k d' ds) = map fst ds" if "dict_get ds k = Some d" for ds :: "demo_device dict"
    using that by (induction ds) auto
  moreover have "wf_dict (dm_devices dm)"
    using assms(1) by (simp add: demo_ok_def DEMO_ADDRESSES_def wf_dict_def)
  moreover have "device_fits h x" if "x \<in> set (dm_devices dm)" "fst x \<noteq> k" for x
    using assms(1,6) that by (cases x) (auto simp: demo_ok_def device_fits_def list_all_iff)
  ultimately show ?thesis
    using assms(1,3,4,5) keys [OF assms(2)] by (auto simp: demo_ok_def list_all_iff dict_set_pairs device_fits_def)
qed

text \<open>An operation that sets the record of a device and then observes it.\<close>

lemma demo_observe_ok:
  assumes "demo_ok dm" "dict_get (dm_devices dm) k = Some d" "dd_address d' = k" "dd_connected d' \<longrightarrow> st = SP_CONNECTED"
    "dm_health dm' = dm_health dm" "dm_devices dm' = dict_set k d' (dm_devices dm)"
  shows "demo_ok (snd (demo_observe k st t dm')) \<and> fst (demo_observe k st t dm') = Inr True"
proof -
  have "k \<in> set (map fst (dm_devices dm))" using map_of_SomeD [OF assms(2)] by force
  then have "k \<in> set DEMO_ADDRESSES" using assms(1) by (simp only: demo_ok_def)
  then have norm: "normalize_address k = Inr k" by (rule demo_address)
  have "registry_ok (dm_health dm)" using assms(1) by (simp add: demo_ok_def)
  from observed_speaker [OF this norm, of 0 st None None t] obtain h where h:
    "observe_speaker (dm_health dm) k st None None 0 None t t = Inr h" "registry_ok h"
    "seen_connected h k \<longleftrightarrow> st = SP_CONNECTED" "\<And>k'. k' \<noteq> k \<Longrightarrow> seen_connected h k' = seen_connected (dm_health dm) k'"
    by auto
  have "demo_ok (dm\<lparr>dm_health := h, dm_devices := dict_set k d' (dm_devices dm)\<rparr>)"
    by (rule demo_update [OF assms(1-3) _ h(2,4)]) (use assms(4) h(3) in simp)
  then show ?thesis
    using h(1) assms(5,6) by (simp add: demo_observe_def demo_ok_def)
qed

lemma demo_device_address: "demo_ok dm \<Longrightarrow> dict_get (dm_devices dm) k = Some d \<Longrightarrow> dd_address d = k"
  by (auto simp: demo_ok_def list_all_iff device_fits_def dest!: map_of_SomeD)

lemma demo_step_ok: "demo_ok dm \<Longrightarrow> demo_ok (demo_step dm op)"
proof (cases op)
  case (Demo_pair a t)
  assume ok: "demo_ok dm"
  let ?paired = "\<lambda>d. d\<lparr>dd_paired := True, dd_trusted := True, dd_connected := True\<rparr>"
  show ?thesis
  proof (cases "dict_get (dm_devices dm) (demo_key a)")
    case (Some d)
    then show ?thesis
      using demo_observe_ok [OF ok Some, of "?paired d" SP_CONNECTED] demo_device_address [OF ok Some]
      by (simp add: Demo_pair demo_pair_and_trust_def Let_def)
  qed (simp add: ok Demo_pair demo_pair_and_trust_def Let_def)
next
  case (Demo_connect a t)
  assume ok: "demo_ok dm"
  show ?thesis
  proof (cases "dict_get (dm_devices dm) (demo_key a)")
    case (Some d)
    then show ?thesis
      using demo_observe_ok [OF ok Some, of "d\<lparr>dd_connected := True\<rparr>" SP_CONNECTED] demo_device_address [OF ok Some]
      by (simp add: Demo_connect demo_connect_device_def Let_def)
  qed (simp add: ok Demo_connect demo_connect_device_def Let_def)
next
  case (Demo_disconnect a t)
  assume ok: "demo_ok dm"
  show ?thesis
  proof (cases "dict_get (dm_devices dm) (demo_key a)")
    case (Some d)
    then show ?thesis
      using demo_observe_ok [OF ok Some, of "d\<lparr>dd_connected := False\<rparr>" SP_DISCONNECTED] demo_device_address [OF ok Some]
      by (simp add: Demo_disconnect demo_disconnect_device_def Let_def)
  qed (simp add: ok Demo_disconnect demo_disconnect_device_def Let_def)
next
  case (Demo_remove a)
  assume ok: "demo_ok dm"
  have "demo_ok (dm\<lparr>dm_devices := dict_set (demo_key a) (d\<lparr>dd_paired := False, dd_trusted := False, dd_connected := False\<rparr>) (dm_devices dm)\<rparr>)"
    if "dict_get (dm_devices dm) (demo_key a) = Some d" for d
    using demo_update [OF ok that, of "d\<lparr>dd_paired := False, dd_trusted := False, dd_connected := False\<rparr>" "dm_health dm"]
      demo_device_address [OF ok that] ok by (simp add: demo_ok_def)
  then show ?thesis using ok by (simp add: Demo_remove demo_remove_device_def Let_def split: option.split)
qed (simp_all add: demo_ok_def demo_set_power_def demo_start_scan_def demo_stop_scan_def demo_execute_def Let_def
    split: option.split)

lemma new_demo_ok:
  assumes "registry_ok h" "scenario \<in> fst ` set DEMO_SCENARIOS"
  obtains dm where "new_demo fl scenario t h = Inr dm" "demo_ok dm"
proof -
  obtain failure where failure: "map_of DEMO_SCENARIOS scenario = Some failure"
    using assms(2) by (metis map_of_eq_None_iff not_None_eq)
  let ?h = "prepare_components scenario t h"
  have h: "registry_ok ?h" using assms(1) by (simp add: prepare_components_def Let_def observe_component_ok)
  have primary: "normalize_address DEMO_PRIMARY_SPEAKER = Inr DEMO_PRIMARY_SPEAKER"
    by (rule demo_address) (simp add: DEMO_PRIMARY_SPEAKER_def DEMO_ADDRESSES_def)
  obtain h' where prepared: "prepare_health scenario failure t h = Inr h'" "registry_ok h'"
    "failure = None \<Longrightarrow> seen_connected h' DEMO_PRIMARY_SPEAKER"
  proof (cases failure)
    case None
    from observed_speaker [OF h primary, of 0 SP_CONNECTED None None t] obtain h' where
      "observe_speaker ?h DEMO_PRIMARY_SPEAKER SP_CONNECTED None None 0 None t t = Inr h'" "registry_ok h'"
      "seen_connected h' DEMO_PRIMARY_SPEAKER" by auto
    then show thesis
      using that None by (simp add: prepare_health_def Let_def set_lifecycle_ok) (simp add: set_lifecycle_def seen_connected_def)
  next
    case (Some fs)
    obtain f s where fs: "fs = (f, s)" by (cases fs)
    from observed_speaker [OF h primary, of 2 SP_UNAVAILABLE "Some f" "Some ''Deterministic demo failure''" t] obtain h' where
      "observe_speaker ?h DEMO_PRIMARY_SPEAKER SP_UNAVAILABLE (Some f) (Some ''Deterministic demo failure'') 2 None t t = Inr h'"
      "registry_ok h'" by auto
    then show thesis
      using that Some fs by (simp add: prepare_health_def Let_def set_lifecycle_ok observe_component_ok)
  qed
  have healthy: "scenario = ''healthy'' \<Longrightarrow> failure = None" using failure by (auto simp: DEMO_SCENARIOS_def)
  let ?dm = "\<lparr>dm_scenario = scenario, dm_health = h',
     dm_events = snd (record_event fl DEMO_CLOCK [] (scenario_request scenario) []),
     dm_adapter = demo_adapter_info, dm_devices = demo_devices scenario,
     dm_states = [(DEMO_PRIMARY_SPEAKER, ''idle'')], dm_volumes = [(DEMO_PRIMARY_SPEAKER, DEFAULT_VOLUME_RATIO)]\<rparr>"
  have "demo_ok ?dm"
    using prepared(2,3) healthy demo_devices_addresses
    by (auto simp: demo_ok_def demo_devices_def device_fits_def idle_device_def DEMO_PRIMARY_SPEAKER_def)
  moreover have "new_demo fl scenario t h = Inr ?dm" by (simp add: new_demo_def failure prepared(1))
  ultimately show thesis using that by blast
qed

lemma demo_run_ok: "demo_ok dm \<Longrightarrow> demo_ok (foldl demo_step dm ops)"
  by (induction ops arbitrary: dm) (simp_all add: demo_step_ok)

text \<open>
  The demo runtime starts for exactly the six scenarios, and from then on, whatever is paired, connected,
  disconnected, removed, scanned or played, it keeps its four speakers, a well-formed health registry, and
  never shows a speaker as connected that the registry does not report as connected.
\<close>
theorem demo_agrees_with_health:
  assumes "registry_ok h"
  shows "case new_demo fl scenario t h of
      Inl e \<Rightarrow> scenario \<notin> fst ` set DEMO_SCENARIOS \<and> e = ValueError ''Unknown demo scenario''
    | Inr dm \<Rightarrow> scenario \<in> fst ` set DEMO_SCENARIOS \<and> demo_ok (foldl demo_step dm ops)"
proof (cases "scenario \<in> fst ` set DEMO_SCENARIOS")
  case True
  then obtain dm where "new_demo fl scenario t h = Inr dm" "demo_ok dm" using new_demo_ok [OF assms] by blast
  then show ?thesis using True demo_run_ok by simp
next
  case False
  then have "map_of DEMO_SCENARIOS scenario = None" by (simp add: map_of_eq_None_iff)
  then show ?thesis using False by (simp add: new_demo_def)
qed

theorem demo_agrees_with_health_witness:
  "case new_demo (\<lambda>_. []) ''sink_missing'' 0 new_registry of
      Inl e \<Rightarrow> False
    | Inr dm \<Rightarrow> demo_ok (demo_step dm (Demo_pair ''FC-58-FA-91-A2-B3'' 1))"
  using demo_agrees_with_health [OF new_registry_ok, where fl = "\<lambda>_. []" and scenario = "''sink_missing''" and t = 0
      and ops = "[Demo_pair ''FC-58-FA-91-A2-B3'' 1]"]
  by (auto simp: DEMO_SCENARIOS_def split: sum.splits)

end
