(* ===== verification/BT_Session.thy ===== *)
theory BT_Session
  imports BT_Connect
begin

text \<open>
  The D-Bus session of \<open>bluetooth/manager.py\<close>: connecting, registering the agent, subscribing to signals,
  loading what BlueZ manages, and the bounded recovery. \<open>bus\<close> is the connection a successful connect gives,
  \<open>objects\<close> what \<open>GetManagedObjects\<close> returns; \<open>t\<close> is the clock when the result is observed. The reply of a
  call whose \<open>su_extra\<close> is not \<open>CallOk\<close> is an error message.
\<close>

section \<open>Signals\<close>

definition BLUEZ_SIGNAL_MATCH_RULES :: "string list" where
  "BLUEZ_SIGNAL_MATCH_RULES =
     [''type='' @ [CHR 0x27] @ ''signal'' @ [CHR 0x27] @ '',sender='' @ [CHR 0x27] @ ''org.bluez'' @ [CHR 0x27] @
        '',interface='' @ [CHR 0x27] @ ''org.freedesktop.DBus.ObjectManager'' @ [CHR 0x27],
      ''type='' @ [CHR 0x27] @ ''signal'' @ [CHR 0x27] @ '',sender='' @ [CHR 0x27] @ ''org.bluez'' @ [CHR 0x27] @
        '',interface='' @ [CHR 0x27] @ ''org.freedesktop.DBus.Properties'' @ [CHR 0x27] @ '',member='' @ [CHR 0x27] @
        ''PropertiesChanged'' @ [CHR 0x27]]"

definition add_match_rule :: "string \<Rightarrow> bool act" where
  "add_match_rule rule =
     and_then (read has_bus) (\<lambda>bus.
     if \<not> bus then ret False
     else try_catch (bus_await (\<lambda>su. su_extra su = CallOk)) (\<lambda>_. ret False))"

fun add_match_rules :: "string list \<Rightarrow> unit act" where
  "add_match_rules [] = ret ()"
| "add_match_rules (rule # rules) = and_then (add_match_rule rule) (\<lambda>_. add_match_rules rules)"

definition subscribe_signals :: "unit act" where
  "subscribe_signals =
     and_then (read (\<lambda>m. \<not> has_bus m \<or> m_signal_bus m = m_bus m)) (\<lambda>settled.
     if settled then ret ()
     else and_then (add_match_rules BLUEZ_SIGNAL_MATCH_RULES) (\<lambda>_.
          and_then need_bus (\<lambda>_. modify (\<lambda>m. m\<lparr>m_signal_bus := m_bus m\<rparr>))))"

section \<open>The session\<close>

definition register_agent :: "unit act" where
  "register_agent =
     try_catch
       (and_then need_bus (\<lambda>_.
        and_then (bus_await (\<lambda>_. ())) (\<lambda>_.
        and_then need_bus (\<lambda>_.
        and_then (bus_await (\<lambda>_. ())) (\<lambda>_. bus_await (\<lambda>_. ()))))))
       (\<lambda>_. ret ())"

definition load_session_objects :: "(string \<times> dbus_props dict) list \<Rightarrow> unit act" where
  "load_session_objects objects =
     and_then (read has_bus) (\<lambda>bus.
     if \<not> bus then ret ()
     else and_then (bus_await (\<lambda>_. ())) (\<lambda>_.
          and_then need_bus (\<lambda>_.
          and_then (bus_await su_now) (\<lambda>now. modify (load_managed_objects objects now)))))"

text \<open>The connection is assigned when the awaited connect returned.\<close>

definition connect_bus :: "nat \<Rightarrow> unit act" where
  "connect_bus bus = and_then (bus_await (\<lambda>_. ())) (\<lambda>_. modify (\<lambda>m. m\<lparr>m_bus := Some bus\<rparr>))"

definition session_failed :: "real \<Rightarrow> py_exc \<Rightarrow> manager \<Rightarrow> manager" where
  "session_failed t e m =
     observe_bluetooth HS_UNAVAILABLE (Some FC_DBUS_UNAVAILABLE) (Some (exc_text e)) t
       (m\<lparr>m_bus := None, m_initialized := False\<rparr>)"

definition initialize :: "nat \<Rightarrow> (string \<times> dbus_props dict) list \<Rightarrow> real \<Rightarrow> unit act" where
  "initialize bus objects t =
     try_catch
       (and_then (connect_bus bus) (\<lambda>_.
        and_then register_agent (\<lambda>_.
        and_then subscribe_signals (\<lambda>_.
        and_then (load_session_objects objects) (\<lambda>_.
        and_then close_pairing_window (\<lambda>_.
        modify (\<lambda>m. observe_bluetooth HS_HEALTHY None None t (m\<lparr>m_initialized := True\<rparr>))))))))
       (\<lambda>e. modify (session_failed t e))"

definition recover_dbus :: "nat \<Rightarrow> (string \<times> dbus_props dict) list \<Rightarrow> real \<Rightarrow> bool act" where
  "recover_dbus bus objects t =
     and_then (read (\<lambda>m. has_bus m \<and> m_initialized m)) (\<lambda>live.
     if live then ret True
     else and_then (initialize bus objects t) (\<lambda>_.
          and_then (read has_bus) (\<lambda>ok.
          and_then (if ok then ret ()
                    else modify (observe_bluetooth HS_UNAVAILABLE (Some FC_DBUS_UNAVAILABLE)
                           (Some ''D-Bus reinitialization unavailable'') t)) (\<lambda>_.
          ret ok))))"

section \<open>The cache stays well formed\<close>

lemma manager_ok_session [simp]:
  "manager_ok (m\<lparr>m_bus := b\<rparr>) = manager_ok m" "manager_ok (m\<lparr>m_signal_bus := b\<rparr>) = manager_ok m"
  "manager_ok (m\<lparr>m_initialized := i\<rparr>) = manager_ok m"
  by (simp_all add: manager_ok_def dict_all_def device_filed_def)

lemma load_managed_objects_ok: "manager_ok m \<Longrightarrow> manager_ok (load_managed_objects objects now m)"
proof (induction objects now m rule: load_managed_objects.induct)
  case (2 path interfaces objects now m)
  let ?m1 = "case dict_get interfaces ADAPTER_INTERFACE of None \<Rightarrow> m
     | Some properties \<Rightarrow> m\<lparr>m_adapters := dict_set path (new_adapter (has_bus m) path properties) (m_adapters m)\<rparr>"
  have m1: "manager_ok ?m1"
    using 2(2) by (auto simp: new_adapter_def intro: manager_ok_new_adapter split: option.split)
  have "manager_ok ((alloc_device d ?m1)\<lparr>m_devices := dict_set path (m_next ?m1) (m_devices (alloc_device d ?m1))\<rparr>)"
    if "d_path d = path" for d
    by (rule manager_ok_file [OF manager_ok_alloc [OF m1]]) (simp_all add: that)
  then show ?case using 2 m1 by (simp add: Let_def split: option.split)
qed simp

lemma preserves_need_bus [keeps]: "preserves P need_bus"
  unfolding need_bus_def by (intro keeps)

lemma preserves_add_match_rules [keeps]: "preserves P (add_match_rules rules)"
proof (induction rules)
  case (Cons rule rules)
  have "preserves P (add_match_rule rule)" unfolding add_match_rule_def by (intro keeps)
  then show ?case using Cons by (auto intro: keeps)
qed (simp add: keeps)

lemma preserves_initialize: "preserves manager_ok (initialize bus objects t)"
  unfolding initialize_def connect_bus_def register_agent_def subscribe_signals_def load_session_objects_def
    close_pairing_window_def
  by (intro keeps_ok preserves_need_bus preserves_add_match_rules load_managed_objects_ok)
    (simp_all add: session_failed_def manager_ok_observe_bluetooth)

lemma preserves_recover: "preserves manager_ok (recover_dbus bus objects t)"
  unfolding recover_dbus_def
  by (intro keeps_ok preserves_initialize) (simp add: manager_ok_observe_bluetooth)

section \<open>The outcome of a recovery\<close>

text \<open>The registry, if there is one, reports the bus as unavailable.\<close>

definition bluetooth_unavailable :: "manager \<Rightarrow> bool" where
  "bluetooth_unavailable m =
     (case m_health m of None \<Rightarrow> True
      | Some h \<Rightarrow> (case dict_get (components h) COMPONENT_BLUETOOTH of None \<Rightarrow> False
          | Some c \<Rightarrow> ch_state c = HS_UNAVAILABLE \<and> map_option classification (ch_failure c) = Some FC_DBUS_UNAVAILABLE))"

lemma observed_unavailable:
  "bluetooth_unavailable (observe_bluetooth HS_UNAVAILABLE (Some FC_DBUS_UNAVAILABLE) detail t m)"
  by (simp add: bluetooth_unavailable_def observe_bluetooth_def observe_component_def Let_def split: option.split)

lemma has_bus_observe: "has_bus (observe_bluetooth st f detail t m) = has_bus m"
  by (simp add: has_bus_def observe_bluetooth_def split: option.split)

lemma catch_error: "try_catch f (\<lambda>e. modify (h e)) sc s = (Inl e, s') \<Longrightarrow> e = CancelledError"
  by (auto simp: try_catch_def modify_def split: prod.splits sum.splits if_splits)

text \<open>
  C15. One attempt to recover the session, whatever fails and whatever the other tasks do: it raises only when
  it is cancelled; otherwise it answers whether there is a bus, and when there is none the health registry
  reports the Bluetooth component as unavailable. The cache stays well formed.
\<close>
theorem recovery_reports_the_session:
  assumes "manager_ok m" "others_keep manager_ok sc" "recover_dbus bus objects t sc (n, m) = (r, s')"
  shows "manager_ok (snd s') \<and>
    (case r of Inl e \<Rightarrow> e = CancelledError
     | Inr ok \<Rightarrow> (ok \<longleftrightarrow> has_bus (snd s')) \<and> (ok \<or> bluetooth_unavailable (snd s')))"
proof (rule conjI)
  show "manager_ok (snd s')" using preservesD [OF preserves_recover assms(2) _ assms(3)] assms(1) by simp
  show "case r of Inl e \<Rightarrow> e = CancelledError
     | Inr ok \<Rightarrow> (ok \<longleftrightarrow> has_bus (snd s')) \<and> (ok \<or> bluetooth_unavailable (snd s'))"
  proof (cases "has_bus m \<and> m_initialized m")
    case True
    then show ?thesis using assms(3) by (auto simp: recover_dbus_def act_defs)
  next
    case False
    obtain r' k m' where run: "initialize bus objects t sc (n, m) = (r', (k, m'))" by (cases "initialize bus objects t sc (n, m)") auto
    show ?thesis
    proof (cases r')
      case (Inl e)
      have "e = CancelledError" using run unfolding Inl initialize_def by (rule catch_error)
      then show ?thesis using assms(3) False run Inl by (auto simp: recover_dbus_def act_defs)
    next
      case (Inr u)
      then show ?thesis
        using assms(3) False run observed_unavailable
        by (cases "has_bus m'") (auto simp: recover_dbus_def act_defs has_bus_observe)
    qed
  qed
qed

text \<open>A first session over a bus that answers every call.\<close>

lemma witness_recovery:
  "fst (recover_dbus 7 [] 0 calm (0, new_manager (Some new_registry))) = Inr True"
  by (simp add: recover_dbus_def initialize_def connect_bus_def register_agent_def subscribe_signals_def add_match_rule_def
      BLUEZ_SIGNAL_MATCH_RULES_def need_bus_def bus_await_def load_session_objects_def close_pairing_window_def
      clear_pairing_window_def new_manager_def has_bus_def calm_def act_defs has_bus_observe pairable_no_adapters
      observe_bluetooth_def)

theorem recovery_reports_the_session_witness:
  "\<exists>s'. recover_dbus 7 [] 0 calm (0, new_manager (Some new_registry)) = (Inr True, s') \<and> manager_ok (snd s') \<and> has_bus (snd s')"
proof -
  obtain s' where run: "recover_dbus 7 [] 0 calm (0, new_manager (Some new_registry)) = (Inr True, s')"
    using witness_recovery by (cases "recover_dbus 7 [] 0 calm (0, new_manager (Some new_registry))") auto
  show ?thesis
    using recovery_reports_the_session [OF new_registered_manager_ok calm_keeps run] run by auto
qed

end
