(* ===== verification/Player_Loops.thy ===== *)
theory Player_Loops
  imports Player_Audio Player_Spec
begin

text \<open>
  What drives the audio side of \<open>ha/player.py\<close>: the resolver over its two probes, the pin of a codec, the probe
  of a stream's metadata, the legacy command topic, and the two loops that run until they are cancelled. A
  loop is given by the number of its rounds; it stands for the endless one if it behaves so for every number.
  The outcomes of the tools are arguments.
\<close>

section \<open>Lines of an output\<close>

definition line_break :: "char \<Rightarrow> bool" where
  "line_break c \<longleftrightarrow> ord_of c \<in> {10, 11, 12, 13, 28, 29, 30, 133}"

text \<open>\<open>str.splitlines\<close>; \<open>pending\<close> is the line so far and \<open>after_cr\<close> whether a carriage return just ended one.\<close>

fun split_text :: "bool \<Rightarrow> string \<Rightarrow> string \<Rightarrow> string list" where
  "split_text after_cr pending [] = (if pending = [] then [] else [pending])"
| "split_text after_cr pending (c # s) =
     (if after_cr \<and> ord_of c = 10 then split_text False pending s
      else if line_break c then pending # split_text (ord_of c = 13) [] s
      else split_text False (pending @ [c]) s)"

definition text_lines :: "string \<Rightarrow> string list" where
  "text_lines s = split_text False [] s"

section \<open>The resolver\<close>

text \<open>
  How the run of \<open>pw-dump\<close> ended: it could not be run or printed no JSON, it exited with an error or was killed
  after the timeout, or it printed a graph.
\<close>

datatype graph_probe = Graph_unavailable | Graph_failed | Graph_printed "json list"

definition note_pipewire :: "string \<Rightarrow> real \<Rightarrow> player \<Rightarrow> player" where
  "note_pipewire detail now p =
     (case p_health p of None \<Rightarrow> p
      | Some h \<Rightarrow> p\<lparr>p_health := Some (observe_component h COMPONENT_PIPEWIRE HS_UNAVAILABLE True
          (Some FC_PIPEWIRE_UNAVAILABLE) (Some detail) (Some ''pw-dump'') now now)\<rparr>)"

definition read_graph :: "(json \<Rightarrow> string) \<Rightarrow> graph_probe \<Rightarrow> string \<Rightarrow> real \<Rightarrow> player \<Rightarrow> (py_exc + string option) \<times> player" where
  "read_graph repr probe a now p =
     (case probe of
        Graph_unavailable \<Rightarrow> (Inr None, note_pipewire ''pw-dump probe unavailable'' now p)
      | Graph_failed \<Rightarrow> (Inr None, note_pipewire ''pw-dump probe failed'' now p)
      | Graph_printed nodes \<Rightarrow> graph_sink repr a nodes p)"

text \<open>\<open>listing\<close> is what \<open>pactl\<close> printed, \<open>None\<close> when there is no socket or the tool failed.\<close>

definition async_resolve_sink ::
  "(json \<Rightarrow> string) \<Rightarrow> graph_probe \<Rightarrow> bool \<Rightarrow> string option \<Rightarrow> string \<Rightarrow> (string option) play"
where
  "async_resolve_sink repr probe socket listing a =
     and_then (awaiting (\<lambda>su p. (Inr (su_now su), p))) (\<lambda>now.
     and_then (state_op (read_graph repr probe a now)) (\<lambda>found.
     (case found of
        Some s \<Rightarrow> ret (Some s)
      | None \<Rightarrow>
          if \<not> socket then ret None
          else and_then (awaiting (\<lambda>su p. (Inr (), p))) (\<lambda>_.
               ret (Option.bind listing (\<lambda>out. pulse_sink a (text_lines out)))))))"

section \<open>Pinning a codec\<close>

definition profile_char :: "char \<Rightarrow> bool" where
  "profile_char c \<longleftrightarrow> is_ascii_alnum c \<or> c \<in> set ''_.:-''"

text \<open>\<open>re.match(r"^\s*([A-Za-z0-9_.:-]+):\s", line)\<close>: the colon belongs to the run of characters it ends.\<close>

definition listed_profile :: "string \<Rightarrow> string option" where
  "listed_profile line =
     (let s = dropWhile py_space line; run = takeWhile profile_char s; rest = dropWhile profile_char s
      in if 2 \<le> length run \<and> last run = CHR '':'' \<and> rest \<noteq> [] \<and> py_space (hd rest) then Some (butlast run) else None)"

fun card_profiles :: "string \<Rightarrow> bool \<Rightarrow> string list \<Rightarrow> string list" where
  "card_profiles bluez_card in_card [] = []"
| "card_profiles bluez_card in_card (line # ls) =
     (if starts_with ''name:'' (lower (strip line)) then card_profiles bluez_card (py_in (lower bluez_card) (lower line)) ls
      else if \<not> in_card then card_profiles bluez_card in_card ls
      else (case listed_profile line of
              Some name \<Rightarrow> (if starts_with A2DP_SINK_PROFILE_PREFIX (lower name) then [name] else []) @ card_profiles bluez_card in_card ls
            | None \<Rightarrow> card_profiles bluez_card in_card ls))"

definition available_profiles :: "string \<Rightarrow> string option \<Rightarrow> string list" where
  "available_profiles bluez_card listing = (case listing of None \<Rightarrow> [] | Some out \<Rightarrow> card_profiles bluez_card False (text_lines out))"

definition codec_card :: "string \<Rightarrow> string" where
  "codec_card a = ''bluez_card.'' @ upper (replace_char (CHR '':'') (CHR ''_'') a)"

text \<open>The arguments of \<open>pactl set-card-profile\<close>, if a codec is to be pinned and the card offers it.\<close>

definition codec_pin :: "player \<Rightarrow> string \<Rightarrow> string option \<Rightarrow> (string \<times> string) option" where
  "codec_pin p a listing =
     (if \<not> codec_pin_wanted p a then None
      else map_option (Pair (codec_card a))
             (profile_for_codec (available_profiles (codec_card a) listing) (the (codec_token (configured_codec p a)))))"

section \<open>Metadata of a stream\<close>

text \<open>\<open>output\<close> is what \<open>ffprobe\<close> printed; without it the probe ends after its await.\<close>

definition async_probe_duration :: "string \<Rightarrow> string \<Rightarrow> nat option \<Rightarrow> string option \<Rightarrow> unit play" where
  "async_probe_duration a url generation output =
     and_then (awaiting (\<lambda>su p. (Inr (), p))) (\<lambda>_.
     (case output of
        None \<Rightarrow> ret ()
      | Some out \<Rightarrow>
          and_then (state_op (apply_metadata a url generation (parse_probe_metadata (text_lines out)))) (\<lambda>resolved.
          if resolved then notify_state a else ret ())))"

section \<open>The legacy command topic\<close>

definition volume_not_numeric :: py_exc where
  "volume_not_numeric = MediaPlayerError ''Volume must be numeric''"

text \<open>\<open>except ValueError\<close> around the operation: \<open>MediaPlayerError\<close> is none.\<close>

definition catch_value_error :: "unit play \<Rightarrow> unit play" where
  "catch_value_error f sc s =
     (case f sc s of (Inl (ValueError m), s') \<Rightarrow> (Inl volume_not_numeric, s') | run \<Rightarrow> run)"

definition command_volume :: "float_value \<Rightarrow> real option" where
  "command_volume v = (case v of Finite x \<Rightarrow> Some x | _ \<Rightarrow> None)"

definition handle_command :: "string \<Rightarrow> string \<Rightarrow> unit play" where
  "handle_command address command =
     (let cmd = strip command
      in and_then (from_sum (normalize_address address)) (\<lambda>a.
         if cmd = ''PLAY'' then execute a PO_play
         else if cmd = ''PAUSE'' then execute a PO_pause
         else if cmd = ''STOP'' then execute a PO_stop
         else if starts_with ''PLAY_MEDIA:'' cmd then execute a (PO_play_media (Some (drop 11 cmd)))
         else if starts_with ''VOLUME:'' cmd
         then catch_value_error (case py_float (drop 7 cmd) of
                None \<Rightarrow> throw (ValueError ''could not convert string to float'')
              | Some v \<Rightarrow> execute a (PO_set_volume (command_volume v)))
         else ret ()))"

section \<open>The loops\<close>

fun pulse_all :: "string list \<Rightarrow> unit play" where
  "pulse_all [] = ret ()"
| "pulse_all (a # as) = and_then (send_keepalive_pulse a) (\<lambda>_. pulse_all as)"

text \<open>One round: the interval, then every registered speaker.\<close>

definition keepalive_round :: "unit play" where
  "keepalive_round =
     and_then (awaiting (\<lambda>su p. (Inr (), p))) (\<lambda>_. and_then (read p_keepalive) pulse_all)"

primrec keepalive_loop :: "nat \<Rightarrow> unit play" where
  "keepalive_loop 0 = ret ()"
| "keepalive_loop (Suc k) = and_then keepalive_round (\<lambda>_. keepalive_loop k)"

fun refresh_all :: "string list \<Rightarrow> unit play" where
  "refresh_all [] = ret ()"
| "refresh_all (a # as) =
     and_then (try_catch (and_then (refresh_volume a None) (\<lambda>_. ret ())) (\<lambda>_. ret ())) (\<lambda>_. refresh_all as)"

definition volume_watch_round :: "unit play" where
  "volume_watch_round =
     and_then (awaiting (\<lambda>su p. (Inr (), p))) (\<lambda>_. and_then (read p_keepalive) refresh_all)"

primrec volume_watch_loop :: "nat \<Rightarrow> unit play" where
  "volume_watch_loop 0 = ret ()"
| "volume_watch_loop (Suc k) = and_then volume_watch_round (\<lambda>_. volume_watch_loop k)"

section \<open>How the loops end\<close>

lemma refresh_all_result: "fst (refresh_all as sc s) \<in> {Inr (), Inl CancelledError}"
proof (induction "as" arbitrary: s)
  case (Cons a as)
  obtain r s' where run: "and_then (refresh_volume a None) (\<lambda>_. ret ()) sc s = (r, s')"
    by (cases "and_then (refresh_volume a None) (\<lambda>_. ret ()) sc s")
  show ?case
  proof (cases r)
    case (Inl e)
    then show ?thesis
      using run Cons by (cases "e = CancelledError") (simp_all add: and_then_def [of "try_catch _ _"] try_catch_def ret_def)
  next
    case (Inr u)
    then show ?thesis using run Cons by (simp add: and_then_def [of "try_catch _ _"] try_catch_def)
  qed
qed (simp add: ret_def)

lemma volume_watch_round_result: "fst (volume_watch_round sc s) \<in> {Inr (), Inl CancelledError}"
proof -
  obtain n p where s: "s = (n, p)" by (cases s)
  show ?thesis
    using refresh_all_result
    by (auto simp: s volume_watch_round_def awaiting_def act_defs split: prod.split)
qed

text \<open>
  The loop that reads the volumes back never ends by itself: whatever the tools answer and the other tasks
  do, after any number of rounds it is still running, or it was cancelled.
\<close>
theorem volume_watch_goes_on: "fst (volume_watch_loop k sc s) \<in> {Inr (), Inl CancelledError}"
proof (induction k arbitrary: s)
  case (Suc k)
  obtain r s' where run: "volume_watch_round sc s = (r, s')" by (cases "volume_watch_round sc s")
  have "r = Inr () \<or> r = Inl CancelledError" using volume_watch_round_result [of sc s] run by simp
  then show ?case using Suc.IH [of s'] run by (auto simp: and_then_def)
qed (simp add: ret_def)

text \<open>The first pulse that raises ends the loop: only the cancellation is caught around it.\<close>

lemma keepalive_ends_at_first_failure:
  assumes "p_keepalive p = a # as" "normalize_address a = Inr a" "dict_get (p_active p) a = None"
    "su_others (sc n) p0 = p" "\<not> pp_cancelled (sc n)"
    "\<not> pp_cancelled (sc (Suc n))" "pp_sink (sc (Suc n)) = Inl e"
  shows "fst (keepalive_loop (Suc k) sc (n, p0)) = Inl e"
  using assms
  by (simp add: keepalive_round_def awaiting_def resolve_sink_def send_keepalive_pulse_def act_defs)

text \<open>What becomes of the task of the loop: after \<open>k\<close> rounds it runs on, or it has ended.\<close>

definition keepalive_task_after :: "nat \<Rightarrow> (nat \<Rightarrow> player_pause) \<Rightarrow> nat \<times> player \<Rightarrow> loop_task" where
  "keepalive_task_after k sc s =
     (case fst (keepalive_loop k sc s) of
        Inr _ \<Rightarrow> Loop_running
      | Inl e \<Rightarrow> if e = CancelledError then Loop_returned else Loop_failed e)"

definition stream_part :: "player \<Rightarrow> process_pair dict \<times> (nat \<Rightarrow> process) \<times> loop_task option" where
  "stream_part p = (p_active p, p_procs p, p_keepalive_task p)"

lemma invalidate_keeps_streams: "stream_part (snd (invalidate_session a p)) = stream_part p"
  by (simp add: stream_part_def invalidate_session_def next_playback_generation_def update_session_def Let_def
      split: option.split)

lemma invalidations_keep_streams:
  "stream_part (fold (\<lambda>a q. snd (invalidate_session a q)) as p) = stream_part p"
  by (induction "as" arbitrary: p) (simp_all add: invalidate_keeps_streams)

lemma shutdown_after_failed_loop:
  assumes "p_keepalive_task p = Some (Loop_failed e)" and "e \<noteq> CancelledError"
  shows "\<exists>p'. async_shutdown sc (n, p) = (Inl e, (n, p')) \<and> stream_part p' = stream_part p"
proof -
  let ?p = "fold (\<lambda>a q. snd (invalidate_session a q)) (map fst (p_sessions p)) p"
  have part: "stream_part ?p = stream_part p" by (rule invalidations_keep_streams)
  then have "p_keepalive_task ?p = Some (Loop_failed e)" using assms(1) by (simp add: stream_part_def)
  then have "async_shutdown sc (n, p) = (Inl e, (n, ?p))"
    using assms(2) by (simp add: async_shutdown_def stop_keepalive_def await_cancelled_def unless_cancelled_def act_defs)
  then show ?thesis using part by blast
qed

text \<open>
  C35. A keep-alive loop that failed blocks the shutdown. When the sink of the first registered speaker cannot
  even be looked up, for example because the audio graph has an unexpected shape, the loop ends with that
  error. Nothing observes its task until the shutdown awaits it; the error is raised there, before any stream
  is stopped, so every child process is left as it was, and the task stays in its place.
\<close>
theorem failed_keepalive_blocks_shutdown:
  assumes "p_keepalive p = a # as" "normalize_address a = Inr a" "dict_get (p_active p) a = None"
    "su_others (sc n) p0 = p" "\<not> pp_cancelled (sc n)"
    "\<not> pp_cancelled (sc (Suc n))" "pp_sink (sc (Suc n)) = Inl e" "e \<noteq> CancelledError"
    "p_keepalive_task q = Some (keepalive_task_after (Suc k) sc (n, p0))"
  shows "fst (async_shutdown sc' (m, q)) = Inl e \<and>
    p_active (snd (snd (async_shutdown sc' (m, q)))) = p_active q \<and>
    p_procs (snd (snd (async_shutdown sc' (m, q)))) = p_procs q \<and>
    p_keepalive_task (snd (snd (async_shutdown sc' (m, q)))) = Some (Loop_failed e)"
proof -
  have "keepalive_task_after (Suc k) sc (n, p0) = Loop_failed e"
    unfolding keepalive_task_after_def keepalive_ends_at_first_failure [OF assms(1-7)] using assms(8) by simp
  then have task: "p_keepalive_task q = Some (Loop_failed e)" using assms(9) by simp
  obtain q' where "async_shutdown sc' (m, q) = (Inl e, (m, q'))" "stream_part q' = stream_part q"
    using shutdown_after_failed_loop [OF task assms(8)] by blast
  then show ?thesis using task by (simp add: stream_part_def)
qed

definition failing_pause :: player_pause where
  "failing_pause = (calm_play 0)\<lparr>pp_sink := Inl TypeMismatch\<rparr>"

theorem failed_keepalive_blocks_shutdown_witness:
  "fst (async_shutdown (\<lambda>_. failing_pause) (2, (silent_player\<lparr>p_keepalive := [witness_address]\<rparr>)\<lparr>p_keepalive_task :=
     Some (keepalive_task_after 3 (\<lambda>_. failing_pause) (0, silent_player\<lparr>p_keepalive := [witness_address]\<rparr>))\<rparr>)) =
   Inl TypeMismatch"
proof -
  let ?p = "silent_player\<lparr>p_keepalive := [witness_address]\<rparr>"
  have three: "(3 :: nat) = Suc 2" by simp
  show ?thesis
    unfolding three
    by (rule failed_keepalive_blocks_shutdown [where p = ?p and sc = "\<lambda>_. failing_pause" and n = 0 and k = 2 and p0 = ?p,
          OF _ witness_address_ok, THEN conjunct1])
      (simp_all add: failing_pause_def calm_play_def silent_player_def new_player_def)
qed

end
