(* ===== verification/Player_Streams.thy ===== *)
theory Player_Streams
  imports Bridge_Prelude "HOL-Library.Sublist"
begin

text \<open>
  The streams between the children of \<open>ha/player.py\<close>: the copy of the decoded audio into the player, and the
  reading of what a child writes to its standard error. What the awaited reads and writes gave is a list, one
  entry per round; a coroutine that has used up the list still waits (\<open>None\<close>). Bytes are characters, and
  decoding them is the identity.
\<close>

section \<open>Decoded audio\<close>

text \<open>\<open>Io_broken\<close> is a \<open>BrokenPipeError\<close> or another \<open>ConnectionError\<close>.\<close>

datatype io_outcome = Io_ok | Io_broken | Io_raises py_exc

record pipe_round =
  rd_read :: io_outcome
  rd_chunk :: string
  rd_drain :: io_outcome

text \<open>What reached the player, and what was done to the two ends when the copy ended.\<close>

record pipe_end =
  pe_written :: string
  pe_closes_input :: bool
  pe_terminates_decoder :: bool

fun copy_chunks :: "pipe_round list \<Rightarrow> string \<Rightarrow> io_outcome option \<times> string" where
  "copy_chunks [] written = (None, written)"
| "copy_chunks (r # rs) written =
     (if rd_read r \<noteq> Io_ok then (Some (rd_read r), written)
      else if rd_chunk r = [] then (Some Io_ok, written)
      else if rd_drain r \<noteq> Io_ok then (Some (rd_drain r), written @ rd_chunk r)
      else copy_chunks rs (written @ rd_chunk r))"

text \<open>\<open>closing\<close> and \<open>exited\<close>: the input of the player and the decoder, as the \<open>finally\<close> finds them.\<close>

definition pipe_audio :: "bool \<Rightarrow> bool \<Rightarrow> pipe_round list \<Rightarrow> (py_exc + unit) option \<times> pipe_end" where
  "pipe_audio closing exited rounds =
     (case copy_chunks rounds [] of
        (None, written) \<Rightarrow>
          (None, \<lparr>pe_written = written, pe_closes_input = False, pe_terminates_decoder = False\<rparr>)
      | (Some r, written) \<Rightarrow>
          (Some (case r of Io_raises e \<Rightarrow> Inl e | _ \<Rightarrow> Inr ()),
           \<lparr>pe_written = written, pe_closes_input = (\<not> closing), pe_terminates_decoder = (\<not> exited)\<rparr>))"

definition decoded :: "pipe_round list \<Rightarrow> string" where
  "decoded rounds = concat (map rd_chunk rounds)"

lemma copy_chunks_prefix:
  "prefix written (snd (copy_chunks rs written)) \<and> prefix (snd (copy_chunks rs written)) (written @ decoded rs)"
proof (induction rs arbitrary: written)
  case (Cons r rs)
  show ?case
    using Cons [of "written @ rd_chunk r"]
    by (auto simp: decoded_def intro: append_prefixD)
qed (simp add: decoded_def)

lemma copy_chunks_whole:
  assumes "\<forall>r \<in> set rs. rd_read r = Io_ok \<and> rd_chunk r \<noteq> [] \<and> rd_drain r = Io_ok"
    and "rd_read final = Io_ok" and "rd_chunk final = []"
  shows "copy_chunks (rs @ [final]) written = (Some Io_ok, written @ decoded rs)"
  using assms by (induction rs arbitrary: written) (simp_all add: decoded_def)

text \<open>
  The audio reaches the player in order and without a gap: at every moment it is a beginning of what the
  decoder produced; when the copy ends, however it ends, the input of the player is closed and the decoder is
  told to stop, unless they already were.
\<close>

lemma pipe_copies_in_order:
  "prefix (pe_written (snd (pipe_audio closing exited rs))) (decoded rs)"
  "fst (pipe_audio closing exited rs) \<noteq> None \<Longrightarrow>
     (closing \<or> pe_closes_input (snd (pipe_audio closing exited rs))) \<and>
     (exited \<or> pe_terminates_decoder (snd (pipe_audio closing exited rs)))"
  using copy_chunks_prefix [of "[]" rs] by (auto simp: pipe_audio_def split: prod.split option.split)

text \<open>An end of file after rounds without an error: everything was copied.\<close>

lemma pipe_copies_all:
  assumes "\<forall>r \<in> set rs. rd_read r = Io_ok \<and> rd_chunk r \<noteq> [] \<and> rd_drain r = Io_ok"
    and "rd_read final = Io_ok" and "rd_chunk final = []"
  shows "fst (pipe_audio closing exited (rs @ [final])) = Some (Inr ()) \<and>
    pe_written (snd (pipe_audio closing exited (rs @ [final]))) = decoded rs"
  using copy_chunks_whole [OF assms, of "[]"] by (simp add: pipe_audio_def)

section \<open>Standard error\<close>

datatype drain_entry = Child_error | Child_diagnostic

definition drain_entry_of :: "string \<Rightarrow> drain_entry" where
  "drain_entry_of line =
     (let text = lower (take 256 (strip line))
      in if py_in ''error'' text \<or> py_in ''no such'' text then Child_error else Child_diagnostic)"

text \<open>\<open>logged\<close> counts the entries already made. \<open>except Exception\<close> ends the reading quietly.\<close>

fun drain_lines :: "(py_exc + string) list \<Rightarrow> nat \<Rightarrow> (py_exc + unit) option \<times> drain_entry list" where
  "drain_lines [] logged = (None, [])"
| "drain_lines (Inl e # ls) logged = (Some (if e = CancelledError then Inl e else Inr ()), [])"
| "drain_lines (Inr line # ls) logged =
     (if line = [] then (Some (Inr ()), [])
      else if logged < 50
      then (case drain_lines ls (Suc logged) of (r, es) \<Rightarrow> (r, drain_entry_of line # es))
      else drain_lines ls logged)"

text \<open>\<open>readable\<close>: the child has a standard error to read from.\<close>

definition drain_process_output :: "bool \<Rightarrow> (py_exc + string) list \<Rightarrow> (py_exc + unit) option \<times> drain_entry list" where
  "drain_process_output readable ls = (if readable then drain_lines ls 0 else (Some (Inr ()), []))"

lemma drain_lines_bounded: "length (snd (drain_lines ls logged)) \<le> 50 - logged"
  by (induction ls logged rule: drain_lines.induct) (auto split: prod.split)

text \<open>A child fills at most fifty entries of the log, however much it writes.\<close>

lemma drain_is_bounded: "length (snd (drain_process_output readable ls)) \<le> 50"
  using drain_lines_bounded [of ls 0] by (simp add: drain_process_output_def)

lemma drain_reads_on:
  "\<forall>line \<in> set pre. line \<noteq> [] \<Longrightarrow>
     fst (drain_lines (map Inr pre @ ls) logged) = fst (drain_lines ls (min (max logged 50) (logged + length pre)))"
proof (induction pre arbitrary: logged)
  case (Cons line pre)
  show ?case
    using Cons.prems Cons.IH [of "Suc logged"] Cons.IH [of logged]
    by (cases "logged < 50") (auto simp: min_def max_def split: prod.split)
qed (simp add: min_def max_def)

text \<open>
  The reading ends at the first line that cannot be read, for example one longer than the limit of the
  stream, on which \<open>readline\<close> raises: what the child writes after it is never read.
\<close>

lemma drain_ends_at_unreadable_line:
  assumes "\<forall>line \<in> set pre. line \<noteq> []" and "e \<noteq> CancelledError"
  shows "fst (drain_process_output True (map Inr pre @ Inl e # rest)) = Some (Inr ())"
  using drain_reads_on [OF assms(1)] assms(2) by (simp add: drain_process_output_def)

end
