(* ===== verification/Bridge_Lifespan.thy ===== *)
theory Bridge_Lifespan
  imports Bridge_Events BT_Session Demo Incidents
begin

text \<open>
  The start of the bridge in \<open>main.py\<close>: what it tells the supervisor, the telemetry event of a health snapshot,
  and which of the two runtimes and whether the incident monitor the configuration asks for. \<open>fresh\<close> and \<open>fl\<close>
  are those of the diagnostics.
\<close>

definition ENV_SUPERVISOR_TOKEN :: string where "ENV_SUPERVISOR_TOKEN = ''SUPERVISOR_TOKEN''"
definition EVENT_HEALTH_OBSERVATION :: string where "EVENT_HEALTH_OBSERVATION = ''health_observation''"
definition COMPONENT_HEALTH :: string where "COMPONENT_HEALTH = ''health''"
definition RECOVERY_HEALTHY :: string where "RECOVERY_HEALTHY = ''healthy''"
definition RECOVERY_PENDING :: string where "RECOVERY_PENDING = ''pending''"

section \<open>Discovery\<close>

record discovery_request =
  dq_authorization :: string
  dq_token :: string
  dq_log_level :: string

text \<open>Nothing is sent without a supervisor token and a native token.\<close>

definition supervisor_discovery :: "environ \<Rightarrow> string \<Rightarrow> string \<Rightarrow> discovery_request option" where
  "supervisor_discovery env credential level =
     (case env ENV_SUPERVISOR_TOKEN of
        None \<Rightarrow> None
      | Some token \<Rightarrow>
          if token = [] \<or> credential = [] then None
          else Some \<lparr>dq_authorization = BEARER_PREFIX @ token, dq_token = credential, dq_log_level = level\<rparr>)"

section \<open>Telemetry\<close>

definition telemetry_request :: "health_snapshot \<Rightarrow> event_request" where
  "telemetry_request s =
     \<lparr>er_name = EVENT_HEALTH_OBSERVATION, er_component = COMPONENT_HEALTH, er_speaker = None, er_adapter = None,
      er_detail = Some (AV_map [(''status'', AV_text (health_state_value (hs_status s))),
        (''lifecycle'', AV_text (health_state_value (hs_lifecycle s)))]),
      er_failure_class = None, er_transition_reason = None,
      er_recovery = Some (if hs_status s = HS_HEALTHY then RECOVERY_HEALTHY else RECOVERY_PENDING), er_correlation_id = None\<rparr>"

definition publish_telemetry ::
  "(real \<Rightarrow> string) \<Rightarrow> real \<Rightarrow> string \<Rightarrow> health_snapshot \<Rightarrow> diag_event list \<Rightarrow> diag_event \<times> diag_event list"
where
  "publish_telemetry fl now fresh s events = record_event fl now fresh (telemetry_request s) events"

section \<open>The runtime\<close>

datatype runtime = Demo_runtime demo | Live_runtime app

definition incident_monitor_enabled :: "environ \<Rightarrow> bool" where
  "incident_monitor_enabled env \<longleftrightarrow> lower (env_get env ''BLHAOS_INCIDENT_MONITOR'' []) = ''true''"

text \<open>
  \<open>m\<close> is the manager after \<open>initialize\<close>; the demo mode does not create one. The registrations and tasks of the
  live runtime follow in \<open>startup\<close>.
\<close>

definition select_runtime ::
  "(real \<Rightarrow> string) \<Rightarrow> config_store \<Rightarrow> manager \<Rightarrow> registry \<Rightarrow> real \<Rightarrow> py_exc + runtime"
where
  "select_runtime fl store m h now =
     (if demo_mode (cs_settings store)
      then (case new_demo fl (demo_scenario (cs_settings store)) now h of
              Inl e \<Rightarrow> Inl e | Inr dm \<Rightarrow> Inr (Demo_runtime dm))
      else (case create_app m store h now of Inl e \<Rightarrow> Inl e | Inr a \<Rightarrow> Inr (Live_runtime a)))"

definition demo_stopped :: "real \<Rightarrow> demo \<Rightarrow> demo" where
  "demo_stopped now dm = dm\<lparr>dm_health := set_lifecycle (dm_health dm) HS_STOPPED None None now now\<rparr>"

end
