(* ===== verification/Spec2Isabelle.thy ===== *)
theory Spec2Isabelle
  imports BT_Connect Reconnect_Spec Config_Spec Media_Url Display_Text Player_Spec Player_Audio
    Native_Spec Web_Sockets Bridge_Effects Body_Limit Diagnostics Incidents_Spec Demo BT_Session
    Player_Loops Player_Streams Bridge_Lifespan
begin

text \<open>
  A model of the BL-HAOS Bluetooth bridge (\<open>src/backend/bl_haos\<close>), the Python daemon that pairs Bluetooth
  speakers through BlueZ, keeps them connected, plays media on them and offers all of it to Home Assistant.

  \<^bold>\<open>The program.\<close> One process, one event loop. \<open>main.py\<close> creates a health registry (\<open>health.py\<close>), a
  configuration store (\<open>config.py\<close>), a Bluetooth manager (\<open>bluetooth/manager.py\<close>, with \<open>device.py\<close>,
  \<open>adapter.py\<close>, \<open>agent.py\<close>), a reconnect engine (\<open>bluetooth/reconnect.py\<close>) and a media player
  (\<open>ha/player.py\<close>), and subscribes the engine and the player to the events of the manager. The native API
  (\<open>api/routes.py\<close>) checks a bearer credential, validates a request and calls these components;
  \<open>api/ws.py\<close> broadcasts records to the connected clients. \<open>diagnostics.py\<close> keeps recent events,
  \<open>incidents.py\<close> writes daily samples of the health registry, \<open>demo.py\<close> stands in for the Bluetooth side.

  \<^bold>\<open>Theories and sources.\<close>

  \<^item> Vocabulary. \<open>Bridge_Prelude\<close>: Python texts, dictionaries and exceptions, and the locales
    \<open>record_store\<close>, \<open>canonical_form\<close>, \<open>invariant_machine\<close>. \<open>Bridge_Constants\<close>: the literals of the two
    \<open>constants.py\<close>. \<open>Py_Numbers\<close>: \<open>int\<close>, \<open>float\<close> and \<open>str\<close> as the code uses them. \<open>Async\<close>: coroutines.
    \<open>Json_Text\<close>: what \<open>json.dumps\<close> writes.
  \<^item> \<open>health.py\<close>. \<open>Validation\<close>: the validators. \<open>Redaction\<close>: \<open>safe_detail\<close>. \<open>Media_Url\<close>: the policy for
    media URLs, with the parsing of hosts and IP literals. \<open>Health\<close>: the registry. \<open>redact_value\<close> is in
    \<open>Diagnostics\<close>.
  \<^item> \<open>config.py\<close>: \<open>Config_Store\<close>; \<open>Config_Spec\<close>: the saved file read back.
  \<^item> \<open>bluetooth/\<close>. \<open>BT_Device\<close>, \<open>BT_Adapter\<close>, \<open>BT_Agent\<close>: the files of these names. Of \<open>manager.py\<close>,
    \<open>BT_Manager\<close> has the cache and the signals, \<open>BT_Actions\<close> the awaits, \<open>BT_Pairing\<close> the pairing window,
    \<open>BT_Connect\<close> the operations a request drives, \<open>BT_Session\<close> the D-Bus session and its recovery.
    Of \<open>reconnect.py\<close>, \<open>Backoff\<close> has the delay, \<open>Reconnect\<close> the engine, \<open>Reconnect_Spec\<close> its specification.
  \<^item> \<open>ha/player.py\<close>. \<open>Display_Text\<close>: the texts shown for a stream. \<open>Player_State\<close>: sessions, timelines and
    the synchronous operations. \<open>Player_Playback\<close>: processes, locks, starting and stopping. \<open>Player_Queue\<close>: the
    queue coroutines, the watcher, the dispatcher, the shutdown. \<open>Player_Audio\<close>: the audio graph and the tools.
    \<open>Player_Loops\<close>: what runs in the background. \<open>Player_Streams\<close>: the copy of the audio and the reading of
    standard error. \<open>Player_Invariant\<close> and \<open>Player_Spec\<close>: their properties.
  \<^item> \<open>api/\<close>. \<open>Native_Api\<close>: requests and records; \<open>Native_Spec\<close>: their properties. \<open>Bridge_App\<close>: the shared
    state, the credential and the media command. \<open>Bridge_Routes\<close>: the management routes and \<open>serve\<close>, every
    native request. \<open>Web_Sockets\<close>: \<open>ws.py\<close>.
  \<^item> \<open>main.py\<close>. \<open>Bridge_Events\<close>: the event wiring, startup, shutdown. \<open>Bridge_Lifespan\<close>: discovery, telemetry,
    the choice of the runtime. \<open>Body_Limit\<close>: the limit on the body of a command. \<open>Bridge_Spec\<close> and
    \<open>Bridge_Effects\<close>: properties across the components.
  \<^item> \<open>diagnostics.py\<close>: \<open>Diagnostics\<close>. \<open>incidents.py\<close>: \<open>Incidents\<close>, \<open>Incidents_Spec\<close>. \<open>demo.py\<close>: \<open>Demo\<close>.

  \<^bold>\<open>State.\<close> The attributes of a class are a record (\<open>manager\<close>, \<open>engine\<close>, \<open>player\<close>, \<open>config_store\<close>,
  \<open>registry\<close>, \<open>recorder\<close>, \<open>demo\<close>). Objects the code compares with \<open>is\<close> (devices, reconnect profiles and tasks,
  queue sessions and their items) are numbers into a heap, since a suspended coroutine keeps an object that the
  dictionaries no longer hold. \<open>app\<close> has all components and the two objects they share.

  \<^bold>\<open>Time and interleaving.\<close> A coroutine is a function of a timetable and the state (\<open>Async\<close>). At each await
  that may suspend it takes one entry of the timetable: what the other tasks did to the state meanwhile, the
  clock, and how the awaited call ended, cancellation included. A theorem that quantifies over timetables
  therefore holds for every interleaving on the event loop, and one whose timetable is constrained
  (\<open>others_keep\<close>, \<open>fair_others\<close>, \<open>fair_app\<close>) for those in which the other tasks keep the named invariant. For
  the application an entry says what happens to each component. A Bluetooth event is dispatched as a step of
  its own. The reconnect engine, the incident recorder and the demo are step machines, whose steps interleave
  freely with each other.

  \<^bold>\<open>Interfaces.\<close> \<open>record_store\<close> is what a client of a keyed store relies on, given by the dictionaries and by
  the speaker records of the configuration; \<open>canonical_form\<close> is the normalisation of addresses;
  \<open>invariant_machine\<close> carries an invariant from the steps to the runs of the health registry, the BlueZ cache,
  the configuration store (once for the schema, once for the keys, which need files that respect them) and the
  reconnect engine; \<open>agent_policy\<close> is the contract between the pairing agent and
  its callbacks, given by the default callbacks and by the pairing window; \<open>fair_actions\<close> composes coroutines
  that keep an invariant, used for the player, the application, and a speaker that stays unarmed.

  \<^bold>\<open>What is shown.\<close>

  \<^item> Invariants: every component keeps its state well formed, on success and on failure (\<open>registry_ok\<close>,
    \<open>manager_ok\<close>, \<open>config_ok\<close>, \<open>engine_ok\<close>, \<open>player_inv\<close>), and so does the application (\<open>app_ok\<close>) under every
    request, event, task and the startup.
  \<^item> Security: no request without the credential has an effect; the pairing window serves one device and is
    closed after the pairing; loopback and link-local media targets in dotted form are refused; the errors, details and
    snapshots a client sees hold no URL and, where the code catches the failure, nothing of it.
  \<^item> Reconnection: a tick treats the speakers independently and as \<open>speaker_tick\<close> says; at most one attempt per
    speaker, paced by the backoff, the breaker and the settle time; a dropped speaker is tried again.
  \<^item> Playback: the queue order, moves that undo each other, superseded requests without an effect, and the
    races that are left open.
  \<^item> Storage: the configuration and the incident samples are read back as written; the incident directory and the
    request body are bounded, the ring of events in number and its details in shape; every warning is counted once.
  \<^item> Errors: what a management failure says, what a failed recovery reports, what a torn write hides, how a
    failed background loop blocks the shutdown.

  \<^bold>\<open>Bounds.\<close> Recursion is structural or has a measure (the length of the text for the scanners, the remaining
  depth for nested diagnostic values). \<open>decode_loop\<close> is a \<open>partial_function\<close> whose termination is a theorem. A
  broadcast walks over a list that may change, so it takes fuel; when no client joins or leaves meanwhile, the
  number of the clients is enough (\<open>broadcast_reaches_everyone\<close>). The retries of a command and the warm-up attempts
  count down from the numbers the source has. An endless loop is given by the number of its rounds. Addresses,
  masks and flags of BlueZ and IP are words or bounded numbers; Python integers are unbounded.

  \<^bold>\<open>Parameters.\<close> What the bridge only calls is an argument: the JSON and the schema validation of pydantic
  (relied on to respect the declared bounds, \<open>parser_sound\<close>, and to read a complete object as it
  stands, \<open>read_settings\<close>), \<open>json.loads\<close>, \<open>sha256\<close>, \<open>repr\<close> of a float, the outcome of each D-Bus call, of each
  file operation and of each external tool, clocks, random draws, and identifiers.

  \<^bold>\<open>Not modelled.\<close> The rounding of floats (they are reals). Characters outside Latin-1, save in the display
  texts, so that the size of an event is that of Latin-1 texts; on Latin-1 the normalisation check of \<open>urlsplit\<close> never fires. The order in which waiting tasks get a
  lock. Awaits between which a coroutine touches nothing shared are one. Infinite durations. \<open>safe_detail\<close> of a
  container. The identity of adapter objects, which no code compares. Dates before 1970 or after 9999. Logging,
  the construction of the FastAPI object and of the routes, the static notice, what the listeners of the health
  registry do (they are the broadcast), and the completion callbacks of background tasks. Of the shutdown, that it
  waits for the reconnect tasks before it forgets them is left to the timetable, so it is not in
  \<open>application_invariant\<close>. \<open>call_trace.py\<close> decorates functions with log lines, and the package files only
  re-export names.
\<close>

end
